(* ===== verification/Prelude.thy ===== *)
theory Prelude
  imports Complex_Main "HOL-Library.AList" "HOL-Library.List_Lexorder" "HOL-Library.Char_ord"
    "HOL-Library.Sublist"
begin

text \<open>
  What every component of the development shares: the result type of code that can raise,
  Python's string operations on the code points 0 to 255, Python dictionaries as
  association lists in insertion order, the JSON values that free-form dictionaries hold,
  and the list idioms the code repeats (replace-or-append by key, first-seen order
  deduplication). The collection \<open>value_simps\<close> gathers the string values of the
  enumerations, \<open>edit_intros\<close> the ways an operation may change a project record.
\<close>

named_theorems value_simps
named_theorems edit_intros

section \<open>Results of code that can raise\<close>

definition res_bind :: "'e + 'a \<Rightarrow> ('a \<Rightarrow> 'e + 'b) \<Rightarrow> 'e + 'b" where
  "res_bind x f = (case x of Inl e \<Rightarrow> Inl e | Inr v \<Rightarrow> f v)"

lemma res_bind_simps [simp]:
  "res_bind (Inl e) f = Inl e"
  "res_bind (Inr v) f = f v"
  by (simp_all add: res_bind_def)

lemma res_bind_eq_Inr: "res_bind x f = Inr y \<longleftrightarrow> (\<exists>v. x = Inr v \<and> f v = Inr y)"
  by (cases x) simp_all

lemma res_bind_eq_Inl:
  "res_bind x f = Inl e \<longleftrightarrow> x = Inl e \<or> (\<exists>v. x = Inr v \<and> f v = Inl e)"
  by (cases x) simp_all

lemma res_bind_assoc: "res_bind (res_bind x f) g = res_bind x (\<lambda>v. res_bind (f v) g)"
  by (cases x) simp_all

text \<open>A loop whose body can raise: the first error stops it.\<close>

fun res_fold :: "('x \<Rightarrow> 'a \<Rightarrow> 'e + 'a) \<Rightarrow> 'x list \<Rightarrow> 'a \<Rightarrow> 'e + 'a" where
  "res_fold f [] a = Inr a"
| "res_fold f (x # xs) a = res_bind (f x a) (res_fold f xs)"

lemma res_fold_append: "res_fold f (xs @ ys) a = res_bind (res_fold f xs a) (res_fold f ys)"
proof (induction xs arbitrary: a)
  case (Cons x xs)
  then show ?case by (cases "f x a") simp_all
qed simp

lemma res_fold_invariant:
  "res_fold f xs a = Inr b \<Longrightarrow> P a \<Longrightarrow> (\<And>x a a'. x \<in> set xs \<Longrightarrow> P a \<Longrightarrow> f x a = Inr a' \<Longrightarrow> P a') \<Longrightarrow> P b"
  by (induction xs arbitrary: a) (auto simp: res_bind_eq_Inr)

section \<open>Python strings\<close>

text \<open>
  A string is the list of its code points, restricted to the 256 code points of HOL's
  \<open>char\<close>. On these \<open>str.strip\<close> removes what \<open>str.isspace\<close> accepts (9 to 13, 28 to 32,
  133 and 160) and \<open>str.lower\<close> maps A to Z and the capitals of 192 to 222 (215 is the
  multiplication sign, not a letter) to the code point 32 above.
\<close>

definition py_isspace :: "char \<Rightarrow> bool" where
  "py_isspace c =
     (let n = (of_char c :: nat)
      in (9 \<le> n \<and> n \<le> 13) \<or> (28 \<le> n \<and> n \<le> 32) \<or> n = 133 \<or> n = 160)"

definition py_lower_char :: "char \<Rightarrow> char" where
  "py_lower_char c =
     (let n = (of_char c :: nat)
      in if (65 \<le> n \<and> n \<le> 90) \<or> (192 \<le> n \<and> n \<le> 222 \<and> n \<noteq> 215) then char_of (n + 32) else c)"

definition py_lstrip :: "string \<Rightarrow> string" where
  "py_lstrip s = dropWhile py_isspace s"

definition py_strip :: "string \<Rightarrow> string" where
  "py_strip s = rev (py_lstrip (rev (py_lstrip s)))"

definition py_lower :: "string \<Rightarrow> string" where
  "py_lower s = map py_lower_char s"

fun py_join :: "string \<Rightarrow> string list \<Rightarrow> string" where
  "py_join sep [] = []"
| "py_join sep [s] = s"
| "py_join sep (s # t # ss) = s @ sep @ py_join sep (t # ss)"

definition py_startswith :: "string \<Rightarrow> string \<Rightarrow> bool" where
  "py_startswith s p = (take (length p) s = p)"

text \<open>\<open>x or y\<close> on strings: the empty string is falsy.\<close>

definition str_or :: "string \<Rightarrow> string \<Rightarrow> string" where
  "str_or x y = (if x = [] then y else x)"

text \<open>\<open>x or y\<close> where \<open>x\<close> is an optional string.\<close>

definition opt_or :: "string option \<Rightarrow> string \<Rightarrow> string" where
  "opt_or x y = (case x of None \<Rightarrow> y | Some s \<Rightarrow> str_or s y)"

lemma py_strip_Nil [simp]: "py_strip [] = []"
  by (simp add: py_strip_def py_lstrip_def)

lemma py_lower_Nil [simp]: "py_lower [] = []"
  by (simp add: py_lower_def)

lemma hd_dropWhile_not: "dropWhile P xs \<noteq> [] \<Longrightarrow> \<not> P (hd (dropWhile P xs))"
  by (induction xs) auto

lemma dropWhile_id_hd: "(xs = [] \<or> \<not> P (hd xs)) \<Longrightarrow> dropWhile P xs = xs"
  by (cases xs) auto

text \<open>Stripping leaves a string with no space at either end, and a second strip does nothing.\<close>

lemma last_dropWhile: "dropWhile P xs \<noteq> [] \<Longrightarrow> last (dropWhile P xs) = last xs"
  by (induction xs) auto

lemma py_strip_hd: "py_strip s \<noteq> [] \<Longrightarrow> \<not> py_isspace (hd (py_strip s))"
proof -
  assume ne: "py_strip s \<noteq> []"
  let ?u = "dropWhile py_isspace s"
  from ne have d: "dropWhile py_isspace (rev ?u) \<noteq> []"
    by (simp add: py_strip_def py_lstrip_def)
  then have u: "?u \<noteq> []" by (metis dropWhile.simps(1) rev.simps(1))
  have "hd (py_strip s) = hd ?u"
    using last_dropWhile[OF d] u by (simp add: py_strip_def py_lstrip_def hd_rev last_rev)
  with hd_dropWhile_not[OF u] show ?thesis by simp
qed

lemma py_strip_last: "py_strip s \<noteq> [] \<Longrightarrow> \<not> py_isspace (last (py_strip s))"
  using hd_dropWhile_not[of py_isspace "rev (py_lstrip s)"]
  by (simp add: py_strip_def py_lstrip_def last_rev)

lemma py_strip_idem [simp]: "py_strip (py_strip s) = py_strip s"
proof -
  let ?t = "py_strip s"
  have a: "py_lstrip ?t = ?t"
    unfolding py_lstrip_def using py_strip_hd[of s] by (intro dropWhile_id_hd) auto
  have b: "py_lstrip (rev ?t) = rev ?t"
    unfolding py_lstrip_def using py_strip_last[of s] by (intro dropWhile_id_hd) (auto simp: hd_rev)
  show ?thesis by (simp add: py_strip_def[of ?t] a b)
qed

lemma py_strip_ends: "s = [] \<or> \<not> py_isspace (hd s) \<and> \<not> py_isspace (last s) \<Longrightarrow> py_strip s = s"
  by (cases "s = []") (simp_all add: py_strip_def py_lstrip_def dropWhile_id_hd hd_rev)

lemma str_or_simps [simp]:
  "str_or [] y = y"
  "x \<noteq> [] \<Longrightarrow> str_or x y = x"
  by (simp_all add: str_or_def)

section \<open>JSON values and dictionaries\<close>

datatype json =
    JNull
  | JBool bool
  | JNum rat
  | JStr string
  | JList "json list"
  | JObj "(string \<times> json) list"

type_synonym 'v dict = "(string \<times> 'v) list"

text \<open>
  \<open>d[k] = v\<close> keeps the place of a key that is there and appends a new one, which is what
  \<open>AList.update\<close> does; \<open>d.update(e)\<close> does it for every item of \<open>e\<close> in order.
\<close>

definition dict_update :: "'v dict \<Rightarrow> 'v dict \<Rightarrow> 'v dict" where
  "dict_update d e = fold (\<lambda>(k, v). AList.update k v) e d"

lemma map_of_update_same [simp]: "map_of (AList.update k v d) k = Some v"
  by (simp add: update_conv')

lemma map_of_update_other [simp]: "k \<noteq> l \<Longrightarrow> map_of (AList.update k v d) l = map_of d l"
  by (simp add: update_conv')

section \<open>List idioms\<close>

text \<open>
  The loop of the two upsert helpers: replace the first element with the same key, or
  append at the end when there is none.
\<close>

fun upsert :: "('a \<Rightarrow> 'k) \<Rightarrow> 'a \<Rightarrow> 'a list \<Rightarrow> 'a list" where
  "upsert key x [] = [x]"
| "upsert key x (y # ys) = (if key y = key x then x # ys else y # upsert key x ys)"

lemma keys_upsert:
  "map key (upsert key x ys) =
     (if key x \<in> key ` set ys then map key ys else map key ys @ [key x])"
  by (induction ys) auto

lemma distinct_keys_upsert [intro]:
  "distinct (map key ys) \<Longrightarrow> distinct (map key (upsert key x ys))"
  by (auto simp: keys_upsert)

lemma upsert_mem: "x \<in> set (upsert key x ys)"
  by (induction ys) auto

lemma upsert_nonempty [simp]: "upsert key x ys \<noteq> []"
  by (cases ys) auto

lemma set_upsert: "set (upsert key x ys) \<subseteq> insert x (set ys)"
  by (induction ys) auto

lemma upsert_keeps: "y \<in> set ys \<Longrightarrow> key y \<noteq> key x \<Longrightarrow> y \<in> set (upsert key x ys)"
  by (induction ys) auto

lemma upsert_idem: "upsert key x (upsert key x ys) = upsert key x ys"
  by (induction ys) auto

text \<open>Deduplication in first-seen order, with the set of what was seen as accumulator.\<close>

fun unique_loop :: "'a set \<Rightarrow> 'a list \<Rightarrow> 'a list" where
  "unique_loop seen [] = []"
| "unique_loop seen (x # xs) =
     (if x \<in> seen then unique_loop seen xs else x # unique_loop (insert x seen) xs)"

lemma set_unique_loop: "set (unique_loop seen xs) = set xs - seen"
  by (induction xs arbitrary: seen) auto

lemma distinct_unique_loop: "distinct (unique_loop seen xs)"
  by (induction xs arbitrary: seen) (auto simp: set_unique_loop)

lemma unique_loop_distinct_id:
  "distinct xs \<Longrightarrow> set xs \<inter> seen = {} \<Longrightarrow> unique_loop seen xs = xs"
  by (induction xs arbitrary: seen) auto

lemma unique_loop_idem: "unique_loop {} (unique_loop {} xs) = unique_loop {} xs"
  by (rule unique_loop_distinct_id) (simp_all add: distinct_unique_loop)

lemma subseq_unique_loop: "subseq (unique_loop seen xs) xs"
  by (induction xs arbitrary: seen) auto

text \<open>In-place updates over the positions of a list.\<close>

lemma fold_step_invariant:
  "P s \<Longrightarrow> (\<And>x s. x \<in> set xs \<Longrightarrow> P s \<Longrightarrow> P (f x s)) \<Longrightarrow> P (fold f xs s)"
  by (induction xs arbitrary: s) auto

lemma list_update_map_same:
  "f x = f (xs ! i) \<Longrightarrow> map f (xs[i := x]) = map f xs"
  by (metis list_update_id map_update)

end
