(* ===== verification/Schemas.thy ===== *)
theory Schemas
  imports Prelude
begin

text \<open>
  The data model: the enumerations and pydantic models of \<open>app/schemas/project.py\<close>,
  \<open>app/schemas/brief.py\<close> and \<open>app/schemas/trend.py\<close>. An enumeration is a datatype with its
  \<open>value\<close> as a function; a model is a record whose fields carry a short prefix, since HOL
  record fields live in one name space. The action types are ordered by their string
  value, so that \<open>sorted_list_of_set\<close> is the code's \<open>sorted(..., key=value)\<close>.
\<close>

section \<open>Enumerations of the project schema\<close>

datatype department = D_RESEARCH | D_DESIGN | D_BUILD | D_REVIEW | D_TREND

fun department_value :: "department \<Rightarrow> string" where
  "department_value D_RESEARCH = ''research''"
| "department_value D_DESIGN = ''design''"
| "department_value D_BUILD = ''build''"
| "department_value D_REVIEW = ''review''"
| "department_value D_TREND = ''trend''"

datatype actor_role = OWNER | OPERATOR | APPROVER | ADMIN | VIEWER

fun actor_role_value :: "actor_role \<Rightarrow> string" where
  "actor_role_value OWNER = ''owner''"
| "actor_role_value OPERATOR = ''operator''"
| "actor_role_value APPROVER = ''approver''"
| "actor_role_value ADMIN = ''admin''"
| "actor_role_value VIEWER = ''viewer''"

datatype actor_type = HUMAN | SERVICE | SYSTEM

fun actor_type_value :: "actor_type \<Rightarrow> string" where
  "actor_type_value HUMAN = ''human''"
| "actor_type_value SERVICE = ''service''"
| "actor_type_value SYSTEM = ''system''"

datatype task_status =
    T_PENDING | T_IN_PROGRESS | T_WAITING_APPROVAL | T_REVISION_REQUESTED | T_DONE | T_BLOCKED

fun task_status_value :: "task_status \<Rightarrow> string" where
  "task_status_value T_PENDING = ''pending''"
| "task_status_value T_IN_PROGRESS = ''in_progress''"
| "task_status_value T_WAITING_APPROVAL = ''waiting_approval''"
| "task_status_value T_REVISION_REQUESTED = ''revision_requested''"
| "task_status_value T_DONE = ''done''"
| "task_status_value T_BLOCKED = ''blocked''"

datatype project_status =
    P_DRAFT | P_INTAKE_PENDING | P_READY_FOR_PLANNING | P_IN_PROGRESS | P_WAITING_APPROVAL
  | P_REVIEW_FAILED | P_REVISION_REQUESTED | P_COMPLETED

fun project_status_value :: "project_status \<Rightarrow> string" where
  "project_status_value P_DRAFT = ''draft''"
| "project_status_value P_INTAKE_PENDING = ''intake_pending''"
| "project_status_value P_READY_FOR_PLANNING = ''ready_for_planning''"
| "project_status_value P_IN_PROGRESS = ''in_progress''"
| "project_status_value P_WAITING_APPROVAL = ''waiting_approval''"
| "project_status_value P_REVIEW_FAILED = ''review_failed''"
| "project_status_value P_REVISION_REQUESTED = ''revision_requested''"
| "project_status_value P_COMPLETED = ''completed''"

datatype approval_action_type =
    EXTERNAL_API_SEND | DESTRUCTIVE_CHANGE | BULK_MODIFY | PRODUCTION_AFFECTING_CHANGE

fun approval_action_type_value :: "approval_action_type \<Rightarrow> string" where
  "approval_action_type_value EXTERNAL_API_SEND = ''external_api_send''"
| "approval_action_type_value DESTRUCTIVE_CHANGE = ''destructive_change''"
| "approval_action_type_value BULK_MODIFY = ''bulk_modify''"
| "approval_action_type_value PRODUCTION_AFFECTING_CHANGE = ''production_affecting_change''"

datatype approval_status = Ap_PENDING | Ap_APPROVED | Ap_REJECTED

fun approval_status_value :: "approval_status \<Rightarrow> string" where
  "approval_status_value Ap_PENDING = ''pending''"
| "approval_status_value Ap_APPROVED = ''approved''"
| "approval_status_value Ap_REJECTED = ''rejected''"

datatype revision_resume_mode = REPLANNING | REBUILDING | REREVIEW

fun revision_resume_mode_value :: "revision_resume_mode \<Rightarrow> string" where
  "revision_resume_mode_value REPLANNING = ''replanning''"
| "revision_resume_mode_value REBUILDING = ''rebuilding''"
| "revision_resume_mode_value REREVIEW = ''rereview''"

datatype history_event_type =
    Ev_AUTHENTICATION_SUCCEEDED | Ev_AUTHENTICATION_FAILED | Ev_ACTOR_RESOLVED
  | Ev_STATE_TRANSITION | Ev_APPROVAL_REQUESTED | Ev_APPROVAL_APPROVED | Ev_APPROVAL_REJECTED
  | Ev_AUTHORIZATION_GRANTED | Ev_AUTHORIZATION_FAILED | Ev_POLICY_OVERRIDE_APPLIED
  | Ev_REVISION_REQUESTED | Ev_REPLANNING_STARTED | Ev_RESUME_TRIGGERED | Ev_TASK_STATUS_CHANGED

lemmas enum_value_simps [value_simps] =
  department_value.simps actor_role_value.simps actor_type_value.simps task_status_value.simps
  project_status_value.simps approval_action_type_value.simps approval_status_value.simps
  revision_resume_mode_value.simps

lemma project_status_value_inj [simp]:
  "project_status_value s = project_status_value t \<longleftrightarrow> s = t"
  by (cases s; cases t) simp_all

lemma approval_action_type_value_inj [simp]:
  "approval_action_type_value a = approval_action_type_value b \<longleftrightarrow> a = b"
  by (cases a; cases b) simp_all

lemma task_status_value_inj [simp]:
  "task_status_value s = task_status_value t \<longleftrightarrow> s = t"
  by (cases s; cases t) simp_all

text \<open>The members of the enumeration in the order of their declaration.\<close>

definition all_action_types :: "approval_action_type list" where
  "all_action_types =
     [EXTERNAL_API_SEND, DESTRUCTIVE_CHANGE, BULK_MODIFY, PRODUCTION_AFFECTING_CHANGE]"

lemma all_action_types_complete: "a \<in> set all_action_types"
  by (cases a) (simp_all add: all_action_types_def)

lemma UNIV_action_types:
  "(UNIV :: approval_action_type set) =
     {EXTERNAL_API_SEND, DESTRUCTIVE_CHANGE, BULK_MODIFY, PRODUCTION_AFFECTING_CHANGE}"
  using approval_action_type.exhaust by blast

lemma finite_action_types [simp]: "finite (A :: approval_action_type set)"
  by (rule finite_subset[OF subset_UNIV]) (simp add: UNIV_action_types)

text \<open>\<open>ApprovalActionType(text)\<close>: the member with this value; a \<open>ValueError\<close> is \<open>None\<close>.\<close>

definition ApprovalActionType_of :: "string \<Rightarrow> approval_action_type option" where
  "ApprovalActionType_of s = List.find (\<lambda>a. approval_action_type_value a = s) all_action_types"

lemma ApprovalActionType_of_value [simp]:
  "ApprovalActionType_of (approval_action_type_value a) = Some a"
  by (cases a) (simp_all add: ApprovalActionType_of_def all_action_types_def)

lemma ApprovalActionType_of_Some:
  "ApprovalActionType_of s = Some a \<Longrightarrow> s = approval_action_type_value a"
  by (auto simp: ApprovalActionType_of_def find_Some_iff)

section \<open>Sorting action types by value\<close>

instantiation approval_action_type :: linorder
begin

definition less_eq_approval_action_type :: "approval_action_type \<Rightarrow> approval_action_type \<Rightarrow> bool"
  where "less_eq_approval_action_type a b \<longleftrightarrow>
    approval_action_type_value a \<le> approval_action_type_value b"

definition less_approval_action_type :: "approval_action_type \<Rightarrow> approval_action_type \<Rightarrow> bool"
  where "less_approval_action_type a b \<longleftrightarrow>
    approval_action_type_value a < approval_action_type_value b"

instance
  by standard
    (auto simp: less_eq_approval_action_type_def less_approval_action_type_def less_le_not_le
      dest: order_antisym)

end

lemma action_types_order:
  "BULK_MODIFY < DESTRUCTIVE_CHANGE" "DESTRUCTIVE_CHANGE < EXTERNAL_API_SEND"
  "EXTERNAL_API_SEND < PRODUCTION_AFFECTING_CHANGE"
  by (simp_all add: less_approval_action_type_def less_char_def)

section \<open>Models of the project schema\<close>

record actor_context =
  actor_id :: string
  actor_role :: actor_role
  actor_type :: actor_type

record project_policy_action_rule =
  allowed_roles :: "actor_role list"
  allowed_actor_ids :: "string list"

record project_policy =
  project_owner_actor_id :: "string option"
  strict_mode :: bool
  action_rules :: "project_policy_action_rule dict"

text \<open>\<open>ProjectPolicy()\<close>, with the defaults of the fields.\<close>

definition default_project_policy :: project_policy where
  "default_project_policy =
     \<lparr>project_owner_actor_id = None, strict_mode = False, action_rules = []\<rparr>"

record project_brief =
  b_title :: "string option"
  b_objective :: string
  b_scope :: "string option"
  b_constraints :: "string list"
  b_success_criteria :: "string list"
  b_deadline :: "string option"
  b_stakeholders :: "string list"
  b_assumptions :: "string list"
  b_raw_request :: string

record project =
  p_id :: string
  p_brief :: project_brief
  p_policy :: project_policy
  p_status :: project_status

record task =
  t_id :: string
  t_title :: string
  t_department :: department
  t_status :: task_status
  t_depends_on :: "string list"
  t_note :: string

record artifact =
  a_id :: string
  a_task_id :: string
  a_artifact_type :: string
  a_content :: "json dict"

record review =
  rv_id :: string
  rv_task_id :: string
  rv_verdict :: string
  rv_findings :: "string list"

record checkpoint =
  c_id :: string
  c_name :: string
  c_approved :: bool
  c_approver :: string
  c_note :: string

record approval_request =
  ar_id :: string
  ar_action_type :: approval_action_type
  ar_status :: approval_status
  ar_reason :: string
  ar_requested_by :: string
  ar_decision_note :: string

record history_event =
  e_event_type :: history_event_type
  e_actor :: string
  e_actor_role :: actor_role
  e_actor_type :: actor_type
  e_timestamp :: string
  e_reason :: string
  e_metadata :: "json dict"

record project_record =
  project :: project
  tasks :: "task list"
  artifacts :: "artifact list"
  reviews :: "review list"
  checkpoints :: "checkpoint list"
  approvals :: "approval_request list"
  history :: "string list"
  events :: "history_event list"

record project_summary =
  s_project_id :: string
  s_status :: project_status
  s_completed_tasks :: nat
  s_artifact_count :: nat
  s_next_steps :: "string list"

record orchestration_result =
  o_record :: project_record
  o_summary :: project_summary

record project_audit =
  pa_project_id :: string
  pa_status :: project_status
  pa_history :: "string list"
  pa_events :: "history_event list"
  pa_approvals :: "approval_request list"
  pa_reviews :: "review list"
  pa_checkpoints :: "checkpoint list"

abbreviation rec_id :: "project_record \<Rightarrow> string" where
  "rec_id r \<equiv> p_id (project r)"

abbreviation rec_status :: "project_record \<Rightarrow> project_status" where
  "rec_status r \<equiv> p_status (project r)"

section \<open>Models of the trend schema\<close>

record trend_evidence =
  te_source :: string
  te_title :: string
  te_url :: "string option"
  te_published_at :: "string option"
  te_snippet :: string

record trend_candidate =
  tc_name :: string
  tc_description :: string
  tc_evidence :: "trend_evidence list"
  tc_freshness :: rat
  tc_confidence :: rat
  tc_adoption_note :: string

record trend_analysis_request =
  tq_trend_topic :: string
  tq_context :: "string option"
  tq_max_items :: nat

record trend_analysis_result =
  tr_provider :: string
  tr_trend_topic :: string
  tr_candidate_trends :: "trend_candidate list"

end
