(* ===== verification/Graph.thy ===== *)
theory Graph
  imports Schemas
begin

text \<open>
  The project state machine of \<open>app/orchestrator/graph.py\<close>: the transition table and
  \<open>can_transition\<close>, the step relation it stands for, and what is reachable in it.
\<close>

section \<open>The transition table\<close>

fun STATE_TRANSITIONS :: "project_status \<Rightarrow> project_status list" where
  "STATE_TRANSITIONS P_DRAFT = [P_INTAKE_PENDING]"
| "STATE_TRANSITIONS P_INTAKE_PENDING = [P_READY_FOR_PLANNING]"
| "STATE_TRANSITIONS P_READY_FOR_PLANNING = [P_IN_PROGRESS]"
| "STATE_TRANSITIONS P_IN_PROGRESS = [P_WAITING_APPROVAL, P_REVIEW_FAILED, P_COMPLETED]"
| "STATE_TRANSITIONS P_WAITING_APPROVAL = [P_IN_PROGRESS, P_REVISION_REQUESTED]"
| "STATE_TRANSITIONS P_REVIEW_FAILED = [P_REVISION_REQUESTED]"
| "STATE_TRANSITIONS P_REVISION_REQUESTED = [P_READY_FOR_PLANNING, P_IN_PROGRESS]"
| "STATE_TRANSITIONS P_COMPLETED = []"

definition can_transition :: "project_status \<Rightarrow> project_status \<Rightarrow> bool" where
  "can_transition current next_status \<longleftrightarrow> next_status \<in> set (STATE_TRANSITIONS current)"

section \<open>The machine as a relation\<close>

inductive lane :: "project_status \<Rightarrow> project_status \<Rightarrow> bool" where
  intake: "lane P_DRAFT P_INTAKE_PENDING"
| accept: "lane P_INTAKE_PENDING P_READY_FOR_PLANNING"
| start: "lane P_READY_FOR_PLANNING P_IN_PROGRESS"
| pause: "lane P_IN_PROGRESS P_WAITING_APPROVAL"
| fail: "lane P_IN_PROGRESS P_REVIEW_FAILED"
| finish: "lane P_IN_PROGRESS P_COMPLETED"
| approve: "lane P_WAITING_APPROVAL P_IN_PROGRESS"
| reject: "lane P_WAITING_APPROVAL P_REVISION_REQUESTED"
| revise: "lane P_REVIEW_FAILED P_REVISION_REQUESTED"
| replan: "lane P_REVISION_REQUESTED P_READY_FOR_PLANNING"
| rebuild: "lane P_REVISION_REQUESTED P_IN_PROGRESS"

inductive_cases from_completed: "lane P_COMPLETED s"
inductive_simps to_completed: "lane s P_COMPLETED"

lemma can_transition_lane: "can_transition s t \<longleftrightarrow> lane s t"
  by (cases s; cases t) (auto simp: can_transition_def lane.simps)

lemma can_transition_irrefl [simp]: "\<not> can_transition s s"
  by (cases s) (simp_all add: can_transition_def)

lemma can_transition_from_completed [simp]: "\<not> can_transition P_COMPLETED t"
  by (simp add: can_transition_def)

lemma can_transition_simps [simp]:
  "can_transition P_DRAFT P_INTAKE_PENDING"
  "can_transition P_INTAKE_PENDING P_READY_FOR_PLANNING"
  "can_transition P_READY_FOR_PLANNING P_IN_PROGRESS"
  "can_transition P_IN_PROGRESS P_WAITING_APPROVAL"
  "can_transition P_IN_PROGRESS P_REVIEW_FAILED"
  "can_transition P_IN_PROGRESS P_COMPLETED"
  "can_transition P_WAITING_APPROVAL P_IN_PROGRESS"
  "can_transition P_WAITING_APPROVAL P_REVISION_REQUESTED"
  "can_transition P_REVIEW_FAILED P_REVISION_REQUESTED"
  "can_transition P_REVISION_REQUESTED P_READY_FOR_PLANNING"
  "can_transition P_REVISION_REQUESTED P_IN_PROGRESS"
  by (simp_all add: can_transition_def)

section \<open>Walks through the table\<close>

text \<open>A walk is the list of states a project went through; \<open>walk_ok\<close> checks each step.\<close>

fun walk_ok :: "project_status \<Rightarrow> project_status list \<Rightarrow> bool" where
  "walk_ok s [] = True"
| "walk_ok s (t # ts) = (can_transition s t \<and> walk_ok t ts)"

fun walk_end :: "project_status \<Rightarrow> project_status list \<Rightarrow> project_status" where
  "walk_end s [] = s"
| "walk_end s (t # ts) = walk_end t ts"

lemma walk_ok_snoc: "walk_ok s (ts @ [t]) \<longleftrightarrow> walk_ok s ts \<and> can_transition (walk_end s ts) t"
  by (induction ts arbitrary: s) auto

lemma walk_end_snoc [simp]: "walk_end s (ts @ [t]) = t"
  by (induction ts arbitrary: s) auto

lemma walk_lane: "walk_ok s ts \<Longrightarrow> lane\<^sup>*\<^sup>* s (walk_end s ts)"
  by (induction ts arbitrary: s)
     (auto simp: can_transition_lane intro: converse_rtranclp_into_rtranclp)

text \<open>No walk goes on from the completed state.\<close>

lemma walk_from_completed: "walk_ok P_COMPLETED ts \<longleftrightarrow> ts = []"
  by (cases ts) auto

text \<open>The lines of \<open>record.history\<close> that a walk leaves.\<close>

fun walk_lines :: "project_status \<Rightarrow> project_status list \<Rightarrow> string list" where
  "walk_lines s [] = []"
| "walk_lines s (t # ts) =
     (project_status_value s @ '' -> '' @ project_status_value t) # walk_lines t ts"

lemma walk_lines_snoc:
  "walk_lines s (ts @ [t]) =
     walk_lines s ts @ [project_status_value (walk_end s ts) @ '' -> '' @ project_status_value t]"
  by (induction ts arbitrary: s) auto

text \<open>Every state can be reached from the draft state.\<close>

lemma draft_reaches_all: "lane\<^sup>*\<^sup>* P_DRAFT s"
proof -
  note steps = lane.intros rtranclp.rtrancl_into_rtrancl
  have r: "lane\<^sup>*\<^sup>* P_DRAFT P_READY_FOR_PLANNING" and i: "lane\<^sup>*\<^sup>* P_DRAFT P_INTAKE_PENDING"
    by (blast intro: steps)+
  then have p: "lane\<^sup>*\<^sup>* P_DRAFT P_IN_PROGRESS" by (blast intro: steps)
  then have "lane\<^sup>*\<^sup>* P_DRAFT P_WAITING_APPROVAL" "lane\<^sup>*\<^sup>* P_DRAFT P_REVIEW_FAILED"
    "lane\<^sup>*\<^sup>* P_DRAFT P_COMPLETED" by (blast intro: steps)+
  moreover from this have "lane\<^sup>*\<^sup>* P_DRAFT P_REVISION_REQUESTED" by (blast intro: steps)
  ultimately show ?thesis using r i p by (cases s) auto
qed

text \<open>From every state of the table the completed state can be reached.\<close>

lemma completed_reachable: "lane\<^sup>*\<^sup>* s P_COMPLETED"
proof -
  note steps = lane.intros converse_rtranclp_into_rtranclp
  have p: "lane\<^sup>*\<^sup>* P_IN_PROGRESS P_COMPLETED" by (blast intro: steps)
  then have r: "lane\<^sup>*\<^sup>* P_READY_FOR_PLANNING P_COMPLETED" "lane\<^sup>*\<^sup>* P_WAITING_APPROVAL P_COMPLETED"
    "lane\<^sup>*\<^sup>* P_REVISION_REQUESTED P_COMPLETED"
    by (blast intro: steps)+
  then have "lane\<^sup>*\<^sup>* P_INTAKE_PENDING P_COMPLETED" "lane\<^sup>*\<^sup>* P_REVIEW_FAILED P_COMPLETED"
    by (blast intro: steps)+
  moreover from this have "lane\<^sup>*\<^sup>* P_DRAFT P_COMPLETED" by (blast intro: steps)
  ultimately show ?thesis using r p by (cases s) auto
qed

end
