(* ===== verification/Runtime_Flags.thy ===== *)
theory Runtime_Flags
  imports Prelude
begin

text \<open>
  The flag parsers of \<open>app/runtime_flags.py\<close>: a tolerant boolean with a default, and a
  strict flag that reads anything it does not know as strict.
\<close>

definition TRUTHY_TOKENS :: "string list" where
  "TRUTHY_TOKENS = [''1'', ''true'', ''yes'', ''on'']"

definition FALSY_TOKENS :: "string list" where
  "FALSY_TOKENS = [''0'', ''false'', ''no'', ''off'']"

definition parse_env_bool :: "string option \<Rightarrow> bool \<Rightarrow> bool" where
  "parse_env_bool value dflt =
     (let normalized = py_lower (py_strip (opt_or value ''''))
      in if normalized \<in> set TRUTHY_TOKENS then True
         else if normalized \<in> set FALSY_TOKENS then False
         else dflt)"

definition parse_strict_env_flag :: "string option \<Rightarrow> bool" where
  "parse_strict_env_flag value =
     (let normalized = py_strip (opt_or value '''')
      in if normalized = '''' then False else parse_env_bool (Some normalized) True)"

lemma parse_env_bool_unset [simp]: "parse_env_bool None dflt = dflt"
  by (simp add: parse_env_bool_def opt_or_def TRUTHY_TOKENS_def FALSY_TOKENS_def)

lemma parse_strict_env_flag_unset [simp]: "parse_strict_env_flag None = False"
  by (simp add: parse_strict_env_flag_def opt_or_def)

text \<open>The strict flag is off for exactly the blank values and the falsy tokens.\<close>

lemma strict_flag_off_iff:
  "\<not> parse_strict_env_flag value \<longleftrightarrow>
     py_strip (opt_or value '''') = '''' \<or>
     py_lower (py_strip (opt_or value '''')) \<in> set FALSY_TOKENS"
proof -
  have "set TRUTHY_TOKENS \<inter> set FALSY_TOKENS = {}"
    by (simp add: TRUTHY_TOKENS_def FALSY_TOKENS_def)
  then show ?thesis
    by (auto simp: parse_strict_env_flag_def parse_env_bool_def opt_or_def str_or_def Let_def)
qed

end
