(* ===== verification/Agents.thy ===== *)
theory Agents
  imports Schemas Runtime_Flags
begin

text \<open>
  The trend providers of \<open>app/providers\<close> and the department agents of
  \<open>app/agents/departments.py\<close>. The three named providers are stub adapters over the mock
  provider; the API keys they are built with are stored and never read, so a provider is
  its class. The decimal literals of the scores are rationals: the code only compares them.
\<close>

section \<open>Trend providers\<close>

datatype trend_provider =
  MockTrendProvider | GeminiTrendProvider | GrokTrendProvider | OpenAITrendProvider

fun provider_name :: "trend_provider \<Rightarrow> string" where
  "provider_name MockTrendProvider = ''mock''"
| "provider_name GeminiTrendProvider = ''gemini''"
| "provider_name GrokTrendProvider = ''grok''"
| "provider_name OpenAITrendProvider = ''openai''"

fun adapter_label :: "trend_provider \<Rightarrow> string" where
  "adapter_label MockTrendProvider = ''Provider''"
| "adapter_label GeminiTrendProvider = ''Gemini''"
| "adapter_label GrokTrendProvider = ''Grok''"
| "adapter_label OpenAITrendProvider = ''OpenAI''"

definition mock_candidates :: "string \<Rightarrow> trend_candidate list" where
  "mock_candidates topic =
    [\<lparr>tc_name = topic @ '' workflow automation'',
      tc_description = ''Growing use of workflow-native AI agents for repeatable delivery.'',
      tc_evidence =
        [\<lparr>te_source = ''mock_report'', te_title = ''Mock trend summary'',
          te_url = None, te_published_at = None,
          te_snippet = ''Teams are adopting reusable orchestration patterns.''\<rparr>],
      tc_freshness = 72 / 100, tc_confidence = 68 / 100,
      tc_adoption_note =
        ''Start with one narrow workflow and add guardrails before expansion.''\<rparr>,
     \<lparr>tc_name = topic @ '' retrieval quality controls'',
      tc_description = ''Focus on evidence quality and freshness scoring in trend pipelines.'',
      tc_evidence =
        [\<lparr>te_source = ''mock_briefing'', te_title = ''Mock evidence set'',
          te_url = None, te_published_at = None,
          te_snippet = ''Confidence signals are being standardized across providers.''\<rparr>],
      tc_freshness = 64 / 100, tc_confidence = 62 / 100,
      tc_adoption_note =
        ''Define confidence thresholds before using trend output in decisions.''\<rparr>]"

definition mock_analyze :: "trend_analysis_request \<Rightarrow> trend_analysis_result" where
  "mock_analyze request =
     \<lparr>tr_provider = provider_name MockTrendProvider,
      tr_trend_topic = tq_trend_topic request,
      tr_candidate_trends =
        take (tq_max_items request) (mock_candidates (tq_trend_topic request))\<rparr>"

definition fallback_suffix :: "trend_provider \<Rightarrow> string" where
  "fallback_suffix provider =
     '' ('' @ adapter_label provider @ '' adapter currently running in mock fallback mode.)''"

definition fallback_analyze ::
  "trend_provider \<Rightarrow> trend_analysis_request \<Rightarrow> trend_analysis_result" where
  "fallback_analyze provider request =
     (let result = mock_analyze request
      in result\<lparr>tr_provider := provider_name provider,
                tr_candidate_trends :=
                  map (\<lambda>c. c\<lparr>tc_adoption_note := tc_adoption_note c @ fallback_suffix provider,
                             tc_confidence := min (tc_confidence c) (1 / 2)\<rparr>)
                      (tr_candidate_trends result)\<rparr>)"

definition analyze :: "trend_provider \<Rightarrow> trend_analysis_request \<Rightarrow> trend_analysis_result" where
  "analyze provider request =
     (case provider of
        MockTrendProvider \<Rightarrow> mock_analyze request
      | _ \<Rightarrow> fallback_analyze provider request)"

text \<open>
  The factory: the name is normalised, an alias is a known prefix, an unknown name is the
  mock unless the strict mode (an argument, or the environment's flag) raises the
  \<open>ValueError\<close>, which carries the name as given.
\<close>

definition get_trend_provider ::
  "string option \<Rightarrow> bool option \<Rightarrow> string option \<Rightarrow> string + trend_provider" where
  "get_trend_provider env_strict strict name =
     (let normalized = str_or (py_lower (py_strip (opt_or name ''''))) ''mock'';
          strict_mode = (case strict of Some b \<Rightarrow> b | None \<Rightarrow> parse_strict_env_flag env_strict)
      in if normalized = ''mock'' then Inr MockTrendProvider
         else if normalized = ''gemini'' \<or> py_startswith normalized ''gemini-''
           then Inr GeminiTrendProvider
         else if normalized = ''grok'' \<or> py_startswith normalized ''grok-''
           then Inr GrokTrendProvider
         else if normalized = ''openai'' \<or> py_startswith normalized ''openai-''
                 \<or> py_startswith normalized ''gpt-''
           then Inr OpenAITrendProvider
         else if strict_mode then Inl (''Unsupported trend provider: '' @ opt_or name ''None'')
         else Inr MockTrendProvider)"

section \<open>Department agents\<close>

text \<open>\<open>TrendAnalysisResult.model_dump()\<close>: the fields in the order of the model.\<close>

definition opt_json :: "string option \<Rightarrow> json" where
  "opt_json x = (case x of None \<Rightarrow> JNull | Some s \<Rightarrow> JStr s)"

definition evidence_dump :: "trend_evidence \<Rightarrow> json" where
  "evidence_dump e =
     JObj [(''source'', JStr (te_source e)), (''title'', JStr (te_title e)),
           (''url'', opt_json (te_url e)), (''published_at'', opt_json (te_published_at e)),
           (''snippet'', JStr (te_snippet e))]"

definition candidate_dump :: "trend_candidate \<Rightarrow> json" where
  "candidate_dump c =
     JObj [(''name'', JStr (tc_name c)), (''description'', JStr (tc_description c)),
           (''evidence'', JList (map evidence_dump (tc_evidence c))),
           (''freshness'', JNum (tc_freshness c)), (''confidence'', JNum (tc_confidence c)),
           (''adoption_note'', JStr (tc_adoption_note c))]"

definition trend_model_dump :: "trend_analysis_result \<Rightarrow> json dict" where
  "trend_model_dump t =
     [(''provider'', JStr (tr_provider t)), (''trend_topic'', JStr (tr_trend_topic t)),
      (''candidate_trends'', JList (map candidate_dump (tr_candidate_trends t)))]"

definition ResearchAgent_run :: "task \<Rightarrow> project_brief \<Rightarrow> artifact" where
  "ResearchAgent_run t brief =
     \<lparr>a_id = ''artifact-'' @ t_id t, a_task_id = t_id t, a_artifact_type = ''research_notes'',
      a_content =
        [(''summary'', JStr (''Initial research framing for objective: '' @ b_objective brief)),
         (''risks'', JList [JStr ''Requirements ambiguity'',
                            JStr ''External dependency uncertainty''])]\<rparr>"

definition DesignAgent_run :: "task \<Rightarrow> project_brief \<Rightarrow> artifact" where
  "DesignAgent_run t brief =
     \<lparr>a_id = ''artifact-'' @ t_id t, a_task_id = t_id t, a_artifact_type = ''design_outline'',
      a_content =
        [(''architecture'', JStr ''Intake -> Orchestrator -> Specialist Agents -> Artifacts''),
         (''constraints'', JList (map JStr (b_constraints brief)))]\<rparr>"

definition BuildAgent_run :: "task \<Rightarrow> project_brief \<Rightarrow> artifact" where
  "BuildAgent_run t brief =
     \<lparr>a_id = ''artifact-'' @ t_id t, a_task_id = t_id t, a_artifact_type = ''build_report'',
      a_content = [(''status'', JStr ''MVP scaffold generated''),
                   (''scope'', opt_json (b_scope brief))]\<rparr>"

definition TrendAgent_run :: "trend_provider \<Rightarrow> task \<Rightarrow> project_brief \<Rightarrow> artifact" where
  "TrendAgent_run provider t brief =
     (let trend = analyze provider
            \<lparr>tq_trend_topic = b_objective brief, tq_context = b_scope brief, tq_max_items = 3\<rparr>
      in \<lparr>a_id = ''artifact-'' @ t_id t, a_task_id = t_id t, a_artifact_type = ''trend_analysis'',
          a_content = trend_model_dump trend\<rparr>)"

definition ReviewAgent_run :: "task \<Rightarrow> artifact list \<Rightarrow> review" where
  "ReviewAgent_run t arts =
     (let findings = (if arts = [] then [''No artifacts produced for review.''] else []);
          verdict = (if findings = [] then ''approved'' else ''changes_requested'')
      in \<lparr>rv_id = ''review-'' @ t_id t, rv_task_id = t_id t,
          rv_verdict = verdict, rv_findings = findings\<rparr>)"

lemma agent_artifact_ids [simp]:
  "a_id (ResearchAgent_run t b) = ''artifact-'' @ t_id t"
  "a_id (DesignAgent_run t b) = ''artifact-'' @ t_id t"
  "a_id (BuildAgent_run t b) = ''artifact-'' @ t_id t"
  "a_id (TrendAgent_run p t b) = ''artifact-'' @ t_id t"
  by (simp_all add: ResearchAgent_run_def DesignAgent_run_def BuildAgent_run_def
      TrendAgent_run_def Let_def)

lemma review_verdict: "rv_verdict (ReviewAgent_run t arts) =
    (if arts = [] then ''changes_requested'' else ''approved'')"
  by (simp add: ReviewAgent_run_def)

lemma tr_provider_analyze [simp]: "tr_provider (analyze p q) = provider_name p"
  by (cases p) (simp_all add: analyze_def mock_analyze_def fallback_analyze_def Let_def)

lemma analyze_bounds:
  assumes "c \<in> set (tr_candidate_trends (analyze p q))"
  shows "0 \<le> tc_freshness c \<and> tc_freshness c \<le> 1 \<and> 0 \<le> tc_confidence c \<and> tc_confidence c \<le> 1"
proof -
  have m: "0 \<le> tc_freshness c \<and> tc_freshness c \<le> 1 \<and> 0 \<le> tc_confidence c \<and> tc_confidence c \<le> 1"
    if "c \<in> set (mock_candidates x)" for c x
    using that by (auto simp: mock_candidates_def)
  have n: "c \<in> set (mock_candidates x)" if "c \<in> set (take k (mock_candidates x))" for c k x
    using that by (rule in_set_takeD)
  show ?thesis using assms
    by (cases p)
       (auto simp: analyze_def mock_analyze_def fallback_analyze_def Let_def
         min_le_iff_disj dest!: n m)
qed

lemma get_trend_provider_lenient:
  "\<exists>p. get_trend_provider env (Some False) name = Inr p"
  by (simp add: get_trend_provider_def Let_def)

lemma analyze_limits:
  assumes "c \<in> set (tr_candidate_trends (analyze p q))"
  shows "tc_confidence c \<le> (if p = MockTrendProvider then 1 else 1 / 2)"
    and "length (tr_candidate_trends (analyze p q)) \<le> min 2 (tq_max_items q)"
proof -
  show "tc_confidence c \<le> (if p = MockTrendProvider then 1 else 1 / 2)"
    using assms analyze_bounds[OF assms]
    by (cases p) (auto simp: analyze_def fallback_analyze_def Let_def)
  have "length (mock_candidates t) = 2" for t by (simp add: mock_candidates_def)
  then show "length (tr_candidate_trends (analyze p q)) \<le> min 2 (tq_max_items q)"
    by (cases p) (simp_all add: analyze_def fallback_analyze_def mock_analyze_def Let_def)
qed

end
