(* ===== verification/Approval.thy ===== *)
theory Approval
  imports Schemas
begin

text \<open>
  The approval policy of \<open>app/services/approval.py\<close>: the default role table, the project's
  own rules, the strict mode, the runtime override of the allowed actors, and
  \<open>authorize_action\<close> that decides with them. A runtime override comes from untyped data,
  so its values are objects that may not be lists and may hold objects that are not
  strings, as the code's \<open>isinstance\<close> checks expect.
  The second half describes the policy without these functions, proves that the decision follows
  the description, and says where the description and the documents part.
\<close>

section \<open>Data\<close>

datatype py_obj = PyStr string | PyOther

datatype py_ids = PyList "py_obj list" | PyNotList

record authorization_decision =
  ad_allowed :: bool
  ad_reason :: string
  ad_effective_roles :: "actor_role set"
  ad_effective_actor_ids :: "string set option"
  ad_policy_source :: string
  ad_strict_mode :: bool
  ad_override_applied :: bool

definition APPROVAL_REQUIRED_ACTIONS :: "approval_action_type set" where
  "APPROVAL_REQUIRED_ACTIONS =
     {EXTERNAL_API_SEND, DESTRUCTIVE_CHANGE, BULK_MODIFY, PRODUCTION_AFFECTING_CHANGE}"

fun DEFAULT_ACTION_ROLE_RULES :: "approval_action_type \<Rightarrow> actor_role set" where
  "DEFAULT_ACTION_ROLE_RULES EXTERNAL_API_SEND = {OWNER, APPROVER, ADMIN}"
| "DEFAULT_ACTION_ROLE_RULES DESTRUCTIVE_CHANGE = {APPROVER, ADMIN}"
| "DEFAULT_ACTION_ROLE_RULES BULK_MODIFY = {OPERATOR, APPROVER, ADMIN}"
| "DEFAULT_ACTION_ROLE_RULES PRODUCTION_AFFECTING_CHANGE = {ADMIN}"

section \<open>Policy lookup\<close>

definition requires_human_approval :: "approval_action_type \<Rightarrow> bool" where
  "requires_human_approval action_type \<longleftrightarrow> action_type \<in> APPROVAL_REQUIRED_ACTIONS"

fun normalize_actor_ids :: "py_obj list \<Rightarrow> string set" where
  "normalize_actor_ids [] = {}"
| "normalize_actor_ids (PyOther # ids) = normalize_actor_ids ids"
| "normalize_actor_ids (PyStr raw_id # ids) =
     (let cleaned = py_strip raw_id
      in if cleaned \<noteq> '''' then insert cleaned (normalize_actor_ids ids)
         else normalize_actor_ids ids)"

definition normalize_action_key :: "string \<Rightarrow> string" where
  "normalize_action_key action_key = py_lower (py_strip action_key)"

definition find_action_mapping_value :: "'v dict \<Rightarrow> string \<Rightarrow> 'v option" where
  "find_action_mapping_value action_mapping action_key =
     (case map_of action_mapping action_key of
        Some v \<Rightarrow> Some v
      | None \<Rightarrow>
          map_option snd
            (List.find (\<lambda>(k, v). normalize_action_key k = action_key) action_mapping))"

definition find_project_action_rule ::
  "project_policy \<Rightarrow> approval_action_type \<Rightarrow> project_policy_action_rule option" where
  "find_project_action_rule project_policy action_type =
     find_action_mapping_value (action_rules project_policy)
       (approval_action_type_value action_type)"

definition find_runtime_actor_ids ::
  "py_ids dict option \<Rightarrow> approval_action_type \<Rightarrow> py_obj list option" where
  "find_runtime_actor_ids ids_by_action action_type =
     (case ids_by_action of
        None \<Rightarrow> None
      | Some m \<Rightarrow>
          if m = [] then None
          else (case find_action_mapping_value m (approval_action_type_value action_type) of
                  None \<Rightarrow> None
                | Some (PyList ids) \<Rightarrow> Some ids
                | Some PyNotList \<Rightarrow> Some []))"

text \<open>
  The result holds, in the order of the code's tuple: the roles, the actor ids (\<open>None\<close>
  for no restriction), the source's name, the strict mode and whether a project rule or a
  runtime override applies.
\<close>

definition resolve_effective_policy ::
  "approval_action_type \<Rightarrow> project_policy option \<Rightarrow> py_ids dict option \<Rightarrow>
   actor_role set \<times> string set option \<times> string \<times> bool \<times> bool" where
  "resolve_effective_policy action_type project_policy ids_by_action =
    (let default_roles = DEFAULT_ACTION_ROLE_RULES action_type;
         runtime = (\<lambda>(roles, ids, source, strict, override).
           case find_runtime_actor_ids ids_by_action action_type of
             Some raw_ids \<Rightarrow>
               (roles, Some (normalize_actor_ids raw_ids), ''project_runtime_override'', strict, True)
           | None \<Rightarrow> (roles, ids, source, strict, override))
     in case project_policy of
          None \<Rightarrow> runtime (default_roles, None, ''default_rbac'', False, False)
        | Some policy \<Rightarrow>
            (case find_project_action_rule policy action_type of
               Some rule \<Rightarrow>
                 runtime
                   (if allowed_roles rule \<noteq> [] then set (allowed_roles rule) else default_roles,
                    if allowed_actor_ids rule \<noteq> []
                      then Some (normalize_actor_ids (map PyStr (allowed_actor_ids rule)))
                      else None,
                    ''project_policy'', strict_mode policy, True)
             | None \<Rightarrow>
                 if strict_mode policy
                 then ({}, Some {}, ''project_policy_strict'', strict_mode policy, True)
                 else runtime (default_roles, None, ''default_rbac'', strict_mode policy, False)))"

section \<open>The decision\<close>

definition effective_actor_roles :: "actor_context \<Rightarrow> project_policy option \<Rightarrow> actor_role set" where
  "effective_actor_roles actor project_policy =
     (let actor_id' = py_strip (actor_id actor);
          owner_actor_id =
            (case project_policy of
               None \<Rightarrow> ''''
             | Some policy \<Rightarrow> py_strip (opt_or (project_owner_actor_id policy) ''''))
      in if owner_actor_id \<noteq> '''' \<and> owner_actor_id = actor_id'
         then insert OWNER {actor_role actor} else {actor_role actor})"

definition authorize_action ::
  "approval_action_type \<Rightarrow> actor_context \<Rightarrow> project_policy option \<Rightarrow> py_ids dict option \<Rightarrow>
   authorization_decision" where
  "authorize_action action_type actor project_policy ids_by_action =
    (if actor_role actor = VIEWER then
       \<lparr>ad_allowed = False, ad_reason = ''viewer role cannot approve actions.'',
        ad_effective_roles = {}, ad_effective_actor_ids = None,
        ad_policy_source = ''default_rbac'', ad_strict_mode = False, ad_override_applied = False\<rparr>
     else
       (let (roles, ids, source, strict, override) =
              resolve_effective_policy action_type project_policy ids_by_action;
            actor_id' = py_strip (actor_id actor);
            actor_roles = effective_actor_roles actor project_policy;
            decide = (\<lambda>allowed reason.
              \<lparr>ad_allowed = allowed, ad_reason = reason, ad_effective_roles = roles,
               ad_effective_actor_ids = ids, ad_policy_source = source,
               ad_strict_mode = strict, ad_override_applied = override\<rparr>)
        in if strict \<and> roles = {} then
             decide False (''strict_mode requires explicit policy for `''
               @ approval_action_type_value action_type @ ''`.'')
           else if actor_roles \<inter> roles = {} then
             decide False (''role `'' @ actor_role_value (actor_role actor)
               @ ''` is not allowed for `'' @ approval_action_type_value action_type
               @ ''` under `'' @ source @ ''`.'')
           else if (case ids of None \<Rightarrow> False | Some allowed_ids \<Rightarrow> actor_id' \<notin> allowed_ids) then
             decide False (''actor `'' @ actor_id' @ ''` is not in allowed actor IDs.'')
           else decide True ''authorized''))"

definition create_request ::
  "string \<Rightarrow> approval_action_type \<Rightarrow> string \<Rightarrow> actor_context option \<Rightarrow> approval_request" where
  "create_request uuid action_type reason requested_by =
     (let requester = (case requested_by of
            Some a \<Rightarrow> a
          | None \<Rightarrow> \<lparr>actor_id = ''orchestrator'', actor_role = ADMIN, actor_type = SYSTEM\<rparr>)
      in \<lparr>ar_id = ''approval-'' @ uuid, ar_action_type = action_type, ar_status = Ap_PENDING,
          ar_reason = reason, ar_requested_by = actor_id requester, ar_decision_note = ''''\<rparr>)"

lemma create_request_fields [simp]:
  "ar_action_type (create_request u a m b) = a"
  "ar_status (create_request u a m b) = Ap_PENDING"
  "ar_reason (create_request u a m b) = m"
  by (simp_all add: create_request_def Let_def)

lemma requires_human_approval_all [simp]: "requires_human_approval a"
  by (cases a) (simp_all add: requires_human_approval_def APPROVAL_REQUIRED_ACTIONS_def)

section \<open>What the policy guarantees\<close>

lemma normalize_actor_ids_iff:
  "x \<in> normalize_actor_ids ids \<longleftrightarrow> x \<noteq> '''' \<and> (\<exists>s. PyStr s \<in> set ids \<and> py_strip s = x)"
  by (induction ids rule: normalize_actor_ids.induct) (auto simp: Let_def)

text \<open>A key that matches exactly wins over keys that only match when normalised.\<close>

lemma find_action_mapping_value_exact:
  "map_of m key = Some v \<Longrightarrow> find_action_mapping_value m key = Some v"
  by (simp add: find_action_mapping_value_def)

lemma find_action_mapping_value_mem:
  "find_action_mapping_value m key = Some v \<Longrightarrow>
     \<exists>k. (k, v) \<in> set m \<and> (k = key \<or> normalize_action_key k = key)"
  by (auto simp: find_action_mapping_value_def find_Some_iff split: option.splits
      dest: map_of_SomeD) (metis nth_mem)

lemma find_action_mapping_value_None:
  "find_action_mapping_value m key = None \<Longrightarrow>
     (k, v) \<in> set m \<Longrightarrow> k \<noteq> key \<and> normalize_action_key k \<noteq> key"
  by (force simp: find_action_mapping_value_def find_None_iff map_of_eq_None_iff
      split: option.splits)

abbreviation policy_roles where
  "policy_roles a p m \<equiv> fst (resolve_effective_policy a p m)"

abbreviation policy_ids where
  "policy_ids a p m \<equiv> fst (snd (resolve_effective_policy a p m))"

text \<open>
  The decision in one line: the caller is no viewer, one of the roles the caller holds is
  among the effective roles, and the caller's id is among the effective ids where there
  is such a restriction. (The strict branch of the code is subsumed: with no effective
  role nobody has one of them.)
\<close>

lemma authorize_allowed_iff:
  "ad_allowed (authorize_action a actor p m) \<longleftrightarrow>
     actor_role actor \<noteq> VIEWER \<and>
     effective_actor_roles actor p \<inter> policy_roles a p m \<noteq> {} \<and>
     (\<forall>ids. policy_ids a p m = Some ids \<longrightarrow> py_strip (actor_id actor) \<in> ids)"
  by (cases "resolve_effective_policy a p m")
     (auto simp: authorize_action_def Let_def split: option.splits if_splits)

lemma strict_without_rule:
  assumes "strict_mode pol" and "find_project_action_rule pol a = None"
  shows "resolve_effective_policy a (Some pol) m =
           ({}, Some {}, ''project_policy_strict'', True, True)"
  using assms by (simp add: resolve_effective_policy_def)

lemma runtime_override_ids:
  assumes "find_runtime_actor_ids m a = Some ids"
    and "\<not> (\<exists>pol. p = Some pol \<and> strict_mode pol \<and> find_project_action_rule pol a = None)"
  shows "policy_ids a p m = Some (normalize_actor_ids ids)"
  using assms by (auto simp: resolve_effective_policy_def Let_def split: option.splits)

lemma default_roles_without_rule:
  assumes "\<And>pol. p = Some pol \<Longrightarrow> find_project_action_rule pol a = None"
  shows "policy_roles a p m \<subseteq> DEFAULT_ACTION_ROLE_RULES a"
  using assms by (auto simp: resolve_effective_policy_def Let_def split: option.splits if_splits)

lemma viewer_not_allowed: "actor_role actor = VIEWER \<Longrightarrow> \<not> ad_allowed (authorize_action a actor p m)"
  by (simp add: authorize_allowed_iff)

text \<open>A denied decision of the code always has an empty or a caller-specific reason text.\<close>

lemma authorize_reason_nonempty: "ad_reason (authorize_action a actor p m) \<noteq> ''''"
  by (cases "resolve_effective_policy a p m") (simp add: authorize_action_def Let_def)

section \<open>The policy, declaratively\<close>

text \<open>
  A description of who may approve that uses none of the functions above: the role matrix of
  docs/architecture.md, the entry of a dictionary that names an action, the owner of a project, and
  the ids that count.
\<close>

definition role_matrix :: "(approval_action_type \<times> actor_role) set" where
  "role_matrix =
     {(EXTERNAL_API_SEND, OWNER), (EXTERNAL_API_SEND, APPROVER), (EXTERNAL_API_SEND, ADMIN),
      (DESTRUCTIVE_CHANGE, APPROVER), (DESTRUCTIVE_CHANGE, ADMIN),
      (BULK_MODIFY, OPERATOR), (BULK_MODIFY, APPROVER), (BULK_MODIFY, ADMIN),
      (PRODUCTION_AFFECTING_CHANGE, ADMIN)}"

definition names_action :: "approval_action_type \<Rightarrow> string \<Rightarrow> bool" where
  "names_action a k \<longleftrightarrow> py_lower (py_strip k) = approval_action_type_value a"

text \<open>The entry with the very name of the action, or else the first one that names it up to case and spaces.\<close>

definition entry_for :: "'v dict \<Rightarrow> approval_action_type \<Rightarrow> 'v \<Rightarrow> bool" where
  "entry_for d a v \<longleftrightarrow>
     (\<exists>before k after. d = before @ (k, v) # after \<and>
        (if approval_action_type_value a \<in> fst ` set d
         then k = approval_action_type_value a \<and> k \<notin> fst ` set before
         else names_action a k \<and> (\<forall>k' \<in> fst ` set before. \<not> names_action a k')))"

definition rule_for ::
  "project_policy option \<Rightarrow> approval_action_type \<Rightarrow> project_policy_action_rule \<Rightarrow> bool" where
  "rule_for p a rule \<longleftrightarrow> (\<exists>pol. p = Some pol \<and> entry_for (action_rules pol) a rule)"

definition runtime_list :: "py_ids dict option \<Rightarrow> approval_action_type \<Rightarrow> py_ids \<Rightarrow> bool" where
  "runtime_list m a v \<longleftrightarrow> (\<exists>d. m = Some d \<and> entry_for d a v)"

definition strict_project :: "project_policy option \<Rightarrow> bool" where
  "strict_project p \<longleftrightarrow> (\<exists>pol. p = Some pol \<and> strict_mode pol)"

definition owns_project :: "string \<Rightarrow> project_policy option \<Rightarrow> bool" where
  "owns_project i p \<longleftrightarrow> i \<noteq> '''' \<and>
     (\<exists>pol owner. p = Some pol \<and> project_owner_actor_id pol = Some owner \<and> py_strip owner = i)"

definition holds_role :: "actor_context \<Rightarrow> project_policy option \<Rightarrow> actor_role \<Rightarrow> bool" where
  "holds_role actor p role \<longleftrightarrow>
     role = actor_role actor \<or> role = OWNER \<and> owns_project (py_strip (actor_id actor)) p"

definition role_open :: "project_policy option \<Rightarrow> approval_action_type \<Rightarrow> actor_role \<Rightarrow> bool" where
  "role_open p a role \<longleftrightarrow>
     (if \<exists>rule. rule_for p a rule \<and> allowed_roles rule \<noteq> []
      then \<exists>rule. rule_for p a rule \<and> role \<in> set (allowed_roles rule)
      else (a, role) \<in> role_matrix)"

definition id_listed :: "string \<Rightarrow> py_obj list \<Rightarrow> bool" where
  "id_listed i ids \<longleftrightarrow> i \<noteq> '''' \<and> (\<exists>s. PyStr s \<in> set ids \<and> py_strip s = i)"

definition rule_admits :: "string \<Rightarrow> project_policy option \<Rightarrow> approval_action_type \<Rightarrow> bool" where
  "rule_admits i p a \<longleftrightarrow>
     (\<forall>rule. rule_for p a rule \<longrightarrow> allowed_actor_ids rule = [] \<or>
        id_listed i (map PyStr (allowed_actor_ids rule)))"

definition list_admits :: "string \<Rightarrow> py_ids dict option \<Rightarrow> approval_action_type \<Rightarrow> bool" where
  "list_admits i m a \<longleftrightarrow> (\<forall>v. runtime_list m a v \<longrightarrow> (\<exists>ids. v = PyList ids \<and> id_listed i ids))"

text \<open>
  No viewer, in strict mode only with a rule, and only with a role that the rule, or else the
  matrix, opens the action to; these hold whatever ids are listed.
\<close>

definition role_permitted ::
  "approval_action_type \<Rightarrow> actor_context \<Rightarrow> project_policy option \<Rightarrow> bool" where
  "role_permitted a actor p \<longleftrightarrow>
     actor_role actor \<noteq> VIEWER \<and> (strict_project p \<longrightarrow> (\<exists>rule. rule_for p a rule)) \<and>
     (\<exists>role. holds_role actor p role \<and> role_open p a role)"

text \<open>The code lets a runtime list stand in for the ids of the rule.\<close>

definition permitted ::
  "approval_action_type \<Rightarrow> actor_context \<Rightarrow> project_policy option \<Rightarrow> py_ids dict option \<Rightarrow> bool" where
  "permitted a actor p m \<longleftrightarrow>
     role_permitted a actor p \<and>
     (if \<exists>v. runtime_list m a v then list_admits (py_strip (actor_id actor)) m a
      else rule_admits (py_strip (actor_id actor)) p a)"

text \<open>The documents say that a runtime list further restricts the ids: both have to admit the caller.\<close>

definition permitted_by_documents ::
  "approval_action_type \<Rightarrow> actor_context \<Rightarrow> project_policy option \<Rightarrow> py_ids dict option \<Rightarrow> bool" where
  "permitted_by_documents a actor p m \<longleftrightarrow>
     role_permitted a actor p \<and> list_admits (py_strip (actor_id actor)) m a \<and>
     rule_admits (py_strip (actor_id actor)) p a"

section \<open>The code against the description\<close>

lemma map_of_split: "map_of d k = Some v \<longleftrightarrow>
    (\<exists>before after. d = before @ (k, v) # after \<and> k \<notin> fst ` set before)"
proof
  show "map_of d k = Some v \<Longrightarrow> \<exists>before after. d = before @ (k, v) # after \<and> k \<notin> fst ` set before"
  proof (induction d)
    case (Cons e d)
    show ?case
    proof (cases "fst e = k")
      case True
      with Cons.prems have "e # d = [] @ (k, v) # d" by (cases e) auto
      then show ?thesis by (metis empty_iff image_empty list.set(1))
    next
      case False
      with Cons obtain b c where "d = b @ (k, v) # c" "k \<notin> fst ` set b" by (cases e) auto
      with False have "e # d = (e # b) @ (k, v) # c \<and> k \<notin> fst ` set (e # b)" by auto
      then show ?thesis by blast
    qed
  qed simp
next
  assume "\<exists>before after. d = before @ (k, v) # after \<and> k \<notin> fst ` set before"
  then obtain b c where d: "d = b @ (k, v) # c" "k \<notin> fst ` set b" by blast
  from d(2) have "map_of (b @ (k, v) # c) k = Some v" by (induction b) auto
  then show "map_of d k = Some v" by (simp add: d(1))
qed

lemma find_split: "List.find P d = Some x \<longleftrightarrow>
    (\<exists>before after. d = before @ x # after \<and> P x \<and> (\<forall>y \<in> set before. \<not> P y))"
proof
  show "List.find P d = Some x \<Longrightarrow>
      \<exists>before after. d = before @ x # after \<and> P x \<and> (\<forall>y \<in> set before. \<not> P y)"
  proof (induction d)
    case (Cons e d)
    show ?case
    proof (cases "P e")
      case True
      with Cons.prems have "e # d = [] @ x # d \<and> P x" by auto
      then show ?thesis by (metis empty_iff list.set(1))
    next
      case False
      with Cons obtain b c where "d = b @ x # c" "P x" "\<forall>y \<in> set b. \<not> P y" by auto
      with False have "e # d = (e # b) @ x # c \<and> P x \<and> (\<forall>y \<in> set (e # b). \<not> P y)" by simp
      then show ?thesis by blast
    qed
  qed simp
next
  assume "\<exists>before after. d = before @ x # after \<and> P x \<and> (\<forall>y \<in> set before. \<not> P y)"
  then obtain b c where d: "d = b @ x # c" "P x" "\<forall>y \<in> set b. \<not> P y" by blast
  from d(3) have "List.find P (b @ x # c) = Some x" using d(2) by (induction b) auto
  then show "List.find P d = Some x" by (simp add: d(1))
qed

lemma find_entry: "find_action_mapping_value d (approval_action_type_value a) = Some v \<longleftrightarrow> entry_for d a v"
proof (cases "approval_action_type_value a \<in> fst ` set d")
  case True
  then obtain w where w: "map_of d (approval_action_type_value a) = Some w"
    by (metis map_of_eq_None_iff not_None_eq)
  then have "find_action_mapping_value d (approval_action_type_value a) = Some v \<longleftrightarrow>
      map_of d (approval_action_type_value a) = Some v"
    by (simp add: find_action_mapping_value_def)
  with True show ?thesis unfolding map_of_split entry_for_def by auto
next
  case False
  let ?P = "\<lambda>(k, v). normalize_action_key k = approval_action_type_value a"
  have P: "?P = (\<lambda>e. names_action a (fst e))"
    by (auto simp: fun_eq_iff names_action_def normalize_action_key_def)
  have "map_of d (approval_action_type_value a) = None" using False by (simp add: map_of_eq_None_iff)
  then have "find_action_mapping_value d (approval_action_type_value a) = Some v \<longleftrightarrow>
      (\<exists>k. List.find (\<lambda>e. names_action a (fst e)) d = Some (k, v))"
    unfolding find_action_mapping_value_def P by auto
  with False show ?thesis unfolding find_split entry_for_def by auto
qed

lemma rule_found: "p = Some pol \<Longrightarrow> find_project_action_rule pol a = Some rule \<longleftrightarrow> rule_for p a rule"
  by (simp add: rule_for_def find_project_action_rule_def find_entry)

lemma runtime_found:
  "find_runtime_actor_ids m a = Some ids \<longleftrightarrow>
     (\<exists>v. runtime_list m a v \<and> ids = (case v of PyList xs \<Rightarrow> xs | PyNotList \<Rightarrow> []))"
proof (cases m)
  case (Some d)
  show ?thesis
  proof (cases "d = []")
    case True
    then show ?thesis by (simp add: find_runtime_actor_ids_def runtime_list_def entry_for_def Some)
  next
    case False
    have e: "entry_for d a v \<longleftrightarrow> find_action_mapping_value d (approval_action_type_value a) = Some v" for v
      by (rule find_entry[symmetric])
    show ?thesis
      using False by (auto simp: find_runtime_actor_ids_def runtime_list_def Some e
          split: option.split py_ids.split)
  qed
qed (simp add: find_runtime_actor_ids_def runtime_list_def)

lemma rule_for_iff:
  "rule_for p a rule \<longleftrightarrow> Option.bind p (\<lambda>pol. find_project_action_rule pol a) = Some rule"
  using rule_found[of p _ a rule] by (cases p) (simp_all add: rule_for_def)

lemma default_roles: "role \<in> DEFAULT_ACTION_ROLE_RULES a \<longleftrightarrow> (a, role) \<in> role_matrix"
  by (cases a; cases role) (simp_all add: role_matrix_def)

lemma held_roles: "role \<in> effective_actor_roles actor p \<longleftrightarrow> holds_role actor p role"
  by (cases p) (auto simp: effective_actor_roles_def holds_role_def owns_project_def Let_def opt_or_def
      str_or_def split: option.split)

lemma open_roles:
  "role \<in> policy_roles a p m \<longleftrightarrow>
     (strict_project p \<longrightarrow> (\<exists>rule. rule_for p a rule)) \<and> role_open p a role"
  unfolding role_open_def rule_for_iff default_roles[symmetric]
  by (cases p) (auto simp: resolve_effective_policy_def strict_project_def Let_def split: option.splits)

lemma admitted_ids:
  assumes "strict_project p \<longrightarrow> (\<exists>rule. rule_for p a rule)"
  shows "(\<forall>ids. policy_ids a p m = Some ids \<longrightarrow> i \<in> ids) \<longleftrightarrow>
    (if \<exists>v. runtime_list m a v then list_admits i m a else rule_admits i p a)"
proof -
  have l: "i \<in> normalize_actor_ids ids \<longleftrightarrow> id_listed i ids" for ids
    by (auto simp: normalize_actor_ids_iff id_listed_def)
  have open_rule: "\<not> (\<exists>pol. p = Some pol \<and> strict_mode pol \<and> find_project_action_rule pol a = None)"
    using assms by (auto simp: strict_project_def rule_for_iff)
  show ?thesis
  proof (cases "find_runtime_actor_ids m a")
    case None
    then have no: "\<not> (\<exists>v. runtime_list m a v)" using runtime_found[of m a] by auto
    have "policy_ids a p m =
        (case Option.bind p (\<lambda>pol. find_project_action_rule pol a) of
           Some rule \<Rightarrow> if allowed_actor_ids rule \<noteq> []
             then Some (normalize_actor_ids (map PyStr (allowed_actor_ids rule))) else None
         | None \<Rightarrow> None)"
      using open_rule None by (cases p) (auto simp: resolve_effective_policy_def Let_def split: option.splits)
    with no show ?thesis
      by (auto simp: rule_admits_def rule_for_iff l split: option.splits if_splits)
  next
    case (Some ids)
    obtain v where v: "runtime_list m a v" "ids = (case v of PyList xs \<Rightarrow> xs | PyNotList \<Rightarrow> [])"
      using Some runtime_found[of m a ids] by auto
    have one: "w = v" if "runtime_list m a w" for w
      using that v(1) unfolding runtime_list_def find_entry[symmetric] by auto
    have "list_admits i m a \<longleftrightarrow> (\<exists>xs. v = PyList xs \<and> id_listed i xs)"
      unfolding list_admits_def using v(1) one by blast
    also have "\<dots> \<longleftrightarrow> id_listed i ids" using v(2) by (cases v) (simp_all add: id_listed_def)
    finally have admits: "list_admits i m a \<longleftrightarrow> id_listed i ids" .
    have "policy_ids a p m = Some (normalize_actor_ids ids)"
      by (rule runtime_override_ids[OF Some open_rule])
    moreover have "\<exists>v. runtime_list m a v" using v(1) by blast
    ultimately show ?thesis by (simp add: l admits)
  qed
qed

lemma authorize_permitted: "ad_allowed (authorize_action a actor p m) \<longleftrightarrow> permitted a actor p m"
proof (cases "strict_project p \<longrightarrow> (\<exists>rule. rule_for p a rule)")
  case True
  have "effective_actor_roles actor p \<inter> policy_roles a p m \<noteq> {} \<longleftrightarrow>
      (\<exists>role. holds_role actor p role \<and> role_open p a role)"
    using True open_roles[of _ a p m] held_roles[of _ actor p] by blast
  with True show ?thesis
    unfolding authorize_allowed_iff admitted_ids[OF True] permitted_def role_permitted_def by blast
next
  case False
  have "policy_roles a p m = {}" using False open_roles[of _ a p m] by blast
  with False show ?thesis by (simp add: authorize_allowed_iff permitted_def role_permitted_def)
qed

section \<open>The code against the documents\<close>

lemma documents_permit_less: "permitted_by_documents a actor p m \<Longrightarrow> ad_allowed (authorize_action a actor p m)"
  by (simp add: authorize_permitted permitted_def permitted_by_documents_def)

text \<open>They differ only for a caller that the runtime list names and the rule does not.\<close>

lemma documents_differ:
  "ad_allowed (authorize_action a actor p m) \<and> \<not> permitted_by_documents a actor p m \<longleftrightarrow>
     role_permitted a actor p \<and> (\<exists>v. runtime_list m a v) \<and>
     list_admits (py_strip (actor_id actor)) m a \<and> \<not> rule_admits (py_strip (actor_id actor)) p a"
proof (cases "\<exists>v. runtime_list m a v")
  case True
  then show ?thesis by (auto simp: authorize_permitted permitted_def permitted_by_documents_def)
next
  case False
  then have "list_admits (py_strip (actor_id actor)) m a" by (simp add: list_admits_def)
  with False show ?thesis by (simp add: authorize_permitted permitted_def permitted_by_documents_def)
qed

text \<open>Such a caller: Bob approves an action that the project reserves to Alice.\<close>

lemma runtime_list_widens_rule:
  fixes rule pol bob list
  defines "rule \<equiv> \<lparr>allowed_roles = [APPROVER], allowed_actor_ids = [''alice'']\<rparr>"
  defines "pol \<equiv> \<lparr>project_owner_actor_id = None, strict_mode = True,
    action_rules = [(''external_api_send'', rule)]\<rparr>"
  defines "bob \<equiv> \<lparr>actor_id = ''bob'', actor_role = APPROVER, actor_type = HUMAN\<rparr>"
  defines "list \<equiv> [(''external_api_send'', PyList [PyStr ''bob''])]"
  shows "\<not> ad_allowed (authorize_action EXTERNAL_API_SEND bob (Some pol) None)"
    "ad_allowed (authorize_action EXTERNAL_API_SEND bob (Some pol) (Some list))"
    "\<not> permitted_by_documents EXTERNAL_API_SEND bob (Some pol) (Some list)"
proof -
  show no: "\<not> ad_allowed (authorize_action EXTERNAL_API_SEND bob (Some pol) None)"
    unfolding rule_def pol_def bob_def by code_simp
  show "ad_allowed (authorize_action EXTERNAL_API_SEND bob (Some pol) (Some list))"
    unfolding rule_def pol_def bob_def list_def by code_simp
  show "\<not> permitted_by_documents EXTERNAL_API_SEND bob (Some pol) (Some list)"
    using no by (simp add: authorize_permitted permitted_def permitted_by_documents_def runtime_list_def)
qed

end
