(* ===== verification/Record_Ops.thy ===== *)
theory Record_Ops
  imports Graph Agents Approval
begin

text \<open>
  The helpers of \<open>PMOrchestrator\<close> (\<open>app/orchestrator/service.py\<close>) that work on one project
  record: events, transitions, task status, artifacts, checkpoints, approvals, the parsing
  of action lists and the authorisation loop. The code mutates the record in place; here
  each helper returns the new record. Tasks and approvals that the code holds by reference
  are held by their position in the record's list.

  What a record operation reads from outside is a parameter: \<open>clock i\<close> is the time stamp of
  the record's event number \<open>i\<close>, \<open>uuid4 n\<close> the result of the \<open>n\<close>-th call of
  \<open>uuid.uuid4\<close> of the operation, \<open>getenv\<close> the process environment.
\<close>

record runtime =
  clock :: "nat \<Rightarrow> string"
  uuid4 :: "nat \<Rightarrow> string"
  getenv :: "string \<Rightarrow> string option"

datatype action_arg = ActionEnum approval_action_type | ActionStr string | ActionOther

text \<open>
  The exceptions: three shapes of \<open>ValueError\<close>, \<open>PermissionError\<close>, \<open>LookupError\<close>, and
  what a repository raises when it cannot store a record.
\<close>

datatype orch_error =
    InvalidTransition project_status project_status
  | UnsupportedAction action_arg
  | ValueErr string
  | PermissionErr string
  | LookupErr string
  | StorageErr string

section \<open>Actors and texts\<close>

definition system_actor :: actor_context where
  "system_actor = \<lparr>actor_id = ''system'', actor_role = ADMIN, actor_type = SYSTEM\<rparr>"

datatype actor_arg = ActorNone | ActorIs actor_context | ActorName string

fun coerce_actor :: "actor_arg \<Rightarrow> actor_role \<Rightarrow> actor_type \<Rightarrow> actor_context" where
  "coerce_actor ActorNone role ty =
     \<lparr>actor_id = ''unknown'', actor_role = role, actor_type = ty\<rparr>"
| "coerce_actor (ActorIs a) role ty = a"
| "coerce_actor (ActorName n) role ty =
     \<lparr>actor_id = str_or (py_strip n) ''unknown'', actor_role = role, actor_type = ty\<rparr>"

definition normalize_text :: "string \<Rightarrow> string" where
  "normalize_text value = py_strip value"

definition compose_decision_note :: "string \<Rightarrow> string \<Rightarrow> string" where
  "compose_decision_note primary secondary =
     py_join '' '' (filter (\<lambda>part. part \<noteq> '''') [primary, secondary])"

section \<open>Events and transitions\<close>

definition record_event ::
  "runtime \<Rightarrow> history_event_type \<Rightarrow> actor_context option \<Rightarrow> string \<Rightarrow> json dict \<Rightarrow>
   project_record \<Rightarrow> project_record" where
  "record_event env event_type actor reason metadata r =
     (let actor_context = (case actor of Some a \<Rightarrow> a | None \<Rightarrow> system_actor)
      in r\<lparr>events := events r @
            [\<lparr>e_event_type = event_type, e_actor = actor_id actor_context,
              e_actor_role = actor_role actor_context, e_actor_type = actor_type actor_context,
              e_timestamp = clock env (length (events r)), e_reason = reason,
              e_metadata = metadata\<rparr>]\<rparr>)"

definition record_authorization_failure ::
  "runtime \<Rightarrow> actor_context \<Rightarrow> approval_action_type \<Rightarrow> string \<Rightarrow> string \<Rightarrow> bool \<Rightarrow> bool \<Rightarrow>
   project_record \<Rightarrow> project_record" where
  "record_authorization_failure env actor action_type message policy_source strict override r =
     record_event env Ev_AUTHORIZATION_FAILED (Some actor) message
       [(''action_type'', JStr (approval_action_type_value action_type)),
        (''policy_source'', JStr policy_source), (''strict_mode'', JBool strict),
        (''override_applied'', JBool override)] r"

definition override_metadata :: "approval_action_type \<Rightarrow> string \<Rightarrow> bool \<Rightarrow> json dict" where
  "override_metadata action_type policy_source strict =
     [(''action_type'', JStr (approval_action_type_value action_type)),
      (''policy_source'', JStr policy_source), (''strict_mode'', JBool strict)]"

definition record_authorization_granted ::
  "runtime \<Rightarrow> actor_context \<Rightarrow> approval_action_type \<Rightarrow> string \<Rightarrow> bool \<Rightarrow> bool \<Rightarrow>
   project_record \<Rightarrow> project_record" where
  "record_authorization_granted env actor action_type policy_source strict override r =
     (let r1 = (if override
                then record_event env Ev_POLICY_OVERRIDE_APPLIED (Some actor)
                       ''Project policy override was applied for authorization.''
                       (override_metadata action_type policy_source strict) r
                else r)
      in record_event env Ev_AUTHORIZATION_GRANTED (Some actor) ''Authorization granted.''
           (override_metadata action_type policy_source strict) r1)"

text \<open>
  The loop over the sorted actions. A denied action ends it with the record that the code
  saves before it raises, and the \<open>PermissionError\<close>.
\<close>

fun authorize_actions ::
  "runtime \<Rightarrow> actor_context \<Rightarrow> py_ids dict option \<Rightarrow> approval_action_type list \<Rightarrow>
   project_record \<Rightarrow> (project_record \<times> orch_error) + project_record" where
  "authorize_actions env actor ids [] r = Inr r"
| "authorize_actions env actor ids (a # as) r =
     (let decision = authorize_action a actor (Some (p_policy (project r))) ids
      in if \<not> ad_allowed decision then
           (let r1 = (if ad_override_applied decision
                      then record_event env Ev_POLICY_OVERRIDE_APPLIED (Some actor)
                             ''Project policy override was evaluated for authorization.''
                             (override_metadata a (ad_policy_source decision)
                               (ad_strict_mode decision)) r
                      else r);
                r2 = record_authorization_failure env actor a (ad_reason decision)
                       (ad_policy_source decision) (ad_strict_mode decision)
                       (ad_override_applied decision) r1
            in Inl (r2, PermissionErr (ad_reason decision)))
         else authorize_actions env actor ids as
                (record_authorization_granted env actor a (ad_policy_source decision)
                  (ad_strict_mode decision) (ad_override_applied decision) r))"

definition authorize_actions_or_raise ::
  "runtime \<Rightarrow> actor_context \<Rightarrow> py_ids dict option \<Rightarrow> approval_action_type set \<Rightarrow>
   project_record \<Rightarrow> (project_record \<times> orch_error) + project_record" where
  "authorize_actions_or_raise env actor ids action_types r =
     authorize_actions env actor ids (sorted_list_of_set action_types) r"

definition transition ::
  "runtime \<Rightarrow> project_status \<Rightarrow> actor_context \<Rightarrow> string \<Rightarrow> project_record \<Rightarrow>
   orch_error + project_record" where
  "transition env next_status actor reason r =
     (let current = rec_status r
      in if current = next_status then Inr r
         else if \<not> can_transition current next_status
           then Inl (InvalidTransition current next_status)
         else
           Inr (record_event env Ev_STATE_TRANSITION (Some actor) reason
                  [(''from'', JStr (project_status_value current)),
                   (''to'', JStr (project_status_value next_status))]
                  (r\<lparr>history := history r @
                       [project_status_value current @ '' -> '' @ project_status_value next_status],
                     project := (project r)\<lparr>p_status := next_status\<rparr>\<rparr>)))"

section \<open>Tasks\<close>

definition set_task_status ::
  "runtime \<Rightarrow> nat \<Rightarrow> task_status \<Rightarrow> actor_context \<Rightarrow> string \<Rightarrow> project_record \<Rightarrow> project_record"
  where
  "set_task_status env i next_status actor reason r =
     (let t = tasks r ! i; current = t_status t
      in if current = next_status then r
         else record_event env Ev_TASK_STATUS_CHANGED (Some actor) reason
                [(''task_id'', JStr (t_id t)), (''from'', JStr (task_status_value current)),
                 (''to'', JStr (task_status_value next_status))]
                (r\<lparr>tasks := (tasks r)[i := t\<lparr>t_status := next_status\<rparr>]\<rparr>))"

definition set_task_note :: "nat \<Rightarrow> string \<Rightarrow> project_record \<Rightarrow> project_record" where
  "set_task_note i note r = r\<lparr>tasks := (tasks r)[i := (tasks r ! i)\<lparr>t_note := note\<rparr>]\<rparr>"

text \<open>A \<open>for task in record.tasks\<close> loop: the body gets the position of the task.\<close>

definition for_tasks :: "(nat \<Rightarrow> project_record \<Rightarrow> project_record) \<Rightarrow> project_record \<Rightarrow> project_record"
  where "for_tasks body r = fold body [0..<length (tasks r)] r"

definition reset_tasks_for_departments ::
  "runtime \<Rightarrow> department set \<Rightarrow> task_status \<Rightarrow> actor_context \<Rightarrow> string \<Rightarrow> bool \<Rightarrow> string \<Rightarrow>
   project_record \<Rightarrow> project_record" where
  "reset_tasks_for_departments env departments next_status actor reason update_note note_reason =
     for_tasks (\<lambda>i r.
       if t_department (tasks r ! i) \<in> departments then
         (let r1 = set_task_status env i next_status actor reason r
          in if update_note
             then set_task_note i (str_or note_reason (t_note (tasks r1 ! i))) r1
             else r1)
       else r)"

section \<open>Artifacts, checkpoints and approvals\<close>

definition upsert_artifact :: "artifact \<Rightarrow> project_record \<Rightarrow> project_record" where
  "upsert_artifact a r = r\<lparr>artifacts := upsert a_id a (artifacts r)\<rparr>"

definition upsert_checkpoint :: "checkpoint \<Rightarrow> project_record \<Rightarrow> project_record" where
  "upsert_checkpoint c r = r\<lparr>checkpoints := upsert c_id c (checkpoints r)\<rparr>"

fun update_first_checkpoint ::
  "string \<Rightarrow> bool \<Rightarrow> string \<Rightarrow> string option \<Rightarrow> checkpoint list \<Rightarrow> checkpoint list" where
  "update_first_checkpoint cid approved approver note [] = []"
| "update_first_checkpoint cid approved approver note (c # cs) =
     (if c_id c = cid
      then c\<lparr>c_approved := approved, c_approver := approver,
             c_note := (case note of None \<Rightarrow> c_note c | Some n \<Rightarrow> n)\<rparr> # cs
      else c # update_first_checkpoint cid approved approver note cs)"

definition update_approval_checkpoint ::
  "bool \<Rightarrow> string \<Rightarrow> string option \<Rightarrow> project_record \<Rightarrow> project_record" where
  "update_approval_checkpoint approved approver note r =
     r\<lparr>checkpoints :=
         update_first_checkpoint (''checkpoint-approval-'' @ rec_id r) approved approver note
           (checkpoints r)\<rparr>"

definition set_approval ::
  "nat \<Rightarrow> approval_status \<Rightarrow> string \<Rightarrow> string \<Rightarrow> project_record \<Rightarrow> project_record" where
  "set_approval i status requested_by decision_note r =
     r\<lparr>approvals := (approvals r)
         [i := (approvals r ! i)\<lparr>ar_status := status, ar_requested_by := requested_by,
                                ar_decision_note := decision_note\<rparr>]\<rparr>"

definition reject_approval_request ::
  "runtime \<Rightarrow> nat \<Rightarrow> actor_context \<Rightarrow> string \<Rightarrow> string \<Rightarrow> bool \<Rightarrow> project_record \<Rightarrow>
   project_record" where
  "reject_approval_request env i actor reason note auto_closed r =
     (let action_type = ar_action_type (approvals r ! i);
          decision_note = compose_decision_note reason note;
          r1 = set_approval i Ap_REJECTED (actor_id actor) decision_note r;
          metadata = [(''action_type'', JStr (approval_action_type_value action_type)),
                      (''note'', JStr note)]
                     @ (if auto_closed then [(''auto_closed'', JBool True)] else []);
          r2 = record_event env Ev_APPROVAL_REJECTED (Some actor) reason metadata r1
      in update_approval_checkpoint False (actor_id actor) (Some decision_note) r2)"

section \<open>Action sets\<close>

fun parse_actions_loop ::
  "action_arg list \<Rightarrow> approval_action_type set \<Rightarrow> orch_error + approval_action_type set" where
  "parse_actions_loop [] parsed = Inr parsed"
| "parse_actions_loop (ActionEnum a # args) parsed = parse_actions_loop args (insert a parsed)"
| "parse_actions_loop (ActionOther # args) parsed = Inl (UnsupportedAction ActionOther)"
| "parse_actions_loop (ActionStr s # args) parsed =
     (let normalized = py_lower (py_strip s)
      in if normalized = '''' then Inl (UnsupportedAction (ActionStr s))
         else case ApprovalActionType_of normalized of
                None \<Rightarrow> Inl (UnsupportedAction (ActionStr s))
              | Some a \<Rightarrow> parse_actions_loop args (insert a parsed))"

definition parse_approved_actions ::
  "action_arg list option \<Rightarrow> orch_error + approval_action_type set" where
  "parse_approved_actions approved_actions =
     (case approved_actions of
        None \<Rightarrow> Inr {}
      | Some args \<Rightarrow> if args = [] then Inr {} else parse_actions_loop args {})"

definition format_action_values :: "approval_action_type set \<Rightarrow> string" where
  "format_action_values actions =
     py_join '', '' (map approval_action_type_value (sorted_list_of_set actions))"

definition quoted :: "string \<Rightarrow> string" where
  "quoted s = CHR 0x22 # s @ [CHR 0x22]"

definition formatted_missing_actions :: "approval_action_type set \<Rightarrow> string \<times> string" where
  "formatted_missing_actions missing_actions =
     (let missing_action_values =
            map approval_action_type_value (sorted_list_of_set missing_actions)
      in (py_join '', '' missing_action_values, py_join '', '' (map quoted missing_action_values)))"

text \<open>The snapshot of the approvals; a pending approval is held by its position.\<close>

record approval_action_state =
  known_actions :: "approval_action_type set"
  approved_actions :: "approval_action_type set"
  rejected_actions :: "approval_action_type set"
  pending_approvals :: "nat list"
  pending_action_types :: "approval_action_type set"

definition actions_with :: "approval_status \<Rightarrow> project_record \<Rightarrow> approval_action_type set" where
  "actions_with status r =
     set (map ar_action_type (filter (\<lambda>a. ar_status a = status) (approvals r)))"

definition pending_positions :: "project_record \<Rightarrow> nat list" where
  "pending_positions r =
     filter (\<lambda>i. ar_status (approvals r ! i) = Ap_PENDING) [0..<length (approvals r)]"

definition approval_action_state_of :: "project_record \<Rightarrow> approval_action_state" where
  "approval_action_state_of r =
     \<lparr>known_actions = set (map ar_action_type (approvals r)),
      approved_actions = actions_with Ap_APPROVED r,
      rejected_actions = actions_with Ap_REJECTED r,
      pending_approvals = pending_positions r,
      pending_action_types = actions_with Ap_PENDING r\<rparr>"

definition raise_if_actions_outside_allowed_set ::
  "approval_action_type set \<Rightarrow> approval_action_type set \<Rightarrow> string \<Rightarrow> orch_error + unit" where
  "raise_if_actions_outside_allowed_set requested allowed error_prefix =
     (let disallowed_actions = requested - allowed
      in if disallowed_actions \<noteq> {}
         then Inl (ValueErr (error_prefix @ '': '' @ format_action_values disallowed_actions))
         else Inr ())"

definition raise_if_actions_previously_rejected ::
  "approval_action_type set \<Rightarrow> approval_action_type set \<Rightarrow> string \<Rightarrow> orch_error + unit" where
  "raise_if_actions_previously_rejected requested rejected error_prefix =
     (let already_rejected = requested \<inter> rejected
      in if already_rejected \<noteq> {}
         then Inl (ValueErr (error_prefix @ '': '' @ format_action_values already_rejected))
         else Inr ())"

definition validate_approval_action_request ::
  "approval_action_type set \<Rightarrow> approval_action_type set \<Rightarrow> approval_action_type set \<Rightarrow>
   orch_error + unit" where
  "validate_approval_action_request requested known rejected =
     res_bind
       (raise_if_actions_outside_allowed_set requested known ''Unknown approval action(s)'')
       (\<lambda>_. raise_if_actions_previously_rejected requested rejected ''Action(s) already rejected'')"

section \<open>Summaries\<close>

definition summary :: "project_record \<Rightarrow> string list \<Rightarrow> orchestration_result" where
  "summary r next_steps =
     \<lparr>o_record = r,
      o_summary =
        \<lparr>s_project_id = rec_id r, s_status = rec_status r,
         s_completed_tasks = length (filter (\<lambda>t. t_status t = T_DONE) (tasks r)),
         s_artifact_count = length (artifacts r), s_next_steps = next_steps\<rparr>\<rparr>"

section \<open>First facts\<close>

lemma o_record_summary [simp]: "o_record (summary r steps) = r"
  by (simp add: summary_def)

text \<open>
  Parsing a list of actions succeeds exactly when every entry names a known action, and
  then gives the set of the named actions.
\<close>

fun named_action :: "action_arg \<Rightarrow> approval_action_type option" where
  "named_action (ActionEnum a) = Some a"
| "named_action (ActionStr s) = ApprovalActionType_of (py_lower (py_strip s))"
| "named_action ActionOther = None"

lemma ApprovalActionType_of_Nil [simp]: "ApprovalActionType_of [] = None"
  by (simp add: ApprovalActionType_of_def all_action_types_def)

lemma parse_actions_loop_eq:
  "parse_actions_loop args parsed = Inr S \<longleftrightarrow>
     (\<forall>x \<in> set args. named_action x \<noteq> None) \<and> S = parsed \<union> {a. Some a \<in> named_action ` set args}"
proof (induction args parsed arbitrary: S rule: parse_actions_loop.induct)
  case (4 s args parsed)
  then show ?case
    by (cases "ApprovalActionType_of (py_lower (py_strip s))") (auto simp: Let_def image_iff)
qed (auto simp: image_iff)

lemma parse_approved_actions_eq:
  "parse_approved_actions (Some args) = Inr S \<longleftrightarrow>
     (\<forall>x \<in> set args. named_action x \<noteq> None) \<and> S = {a. Some a \<in> named_action ` set args}"
  by (auto simp: parse_approved_actions_def parse_actions_loop_eq)

lemma parse_enum_actions [simp]:
  "parse_approved_actions (Some (map ActionEnum as)) = Inr (set as)"
  by (auto simp: parse_approved_actions_eq image_iff)

lemma parse_none [simp]: "parse_approved_actions None = Inr {}"
  by (simp add: parse_approved_actions_def)

lemma validate_ok_iff:
  "validate_approval_action_request requested known rejected = Inr u \<longleftrightarrow>
     requested \<subseteq> known \<and> requested \<inter> rejected = {}"
  by (auto simp: validate_approval_action_request_def raise_if_actions_outside_allowed_set_def
      raise_if_actions_previously_rejected_def Let_def)

lemma set_pending_positions:
  "set (pending_positions r) =
     {i. i < length (approvals r) \<and> ar_status (approvals r ! i) = Ap_PENDING}"
  by (auto simp: pending_positions_def)

lemma distinct_pending_positions [simp]: "distinct (pending_positions r)"
  by (simp add: pending_positions_def)

lemma actions_with_iff:
  "a \<in> actions_with s r \<longleftrightarrow> (\<exists>x \<in> set (approvals r). ar_status x = s \<and> ar_action_type x = a)"
  by (auto simp: actions_with_def)

lemma pending_positions_types:
  "(\<lambda>i. ar_action_type (approvals r ! i)) ` set (pending_positions r) = actions_with Ap_PENDING r"
  by (force simp: set_pending_positions actions_with_iff in_set_conv_nth)

lemma pending_positions_empty_iff: "pending_positions r = [] \<longleftrightarrow> actions_with Ap_PENDING r = {}"
  using pending_positions_types[of r] by auto

lemma transition_cases:
  "transition env s actor reason r = Inr r' \<Longrightarrow>
     (rec_status r = s \<and> r' = r) \<or> (can_transition (rec_status r) s \<and> rec_status r' = s)"
  by (auto simp: transition_def record_event_def Let_def split: if_splits)

lemma transition_ok_iff:
  "(\<exists>r'. transition env s actor reason r = Inr r') \<longleftrightarrow>
     rec_status r = s \<or> can_transition (rec_status r) s"
  by (simp add: transition_def Let_def)

end
