(* ===== verification/Orchestrator.thy ===== *)
theory Orchestrator
  imports Record_Ops
begin

text \<open>
  The task loop and the public handlers of \<open>PMOrchestrator\<close>
  (\<open>app/orchestrator/service.py\<close>). A handler works on the copy of the record that the
  repository gave it and either raises or returns; on every path it saves the record at
  most once, right before it raises or returns. Its outcome is therefore the record it
  saves, if any, with the exception or the result.
\<close>

type_synonym 'a outcome = "project_record option \<times> (orch_error + 'a)"

definition raise_error :: "orch_error \<Rightarrow> 'a outcome" where
  "raise_error e = (None, Inl e)"

definition return_only :: "'a \<Rightarrow> 'a outcome" where
  "return_only x = (None, Inr x)"

definition save_and_raise :: "project_record \<Rightarrow> orch_error \<Rightarrow> 'a outcome" where
  "save_and_raise r e = (Some r, Inl e)"

definition save_and_return :: "project_record \<Rightarrow> 'a \<Rightarrow> 'a outcome" where
  "save_and_return r x = (Some r, Inr x)"

lemmas outcome_defs = raise_error_def return_only_def save_and_raise_def save_and_return_def

section \<open>The plan\<close>

definition build_plan :: "task list" where
  "build_plan =
    [\<lparr>t_id = ''task-research'', t_title = ''Research baseline'', t_department = D_RESEARCH,
      t_status = T_PENDING, t_depends_on = [], t_note = ''''\<rparr>,
     \<lparr>t_id = ''task-design'', t_title = ''Design architecture'', t_department = D_DESIGN,
      t_status = T_PENDING, t_depends_on = [''task-research''], t_note = ''''\<rparr>,
     \<lparr>t_id = ''task-build'', t_title = ''Build scaffold'', t_department = D_BUILD,
      t_status = T_PENDING, t_depends_on = [''task-design''], t_note = ''''\<rparr>,
     \<lparr>t_id = ''task-trend'', t_title = ''Trend analysis'', t_department = D_TREND,
      t_status = T_PENDING, t_depends_on = [''task-design''], t_note = ''''\<rparr>,
     \<lparr>t_id = ''task-review'', t_title = ''Review output'', t_department = D_REVIEW,
      t_status = T_PENDING, t_depends_on = [''task-build'', ''task-trend''], t_note = ''''\<rparr>]"

definition revision_resume_next_steps :: "string list" where
  "revision_resume_next_steps =
     [''Use revision resume API to continue with replanning/rebuilding/rereview.'']"

definition replanning_start_next_steps :: "string list" where
  "replanning_start_next_steps =
     [''Call replanning start API to begin execution from ready_for_planning.'']"

section \<open>The task loop\<close>

datatype step_result =
    Continue project_record bool bool \<comment> \<open>record, review ran, review of this cycle failed\<close>
  | Paused project_record "string list"
  | Failed orch_error

definition simulated_finding :: string where
  "simulated_finding = ''Simulated review failure for rollback flow test.''"

definition simulate_failure :: "review \<Rightarrow> review" where
  "simulate_failure rv =
     rv\<lparr>rv_verdict := ''changes_requested'',
        rv_findings := (if simulated_finding \<in> set (rv_findings rv) then rv_findings rv
                        else rv_findings rv @ [simulated_finding])\<rparr>"

definition pause_next_steps :: "string list" where
  "pause_next_steps =
     [''Approve action `external_api_send`.'',
      ''Call approval resume API with `approved_actions=['' @ quoted ''external_api_send'' @ '']`.'']"

definition approval_checkpoint :: "project_record \<Rightarrow> checkpoint" where
  "approval_checkpoint r =
     \<lparr>c_id = ''checkpoint-approval-'' @ rec_id r, c_name = ''External provider approval'',
      c_approved = False, c_approver = ''human'',
      c_note = ''Approve `external_api_send` to continue trend analysis.''\<rparr>"

text \<open>The branch of the trend task that waits for a human approval.\<close>

definition pause_for_approval ::
  "runtime \<Rightarrow> string \<Rightarrow> actor_context \<Rightarrow> nat \<Rightarrow> project_record \<Rightarrow> step_result" where
  "pause_for_approval env uuid actor i r =
    (let approval_action = EXTERNAL_API_SEND;
         r1 = set_task_status env i T_WAITING_APPROVAL actor
                ''Required action approval is missing.'' r;
         pending_same_action =
           list_ex (\<lambda>a. ar_action_type a = approval_action \<and> ar_status a = Ap_PENDING)
             (approvals r1);
         request = create_request uuid approval_action
                     ''Trend analysis with external provider requires human approval.''
                     (Some system_actor);
         r2 = (if pending_same_action then r1
               else record_event env Ev_APPROVAL_REQUESTED (Some system_actor) (ar_reason request)
                      [(''action_type'', JStr (approval_action_type_value approval_action))]
                      (r1\<lparr>approvals := approvals r1 @ [request]\<rparr>));
         r3 = upsert_checkpoint (approval_checkpoint r2) r2
     in case transition env P_WAITING_APPROVAL actor ''Execution paused for approval.'' r3 of
          Inl e \<Rightarrow> Failed e
        | Inr r4 \<Rightarrow> Paused r4 pause_next_steps)"

text \<open>The gate in front of an external provider.\<close>

definition needs_approval ::
  "trend_provider \<Rightarrow> approval_action_type set \<Rightarrow> bool" where
  "needs_approval provider approved \<longleftrightarrow>
     py_lower (py_strip (provider_name provider)) \<noteq> ''mock'' \<and>
     requires_human_approval EXTERNAL_API_SEND \<and> EXTERNAL_API_SEND \<notin> approved"

definition execute_task ::
  "runtime \<Rightarrow> string \<Rightarrow> trend_provider \<Rightarrow> approval_action_type set \<Rightarrow> bool \<Rightarrow> actor_context \<Rightarrow>
   nat \<Rightarrow> project_record \<Rightarrow> bool \<Rightarrow> bool \<Rightarrow> step_result" where
  "execute_task env uuid provider approved simulate actor i r review_ran cycle_failed =
    (if t_status (tasks r ! i) = T_DONE then Continue r review_ran cycle_failed
     else
       (let r1 = set_task_status env i T_IN_PROGRESS actor '''' r;
            t = tasks r1 ! i;
            brief = p_brief (project r1);
            finish = set_task_status env i T_DONE actor ''''
        in case t_department t of
             D_RESEARCH \<Rightarrow>
               Continue (finish (upsert_artifact (ResearchAgent_run t brief) r1)) review_ran cycle_failed
           | D_DESIGN \<Rightarrow>
               Continue (finish (upsert_artifact (DesignAgent_run t brief) r1)) review_ran cycle_failed
           | D_BUILD \<Rightarrow>
               Continue (finish (upsert_artifact (BuildAgent_run t brief) r1)) review_ran cycle_failed
           | D_TREND \<Rightarrow>
               if needs_approval provider approved then pause_for_approval env uuid actor i r1
               else Continue (finish (upsert_artifact (TrendAgent_run provider t brief) r1))
                      review_ran cycle_failed
           | D_REVIEW \<Rightarrow>
               (let rv0 = ReviewAgent_run t (artifacts r1);
                    rv = (if simulate then simulate_failure rv0 else rv0)
                in Continue (finish (r1\<lparr>reviews := reviews r1 @ [rv]\<rparr>)) True
                     (rv_verdict rv = ''changes_requested''))))"

fun execute_tasks ::
  "runtime \<Rightarrow> string \<Rightarrow> trend_provider \<Rightarrow> approval_action_type set \<Rightarrow> bool \<Rightarrow> actor_context \<Rightarrow>
   nat list \<Rightarrow> project_record \<Rightarrow> bool \<Rightarrow> bool \<Rightarrow> step_result" where
  "execute_tasks env uuid provider approved simulate actor [] r review_ran cycle_failed =
     Continue r review_ran cycle_failed"
| "execute_tasks env uuid provider approved simulate actor (i # is) r review_ran cycle_failed =
     (case execute_task env uuid provider approved simulate actor i r review_ran cycle_failed of
        Continue r' review_ran' cycle_failed' \<Rightarrow>
          execute_tasks env uuid provider approved simulate actor is r' review_ran' cycle_failed'
      | Paused r' steps \<Rightarrow> Paused r' steps
      | Failed e \<Rightarrow> Failed e)"

definition delivery_checkpoint :: "project_record \<Rightarrow> checkpoint" where
  "delivery_checkpoint r =
     \<lparr>c_id = ''checkpoint-'' @ rec_id r, c_name = ''Delivery checkpoint'', c_approved = True,
      c_approver = ''system'', c_note = ''Auto-approved for deterministic scaffold run.''\<rparr>"

definition review_failed_next_steps :: "string list" where
  "review_failed_next_steps =
     [''Use revision resume API with `resume_mode`.'',
      ''Provide revision reason and actor for audit logging.'']"

definition completed_next_steps :: "string list" where
  "completed_next_steps =
     [''Connect real provider APIs with approval gate.'',
      ''Move DB bootstrap SQL to managed migrations.'']"

text \<open>What follows the loop: the revision lane after a failed review, or the delivery.\<close>

definition finish_execution ::
  "runtime \<Rightarrow> actor_context \<Rightarrow> project_record \<Rightarrow> bool \<Rightarrow> bool \<Rightarrow> orchestration_result outcome" where
  "finish_execution env actor r review_ran cycle_failed =
    (if review_ran \<and> cycle_failed then
       (case res_bind
               (transition env P_REVIEW_FAILED actor ''Review returned blocking findings.'' r)
               (transition env P_REVISION_REQUESTED actor
                  ''Revision requested after review failure.'') of
          Inl e \<Rightarrow> raise_error e
        | Inr r1 \<Rightarrow>
            (let r2 = record_event env Ev_REVISION_REQUESTED (Some actor)
                        ''Review requested revisions.'' [] r1
             in save_and_return r2 (summary r2 review_failed_next_steps)))
     else
       (case transition env P_COMPLETED actor
               ''Execution finished without blocking review findings.''
               (upsert_checkpoint (delivery_checkpoint r) r) of
          Inl e \<Rightarrow> raise_error e
        | Inr r1 \<Rightarrow> save_and_return r1 (summary r1 completed_next_steps)))"

definition provider_or_raise :: "runtime \<Rightarrow> string \<Rightarrow> orch_error + trend_provider" where
  "provider_or_raise env name =
     (case get_trend_provider (getenv env ''TREND_PROVIDER_STRICT'') None (Some name) of
        Inl msg \<Rightarrow> Inl (ValueErr msg)
      | Inr p \<Rightarrow> Inr p)"

definition execute_pending_tasks ::
  "runtime \<Rightarrow> string \<Rightarrow> string \<Rightarrow> approval_action_type set \<Rightarrow> bool \<Rightarrow> actor_context \<Rightarrow>
   project_record \<Rightarrow> orchestration_result outcome" where
  "execute_pending_tasks env uuid trend_provider_name approved simulate actor r =
    (case provider_or_raise env trend_provider_name of
       Inl e \<Rightarrow> raise_error e
     | Inr provider \<Rightarrow>
         (case execute_tasks env uuid provider approved simulate actor [0..<length (tasks r)] r
                 False False of
            Failed e \<Rightarrow> raise_error e
          | Paused r' steps \<Rightarrow> save_and_return r' (summary r' steps)
          | Continue r' review_ran cycle_failed \<Rightarrow> finish_execution env actor r' review_ran cycle_failed))"

section \<open>Starting a project\<close>

definition new_record :: "runtime \<Rightarrow> project_brief \<Rightarrow> project_policy option \<Rightarrow> project_record" where
  "new_record env brief policy =
     \<lparr>project = \<lparr>p_id = uuid4 env 0, p_brief = brief,
                  p_policy = (case policy of None \<Rightarrow> default_project_policy | Some p \<Rightarrow> p),
                  p_status = P_DRAFT\<rparr>,
      tasks = build_plan, artifacts = [], reviews = [], checkpoints = [], approvals = [],
      history = [], events = []\<rparr>"

definition start_execution :: "runtime \<Rightarrow> project_record \<Rightarrow> orch_error + project_record" where
  "start_execution env r =
     res_bind (transition env P_INTAKE_PENDING system_actor ''Brief intake started.'' r) (\<lambda>r1.
     res_bind (transition env P_READY_FOR_PLANNING system_actor ''Brief accepted for planning.'' r1)
       (transition env P_IN_PROGRESS system_actor ''Execution started.''))"

definition run ::
  "runtime \<Rightarrow> project_brief \<Rightarrow> project_policy option \<Rightarrow> string \<Rightarrow> action_arg list option \<Rightarrow> bool \<Rightarrow>
   orchestration_result outcome" where
  "run env brief policy trend_provider_name approved simulate =
    (case parse_approved_actions approved of
       Inl e \<Rightarrow> raise_error e
     | Inr approved_action_set \<Rightarrow>
         (case start_execution env (new_record env brief policy) of
            Inl e \<Rightarrow> raise_error e
          | Inr r \<Rightarrow>
              execute_pending_tasks env (uuid4 env 1) trend_provider_name approved_action_set
                simulate system_actor r))"

section \<open>Authentication events\<close>

definition record_authentication_success ::
  "runtime \<Rightarrow> actor_context \<Rightarrow> project_record \<Rightarrow> unit outcome" where
  "record_authentication_success env actor r =
     (let r1 = record_event env Ev_AUTHENTICATION_SUCCEEDED (Some actor)
                 ''Authentication succeeded.'' [] r;
          r2 = record_event env Ev_ACTOR_RESOLVED (Some actor)
                 ''Actor resolved from authentication context.'' [] r1
      in save_and_return r2 ())"

definition record_authentication_failure ::
  "runtime \<Rightarrow> string \<Rightarrow> project_record \<Rightarrow> unit outcome" where
  "record_authentication_failure env reason r =
     save_and_return
       (record_event env Ev_AUTHENTICATION_FAILED
          (Some \<lparr>actor_id = ''anonymous'', actor_role = VIEWER, actor_type = HUMAN\<rparr>) reason [] r)
       ()"

section \<open>Idempotent answers and state checks\<close>

definition invalid_state_error :: "project_status \<Rightarrow> project_status \<Rightarrow> orch_error" where
  "invalid_state_error expected_status current_status =
     ValueErr (''Project is not in '' @ project_status_value expected_status
               @ '' state (current: '' @ project_status_value current_status @ '').'')"

fun first_result :: "(orch_error + 'a option) list \<Rightarrow> orch_error + 'a option" where
  "first_result [] = Inr None"
| "first_result (Inl e # hs) = Inl e"
| "first_result (Inr (Some x) # hs) = Inr (Some x)"
| "first_result (Inr None # hs) = first_result hs"

definition resolve_result_or_raise_invalid_state ::
  "project_record \<Rightarrow> project_status \<Rightarrow> (orch_error + orchestration_result option) list \<Rightarrow>
   orch_error + orchestration_result option" where
  "resolve_result_or_raise_invalid_state r expected_status handlers =
    (if rec_status r = expected_status then Inr None
     else case first_result handlers of
            Inl e \<Rightarrow> Inl e
          | Inr (Some x) \<Rightarrow> Inr (Some x)
          | Inr None \<Rightarrow> Inl (invalid_state_error expected_status (rec_status r)))"

definition idempotent_resume_from_approval_if_completed ::
  "project_record \<Rightarrow> approval_action_type set \<Rightarrow> orch_error + orchestration_result option" where
  "idempotent_resume_from_approval_if_completed r approved_action_set =
    (if rec_status r \<noteq> P_COMPLETED then Inr None
     else
       (let st = approval_action_state_of r
        in if known_actions st = {} then Inr None
           else res_bind
                  (validate_approval_action_request approved_action_set (known_actions st)
                     (rejected_actions st))
                  (\<lambda>_. Inr
                     (if pending_approvals st = [] \<and> approved_action_set \<subseteq> approved_actions st
                      then Some (summary r
                        [''Project already completed; approval resume request treated as idempotent.''])
                      else None))))"

definition idempotent_reject_if_revision_requested ::
  "project_record \<Rightarrow> approval_action_type set \<Rightarrow> orch_error + orchestration_result option" where
  "idempotent_reject_if_revision_requested r rejected_action_set =
    (if rec_status r \<noteq> P_REVISION_REQUESTED then Inr None
     else
       (let st = approval_action_state_of r
        in res_bind
             (raise_if_actions_outside_allowed_set rejected_action_set (rejected_actions st)
                ''Cannot reject non-pending action(s)'')
             (\<lambda>_. Inr
                (if rejected_action_set \<noteq> {} \<and> rejected_action_set \<subseteq> rejected_actions st
                 then Some (summary r revision_resume_next_steps) else None))))"

definition idempotent_resume_from_revision_if_ready_for_planning ::
  "project_record \<Rightarrow> revision_resume_mode \<Rightarrow> orchestration_result option" where
  "idempotent_resume_from_revision_if_ready_for_planning r resume_mode =
    (if rec_status r = P_READY_FOR_PLANNING \<and> resume_mode = REPLANNING
     then Some (summary r replanning_start_next_steps) else None)"

definition has_event :: "history_event_type \<Rightarrow> string option \<Rightarrow> project_record \<Rightarrow> bool" where
  "has_event event_type mode r =
     list_ex (\<lambda>e. e_event_type e = event_type \<and>
       (case mode of None \<Rightarrow> True | Some m \<Rightarrow> map_of (e_metadata e) ''mode'' = Some (JStr m)))
       (events r)"

definition idempotent_if_completed_with_event ::
  "project_record \<Rightarrow> history_event_type \<Rightarrow> string \<Rightarrow> string option \<Rightarrow> orchestration_result option"
  where
  "idempotent_if_completed_with_event r event_type next_step mode =
    (if rec_status r \<noteq> P_COMPLETED then None
     else if \<not> has_event event_type mode r then None
     else Some (summary r [next_step]))"

definition idempotent_resume_from_revision_if_completed ::
  "project_record \<Rightarrow> revision_resume_mode \<Rightarrow> orchestration_result option" where
  "idempotent_resume_from_revision_if_completed r resume_mode =
     idempotent_if_completed_with_event r Ev_RESUME_TRIGGERED
       ''Project already completed; revision resume request treated as idempotent.''
       (Some (revision_resume_mode_value resume_mode))"

definition idempotent_start_replanning_if_completed ::
  "project_record \<Rightarrow> orchestration_result option" where
  "idempotent_start_replanning_if_completed r =
     idempotent_if_completed_with_event r Ev_REPLANNING_STARTED
       ''Project already completed; replanning start request treated as idempotent.'' None"

definition record_resume_triggered ::
  "runtime \<Rightarrow> actor_context \<Rightarrow> string \<Rightarrow> string \<Rightarrow> json dict \<Rightarrow> project_record \<Rightarrow> project_record"
  where
  "record_resume_triggered env actor mode reason metadata r =
     record_event env Ev_RESUME_TRIGGERED (Some actor) reason
       (dict_update [(''mode'', JStr mode)] metadata) r"

section \<open>Resuming after an approval\<close>

text \<open>The handler for a completed project: an empty action set is refused.\<close>

definition approval_completed_idempotent_handler ::
  "project_record \<Rightarrow> action_arg list option \<Rightarrow> orch_error + orchestration_result option" where
  "approval_completed_idempotent_handler r approved =
    (if rec_status r = P_COMPLETED then
       res_bind (parse_approved_actions approved) (\<lambda>approved_action_set.
         if approved_action_set = {} then Inl (ValueErr ''approved_actions is required.'')
         else idempotent_resume_from_approval_if_completed r approved_action_set)
     else Inr None)"

definition approve_note :: "string \<Rightarrow> string" where
  "approve_note note_clean =
     str_or note_clean ''Approved `external_api_send` to continue trend analysis.''"

definition approve_one ::
  "runtime \<Rightarrow> actor_context \<Rightarrow> string \<Rightarrow> approval_action_type set \<Rightarrow> nat \<Rightarrow> project_record \<Rightarrow>
   project_record" where
  "approve_one env actor note_clean actions_to_approve i r =
    (let a = approvals r ! i
     in if ar_action_type a \<in> actions_to_approve then
          record_event env Ev_APPROVAL_APPROVED (Some actor)
            (str_or note_clean ''Approval granted.'')
            [(''action_type'', JStr (approval_action_type_value (ar_action_type a)))]
            (update_approval_checkpoint True (actor_id actor) (Some (approve_note note_clean))
              (set_approval i Ap_APPROVED (actor_id actor) note_clean r))
        else r)"

definition approve_pending ::
  "runtime \<Rightarrow> actor_context \<Rightarrow> string \<Rightarrow> approval_action_type set \<Rightarrow> nat list \<Rightarrow> project_record \<Rightarrow>
   project_record" where
  "approve_pending env actor note_clean actions_to_approve positions r =
     fold (approve_one env actor note_clean actions_to_approve) positions r"

text \<open>The answer when pending actions are left: the partial approval is saved, if there was one.\<close>

definition partial_approval ::
  "runtime \<Rightarrow> actor_context \<Rightarrow> string \<Rightarrow> approval_action_type set \<Rightarrow> approval_action_type set \<Rightarrow>
   project_record \<Rightarrow> orchestration_result outcome" where
  "partial_approval env actor note_clean actions_to_approve missing_actions r =
    (let (missing, payload) = formatted_missing_actions missing_actions;
         steps = [''Approve remaining action(s): '' @ missing @ ''.'',
                  ''Call approval resume API with `approved_actions=['' @ payload @ '']`.'']
     in if actions_to_approve \<noteq> {} then
          (let r1 = record_resume_triggered env actor ''approval_resume_partial''
                      (str_or note_clean ''Partial approval recorded.'')
                      [(''missing_actions'', JStr missing)] r
           in save_and_return r1 (summary r1 steps))
        else return_only (summary r steps))"

text \<open>The answer when nothing is left to approve: waiting tasks are released and run.\<close>

definition release_waiting_tasks :: "runtime \<Rightarrow> actor_context \<Rightarrow> project_record \<Rightarrow> project_record"
  where
  "release_waiting_tasks env actor =
     for_tasks (\<lambda>i r. if t_status (tasks r ! i) = T_WAITING_APPROVAL
                      then set_task_status env i T_PENDING actor '''' r else r)"

definition full_approval ::
  "runtime \<Rightarrow> actor_context \<Rightarrow> string \<Rightarrow> string \<Rightarrow> approval_action_type set \<Rightarrow> project_record \<Rightarrow>
   orchestration_result outcome" where
  "full_approval env actor note_clean trend_provider_name effective r =
    (let r1 = release_waiting_tasks env actor r;
         r2 = record_resume_triggered env actor ''approval_resume''
                (str_or note_clean ''Approval resume requested.'') [] r1
     in case transition env P_IN_PROGRESS actor ''Approval requirements satisfied.'' r2 of
          Inl e \<Rightarrow> raise_error e
        | Inr r3 \<Rightarrow>
            execute_pending_tasks env (uuid4 env 0) trend_provider_name effective False actor r3)"

definition resume_from_approval ::
  "runtime \<Rightarrow> action_arg list option \<Rightarrow> actor_arg \<Rightarrow> string \<Rightarrow> string \<Rightarrow> py_ids dict option \<Rightarrow>
   project_record \<Rightarrow> orchestration_result outcome" where
  "resume_from_approval env approved actor note trend_provider_name ids r =
    (let actor_context = coerce_actor actor APPROVER HUMAN;
         note_clean = normalize_text note
     in case resolve_result_or_raise_invalid_state r P_WAITING_APPROVAL
               [approval_completed_idempotent_handler r approved] of
          Inl e \<Rightarrow> raise_error e
        | Inr (Some result) \<Rightarrow> return_only result
        | Inr None \<Rightarrow>
            (case parse_approved_actions approved of
               Inl e \<Rightarrow> raise_error e
             | Inr approved_action_set \<Rightarrow>
                 if approved_action_set = {}
                 then raise_error (ValueErr ''approved_actions is required.'')
                 else
                   (let st = approval_action_state_of r
                    in if pending_approvals st = []
                       then raise_error (ValueErr ''No pending approvals found.'')
                       else
                         (case validate_approval_action_request approved_action_set
                                 (known_actions st) (rejected_actions st) of
                            Inl e \<Rightarrow> raise_error e
                          | Inr _ \<Rightarrow>
                              (let actions_to_approve = approved_action_set - approved_actions st;
                                   missing_actions = pending_action_types st - approved_action_set
                               in case (if actions_to_approve \<noteq> {}
                                        then authorize_actions_or_raise env actor_context ids
                                               actions_to_approve r
                                        else Inr r) of
                                    Inl (r1, e) \<Rightarrow> save_and_raise r1 e
                                  | Inr r1 \<Rightarrow>
                                      (let r2 = approve_pending env actor_context note_clean
                                                  actions_to_approve (pending_approvals st) r1
                                       in if missing_actions \<noteq> {}
                                          then partial_approval env actor_context note_clean
                                                 actions_to_approve missing_actions r2
                                          else full_approval env actor_context note_clean
                                                 trend_provider_name
                                                 (approved_actions st \<union> actions_to_approve) r2))))))"

section \<open>Rejecting an approval\<close>

definition revision_requested_idempotent_handler ::
  "project_record \<Rightarrow> action_arg list option \<Rightarrow> orch_error + orchestration_result option" where
  "revision_requested_idempotent_handler r rejected =
    (if rec_status r = P_REVISION_REQUESTED then
       res_bind (parse_approved_actions rejected) (\<lambda>s.
         idempotent_reject_if_revision_requested r
           (if s = {} then rejected_actions (approval_action_state_of r) else s))
     else Inr None)"

definition reject_pending ::
  "runtime \<Rightarrow> actor_context \<Rightarrow> string \<Rightarrow> string \<Rightarrow> approval_action_type set \<Rightarrow> nat list \<Rightarrow>
   project_record \<Rightarrow> project_record" where
  "reject_pending env actor reason note rejected_action_set positions r =
     fold (\<lambda>i r. reject_approval_request env i actor reason note
                   (ar_action_type (approvals r ! i) \<notin> rejected_action_set) r) positions r"

definition reject_waiting_tasks ::
  "runtime \<Rightarrow> actor_context \<Rightarrow> string \<Rightarrow> project_record \<Rightarrow> project_record" where
  "reject_waiting_tasks env actor reason =
     for_tasks (\<lambda>i r. if t_status (tasks r ! i) = T_WAITING_APPROVAL
                      then set_task_note i reason
                             (set_task_status env i T_REVISION_REQUESTED actor
                                ''Approval rejected.'' r)
                      else r)"

definition reject_approval ::
  "runtime \<Rightarrow> action_arg list option \<Rightarrow> actor_arg \<Rightarrow> string \<Rightarrow> string \<Rightarrow> py_ids dict option \<Rightarrow>
   project_record \<Rightarrow> orchestration_result outcome" where
  "reject_approval env rejected actor reason note ids r =
    (let actor_context = coerce_actor actor APPROVER HUMAN;
         reason_clean = normalize_text reason;
         note_clean = normalize_text note
     in if reason_clean = ''''
        then raise_error (ValueErr ''reason is required for approval rejection.'')
        else
          (case resolve_result_or_raise_invalid_state r P_WAITING_APPROVAL
                  [revision_requested_idempotent_handler r rejected] of
             Inl e \<Rightarrow> raise_error e
           | Inr (Some result) \<Rightarrow> return_only result
           | Inr None \<Rightarrow>
               (let st = approval_action_state_of r
                in if pending_approvals st = []
                   then raise_error (ValueErr ''No pending approvals found.'')
                   else
                     (case parse_approved_actions rejected of
                        Inl e \<Rightarrow> raise_error e
                      | Inr parsed \<Rightarrow>
                          (let pending_action_set = pending_action_types st;
                               rejected_action_set =
                                 (if parsed = {} then pending_action_set else parsed)
                           in case raise_if_actions_outside_allowed_set rejected_action_set
                                     pending_action_set ''Cannot reject non-pending action(s)'' of
                                Inl e \<Rightarrow> raise_error e
                              | Inr _ \<Rightarrow>
                                  (case authorize_actions_or_raise env actor_context ids
                                          pending_action_set r of
                                     Inl (r1, e) \<Rightarrow> save_and_raise r1 e
                                   | Inr r1 \<Rightarrow>
                                       (let r2 = reject_waiting_tasks env actor_context reason_clean
                                                   (reject_pending env actor_context reason_clean
                                                      note_clean rejected_action_set
                                                      (pending_approvals st) r1)
                                        in case transition env P_REVISION_REQUESTED actor_context
                                                  ''Approval rejected; moved to revision lane.'' r2 of
                                             Inl e \<Rightarrow> raise_error e
                                           | Inr r3 \<Rightarrow>
                                               save_and_return r3
                                                 (summary r3 revision_resume_next_steps))))))))"

section \<open>Resuming after a revision request\<close>

fun revision_resume_config ::
  "revision_resume_mode \<Rightarrow> department set \<times> string \<times> project_status \<times> string" where
  "revision_resume_config REPLANNING =
     ({D_DESIGN, D_BUILD, D_TREND, D_REVIEW}, ''Replanning requested.'', P_READY_FOR_PLANNING,
      ''Moved back to planning lane.'')"
| "revision_resume_config REBUILDING =
     ({D_BUILD, D_TREND, D_REVIEW}, ''Rebuilding requested.'', P_IN_PROGRESS,
      ''Rebuild flow resumed.'')"
| "revision_resume_config REREVIEW =
     ({D_REVIEW}, ''Re-review requested.'', P_IN_PROGRESS, ''Re-review flow resumed.'')"

definition resume_revision_with_transition ::
  "runtime \<Rightarrow> actor_context \<Rightarrow> string \<Rightarrow> department set \<Rightarrow> string \<Rightarrow> project_status \<Rightarrow> string \<Rightarrow>
   project_record \<Rightarrow> orch_error + project_record" where
  "resume_revision_with_transition env actor reason_clean departments task_reset_reason
     next_status transition_reason r =
     transition env next_status actor (str_or reason_clean transition_reason)
       (reset_tasks_for_departments env departments T_PENDING actor task_reset_reason True
          reason_clean r)"

definition resume_revision_for_mode ::
  "runtime \<Rightarrow> actor_context \<Rightarrow> string \<Rightarrow> revision_resume_mode \<Rightarrow> string \<Rightarrow> action_arg list option \<Rightarrow>
   project_record \<Rightarrow> orchestration_result outcome" where
  "resume_revision_for_mode env actor reason_clean resume_mode trend_provider_name approved r =
    (let (departments, task_reset_reason, next_status, transition_reason) =
           revision_resume_config resume_mode
     in case resume_revision_with_transition env actor reason_clean departments
               task_reset_reason next_status transition_reason r of
          Inl e \<Rightarrow> raise_error e
        | Inr r1 \<Rightarrow>
            if next_status = P_READY_FOR_PLANNING
            then save_and_return r1 (summary r1 replanning_start_next_steps)
            else (case parse_approved_actions approved of
                    Inl e \<Rightarrow> raise_error e
                  | Inr approved_action_set \<Rightarrow>
                      execute_pending_tasks env (uuid4 env 0) trend_provider_name
                        approved_action_set False actor r1))"

definition resume_from_revision ::
  "runtime \<Rightarrow> revision_resume_mode \<Rightarrow> actor_arg \<Rightarrow> string \<Rightarrow> string \<Rightarrow> action_arg list option \<Rightarrow>
   project_record \<Rightarrow> orchestration_result outcome" where
  "resume_from_revision env resume_mode actor reason trend_provider_name approved r =
    (let actor_context = coerce_actor actor OPERATOR HUMAN;
         reason_clean = normalize_text reason
     in case resolve_result_or_raise_invalid_state r P_REVISION_REQUESTED
               [Inr (idempotent_resume_from_revision_if_ready_for_planning r resume_mode),
                Inr (idempotent_resume_from_revision_if_completed r resume_mode)] of
          Inl e \<Rightarrow> raise_error e
        | Inr (Some result) \<Rightarrow> return_only result
        | Inr None \<Rightarrow>
            resume_revision_for_mode env actor_context reason_clean resume_mode
              trend_provider_name approved
              (record_resume_triggered env actor_context (revision_resume_mode_value resume_mode)
                 (str_or reason_clean ''Revision resume requested.'') [] r))"

section \<open>Starting a replanned execution\<close>

definition start_replanning ::
  "runtime \<Rightarrow> actor_arg \<Rightarrow> string \<Rightarrow> string \<Rightarrow> action_arg list option \<Rightarrow> bool \<Rightarrow>
   project_record \<Rightarrow> orchestration_result outcome" where
  "start_replanning env actor note trend_provider_name approved reset_downstream_tasks r =
    (let actor_context = coerce_actor actor OPERATOR HUMAN;
         note_clean = normalize_text note
     in case resolve_result_or_raise_invalid_state r P_READY_FOR_PLANNING
               [Inr (idempotent_start_replanning_if_completed r)] of
          Inl e \<Rightarrow> raise_error e
        | Inr (Some result) \<Rightarrow> return_only result
        | Inr None \<Rightarrow>
            (let r1 = (if reset_downstream_tasks
                       then reset_tasks_for_departments env {D_DESIGN, D_BUILD, D_TREND, D_REVIEW}
                              T_PENDING actor_context ''Replanning start reset.'' False '''' r
                       else r);
                 r2 = record_event env Ev_REPLANNING_STARTED (Some actor_context)
                        (str_or note_clean ''Replanning execution started.'')
                        [(''reset_downstream_tasks'', JBool reset_downstream_tasks)] r1
             in case transition env P_IN_PROGRESS actor_context
                       ''Replanning execution moved to in_progress.'' r2 of
                  Inl e \<Rightarrow> raise_error e
                | Inr r3 \<Rightarrow>
                    (case parse_approved_actions approved of
                       Inl e \<Rightarrow> raise_error e
                     | Inr approved_action_set \<Rightarrow>
                         execute_pending_tasks env (uuid4 env 0) trend_provider_name
                           approved_action_set False actor_context r3)))"

section \<open>The audit view\<close>

definition project_audit_of :: "project_record \<Rightarrow> project_audit" where
  "project_audit_of r =
     \<lparr>pa_project_id = rec_id r, pa_status = rec_status r, pa_history = history r,
      pa_events = events r, pa_approvals = approvals r, pa_reviews = reviews r,
      pa_checkpoints = checkpoints r\<rparr>"

definition get_project_audit :: "project_record \<Rightarrow> project_audit outcome" where
  "get_project_audit r = return_only (project_audit_of r)"

end
