(* ===== verification/Record_Edits.thy ===== *)
theory Record_Edits
  imports Orchestrator
begin

text \<open>
  The abstract view of the orchestrator: a relation \<open>edit\<close> with one rule per way a record
  may change, and the invariants of its closure. \<open>Handler_Edits\<close> shows that every handler
  refines it, so what holds of every edit holds of everything the orchestrator saves.
\<close>

section \<open>The edit relation\<close>

inductive edit :: "project_record \<Rightarrow> project_record \<Rightarrow> bool" where
  event: "ty \<noteq> Ev_STATE_TRANSITION \<Longrightarrow> ty \<noteq> Ev_TASK_STATUS_CHANGED \<Longrightarrow>
     edit r (record_event env ty a reason md r)"
| task_status: "i < length (tasks r) \<Longrightarrow> edit r (set_task_status env i st a reason r)"
| task_note: "edit r (set_task_note i note r)"
| artifact: "edit r (upsert_artifact art r)"
| review: "edit r (r\<lparr>reviews := reviews r @ [rv]\<rparr>)"
| checkpoint: "edit r (upsert_checkpoint c r)"
| checkpoint_update: "edit r (update_approval_checkpoint ok who cnote r)"
| request: "ar_status q = Ap_PENDING \<Longrightarrow> edit r (r\<lparr>approvals := approvals r @ [q]\<rparr>)"
| decide: "i < length (approvals r) \<Longrightarrow> ar_status (approvals r ! i) = Ap_PENDING \<Longrightarrow>
     edit r (set_approval i st who dnote r)"
| move: "transition env s actor reason r = Inr r' \<Longrightarrow> edit r r'"

abbreviation edits :: "project_record \<Rightarrow> project_record \<Rightarrow> bool" where
  "edits \<equiv> edit\<^sup>*\<^sup>*"

lemma edits_refl [edit_intros]: "edits r r"
  by simp

lemma edits_step: "edits r0 r \<Longrightarrow> edit r r' \<Longrightarrow> edits r0 r'"
  by (rule rtranclp.rtrancl_into_rtrancl)

lemma edits_trans: "edits r0 r \<Longrightarrow> edits r r' \<Longrightarrow> edits r0 r'"
  by (rule rtranclp_trans)

section \<open>Field laws of the helpers\<close>

lemma record_event_fields [simp]:
  "project (record_event env ty a reason md r) = project r"
  "tasks (record_event env ty a reason md r) = tasks r"
  "artifacts (record_event env ty a reason md r) = artifacts r"
  "reviews (record_event env ty a reason md r) = reviews r"
  "checkpoints (record_event env ty a reason md r) = checkpoints r"
  "approvals (record_event env ty a reason md r) = approvals r"
  "history (record_event env ty a reason md r) = history r"
  by (simp_all add: record_event_def Let_def)

lemma set_task_status_fields [simp]:
  "project (set_task_status env i s a reason r) = project r"
  "artifacts (set_task_status env i s a reason r) = artifacts r"
  "reviews (set_task_status env i s a reason r) = reviews r"
  "checkpoints (set_task_status env i s a reason r) = checkpoints r"
  "approvals (set_task_status env i s a reason r) = approvals r"
  "history (set_task_status env i s a reason r) = history r"
  "length (tasks (set_task_status env i s a reason r)) = length (tasks r)"
  by (simp_all add: set_task_status_def Let_def)

lemma set_task_status_tasks:
  "tasks (set_task_status env i s a reason r) =
     (if t_status (tasks r ! i) = s then tasks r
      else (tasks r)[i := (tasks r ! i)\<lparr>t_status := s\<rparr>])"
  by (simp add: set_task_status_def Let_def)

lemma set_task_status_nth:
  "i < length (tasks r) \<Longrightarrow>
     tasks (set_task_status env i s a reason r) ! j =
       (if j = i then (tasks r ! i)\<lparr>t_status := s\<rparr> else tasks r ! j)"
  by (auto simp: set_task_status_tasks)

lemma set_task_note_fields [simp]:
  "project (set_task_note i n r) = project r"
  "artifacts (set_task_note i n r) = artifacts r"
  "reviews (set_task_note i n r) = reviews r"
  "checkpoints (set_task_note i n r) = checkpoints r"
  "approvals (set_task_note i n r) = approvals r"
  "history (set_task_note i n r) = history r"
  "events (set_task_note i n r) = events r"
  "length (tasks (set_task_note i n r)) = length (tasks r)"
  by (simp_all add: set_task_note_def)

lemma upsert_artifact_fields [simp]:
  "project (upsert_artifact x r) = project r"
  "tasks (upsert_artifact x r) = tasks r"
  "reviews (upsert_artifact x r) = reviews r"
  "checkpoints (upsert_artifact x r) = checkpoints r"
  "approvals (upsert_artifact x r) = approvals r"
  "history (upsert_artifact x r) = history r"
  "events (upsert_artifact x r) = events r"
  "artifacts (upsert_artifact x r) = upsert a_id x (artifacts r)"
  by (simp_all add: upsert_artifact_def)

lemma upsert_checkpoint_fields [simp]:
  "project (upsert_checkpoint c r) = project r"
  "tasks (upsert_checkpoint c r) = tasks r"
  "artifacts (upsert_checkpoint c r) = artifacts r"
  "reviews (upsert_checkpoint c r) = reviews r"
  "approvals (upsert_checkpoint c r) = approvals r"
  "history (upsert_checkpoint c r) = history r"
  "events (upsert_checkpoint c r) = events r"
  "checkpoints (upsert_checkpoint c r) = upsert c_id c (checkpoints r)"
  by (simp_all add: upsert_checkpoint_def)

lemma update_approval_checkpoint_fields [simp]:
  "project (update_approval_checkpoint ok who n r) = project r"
  "tasks (update_approval_checkpoint ok who n r) = tasks r"
  "artifacts (update_approval_checkpoint ok who n r) = artifacts r"
  "reviews (update_approval_checkpoint ok who n r) = reviews r"
  "approvals (update_approval_checkpoint ok who n r) = approvals r"
  "history (update_approval_checkpoint ok who n r) = history r"
  "events (update_approval_checkpoint ok who n r) = events r"
  by (simp_all add: update_approval_checkpoint_def)

lemma update_first_checkpoint_ids [simp]:
  "map c_id (update_first_checkpoint cid ok who n cs) = map c_id cs"
  by (induction cs) auto

lemma set_approval_fields [simp]:
  "project (set_approval i s who n r) = project r"
  "tasks (set_approval i s who n r) = tasks r"
  "artifacts (set_approval i s who n r) = artifacts r"
  "reviews (set_approval i s who n r) = reviews r"
  "checkpoints (set_approval i s who n r) = checkpoints r"
  "history (set_approval i s who n r) = history r"
  "events (set_approval i s who n r) = events r"
  "length (approvals (set_approval i s who n r)) = length (approvals r)"
  by (simp_all add: set_approval_def)

lemma set_approval_nth:
  "i < length (approvals r) \<Longrightarrow>
     approvals (set_approval i s who n r) ! j =
       (if j = i then (approvals r ! i)\<lparr>ar_status := s, ar_requested_by := who,
                                       ar_decision_note := n\<rparr>
        else approvals r ! j)"
  by (simp add: set_approval_def)

lemma transition_fields:
  assumes "transition env s a reason r = Inr r'"
  shows "tasks r' = tasks r" "artifacts r' = artifacts r" "reviews r' = reviews r"
    "checkpoints r' = checkpoints r" "approvals r' = approvals r" "rec_id r' = rec_id r"
    "p_brief (project r') = p_brief (project r)" "p_policy (project r') = p_policy (project r)"
    "rec_status r' = s"
  using assms by (auto simp: transition_def Let_def split: if_splits)

section \<open>The log only grows\<close>

lemma edit_log: "edit r r' \<Longrightarrow> prefix (events r) (events r') \<and> prefix (history r) (history r')"
  by (cases rule: edit.cases)
     (auto simp: record_event_def set_task_status_def transition_def Let_def split: if_splits)

lemma edits_log: "edits r r' \<Longrightarrow> prefix (events r) (events r') \<and> prefix (history r) (history r')"
  by (induction rule: rtranclp_induct) (auto dest: edit_log prefix_order.trans)

section \<open>What no edit changes\<close>

definition task_shape :: "task \<Rightarrow> string \<times> string \<times> department \<times> string list" where
  "task_shape t = (t_id t, t_title t, t_department t, t_depends_on t)"

definition same_frame :: "project_record \<Rightarrow> project_record \<Rightarrow> bool" where
  "same_frame r r' \<longleftrightarrow>
     rec_id r' = rec_id r \<and> p_brief (project r') = p_brief (project r) \<and>
     p_policy (project r') = p_policy (project r) \<and>
     map task_shape (tasks r') = map task_shape (tasks r)"

lemma same_frame_refl [simp]: "same_frame r r"
  by (simp add: same_frame_def)

lemma task_shape_update [simp]:
  "task_shape (t\<lparr>t_status := s\<rparr>) = task_shape t" "task_shape (t\<lparr>t_note := n\<rparr>) = task_shape t"
  by (simp_all add: task_shape_def)

lemma edit_frame: "edit r r' \<Longrightarrow> same_frame r r'"
proof (induction rule: edit.induct)
  case (task_status i r env st a reason)
  then show ?case by (simp add: same_frame_def set_task_status_tasks list_update_map_same)
next
  case (task_note r i n)
  then show ?case by (simp add: same_frame_def set_task_note_def list_update_map_same)
next
  case (move env s actor reason r r')
  then show ?case by (simp add: same_frame_def transition_fields[OF move])
qed (simp_all add: same_frame_def)

lemma edits_frame: "edits r r' \<Longrightarrow> same_frame r r'"
  by (induction rule: rtranclp_induct) (auto simp: same_frame_def dest!: edit_frame)

lemma edits_length_tasks: "edits r r' \<Longrightarrow> length (tasks r') = length (tasks r)"
  by (drule edits_frame) (auto simp: same_frame_def dest: map_eq_imp_length_eq)

section \<open>Approvals are decided once\<close>

definition approvals_kept :: "project_record \<Rightarrow> project_record \<Rightarrow> bool" where
  "approvals_kept r r' \<longleftrightarrow>
     length (approvals r) \<le> length (approvals r') \<and>
     (\<forall>i < length (approvals r).
        ar_id (approvals r' ! i) = ar_id (approvals r ! i) \<and>
        ar_action_type (approvals r' ! i) = ar_action_type (approvals r ! i) \<and>
        ar_reason (approvals r' ! i) = ar_reason (approvals r ! i) \<and>
        (ar_status (approvals r ! i) \<noteq> Ap_PENDING \<longrightarrow> approvals r' ! i = approvals r ! i))"

lemma approvals_kept_same: "approvals r' = approvals r \<Longrightarrow> approvals_kept r r'"
  by (simp add: approvals_kept_def)

lemma edit_approvals: "edit r r' \<Longrightarrow> approvals_kept r r'"
proof (induction rule: edit.induct)
  case (request q r)
  then show ?case by (simp add: approvals_kept_def nth_append)
next
  case (decide i r st who dnote)
  then show ?case by (simp add: approvals_kept_def set_approval_nth)
next
  case (move env s actor reason r r')
  then show ?case by (intro approvals_kept_same) (simp add: transition_fields[OF move])
qed (simp_all add: approvals_kept_same)

lemma approvals_kept_trans:
  "approvals_kept r r' \<Longrightarrow> approvals_kept r' r'' \<Longrightarrow> approvals_kept r r''"
  by (simp add: approvals_kept_def)

lemma edits_approvals: "edits r r' \<Longrightarrow> approvals_kept r r'"
  by (induction rule: rtranclp_induct)
     (auto intro: approvals_kept_same approvals_kept_trans dest: edit_approvals)

section \<open>The history is a walk of the state machine\<close>

definition history_ok :: "project_record \<Rightarrow> bool" where
  "history_ok r \<longleftrightarrow>
     (\<exists>ws. walk_ok P_DRAFT ws \<and> walk_end P_DRAFT ws = rec_status r \<and>
           history r = walk_lines P_DRAFT ws)"

lemma history_ok_same:
  "history_ok r \<Longrightarrow> history r' = history r \<Longrightarrow> rec_status r' = rec_status r \<Longrightarrow> history_ok r'"
  by (simp add: history_ok_def)

lemma history_ok_move:
  assumes "history_ok r" "transition env s actor reason r = Inr r'"
  shows "history_ok r'"
proof (cases "rec_status r = s")
  case True
  with assms show ?thesis by (simp add: transition_def)
next
  case False
  from assms(1) obtain ws where ws: "walk_ok P_DRAFT ws" "walk_end P_DRAFT ws = rec_status r"
    "history r = walk_lines P_DRAFT ws"
    by (auto simp: history_ok_def)
  from assms(2) False have r': "can_transition (rec_status r) s" "rec_status r' = s"
    "history r' = history r @ [project_status_value (rec_status r) @ '' -> '' @
       project_status_value s]"
    by (auto simp: transition_def Let_def split: if_splits)
  show ?thesis
    unfolding history_ok_def
    by (rule exI[of _ "ws @ [s]"]) (simp add: ws r' walk_ok_snoc walk_lines_snoc)
qed

lemma edit_history: "edit r r' \<Longrightarrow> history_ok r \<Longrightarrow> history_ok r'"
  by (induction rule: edit.induct) (auto intro: history_ok_same history_ok_move)

lemma edits_history: "edits r r' \<Longrightarrow> history_ok r \<Longrightarrow> history_ok r'"
  by (induction rule: rtranclp_induct) (auto dest: edit_history)

section \<open>The events determine the statuses\<close>

text \<open>
  Replaying the log: the status changes of the events, in order, from a start state of
  the project and its tasks. That the replay gives the record's own statuses says that no
  status ever changes without an event that says so.
\<close>

definition all_task_statuses :: "task_status list" where
  "all_task_statuses =
     [T_PENDING, T_IN_PROGRESS, T_WAITING_APPROVAL, T_REVISION_REQUESTED, T_DONE, T_BLOCKED]"

definition all_project_statuses :: "project_status list" where
  "all_project_statuses =
     [P_DRAFT, P_INTAKE_PENDING, P_READY_FOR_PLANNING, P_IN_PROGRESS, P_WAITING_APPROVAL,
      P_REVIEW_FAILED, P_REVISION_REQUESTED, P_COMPLETED]"

definition status_in :: "('s \<Rightarrow> string) \<Rightarrow> 's list \<Rightarrow> json option \<Rightarrow> 's option" where
  "status_in value_of all v = List.find (\<lambda>s. v = Some (JStr (value_of s))) all"

lemma status_in_task [simp]:
  "status_in task_status_value all_task_statuses (Some (JStr (task_status_value s))) = Some s"
  by (cases s) (simp_all add: status_in_def all_task_statuses_def)

lemma status_in_project [simp]:
  "status_in project_status_value all_project_statuses (Some (JStr (project_status_value s))) =
     Some s"
  by (cases s) (simp_all add: status_in_def all_project_statuses_def)

definition replay_task :: "history_event \<Rightarrow> (string \<times> task_status) \<Rightarrow> (string \<times> task_status)" where
  "replay_task e p =
     (if e_event_type e = Ev_TASK_STATUS_CHANGED \<and>
         map_of (e_metadata e) ''task_id'' = Some (JStr (fst p))
      then (case status_in task_status_value all_task_statuses (map_of (e_metadata e) ''to'') of
              None \<Rightarrow> p | Some s \<Rightarrow> (fst p, s))
      else p)"

definition replay_status :: "history_event \<Rightarrow> project_status \<Rightarrow> project_status" where
  "replay_status e s =
     (if e_event_type e = Ev_STATE_TRANSITION
      then (case status_in project_status_value all_project_statuses
                  (map_of (e_metadata e) ''to'') of None \<Rightarrow> s | Some t \<Rightarrow> t)
      else s)"

definition replay_tasks :: "history_event list \<Rightarrow> (string \<times> task_status) list \<Rightarrow>
    (string \<times> task_status) list" where
  "replay_tasks es ts = fold (\<lambda>e. map (replay_task e)) es ts"

definition replay_project :: "history_event list \<Rightarrow> project_status \<Rightarrow> project_status" where
  "replay_project es s = fold replay_status es s"

definition task_states :: "task list \<Rightarrow> (string \<times> task_status) list" where
  "task_states ts = map (\<lambda>t. (t_id t, t_status t)) ts"

definition log_complete :: "(string \<times> task_status) list \<Rightarrow> project_record \<Rightarrow> bool" where
  "log_complete ts r \<longleftrightarrow>
     distinct (map t_id (tasks r)) \<and>
     task_states (tasks r) = replay_tasks (events r) ts \<and>
     rec_status r = replay_project (events r) P_DRAFT"

lemma replay_other:
  assumes "ty \<noteq> Ev_STATE_TRANSITION" and "ty \<noteq> Ev_TASK_STATUS_CHANGED"
  shows "replay_tasks (events (record_event env ty a reason md r)) ts = replay_tasks (events r) ts"
    and "replay_project (events (record_event env ty a reason md r)) s = replay_project (events r) s"
  using assms
  by (simp_all add: record_event_def replay_tasks_def replay_project_def replay_task_def
      replay_status_def map_idI Let_def)

lemma log_complete_move:
  assumes "log_complete ts r" and tr: "transition env s actor reason r = Inr r'"
  shows "log_complete ts r'"
proof (cases "rec_status r = s")
  case True
  with assms show ?thesis by (simp add: transition_def)
next
  case False
  with tr have "can_transition (rec_status r) s" by (auto dest: transition_cases)
  with False tr have "tasks r' = tasks r" "rec_status r' = s"
    "replay_tasks (events r') ts = replay_tasks (events r) ts"
    "replay_project (events r') P_DRAFT = s"
    by (auto simp: transition_def record_event_def Let_def replay_tasks_def replay_project_def
        replay_task_def replay_status_def map_idI split: if_splits)
  with assms(1) show ?thesis by (simp add: log_complete_def)
qed

lemma replay_update:
  assumes "distinct (map t_id us)" and "i < length us"
  shows "map (\<lambda>p. if fst p = t_id (us ! i) then (fst p, s) else p) (task_states us) =
           task_states (us[i := (us ! i)\<lparr>t_status := s\<rparr>])"
proof (rule nth_equalityI)
  show "length (map (\<lambda>p. if fst p = t_id (us ! i) then (fst p, s) else p) (task_states us)) =
      length (task_states (us[i := (us ! i)\<lparr>t_status := s\<rparr>]))"
    by (simp add: task_states_def)
next
  fix j assume "j < length (map (\<lambda>p. if fst p = t_id (us ! i) then (fst p, s) else p)
    (task_states us))"
  then have j: "j < length us" by (simp add: task_states_def)
  have "t_id (us ! j) = t_id (us ! i) \<longleftrightarrow> j = i"
    using nth_eq_iff_index_eq[OF assms(1), of j i] j assms(2) by simp
  then show "map (\<lambda>p. if fst p = t_id (us ! i) then (fst p, s) else p) (task_states us) ! j =
      task_states (us[i := (us ! i)\<lparr>t_status := s\<rparr>]) ! j"
    using j assms(2) by (auto simp: task_states_def nth_list_update)
qed

lemma log_complete_task:
  assumes log: "log_complete ts r" and i: "i < length (tasks r)"
  shows "log_complete ts (set_task_status env i s a reason r)"
proof (cases "t_status (tasks r ! i) = s")
  case True
  with log show ?thesis by (simp add: set_task_status_def)
next
  case False
  let ?r' = "set_task_status env i s a reason r"
  from False have ev: "events ?r' = events r @
    [\<lparr>e_event_type = Ev_TASK_STATUS_CHANGED, e_actor = actor_id a, e_actor_role = actor_role a,
      e_actor_type = actor_type a, e_timestamp = clock env (length (events r)),
      e_reason = reason,
      e_metadata = [(''task_id'', JStr (t_id (tasks r ! i))),
        (''from'', JStr (task_status_value (t_status (tasks r ! i)))),
        (''to'', JStr (task_status_value s))]\<rparr>]"
    by (simp add: set_task_status_def record_event_def Let_def)
  have "replay_tasks (events ?r') ts =
      map (\<lambda>p. if fst p = t_id (tasks r ! i) then (fst p, s) else p) (task_states (tasks r))"
    using log by (auto simp: ev replay_tasks_def replay_task_def log_complete_def)
  also have "\<dots> = task_states (tasks ?r')"
    using replay_update[of "tasks r" i s] log i False
    by (simp add: log_complete_def set_task_status_tasks)
  finally have "task_states (tasks ?r') = replay_tasks (events ?r') ts" ..
  moreover have "replay_project (events ?r') P_DRAFT = replay_project (events r) P_DRAFT"
    by (simp add: ev replay_project_def replay_status_def)
  moreover have "distinct (map t_id (tasks ?r'))"
    using log by (simp add: log_complete_def set_task_status_tasks list_update_map_same)
  ultimately show ?thesis using log by (simp add: log_complete_def)
qed

lemma log_complete_same:
  "log_complete ts r \<Longrightarrow> task_states (tasks r') = task_states (tasks r) \<Longrightarrow>
     rec_status r' = rec_status r \<Longrightarrow> events r' = events r \<Longrightarrow> log_complete ts r'"
  unfolding log_complete_def task_states_def
  by (metis (mono_tags, lifting) fst_conv map_map map_eq_conv comp_apply)

lemma edit_log_complete: "edit r r' \<Longrightarrow> log_complete ts r \<Longrightarrow> log_complete ts r'"
proof (induction rule: edit.induct)
  case (event ty r env a reason md)
  then show ?case by (simp add: log_complete_def replay_other)
next
  case (task_note r i n)
  then show ?case
    by (rule log_complete_same)
       (simp_all add: task_states_def set_task_note_def list_update_map_same)
next
  case (move env s actor reason r r')
  then show ?case by (blast intro: log_complete_move)
next
  case (task_status i r env st a reason)
  then show ?case by (blast intro: log_complete_task)
qed (erule log_complete_same, simp_all)+

lemma edits_log_complete: "edits r r' \<Longrightarrow> log_complete ts r \<Longrightarrow> log_complete ts r'"
  by (induction rule: rtranclp_induct) (auto dest: edit_log_complete)

section \<open>Keys stay unique\<close>

definition keys_unique :: "project_record \<Rightarrow> bool" where
  "keys_unique r \<longleftrightarrow>
     distinct (map a_id (artifacts r)) \<and> distinct (map c_id (checkpoints r)) \<and>
     distinct (map t_id (tasks r))"

lemma edit_keys: "edit r r' \<Longrightarrow> keys_unique r \<Longrightarrow> keys_unique r'"
proof (induction rule: edit.induct)
  case (move env s actor reason r r')
  then show ?case by (simp add: keys_unique_def transition_fields[OF move(1)])
qed (auto simp: keys_unique_def set_task_status_tasks set_task_note_def list_update_map_same
    update_approval_checkpoint_def)

lemma edits_keys: "edits r r' \<Longrightarrow> keys_unique r \<Longrightarrow> keys_unique r'"
  by (induction rule: rtranclp_induct) (auto dest: edit_keys)

end
