(* ===== verification/Handler_Edits.thy ===== *)
theory Handler_Edits
  imports Record_Edits
begin

text \<open>
  Every handler of the orchestrator refines the edit relation: the record it saves is
  reached from the record it loaded by edits only. The lemmas in \<open>edit_intros\<close> say so for
  the helpers; \<open>saves_edit\<close> is the statement for an outcome.
\<close>

section \<open>Helpers\<close>

lemma edits_event [edit_intros]:
  "edits r0 r \<Longrightarrow> ty \<noteq> Ev_STATE_TRANSITION \<Longrightarrow> ty \<noteq> Ev_TASK_STATUS_CHANGED \<Longrightarrow>
     edits r0 (record_event env ty a reason md r)"
  by (blast intro: edits_step edit.event)

lemma edits_task_status [edit_intros]:
  "edits r0 r \<Longrightarrow> i < length (tasks r) \<Longrightarrow> edits r0 (set_task_status env i s a reason r)"
  by (blast intro: edits_step edit.task_status)

lemma edits_task_note [edit_intros]: "edits r0 r \<Longrightarrow> edits r0 (set_task_note i n r)"
  by (blast intro: edits_step edit.task_note)

lemma edits_artifact [edit_intros]: "edits r0 r \<Longrightarrow> edits r0 (upsert_artifact x r)"
  by (blast intro: edits_step edit.artifact)

lemma edits_review [edit_intros]:
  "edits r0 r \<Longrightarrow> rvs = reviews r @ [rv] \<Longrightarrow> edits r0 (r\<lparr>reviews := rvs\<rparr>)"
  by (blast intro: edits_step edit.review)

lemma edits_checkpoint [edit_intros]: "edits r0 r \<Longrightarrow> edits r0 (upsert_checkpoint c r)"
  by (blast intro: edits_step edit.checkpoint)

lemma edits_checkpoint_update [edit_intros]:
  "edits r0 r \<Longrightarrow> edits r0 (update_approval_checkpoint ok who n r)"
  by (blast intro: edits_step edit.checkpoint_update)

lemma edits_request [edit_intros]:
  "edits r0 r \<Longrightarrow> ar_status q = Ap_PENDING \<Longrightarrow> qs = approvals r @ [q] \<Longrightarrow>
     edits r0 (r\<lparr>approvals := qs\<rparr>)"
  by (blast intro: edits_step edit.request)

lemma edits_decide [edit_intros]:
  "edits r0 r \<Longrightarrow> i < length (approvals r) \<Longrightarrow> ar_status (approvals r ! i) = Ap_PENDING \<Longrightarrow>
     edits r0 (set_approval i s who n r)"
  by (blast intro: edits_step edit.decide)

lemma edits_move: "transition env s a reason r = Inr r' \<Longrightarrow> edits r0 r \<Longrightarrow> edits r0 r'"
  by (blast intro: edits_step edit.move)

lemma edits_for_tasks [edit_intros]:
  assumes "edits r0 r"
    and body: "\<And>i s. edits r0 s \<Longrightarrow> i < length (tasks s) \<Longrightarrow> edits r0 (body i s)"
  shows "edits r0 (for_tasks body r)"
  unfolding for_tasks_def
proof (rule fold_step_invariant)
  show "edits r0 r" by fact
next
  fix i s assume "i \<in> set [0..<length (tasks r)]" and s: "edits r0 s"
  then have "i < length (tasks s)"
    using edits_length_tasks[OF s] edits_length_tasks[OF assms(1)] by simp
  with s show "edits r0 (body i s)" by (rule body)
qed

lemma edits_granted [edit_intros]:
  "edits r0 r \<Longrightarrow> edits r0 (record_authorization_granted env actor a src strict ov r)"
  by (auto simp: record_authorization_granted_def Let_def intro!: edit_intros)

lemma edits_authorization_failure [edit_intros]:
  "edits r0 r \<Longrightarrow> edits r0 (record_authorization_failure env actor a m src strict ov r)"
  by (auto simp: record_authorization_failure_def intro!: edit_intros)

text \<open>The record that an authorisation leaves behind, whether it raised or not.\<close>

fun record_after :: "(project_record \<times> orch_error) + project_record \<Rightarrow> project_record" where
  "record_after (Inl (r, e)) = r"
| "record_after (Inr r) = r"

lemma edits_authorize_actions:
  "edits r0 r \<Longrightarrow> edits r0 (record_after (authorize_actions env actor ids as r))"
proof (induction "as" arbitrary: r)
  case (Cons a "as")
  show ?case by (auto simp: Let_def intro!: edit_intros Cons)
qed simp

lemma edits_authorize:
  assumes "edits r0 r"
  shows "authorize_actions_or_raise env actor ids acts r = Inr r' \<Longrightarrow> edits r0 r'"
    and "authorize_actions_or_raise env actor ids acts r = Inl (r', e) \<Longrightarrow> edits r0 r'"
  using edits_authorize_actions[OF assms, of env actor ids "sorted_list_of_set acts"]
  by (auto simp: authorize_actions_or_raise_def)

lemma edits_reset_tasks [edit_intros]:
  "edits r0 r \<Longrightarrow> edits r0 (reset_tasks_for_departments env ds s actor reason un nr r)"
  unfolding reset_tasks_for_departments_def by (auto simp: Let_def intro!: edit_intros)

lemma edits_resume_triggered [edit_intros]:
  "edits r0 r \<Longrightarrow> edits r0 (record_resume_triggered env actor mode reason md r)"
  by (auto simp: record_resume_triggered_def intro!: edit_intros)

section \<open>Deciding the pending approvals\<close>

lemma approve_one_approvals:
  "approvals (approve_one env actor n acts i r) =
     (if ar_action_type (approvals r ! i) \<in> acts
      then (approvals r)[i := (approvals r ! i)\<lparr>ar_status := Ap_APPROVED,
             ar_requested_by := actor_id actor, ar_decision_note := n\<rparr>]
      else approvals r)"
  by (simp add: approve_one_def set_approval_def Let_def)

lemma reject_request_approvals:
  "approvals (reject_approval_request env i actor reason n auto r) =
     (approvals r)[i := (approvals r ! i)\<lparr>ar_status := Ap_REJECTED,
        ar_requested_by := actor_id actor, ar_decision_note := compose_decision_note reason n\<rparr>]"
  by (simp add: reject_approval_request_def set_approval_def Let_def)

lemma edits_approve_one:
  "edits r0 r \<Longrightarrow> i < length (approvals r) \<Longrightarrow> ar_status (approvals r ! i) = Ap_PENDING \<Longrightarrow>
     edits r0 (approve_one env actor n acts i r)"
  by (auto simp: approve_one_def Let_def intro!: edit_intros)

lemma edits_reject_request:
  "edits r0 r \<Longrightarrow> i < length (approvals r) \<Longrightarrow> ar_status (approvals r ! i) = Ap_PENDING \<Longrightarrow>
     edits r0 (reject_approval_request env i actor reason n auto r)"
  by (auto simp: reject_approval_request_def Let_def intro!: edit_intros)

lemma edits_decide_fold:
  assumes "edits r0 r" and "distinct is"
    and "\<And>i. i \<in> set is \<Longrightarrow> i < length (approvals r) \<and> ar_status (approvals r ! i) = Ap_PENDING"
    and step: "\<And>i s. edits r0 s \<Longrightarrow> i < length (approvals s) \<Longrightarrow>
      ar_status (approvals s ! i) = Ap_PENDING \<Longrightarrow> edits r0 (f i s)"
    and other: "\<And>i j s. j \<noteq> i \<Longrightarrow> approvals (f i s) ! j = approvals s ! j"
    and len: "\<And>i s. length (approvals (f i s)) = length (approvals s)"
  shows "edits r0 (fold f is r)"
  using assms(1-3)
proof (induction "is" arbitrary: r)
  case (Cons i "is")
  have "edits r0 (f i r)" using Cons.prems by (intro step) auto
  moreover have "j < length (approvals (f i r)) \<and> ar_status (approvals (f i r) ! j) = Ap_PENDING"
    if "j \<in> set is" for j
  proof -
    have "j \<noteq> i" using that Cons.prems(2) by auto
    then show ?thesis using that Cons.prems(3)[of j] by (simp add: len other)
  qed
  ultimately show ?case using Cons.prems(2) by (auto intro: Cons.IH)
qed simp

lemma edits_approve_pending:
  "edits r0 r \<Longrightarrow> pending_positions r = is \<Longrightarrow> edits r0 (approve_pending env actor n acts is r)"
  unfolding approve_pending_def
  by (rule edits_decide_fold)
     (auto simp: set_pending_positions approve_one_approvals intro: edits_approve_one)

lemma edits_reject_pending:
  "edits r0 r \<Longrightarrow> pending_positions r = is \<Longrightarrow>
     edits r0 (reject_pending env actor reason n acts is r)"
  unfolding reject_pending_def
  by (rule edits_decide_fold)
     (auto simp: set_pending_positions reject_request_approvals intro: edits_reject_request)

lemma authorize_actions_approvals:
  "approvals (record_after (authorize_actions env actor ids as r)) = approvals r"
  by (induction env actor ids as r rule: authorize_actions.induct)
     (auto simp: Let_def record_authorization_granted_def record_authorization_failure_def)

lemma authorize_approvals:
  "authorize_actions_or_raise env actor ids acts r = Inr r' \<Longrightarrow> approvals r' = approvals r"
  using authorize_actions_approvals[of env actor ids "sorted_list_of_set acts" r]
  by (auto simp: authorize_actions_or_raise_def)

section \<open>The task loop\<close>

definition step_edits :: "project_record \<Rightarrow> step_result \<Rightarrow> bool" where
  "step_edits r0 x \<longleftrightarrow>
     (case x of Continue r' _ _ \<Rightarrow> edits r0 r' | Paused r' _ \<Rightarrow> edits r0 r' | Failed _ \<Rightarrow> True)"

lemma step_edits_simps [simp]:
  "step_edits r0 (Continue r a b) = edits r0 r"
  "step_edits r0 (Paused r s) = edits r0 r"
  "step_edits r0 (Failed e)"
  by (simp_all add: step_edits_def)

lemma step_edits_pause:
  "edits r0 r \<Longrightarrow> i < length (tasks r) \<Longrightarrow> step_edits r0 (pause_for_approval env uuid actor i r)"
  by (auto simp: pause_for_approval_def Let_def split: sum.splits
      intro!: edit_intros elim!: edits_move)

lemma step_edits_task:
  assumes "edits r0 r" and "i < length (tasks r)"
  shows "step_edits r0 (execute_task env uuid prov appr sim actor i r review_ran failed)"
proof -
  have a: "edits r0 (set_task_status env i T_IN_PROGRESS actor [] r)"
    by (intro edit_intros assms)
  show ?thesis
    using assms(2)
    by (auto simp: execute_task_def Let_def split: department.splits
        intro!: edit_intros step_edits_pause a assms(1))
qed

lemma step_edits_tasks:
  "edits r0 r \<Longrightarrow> (\<And>i. i \<in> set is \<Longrightarrow> i < length (tasks r)) \<Longrightarrow>
     step_edits r0 (execute_tasks env uuid prov appr sim actor is r review_ran failed)"
proof (induction "is" arbitrary: r review_ran failed)
  case (Cons i "is")
  have e: "step_edits r0 (execute_task env uuid prov appr sim actor i r review_ran failed)"
    using Cons.prems by (intro step_edits_task) auto
  show ?case
  proof (cases "execute_task env uuid prov appr sim actor i r review_ran failed")
    case (Continue r' review_ran' failed')
    with e have e': "edits r0 r'" by simp
    moreover have "length (tasks r') = length (tasks r)"
      using edits_length_tasks[OF e'] edits_length_tasks[OF Cons.prems(1)] by simp
    ultimately show ?thesis using Continue Cons.prems by (auto intro!: Cons.IH)
  qed (use e in simp_all)
qed simp

section \<open>Branches of an outcome\<close>

text \<open>
  A predicate on outcomes that holds of a raised error and of an answer without a save goes
  through every branch of a handler.
\<close>

definition outcome_all :: "(project_record \<Rightarrow> orch_error + 'a \<Rightarrow> bool) \<Rightarrow> 'a outcome \<Rightarrow> bool" where
  "outcome_all P out \<longleftrightarrow> (\<forall>r res. out = (Some r, res) \<longrightarrow> P r res)"

lemma outcome_all_simps [simp]:
  "outcome_all P (raise_error e)"
  "outcome_all P (return_only x)"
  "outcome_all P (save_and_raise r e) = P r (Inl e)"
  "outcome_all P (save_and_return r y) = P r (Inr y)"
  by (simp_all add: outcome_all_def outcome_defs)

lemma outcome_allD: "outcome_all P out \<Longrightarrow> out = (Some r, res) \<Longrightarrow> P r res"
  by (simp add: outcome_all_def)

lemma save_and_return_inject [simp]:
  "save_and_return r x = save_and_return q y \<longleftrightarrow> r = q \<and> x = y"
  by (simp add: save_and_return_def)

lemma outcome_all_None: "fst out = None \<Longrightarrow> outcome_all P out"
  by (auto simp: outcome_all_def)

lemma outcome_all_mono:
  "outcome_all P out \<Longrightarrow> (\<And>r res. P r res \<Longrightarrow> Q r res) \<Longrightarrow> outcome_all Q out"
  by (simp add: outcome_all_def)

lemma outcome_all_sum:
  assumes "\<And>e. x = Inl e \<Longrightarrow> outcome_all P (f e)" and "\<And>y. x = Inr y \<Longrightarrow> outcome_all P (g y)"
  shows "outcome_all P (case x of Inl e \<Rightarrow> f e | Inr y \<Rightarrow> g y)"
  using assms by (cases x) auto

lemma outcome_all_option:
  assumes "x = None \<Longrightarrow> outcome_all P f" and "\<And>y. x = Some y \<Longrightarrow> outcome_all P (g y)"
  shows "outcome_all P (case x of None \<Rightarrow> f | Some y \<Rightarrow> g y)"
  using assms by (cases x) auto

lemma outcome_all_pair:
  assumes "\<And>a b. x = (a, b) \<Longrightarrow> outcome_all P (f a b)"
  shows "outcome_all P (case x of (a, b) \<Rightarrow> f a b)"
  using assms by (cases x) auto

lemma outcome_all_if:
  assumes "b \<Longrightarrow> outcome_all P x" and "\<not> b \<Longrightarrow> outcome_all P y"
  shows "outcome_all P (if b then x else y)"
  using assms by auto

lemmas outcome_branches = outcome_all_sum outcome_all_option outcome_all_pair outcome_all_if

section \<open>Handlers\<close>

abbreviation saves_edit :: "project_record \<Rightarrow> 'a outcome \<Rightarrow> bool" where
  "saves_edit r0 \<equiv> outcome_all (\<lambda>r' res. edits r0 r')"

lemma saves_edit_finish:
  "edits r0 r \<Longrightarrow> saves_edit r0 (finish_execution env actor r review_ran failed)"
  by (auto simp: finish_execution_def Let_def res_bind_eq_Inr split: sum.splits
      intro!: edit_intros elim: edits_move)

lemma saves_edit_execute:
  assumes "edits r0 r"
  shows "saves_edit r0 (execute_pending_tasks env uuid name appr sim actor r)"
proof (cases "provider_or_raise env name")
  case (Inr prov)
  have "step_edits r0 (execute_tasks env uuid prov appr sim actor [0..<length (tasks r)] r False False)"
    by (rule step_edits_tasks) (simp_all add: assms)
  with Inr show ?thesis
    by (auto simp: execute_pending_tasks_def split: step_result.splits intro: saves_edit_finish)
qed (simp add: execute_pending_tasks_def)

lemma saves_edit_full_approval:
  "edits r0 r \<Longrightarrow> saves_edit r0 (full_approval env actor n name eff r)"
  by (auto simp: full_approval_def release_waiting_tasks_def Let_def split: sum.splits
      intro!: saves_edit_execute edit_intros elim!: edits_move)

lemma saves_edit_partial_approval:
  "edits r0 r \<Longrightarrow> saves_edit r0 (partial_approval env actor n acts missing r)"
  by (auto simp: partial_approval_def Let_def split: prod.splits intro!: edit_intros)

text \<open>The decisions right after an authorisation, or with nothing to authorise.\<close>

lemma edits_approve_after:
  assumes "(if acts \<noteq> {} then authorize_actions_or_raise env a ids acts r else Inr r) = Inr r1"
  shows "edits r (approve_pending env a n acts (pending_approvals (approval_action_state_of r)) r1)"
  using assms
  by (intro edits_approve_pending)
     (auto simp: approval_action_state_of_def edits_authorize[OF edits_refl]
       authorize_approvals pending_positions_def split: if_splits)

lemma edits_failed_after:
  assumes "(if acts \<noteq> {} then authorize_actions_or_raise env a ids acts r else Inr r) = Inl (r1, e)"
  shows "edits r r1"
  using assms by (auto simp: edits_authorize[OF edits_refl] split: if_splits)

lemma edits_reject_after:
  assumes "authorize_actions_or_raise env a ids acts r = Inr r1"
  shows "edits r (reject_pending env a m n ds (pending_approvals (approval_action_state_of r)) r1)"
  using assms
  by (intro edits_reject_pending)
     (auto simp: approval_action_state_of_def edits_authorize[OF edits_refl]
       authorize_approvals pending_positions_def)

lemma edits_reject_waiting [edit_intros]:
  "edits r0 r \<Longrightarrow> edits r0 (reject_waiting_tasks env a m r)"
  unfolding reject_waiting_tasks_def by (auto intro!: edit_intros)

theorem resume_from_approval_edits:
  "saves_edit r (resume_from_approval env approved actor note name ids r)"
  unfolding resume_from_approval_def Let_def
  by (intro outcome_branches saves_edit_partial_approval saves_edit_full_approval
      edits_approve_after; (simp only: outcome_all_simps)?; (rule TrueI | assumption | (erule edits_failed_after))?)

theorem reject_approval_edits:
  "saves_edit r (reject_approval env rejected actor reason note ids r)"
  unfolding reject_approval_def Let_def
  by (intro outcome_branches; (simp only: outcome_all_simps)?;
      (blast intro: edits_move edits_authorize[OF edits_refl] edits_reject_waiting edits_reject_after)?)

lemma saves_edit_revision_mode:
  "edits r0 r \<Longrightarrow> saves_edit r0 (resume_revision_for_mode env actor reason mode name approved r)"
  by (auto simp: resume_revision_for_mode_def resume_revision_with_transition_def Let_def
      split: sum.splits prod.splits intro!: saves_edit_execute edit_intros elim!: edits_move)

theorem resume_from_revision_edits:
  "saves_edit r (resume_from_revision env mode actor reason name approved r)"
  by (auto simp: resume_from_revision_def Let_def split: sum.splits option.splits
      intro!: saves_edit_revision_mode edit_intros)

theorem start_replanning_edits:
  "saves_edit r (start_replanning env actor note name approved reset r)"
  by (auto simp: start_replanning_def Let_def split: sum.splits option.splits
      intro!: saves_edit_execute edit_intros elim!: edits_move)

theorem authentication_edits:
  "saves_edit r (record_authentication_success env actor r)"
  "saves_edit r (record_authentication_failure env reason r)"
  by (auto simp: record_authentication_success_def record_authentication_failure_def Let_def
      intro!: edit_intros)

theorem run_edits:
  "saves_edit (new_record env brief policy) (run env brief policy name approved sim)"
  by (auto simp: run_def start_execution_def res_bind_eq_Inr split: sum.splits
      intro!: saves_edit_execute elim!: edits_move)

theorem audit_saves_nothing: "fst (get_project_audit r) = None"
  by (simp add: get_project_audit_def return_only_def)

end
