(* ===== verification/Progress.thy ===== *)
theory Progress
  imports Handler_Edits
begin

text \<open>
  What the task loop and the handlers achieve: the three ways one task can go, the loop
  from an executing project to its end, and the condition \<open>settled\<close> that every saved
  record satisfies. A settled project is completed with every task done, or waits for
  exactly the approval that its trend task needs, or is in the revision or planning lane
  with nothing left to decide.
\<close>

section \<open>One task\<close>

lemma set_task_status_twice:
  "i < length (tasks r) \<Longrightarrow>
     tasks (set_task_status env i s a reason r) = (tasks r)[i := (tasks r ! i)\<lparr>t_status := s\<rparr>]"
  by (auto simp: set_task_status_tasks)

definition pause_request :: "string \<Rightarrow> project_record \<Rightarrow> approval_request list" where
  "pause_request uuid r =
     (if EXTERNAL_API_SEND \<in> actions_with Ap_PENDING r then []
      else [create_request uuid EXTERNAL_API_SEND
              ''Trend analysis with external provider requires human approval.''
              (Some system_actor)])"

lemma pause_for_approval_spec:
  assumes "i < length (tasks r)" and s: "rec_status r = P_IN_PROGRESS"
  shows "\<exists>r'. pause_for_approval env uuid actor i r = Paused r' pause_next_steps \<and>
     tasks r' = tasks (set_task_status env i T_WAITING_APPROVAL actor
       ''Required action approval is missing.'' r) \<and>
     rec_status r' = P_WAITING_APPROVAL \<and> rec_id r' = rec_id r \<and>
     approvals r' = approvals r @ pause_request uuid r \<and> artifacts r' = artifacts r \<and>
     history r' = history r @ [''in_progress -> waiting_approval'']"
proof -
  have p: "list_ex (\<lambda>a. ar_action_type a = EXTERNAL_API_SEND \<and> ar_status a = Ap_PENDING) xs
      \<longleftrightarrow> (\<exists>x \<in> set xs. ar_status x = Ap_PENDING \<and> ar_action_type x = EXTERNAL_API_SEND)" for xs
    by (auto simp: list_ex_iff)
  show ?thesis
    using s by (simp add: pause_for_approval_def Let_def p pause_request_def actions_with_iff
        transition_def)
qed

lemma execute_task_cases:
  assumes i: "i < length (tasks r)" and s: "rec_status r = P_IN_PROGRESS"
  obtains
    (skip) "t_status (tasks r ! i) = T_DONE"
      "execute_task env uuid prov appr sim actor i r rr cf = Continue r rr cf"
  | (work) r' where "t_status (tasks r ! i) \<noteq> T_DONE"
      "t_department (tasks r ! i) \<noteq> D_REVIEW"
      "t_department (tasks r ! i) = D_TREND \<Longrightarrow> \<not> needs_approval prov appr"
      "execute_task env uuid prov appr sim actor i r rr cf = Continue r' rr cf"
      "tasks r' = (tasks r)[i := (tasks r ! i)\<lparr>t_status := T_DONE\<rparr>]"
      "project r' = project r" "approvals r' = approvals r" "history r' = history r"
      "artifacts r' \<noteq> []"
  | (review) r' where "t_status (tasks r ! i) \<noteq> T_DONE"
      "t_department (tasks r ! i) = D_REVIEW"
      "execute_task env uuid prov appr sim actor i r rr cf =
         Continue r' True (sim \<or> artifacts r = [])"
      "tasks r' = (tasks r)[i := (tasks r ! i)\<lparr>t_status := T_DONE\<rparr>]"
      "project r' = project r" "approvals r' = approvals r" "history r' = history r"
      "artifacts r' = artifacts r"
  | (pause) r' new where "t_status (tasks r ! i) \<noteq> T_DONE"
      "t_department (tasks r ! i) = D_TREND" "needs_approval prov appr"
      "execute_task env uuid prov appr sim actor i r rr cf = Paused r' pause_next_steps"
      "tasks r' = (tasks r)[i := (tasks r ! i)\<lparr>t_status := T_WAITING_APPROVAL\<rparr>]"
      "rec_status r' = P_WAITING_APPROVAL" "rec_id r' = rec_id r"
      "approvals r' = approvals r @ new" "artifacts r' = artifacts r"
      "new = pause_request uuid r"
      "history r' = history r @ [''in_progress -> waiting_approval'']"
proof (cases "t_status (tasks r ! i) = T_DONE")
  case True
  then show ?thesis by (intro skip) (simp_all add: execute_task_def)
next
  case False
  let ?r1 = "set_task_status env i T_IN_PROGRESS actor [] r"
  have d: "t_department (tasks ?r1 ! i) = t_department (tasks r ! i)"
    using i by (simp add: set_task_status_nth)
  have t: "tasks (set_task_status env i st a m q) =
      (tasks r)[i := (tasks r ! i)\<lparr>t_status := st\<rparr>]" if "tasks q = tasks ?r1" for st a m q
    using that i by (simp add: set_task_status_twice)
  have w: thesis
    if e: "execute_task env uuid prov appr sim actor i r rr cf =
        Continue (set_task_status env i T_DONE actor [] (upsert_artifact art ?r1)) rr cf"
      and dep: "t_department (tasks r ! i) \<noteq> D_REVIEW"
      and no: "t_department (tasks r ! i) = D_TREND \<Longrightarrow> \<not> needs_approval prov appr" for art
    by (rule work[OF False dep no e]) (simp_all add: t)
  show ?thesis
  proof (cases "t_department (tasks r ! i)")
    case D_TREND
    show ?thesis
    proof (cases "needs_approval prov appr")
      case True
      from pause_for_approval_spec[of i ?r1 env uuid actor] i s obtain r' new where p:
        "pause_for_approval env uuid actor i ?r1 = Paused r' pause_next_steps"
        "tasks r' = tasks (set_task_status env i T_WAITING_APPROVAL actor
           ''Required action approval is missing.'' ?r1)"
        "rec_status r' = P_WAITING_APPROVAL" "rec_id r' = rec_id r"
        "approvals r' = approvals r @ new" "artifacts r' = artifacts r"
        "new = pause_request uuid r" "history r' = history r @ [''in_progress -> waiting_approval'']"
        by (auto simp: pause_request_def actions_with_iff)
      show ?thesis
        by (rule pause[OF False D_TREND True _ _ p(3-8)])
          (use False D_TREND True p(1,2) d t[OF refl] in \<open>simp_all add: execute_task_def Let_def\<close>)
    next
      case no: False
      show ?thesis
        by (rule w) (use False D_TREND no d in \<open>simp_all add: execute_task_def Let_def\<close>)
    qed
  next
    case D_REVIEW
    let ?rv = "ReviewAgent_run (tasks ?r1 ! i) (artifacts r)"
    let ?q = "?r1\<lparr>reviews := reviews r @ [if sim then simulate_failure ?rv else ?rv]\<rparr>"
    have e: "execute_task env uuid prov appr sim actor i r rr cf =
        Continue (set_task_status env i T_DONE actor [] ?q) True (sim \<or> artifacts r = [])"
      using False D_REVIEW d
      by (simp add: execute_task_def Let_def review_verdict simulate_failure_def)
    show ?thesis by (rule review[OF False D_REVIEW e]) (simp_all add: t)
  qed (rule w; use False d in \<open>simp add: execute_task_def Let_def\<close>)+
qed

section \<open>The loop\<close>

definition mark_done :: "nat list \<Rightarrow> task list \<Rightarrow> task list" where
  "mark_done is ts = fold (\<lambda>i ts. ts[i := (ts ! i)\<lparr>t_status := T_DONE\<rparr>]) is ts"

lemma mark_done_simps [simp]:
  "mark_done [] ts = ts"
  "mark_done (i # is) ts = mark_done is (ts[i := (ts ! i)\<lparr>t_status := T_DONE\<rparr>])"
  by (simp_all add: mark_done_def)

lemma mark_done_length [simp]: "length (mark_done is ts) = length ts"
  by (induction "is" arbitrary: ts) simp_all

lemma mark_done_nth:
  "j < length ts \<Longrightarrow> mark_done is ts ! j = (if j \<in> set is then (ts ! j)\<lparr>t_status := T_DONE\<rparr> else ts ! j)"
proof (induction "is" arbitrary: ts)
  case (Cons i "is")
  then show ?case by (cases "i = j") auto
qed simp

lemma mark_done_all: "mark_done [0..<length ts] ts = map (\<lambda>t. t\<lparr>t_status := T_DONE\<rparr>) ts"
  by (rule nth_equalityI) (simp_all add: mark_done_nth)

lemma mark_done_skip: "t_status (ts ! i) = T_DONE \<Longrightarrow> ts[i := (ts ! i)\<lparr>t_status := T_DONE\<rparr>] = ts"
  by (metis list_update_id task.surjective task.update_convs(4))

text \<open>
  What a run of the loop over the positions \<open>is\<close> comes to. A productive run has an
  artifact by the time it pauses, reviews or ends: there is one, or the first task to do
  makes one. Its review only fails when it is told to.
\<close>

definition productive :: "nat list \<Rightarrow> project_record \<Rightarrow> bool" where
  "productive is r \<longleftrightarrow>
     artifacts r \<noteq> [] \<or>
     (case dropWhile (\<lambda>i. t_status (tasks r ! i) = T_DONE) is of
        [] \<Rightarrow> False | i # _ \<Rightarrow> t_department (tasks r ! i) \<notin> {D_REVIEW, D_TREND})"

definition loop_finished :: "nat list \<Rightarrow> project_record \<Rightarrow> project_record \<Rightarrow> bool" where
  "loop_finished is r r' \<longleftrightarrow>
     tasks r' = mark_done is (tasks r) \<and> project r' = project r \<and>
     approvals r' = approvals r \<and> history r' = history r"

definition loop_paused :: "string \<Rightarrow> nat list \<Rightarrow> project_record \<Rightarrow> project_record \<Rightarrow> bool" where
  "loop_paused uuid is r r' \<longleftrightarrow>
     (\<exists>i before. i \<in> set is \<and> t_department (tasks r ! i) = D_TREND \<and>
        tasks r' = (mark_done before (tasks r))[i := (tasks r ! i)\<lparr>t_status := T_WAITING_APPROVAL\<rparr>]) \<and>
     rec_status r' = P_WAITING_APPROVAL \<and> rec_id r' = rec_id r \<and>
     approvals r' = approvals r @ pause_request uuid r \<and>
     history r' = history r @ [''in_progress -> waiting_approval'']"

lemma pause_request_cong: "approvals q = approvals r \<Longrightarrow> pause_request u q = pause_request u r"
  by (simp add: pause_request_def actions_with_def)

definition review_to_do :: "nat list \<Rightarrow> project_record \<Rightarrow> bool" where
  "review_to_do is r \<longleftrightarrow>
     (\<exists>i \<in> set is. t_department (tasks r ! i) = D_REVIEW \<and> t_status (tasks r ! i) \<noteq> T_DONE)"

definition trend_to_do :: "nat list \<Rightarrow> project_record \<Rightarrow> bool" where
  "trend_to_do is r \<longleftrightarrow>
     (\<exists>i \<in> set is. t_department (tasks r ! i) = D_TREND \<and> t_status (tasks r ! i) \<noteq> T_DONE)"

definition loop_ok ::
  "trend_provider \<Rightarrow> approval_action_type set \<Rightarrow> string \<Rightarrow> bool \<Rightarrow> nat list \<Rightarrow> project_record \<Rightarrow>
   bool \<Rightarrow> bool \<Rightarrow> step_result \<Rightarrow> bool" where
  "loop_ok prov appr uuid sim is r rr cf x \<longleftrightarrow>
     (case x of
        Failed e \<Rightarrow> False
      | Continue r' rr' cf' \<Rightarrow>
          loop_finished is r r' \<and> (productive is r \<longrightarrow> artifacts r' \<noteq> []) \<and>
          (\<not> sim \<and> \<not> cf \<and> productive is r \<longrightarrow> \<not> cf') \<and>
          (sim \<and> (rr \<and> cf \<or> review_to_do is r) \<longrightarrow> rr' \<and> cf') \<and>
          (needs_approval prov appr \<longrightarrow> \<not> trend_to_do is r)
      | Paused r' steps \<Rightarrow>
          steps = pause_next_steps \<and> needs_approval prov appr \<and> loop_paused uuid is r r' \<and>
          (productive is r \<longrightarrow> artifacts r' \<noteq> []))"

lemma loop_ok_step:
  assumes ok: "loop_ok prov appr uuid sim is r1 rr1 cf1 x"
    and i: "distinct (i # is)" "\<And>j. j \<in> set (i # is) \<Longrightarrow> j < length (tasks r)"
    and r1: "tasks r1 = (tasks r)[i := (tasks r ! i)\<lparr>t_status := T_DONE\<rparr>]"
      "project r1 = project r" "approvals r1 = approvals r" "history r1 = history r"
    and prod: "productive (i # is) r \<Longrightarrow> productive is r1"
    and rev: "\<not> sim \<Longrightarrow> \<not> cf \<Longrightarrow> productive (i # is) r \<Longrightarrow> \<not> cf1"
    and simr: "sim \<Longrightarrow> rr \<and> cf \<or> review_to_do (i # is) r \<Longrightarrow> rr1 \<and> cf1 \<or> review_to_do is r1"
    and trend: "needs_approval prov appr \<Longrightarrow> trend_to_do (i # is) r \<Longrightarrow> trend_to_do is r1"
  shows "loop_ok prov appr uuid sim (i # is) r rr cf x"
proof (cases x)
  case (Continue r' rr' cf')
  with ok r1 prod rev simr trend show ?thesis by (auto simp: loop_ok_def loop_finished_def)
next
  case (Paused r' steps)
  with ok obtain j before where j: "j \<in> set is" "t_department (tasks r1 ! j) = D_TREND"
    "tasks r' = (mark_done before (tasks r1))[j := (tasks r1 ! j)\<lparr>t_status := T_WAITING_APPROVAL\<rparr>]"
    and rest: "rec_status r' = P_WAITING_APPROVAL" "rec_id r' = rec_id r1"
      "approvals r' = approvals r1 @ pause_request uuid r1"
      "history r' = history r1 @ [''in_progress -> waiting_approval'']"
      "steps = pause_next_steps" "needs_approval prov appr"
      "productive is r1 \<Longrightarrow> artifacts r' \<noteq> []"
    by (auto simp: loop_ok_def loop_paused_def)
  have "j \<noteq> i" using j(1) i(1) by auto
  then have "tasks r1 ! j = tasks r ! j" using r1(1) by simp
  then have "j \<in> set (i # is) \<and> t_department (tasks r ! j) = D_TREND \<and>
      tasks r' = (mark_done (i # before) (tasks r))[j := (tasks r ! j)\<lparr>t_status := T_WAITING_APPROVAL\<rparr>]"
    using j r1(1) by simp
  moreover have "pause_request uuid r1 = pause_request uuid r"
    using r1(3) by (rule pause_request_cong)
  ultimately have "loop_paused uuid (i # is) r r'"
    unfolding loop_paused_def using rest r1 by metis
  with Paused rest r1 prod show ?thesis by (simp add: loop_ok_def)
next
  case (Failed e)
  with ok show ?thesis by (simp add: loop_ok_def)
qed

lemma execute_tasks_ok:
  assumes "distinct is" "\<And>j. j \<in> set is \<Longrightarrow> j < length (tasks r)" "rec_status r = P_IN_PROGRESS"
  shows "loop_ok prov appr uuid sim is r rr cf
           (execute_tasks env uuid prov appr sim actor is r rr cf)"
  using assms
proof (induction "is" arbitrary: r rr cf)
  case Nil
  then show ?case
    by (simp add: loop_ok_def loop_finished_def review_to_do_def trend_to_do_def productive_def)
next
  case (Cons i "is")
  have i: "i < length (tasks r)" "i \<notin> set is" using Cons.prems by auto
  let ?go = "\<lambda>r1 rr1 cf1. execute_tasks env uuid prov appr sim actor is r1 rr1 cf1"
  have ih: "loop_ok prov appr uuid sim is r1 rr1 cf1 (?go r1 rr1 cf1)"
    if "project r1 = project r" "length (tasks r1) = length (tasks r)" for r1 rr1 cf1
    using that Cons.prems by (intro Cons.IH) auto
  have others: "review_to_do is r1 \<longleftrightarrow> review_to_do is r" "trend_to_do is r1 \<longleftrightarrow> trend_to_do is r"
    if "tasks r1 = (tasks r)[i := (tasks r ! i)\<lparr>t_status := T_DONE\<rparr>]" for r1
  proof -
    have "tasks r1 ! j = tasks r ! j" if "j \<in> set is" for j
      using that i \<open>tasks r1 = _\<close> by (metis nth_list_update_neq)
    then show "review_to_do is r1 \<longleftrightarrow> review_to_do is r" "trend_to_do is r1 \<longleftrightarrow> trend_to_do is r"
      by (simp_all add: review_to_do_def trend_to_do_def)
  qed
  from i(1) Cons.prems(3) show ?case
  proof (cases rule: execute_task_cases[of i r env uuid prov appr sim actor rr cf])
    case skip
    have "loop_ok prov appr uuid sim (i # is) r rr cf (?go r rr cf)"
      by (rule loop_ok_step[OF ih])
        (use skip Cons.prems in
          \<open>auto simp: mark_done_skip productive_def review_to_do_def trend_to_do_def\<close>)
    with skip show ?thesis by simp
  next
    case (work r')
    have "loop_ok prov appr uuid sim (i # is) r rr cf (?go r' rr cf)"
      by (rule loop_ok_step[OF ih])
        (use work others[OF work(5)] Cons.prems in
          \<open>auto simp: productive_def review_to_do_def trend_to_do_def\<close>)
    with work show ?thesis by simp
  next
    case (review r')
    have "loop_ok prov appr uuid sim (i # is) r rr cf (?go r' True (sim \<or> artifacts r = []))"
      by (rule loop_ok_step[OF ih])
        (use review others[OF review(4)] Cons.prems in \<open>auto simp: productive_def trend_to_do_def\<close>)
    with review show ?thesis by simp
  next
    case (pause r' new)
    have "loop_paused uuid (i # is) r r'"
      unfolding loop_paused_def using pause by (auto intro!: exI[of _ "[]"])
    moreover have "artifacts r \<noteq> []" if "productive (i # is) r"
      using that pause(1,2) by (simp add: productive_def)
    ultimately show ?thesis using pause by (simp add: loop_ok_def)
  qed
qed

section \<open>Settled records\<close>

definition only_external :: "project_record \<Rightarrow> bool" where
  "only_external r \<longleftrightarrow> (\<forall>a \<in> set (approvals r). ar_action_type a = EXTERNAL_API_SEND)"

definition executing :: "project_record \<Rightarrow> bool" where
  "executing r \<longleftrightarrow>
     rec_status r = P_IN_PROGRESS \<and> only_external r \<and> actions_with Ap_PENDING r = {}"

definition settled :: "project_record \<Rightarrow> bool" where
  "settled r \<longleftrightarrow> only_external r \<and> artifacts r \<noteq> [] \<and>
     (case rec_status r of
        P_COMPLETED \<Rightarrow> actions_with Ap_PENDING r = {} \<and> (\<forall>t \<in> set (tasks r). t_status t = T_DONE)
      | P_WAITING_APPROVAL \<Rightarrow>
          actions_with Ap_PENDING r = {EXTERNAL_API_SEND} \<and> actions_with Ap_APPROVED r = {} \<and>
          (\<exists>t \<in> set (tasks r). t_status t = T_WAITING_APPROVAL \<and> t_department t = D_TREND)
      | P_REVISION_REQUESTED \<Rightarrow> actions_with Ap_PENDING r = {} \<and> actions_with Ap_APPROVED r = {}
      | P_READY_FOR_PLANNING \<Rightarrow> actions_with Ap_PENDING r = {} \<and> actions_with Ap_APPROVED r = {}
      | _ \<Rightarrow> False)"

abbreviation saves_settled :: "'a outcome \<Rightarrow> bool" where
  "saves_settled \<equiv> outcome_all (\<lambda>r' res. settled r')"

lemma actions_with_cong: "approvals q = approvals r \<Longrightarrow> actions_with s q = actions_with s r"
  by (simp add: actions_with_def)

lemma loop_finished_settled:
  assumes "loop_finished [0..<length (tasks r)] r r'" "executing r" "artifacts r' \<noteq> []"
  shows "tasks r' = map (\<lambda>t. t\<lparr>t_status := T_DONE\<rparr>) (tasks r)" "executing r'"
  using assms actions_with_cong[of r' r]
  by (auto simp: loop_finished_def executing_def only_external_def mark_done_all)

lemma loop_paused_settled:
  assumes p: "loop_paused uuid is r r'" and e: "executing r" "actions_with Ap_APPROVED r = {}"
    and "artifacts r' \<noteq> []"
    and "\<And>i. i \<in> set is \<Longrightarrow> i < length (tasks r)"
  shows "settled r'"
proof -
  from p obtain i before where i: "i \<in> set is" "t_department (tasks r ! i) = D_TREND"
    "tasks r' = (mark_done before (tasks r))[i := (tasks r ! i)\<lparr>t_status := T_WAITING_APPROVAL\<rparr>]"
    by (auto simp: loop_paused_def)
  have "(tasks r ! i)\<lparr>t_status := T_WAITING_APPROVAL\<rparr> \<in> set (tasks r')"
    using i assms(5) by (simp add: set_update_memI)
  then have "\<exists>t \<in> set (tasks r'). t_status t = T_WAITING_APPROVAL \<and> t_department t = D_TREND"
    using i(2) by (rule_tac x = "(tasks r ! i)\<lparr>t_status := T_WAITING_APPROVAL\<rparr>" in bexI) simp_all
  moreover have "approvals r' = approvals r @ pause_request uuid r" "rec_status r' = P_WAITING_APPROVAL"
    using p by (simp_all add: loop_paused_def)
  ultimately show ?thesis
    using e assms(4)
    by (auto simp: settled_def executing_def only_external_def pause_request_def actions_with_def)
qed

text \<open>The end of an execution, from the flags that the loop left.\<close>

lemma finish_execution_eq:
  assumes "rec_status r = P_IN_PROGRESS"
  shows "\<exists>r'. finish_execution env actor r rr cf =
           save_and_return r' (summary r' (if rr \<and> cf then review_failed_next_steps else completed_next_steps)) \<and>
         tasks r' = tasks r \<and> approvals r' = approvals r \<and> artifacts r' = artifacts r \<and>
         rec_status r' = (if rr \<and> cf then P_REVISION_REQUESTED else P_COMPLETED) \<and>
         history r' = history r @ (if rr \<and> cf
           then [''in_progress -> review_failed'', ''review_failed -> revision_requested'']
           else [''in_progress -> completed''])"
  using assms by (simp add: finish_execution_def Let_def transition_def save_and_return_def)

lemma finish_execution_settled:
  assumes "executing r" "artifacts r \<noteq> []" "\<forall>t \<in> set (tasks r). t_status t = T_DONE"
    and "rr \<and> cf \<Longrightarrow> actions_with Ap_APPROVED r = {}"
  shows "saves_settled (finish_execution env actor r rr cf)"
proof -
  from assms(1) have "rec_status r = P_IN_PROGRESS" by (simp add: executing_def)
  from finish_execution_eq[OF this, of env actor rr cf] obtain r' where r':
    "finish_execution env actor r rr cf = save_and_return r' (summary r'
       (if rr \<and> cf then review_failed_next_steps else completed_next_steps))"
    "tasks r' = tasks r" "approvals r' = approvals r" "artifacts r' = artifacts r"
    "rec_status r' = (if rr \<and> cf then P_REVISION_REQUESTED else P_COMPLETED)"
    by blast
  then have "settled r'"
    using assms actions_with_cong[OF r'(3)]
    by (simp add: settled_def executing_def only_external_def)
  with r'(1) show ?thesis by simp
qed

text \<open>
  An execution that starts with a known provider never raises: it saves a settled record
  and returns its summary. It can only pause in front of the approval gate.
\<close>

lemma execute_pending_tasks_settled:
  assumes e: "executing r" and a: "actions_with Ap_APPROVED r = {}"
    and p: "productive [0..<length (tasks r)] r"
  shows "saves_settled (execute_pending_tasks env uuid name appr sim actor r)"
proof (cases "provider_or_raise env name")
  case (Inr prov)
  let ?x = "execute_tasks env uuid prov appr sim actor [0..<length (tasks r)] r False False"
  have ok: "loop_ok prov appr uuid sim [0..<length (tasks r)] r False False ?x"
    using e by (intro execute_tasks_ok) (auto simp: executing_def)
  show ?thesis
  proof (cases ?x)
    case (Continue r' rr' cf')
    with ok p have f: "loop_finished [0..<length (tasks r)] r r'" "artifacts r' \<noteq> []"
      by (simp_all add: loop_ok_def)
    have "actions_with Ap_APPROVED r' = {}"
      using a f(1) actions_with_cong[of r' r] by (simp add: loop_finished_def)
    with loop_finished_settled[OF f(1) e f(2)] f(2)
    have "saves_settled (finish_execution env actor r' rr' cf')"
      by (intro finish_execution_settled) auto
    with Continue Inr show ?thesis by (simp add: execute_pending_tasks_def)
  next
    case (Paused r' steps)
    with ok p have "loop_paused uuid [0..<length (tasks r)] r r'" "artifacts r' \<noteq> []"
      by (simp_all add: loop_ok_def)
    with e a have "settled r'" by (intro loop_paused_settled) auto
    with Paused Inr show ?thesis by (simp add: execute_pending_tasks_def)
  qed (use ok in \<open>simp add: loop_ok_def\<close>)
qed (simp add: execute_pending_tasks_def)

text \<open>With the gate open the execution runs to its end, which is a revision for a review told to fail.\<close>

lemma execute_pending_tasks_finishes:
  assumes e: "executing r" and p: "productive [0..<length (tasks r)] r"
    and prov: "provider_or_raise env name = Inr prov" "\<not> needs_approval prov appr"
    and sim: "sim \<Longrightarrow> review_to_do [0..<length (tasks r)] r \<and> actions_with Ap_APPROVED r = {}"
  shows "\<exists>r'. execute_pending_tasks env uuid name appr sim actor r =
           save_and_return r' (summary r'
             (if sim then review_failed_next_steps else completed_next_steps)) \<and>
         rec_status r' = (if sim then P_REVISION_REQUESTED else P_COMPLETED) \<and>
         settled r' \<and> approvals r' = approvals r \<and>
         tasks r' = map (\<lambda>t. t\<lparr>t_status := T_DONE\<rparr>) (tasks r) \<and>
         history r' = history r @ (if sim
           then [''in_progress -> review_failed'', ''review_failed -> revision_requested'']
           else [''in_progress -> completed''])"
proof -
  let ?x = "execute_tasks env uuid prov appr sim actor [0..<length (tasks r)] r False False"
  have ok: "loop_ok prov appr uuid sim [0..<length (tasks r)] r False False ?x"
    using e by (intro execute_tasks_ok) (auto simp: executing_def)
  with p prov(2) sim obtain r' rr' cf' where x: "?x = Continue r' rr' cf'" "(rr' \<and> cf') = sim"
    "loop_finished [0..<length (tasks r)] r r'" "artifacts r' \<noteq> []"
    by (cases ?x) (auto simp: loop_ok_def)
  note f = loop_finished_settled[OF x(3) e x(4)]
  then have s: "rec_status r' = P_IN_PROGRESS" by (simp add: executing_def)
  have "actions_with Ap_APPROVED r' = actions_with Ap_APPROVED r"
    using x(3) by (intro actions_with_cong) (simp add: loop_finished_def)
  with sim x(2) have "saves_settled (finish_execution env actor r' rr' cf')"
    using f x(4) by (intro finish_execution_settled) auto
  with finish_execution_eq[OF s, of env actor rr' cf', unfolded x(2)] x(1,3) f prov(1)
  show ?thesis by (auto simp: execute_pending_tasks_def loop_finished_def)
qed

lemma execute_pending_tasks_completes:
  assumes "executing r" "productive [0..<length (tasks r)] r"
    and "provider_or_raise env name = Inr prov" "\<not> needs_approval prov appr"
  shows "\<exists>r'. execute_pending_tasks env uuid name appr False actor r =
           save_and_return r' (summary r' completed_next_steps) \<and>
         rec_status r' = P_COMPLETED \<and> settled r' \<and> approvals r' = approvals r \<and>
         tasks r' = map (\<lambda>t. t\<lparr>t_status := T_DONE\<rparr>) (tasks r) \<and>
         history r' = history r @ [''in_progress -> completed'']"
  using execute_pending_tasks_finishes[OF assms, of False uuid actor] by simp

text \<open>With the gate closed and the trend task to do, the execution pauses.\<close>

lemma execute_pending_tasks_pauses:
  assumes e: "executing r" and a: "actions_with Ap_APPROVED r = {}"
    and p: "productive [0..<length (tasks r)] r" "trend_to_do [0..<length (tasks r)] r"
    and prov: "provider_or_raise env name = Inr prov" "needs_approval prov appr"
  shows "\<exists>r'. execute_pending_tasks env uuid name appr sim actor r =
           save_and_return r' (summary r' pause_next_steps) \<and>
         rec_status r' = P_WAITING_APPROVAL \<and> settled r' \<and>
         approvals r' = approvals r @ pause_request uuid r"
proof -
  let ?x = "execute_tasks env uuid prov appr sim actor [0..<length (tasks r)] r False False"
  have "loop_ok prov appr uuid sim [0..<length (tasks r)] r False False ?x"
    using e by (intro execute_tasks_ok) (auto simp: executing_def)
  with p prov(2) obtain r' where x: "?x = Paused r' pause_next_steps"
    "loop_paused uuid [0..<length (tasks r)] r r'" "artifacts r' \<noteq> []"
    by (cases ?x) (auto simp: loop_ok_def)
  then have "settled r'" using e a by (intro loop_paused_settled) auto
  with x prov(1) show ?thesis by (auto simp: execute_pending_tasks_def loop_paused_def)
qed

section \<open>Helpers that leave the rest of the record alone\<close>

definition core :: "project_record \<Rightarrow>
    project \<times> artifact list \<times> review list \<times> approval_request list \<times> string list" where
  "core r = (project r, artifacts r, reviews r, approvals r, history r)"

lemma core_eq_iff:
  "core q = core r \<longleftrightarrow> project q = project r \<and> artifacts q = artifacts r \<and> reviews q = reviews r \<and>
     approvals q = approvals r \<and> history q = history r"
  by (simp add: core_def)

lemma core_helpers [simp]:
  "core (record_event env ty ao m md r) = core r"
  "core (set_task_status env i s a m r) = core r"
  "core (set_task_note i n r) = core r"
  "core (record_resume_triggered env a mode m md r) = core r"
  "core (record_authorization_granted env a act src strict ov r) = core r"
  "core (record_authorization_failure env a act m src strict ov r) = core r"
  by (simp_all add: core_eq_iff record_resume_triggered_def record_authorization_granted_def
      record_authorization_failure_def Let_def)

lemma core_for_tasks: "(\<And>i s. core (body i s) = core s) \<Longrightarrow> core (for_tasks body r) = core r"
  unfolding for_tasks_def by (rule fold_step_invariant[where P = "\<lambda>s. core s = core r"]) simp_all

lemma core_loops [simp]:
  "core (reset_tasks_for_departments env ds s a m un nr r) = core r"
  "core (release_waiting_tasks env a r) = core r"
  "core (reject_waiting_tasks env a m r) = core r"
  unfolding reset_tasks_for_departments_def release_waiting_tasks_def reject_waiting_tasks_def
  by (rule core_for_tasks; simp add: Let_def)+

lemmas core_fields [simp] =
  core_helpers[unfolded core_eq_iff] core_loops[unfolded core_eq_iff]

text \<open>Authorisation only writes events.\<close>

lemma authorize_actions_frame:
  "core (record_after (authorize_actions env actor ids as r)) = core r \<and>
   tasks (record_after (authorize_actions env actor ids as r)) = tasks r \<and>
   checkpoints (record_after (authorize_actions env actor ids as r)) = checkpoints r"
proof (induction "as" arbitrary: r)
  case (Cons a "as")
  show ?case
    by (auto simp: Let_def Cons record_authorization_granted_def record_authorization_failure_def)
qed simp

lemma authorize_frame:
  assumes "authorize_actions_or_raise env actor ids acts r = x"
  shows "core (record_after x) = core r" "tasks (record_after x) = tasks r"
    "checkpoints (record_after x) = checkpoints r"
  using assms authorize_actions_frame by (auto simp: authorize_actions_or_raise_def)

lemma settled_cong:
  "core q = core r \<Longrightarrow> tasks q = tasks r \<Longrightarrow> settled q = settled r"
  by (cases "rec_status r") (simp_all add: settled_def core_eq_iff only_external_def actions_with_def)

section \<open>Deciding all pending approvals\<close>

lemma fold_approvals_map:
  assumes step: "\<And>i s. i < length (approvals s) \<Longrightarrow>
      approvals (f i s) = (approvals s)[i := g (approvals s ! i)]"
    and "distinct is" "\<And>i. i \<in> set is \<Longrightarrow> i < length (approvals r)"
  shows "length (approvals (fold f is r)) = length (approvals r) \<and>
    (\<forall>j < length (approvals r). approvals (fold f is r) ! j =
       (if j \<in> set is then g (approvals r ! j) else approvals r ! j))"
  using assms(2-)
proof (induction "is" arbitrary: r)
  case (Cons i "is")
  then have a: "approvals (f i r) = (approvals r)[i := g (approvals r ! i)]" by (intro step) auto
  with Cons.prems Cons.IH[of "f i r"] show ?case by (auto simp: nth_list_update)
qed simp

lemma fold_pending_map:
  assumes "\<And>i s. i < length (approvals s) \<Longrightarrow>
      approvals (f i s) = (approvals s)[i := g (approvals s ! i)]"
  shows "approvals (fold f (pending_positions r) r) =
    map (\<lambda>a. if ar_status a = Ap_PENDING then g a else a) (approvals r)"
  using fold_approvals_map[of f g "pending_positions r" r, OF assms]
  by (auto simp: set_pending_positions intro: nth_equalityI)

lemma reject_pending_approvals:
  "approvals (reject_pending env actor m n acts (pending_positions r) r) =
     map (\<lambda>a. if ar_status a = Ap_PENDING
              then a\<lparr>ar_status := Ap_REJECTED, ar_requested_by := actor_id actor,
                     ar_decision_note := compose_decision_note m n\<rparr>
              else a) (approvals r)"
  unfolding reject_pending_def by (rule fold_pending_map) (simp add: reject_request_approvals)

lemma approve_pending_approvals:
  "approvals (approve_pending env actor n acts (pending_positions r) r) =
     map (\<lambda>a. if ar_status a = Ap_PENDING \<and> ar_action_type a \<in> acts
              then a\<lparr>ar_status := Ap_APPROVED, ar_requested_by := actor_id actor,
                     ar_decision_note := n\<rparr>
              else a) (approvals r)"
proof -
  have "approvals (approve_pending env actor n acts (pending_positions r) r) =
     map (\<lambda>a. if ar_status a = Ap_PENDING
              then (if ar_action_type a \<in> acts
                    then a\<lparr>ar_status := Ap_APPROVED, ar_requested_by := actor_id actor,
                           ar_decision_note := n\<rparr> else a)
              else a) (approvals r)"
    unfolding approve_pending_def by (rule fold_pending_map) (simp add: approve_one_approvals)
  then show ?thesis by (simp add: if_if_eq_conj)
qed

lemma decide_fields [simp]:
  "project (approve_one env actor n acts i r) = project r"
  "tasks (approve_one env actor n acts i r) = tasks r"
  "artifacts (approve_one env actor n acts i r) = artifacts r"
  "history (approve_one env actor n acts i r) = history r"
  "project (reject_approval_request env i actor m n auto r) = project r"
  "tasks (reject_approval_request env i actor m n auto r) = tasks r"
  "artifacts (reject_approval_request env i actor m n auto r) = artifacts r"
  "history (reject_approval_request env i actor m n auto r) = history r"
  by (simp_all add: approve_one_def reject_approval_request_def Let_def)

lemma fold_field: "(\<And>i s. F (f i s) = F s) \<Longrightarrow> F (fold f is r) = F r"
  by (rule fold_step_invariant[where P = "\<lambda>s. F s = F r"]) simp_all

lemma decide_all_fields [simp]:
  "project (approve_pending env actor n acts is r) = project r"
  "tasks (approve_pending env actor n acts is r) = tasks r"
  "artifacts (approve_pending env actor n acts is r) = artifacts r"
  "history (approve_pending env actor n acts is r) = history r"
  "project (reject_pending env actor m n acts is r) = project r"
  "tasks (reject_pending env actor m n acts is r) = tasks r"
  "artifacts (reject_pending env actor m n acts is r) = artifacts r"
  "history (reject_pending env actor m n acts is r) = history r"
  unfolding approve_pending_def reject_pending_def by (rule fold_field; simp)+

text \<open>After a rejection nothing is pending, after an approval of all of them neither.\<close>

lemma reject_pending_none_left:
  fixes env actor m n acts r
  defines "q \<equiv> reject_pending env actor m n acts (pending_positions r) r"
  shows "actions_with Ap_PENDING q = {}" "actions_with Ap_APPROVED q = actions_with Ap_APPROVED r"
    "only_external r \<Longrightarrow> only_external q"
  unfolding q_def
  by (force simp: actions_with_iff only_external_def reject_pending_approvals)+

lemma approve_pending_none_left:
  fixes env actor n acts r
  defines "q \<equiv> approve_pending env actor n acts (pending_positions r) r"
  shows "actions_with Ap_PENDING r \<subseteq> acts \<Longrightarrow> actions_with Ap_PENDING q = {}"
    "only_external r \<Longrightarrow> only_external q"
  unfolding q_def
  by (auto simp: actions_with_def only_external_def approve_pending_approvals split: if_splits)

section \<open>Every handler saves settled records\<close>

lemma start_execution_eq:
  "\<exists>r. start_execution env (new_record env brief policy) = Inr r \<and> tasks r = build_plan \<and>
     approvals r = [] \<and> artifacts r = [] \<and> rec_status r = P_IN_PROGRESS \<and>
     rec_id r = uuid4 env 0 \<and> p_brief (project r) = brief \<and>
     history r = [''draft -> intake_pending'', ''intake_pending -> ready_for_planning'',
                  ''ready_for_planning -> in_progress'']"
  by (simp add: start_execution_def new_record_def transition_def)

lemma started_ok:
  assumes "tasks r = build_plan" "approvals r = []" "rec_status r = P_IN_PROGRESS"
  shows "executing r" "actions_with s r = {}" "productive [0..<length (tasks r)] r"
    "trend_to_do [0..<length (tasks r)] r" "review_to_do [0..<length (tasks r)] r"
proof -
  have u: "[0..<length build_plan] = [0, 1, 2, 3, 4]" by (simp add: build_plan_def upt_rec)
  show "executing r" "actions_with s r = {}"
    using assms by (simp_all add: executing_def only_external_def actions_with_def)
  show "productive [0..<length (tasks r)] r" "trend_to_do [0..<length (tasks r)] r"
    "review_to_do [0..<length (tasks r)] r"
    unfolding assms(1) u
    by (simp_all add: productive_def trend_to_do_def review_to_do_def assms(1) build_plan_def)
qed

lemma run_settled: "saves_settled (run env brief policy name approved sim)"
proof -
  from start_execution_eq obtain r where r: "start_execution env (new_record env brief policy) = Inr r"
    "tasks r = build_plan" "approvals r = []" "rec_status r = P_IN_PROGRESS" by blast
  note s = started_ok[OF r(2-4)]
  show ?thesis
    unfolding run_def r(1)
    by (cases "parse_approved_actions approved")
      (simp_all add: execute_pending_tasks_settled s)
qed

lemma resolve_invalid:
  assumes "resolve_result_or_raise_invalid_state r st hs = Inr None"
  shows "rec_status r = st"
  using assms by (auto simp: resolve_result_or_raise_invalid_state_def split: if_splits sum.splits option.splits)

lemma settled_waiting:
  assumes "settled r" "rec_status r = P_WAITING_APPROVAL"
  shows "only_external r" "artifacts r \<noteq> []" "actions_with Ap_PENDING r = {EXTERNAL_API_SEND}"
    "actions_with Ap_APPROVED r = {}" "set (map ar_action_type (approvals r)) = {EXTERNAL_API_SEND}"
    "pending_positions r \<noteq> []"
proof -
  show a: "only_external r" "artifacts r \<noteq> []" "actions_with Ap_PENDING r = {EXTERNAL_API_SEND}"
    "actions_with Ap_APPROVED r = {}"
    using assms by (simp_all add: settled_def)
  then show "set (map ar_action_type (approvals r)) = {EXTERNAL_API_SEND}"
    by (auto simp: only_external_def actions_with_def)
  from a show "pending_positions r \<noteq> []" by (simp add: pending_positions_empty_iff)
qed

lemma settled_completed:
  assumes "settled r" "rec_status r = P_COMPLETED" "t \<in> set (tasks r)"
  shows "t_status t = T_DONE"
  using assms by (simp add: settled_def)

lemma full_approval_settled:
  assumes "rec_status r = P_WAITING_APPROVAL" "only_external r" "actions_with Ap_PENDING r = {}"
    "artifacts r \<noteq> []" "EXTERNAL_API_SEND \<in> eff"
  shows "saves_settled (full_approval env actor n name eff r)"
    and "provider_or_raise env name = Inr prov \<Longrightarrow>
      \<exists>r'. full_approval env actor n name eff r =
             save_and_return r' (summary r' completed_next_steps) \<and>
           rec_status r' = P_COMPLETED \<and> settled r' \<and> approvals r' = approvals r \<and>
           (\<forall>t \<in> set (tasks r'). t_status t = T_DONE) \<and>
           history r' = history r @ [''waiting_approval -> in_progress'', ''in_progress -> completed'']"
proof -
  let ?r2 = "record_resume_triggered env actor ''approval_resume''
    (str_or n ''Approval resume requested.'') [] (release_waiting_tasks env actor r)"
  have c: "core ?r2 = core r" by simp
  then have f: "project ?r2 = project r" "artifacts ?r2 = artifacts r" "approvals ?r2 = approvals r"
    "history ?r2 = history r" by (simp_all only: core_eq_iff)
  then have s: "rec_status ?r2 = P_WAITING_APPROVAL" using assms(1) by simp
  then obtain r3 where r3: "transition env P_IN_PROGRESS actor ''Approval requirements satisfied.'' ?r2
      = Inr r3"
    using transition_ok_iff[of env P_IN_PROGRESS actor _ ?r2] by auto
  note t = transition_fields[OF r3]
  have h: "history r3 = history r @ [''waiting_approval -> in_progress'']"
    using r3 s f(4) by (auto simp: transition_def Let_def)
  have e: "executing r3" and p: "productive [0..<length (tasks r3)] r3"
    using assms t f actions_with_cong[of r3 r]
    by (simp_all add: executing_def only_external_def productive_def)
  have eq: "full_approval env actor n name eff r =
      execute_pending_tasks env (uuid4 env 0) name eff False actor r3"
    by (simp add: full_approval_def Let_def r3)
  have open_gate: "\<not> needs_approval q eff" for q using assms(5) by (simp add: needs_approval_def)
  note completes = execute_pending_tasks_completes[OF e p _ open_gate, of env name _ "uuid4 env 0" actor]
  show "saves_settled (full_approval env actor n name eff r)"
  proof (cases "provider_or_raise env name")
    case (Inl e)
    then show ?thesis by (simp add: eq execute_pending_tasks_def)
  next
    case (Inr q)
    from completes[OF this] show ?thesis by (auto simp: eq)
  qed
  show "\<exists>r'. full_approval env actor n name eff r =
             save_and_return r' (summary r' completed_next_steps) \<and>
           rec_status r' = P_COMPLETED \<and> settled r' \<and> approvals r' = approvals r \<and>
           (\<forall>t \<in> set (tasks r'). t_status t = T_DONE) \<and>
           history r' = history r @ [''waiting_approval -> in_progress'', ''in_progress -> completed'']"
    if "provider_or_raise env name = Inr prov"
    using completes[OF that] t(5) f(3) h by (auto simp: eq dest: settled_completed)
qed

text \<open>A waiting record: what a resume can come to.\<close>

lemma resume_waiting_eq:
  assumes w: "settled r" "rec_status r = P_WAITING_APPROVAL"
    and S: "parse_approved_actions approved = Inr S" "S \<noteq> {}"
    and ok: "S \<subseteq> {EXTERNAL_API_SEND}" "EXTERNAL_API_SEND \<notin> actions_with Ap_REJECTED r"
  shows "resume_from_approval env approved actor note name ids r =
    (let a = coerce_actor actor APPROVER HUMAN; n = normalize_text note
     in case authorize_actions_or_raise env a ids {EXTERNAL_API_SEND} r of
          Inl (r1, e) \<Rightarrow> save_and_raise r1 e
        | Inr r1 \<Rightarrow> full_approval env a n name {EXTERNAL_API_SEND}
            (approve_pending env a n {EXTERNAL_API_SEND} (pending_positions r) r1))"
proof -
  note k = settled_waiting[OF w]
  from S(2) ok(1) have S': "S = {EXTERNAL_API_SEND}" by blast
  have v: "validate_approval_action_request {EXTERNAL_API_SEND}
      (set (map ar_action_type (approvals r))) (actions_with Ap_REJECTED r) = Inr ()"
    using ok(2) by (simp only: validate_ok_iff k(5)) simp
  have st: "approval_action_state_of r =
      \<lparr>known_actions = set (map ar_action_type (approvals r)), approved_actions = {},
       rejected_actions = actions_with Ap_REJECTED r, pending_approvals = pending_positions r,
       pending_action_types = {EXTERNAL_API_SEND}\<rparr>"
    by (simp add: approval_action_state_of_def k)
  have res: "resolve_result_or_raise_invalid_state r P_WAITING_APPROVAL hs = Inr None" for hs
    by (simp add: resolve_result_or_raise_invalid_state_def w(2))
  show ?thesis
    unfolding resume_from_approval_def Let_def res S(1) st
    by (simp add: v k(6) S' split: sum.split del: set_map list.set_map)
qed

lemma resume_waiting_refused:
  assumes w: "settled r" "rec_status r = P_WAITING_APPROVAL"
    and no: "\<not> (\<exists>S. parse_approved_actions approved = Inr S \<and> S \<noteq> {} \<and>
      S \<subseteq> {EXTERNAL_API_SEND} \<and> EXTERNAL_API_SEND \<notin> actions_with Ap_REJECTED r)"
  shows "\<exists>e. resume_from_approval env approved actor note name ids r = raise_error e"
proof (cases "parse_approved_actions approved")
  case (Inl e)
  then show ?thesis
    by (simp add: resume_from_approval_def resolve_result_or_raise_invalid_state_def w(2) raise_error_def)
next
  case (Inr S)
  note k = settled_waiting[OF w]
  have "S = {} \<or> \<not> S \<subseteq> {EXTERNAL_API_SEND} \<or> S \<inter> actions_with Ap_REJECTED r \<noteq> {}"
    using no Inr by blast
  then have "S = {} \<or> (\<exists>e. validate_approval_action_request S (set (map ar_action_type (approvals r)))
      (actions_with Ap_REJECTED r) = Inl e)"
    using validate_ok_iff[of S "{EXTERNAL_API_SEND}" "actions_with Ap_REJECTED r"] k(5)
    by (metis old.unit.exhaust sum.exhaust_sel sum.collapse(1) sum.collapse(2))
  then show ?thesis
    using Inr k(6)
    by (auto simp: resume_from_approval_def resolve_result_or_raise_invalid_state_def w(2)
        raise_error_def approval_action_state_of_def Let_def simp del: set_map list.set_map)
qed

lemma resume_other_status:
  assumes "rec_status r \<noteq> P_WAITING_APPROVAL"
  shows "fst (resume_from_approval env approved actor note name ids r) = None"
  using assms
  by (auto simp: resume_from_approval_def resolve_result_or_raise_invalid_state_def Let_def
      raise_error_def return_only_def split: sum.split option.split)

lemma approved_state:
  fixes n
  assumes w: "settled r" "rec_status r = P_WAITING_APPROVAL"
    and a: "authorize_actions_or_raise env a ids {EXTERNAL_API_SEND} r = Inr r1"
  defines "q \<equiv> approve_pending env a n {EXTERNAL_API_SEND} (pending_positions r) r1"
  shows "rec_status q = P_WAITING_APPROVAL" "only_external q" "actions_with Ap_PENDING q = {}"
    "artifacts q \<noteq> []" "history q = history r"
    "approvals q = map (\<lambda>x. if ar_status x = Ap_PENDING then x\<lparr>ar_status := Ap_APPROVED,
       ar_requested_by := actor_id a, ar_decision_note := n\<rparr> else x) (approvals r)"
proof -
  note k = settled_waiting[OF w]
  have c: "core r1 = core r" using authorize_frame(1)[OF a] by simp
  then have pp: "pending_positions r1 = pending_positions r" and oe: "only_external r1"
    and pe: "actions_with Ap_PENDING r1 = {EXTERNAL_API_SEND}"
    using k by (simp_all add: core_eq_iff pending_positions_def only_external_def actions_with_def)
  have q: "q = approve_pending env a n {EXTERNAL_API_SEND} (pending_positions r1) r1"
    by (simp add: q_def pp)
  show "rec_status q = P_WAITING_APPROVAL" "artifacts q \<noteq> []" "history q = history r"
    using c k w(2) by (simp_all add: q core_eq_iff)
  show "only_external q" "actions_with Ap_PENDING q = {}"
    unfolding q using approve_pending_none_left[where r = r1] oe pe by auto
  have "ar_action_type x = EXTERNAL_API_SEND" if "x \<in> set (approvals r)" for x
    using that k(1) by (simp add: only_external_def)
  then show "approvals q = map (\<lambda>x. if ar_status x = Ap_PENDING then x\<lparr>ar_status := Ap_APPROVED,
       ar_requested_by := actor_id a, ar_decision_note := n\<rparr> else x) (approvals r)"
    unfolding q approve_pending_approvals using c by (auto simp: core_eq_iff)
qed

lemma resume_from_approval_settled:
  assumes "settled r"
  shows "saves_settled (resume_from_approval env approved actor note name ids r)"
proof (cases "rec_status r = P_WAITING_APPROVAL")
  case w: True
  let ?a = "coerce_actor actor APPROVER HUMAN"
  show ?thesis
  proof (cases "\<exists>S. parse_approved_actions approved = Inr S \<and> S \<noteq> {} \<and>
      S \<subseteq> {EXTERNAL_API_SEND} \<and> EXTERNAL_API_SEND \<notin> actions_with Ap_REJECTED r")
    case True
    then obtain S where S: "parse_approved_actions approved = Inr S" "S \<noteq> {}"
      "S \<subseteq> {EXTERNAL_API_SEND}" "EXTERNAL_API_SEND \<notin> actions_with Ap_REJECTED r" by blast
    show ?thesis
    proof (cases "authorize_actions_or_raise env ?a ids {EXTERNAL_API_SEND} r")
      case (Inl x)
      obtain r1 e where x: "x = (r1, e)" by (cases x)
      have "settled r1"
        using settled_cong[of r1 r] authorize_frame[OF Inl] assms by (simp add: x)
      then show ?thesis using Inl x by (simp add: resume_waiting_eq[OF assms w S] Let_def)
    next
      case (Inr r1)
      show ?thesis
        using full_approval_settled(1)[OF approved_state(1-4)[OF assms w Inr]]
        by (simp add: resume_waiting_eq[OF assms w S] Let_def Inr)
    qed
  next
    case False
    from resume_waiting_refused[OF assms w this, of env actor "note" name ids]
    show ?thesis by auto
  qed
qed (auto intro: outcome_all_None resume_other_status)

text \<open>Rejecting.\<close>

lemma rejected_state:
  assumes w: "settled r" "rec_status r = P_WAITING_APPROVAL"
    and a: "authorize_actions_or_raise env a ids acts r = Inr r1"
    and t: "transition env P_REVISION_REQUESTED a' m' (reject_waiting_tasks env a m
      (reject_pending env a m n ds (pending_positions r) r1)) = Inr q"
  shows "settled q" "rec_status q = P_REVISION_REQUESTED" "EXTERNAL_API_SEND \<in> actions_with Ap_REJECTED q"
proof -
  note k = settled_waiting[OF w]
  let ?p = "reject_pending env a m n ds (pending_positions r) r1"
  have c: "core r1 = core r" using authorize_frame(1)[OF a] by simp
  then have pp: "pending_positions r1 = pending_positions r" and oe: "only_external r1"
    and ap: "actions_with Ap_APPROVED r1 = {}"
    using k by (simp_all add: core_eq_iff pending_positions_def only_external_def actions_with_def)
  note none = reject_pending_none_left[where r = r1, unfolded pp]
  note map_eq = reject_pending_approvals[of env a m n ds r1, unfolded pp]
  have f: "approvals q = approvals ?p" "artifacts q = artifacts r1"
    using transition_fields(2,5)[OF t] core_loops(3)[of env a m ?p, unfolded core_eq_iff]
    by simp_all
  show "rec_status q = P_REVISION_REQUESTED" by (rule transition_fields(9)[OF t])
  then show "settled q"
    using f none oe ap k(2) c actions_with_cong[OF f(1)]
    by (simp add: settled_def only_external_def core_eq_iff)
  obtain x where "x \<in> set (approvals r)" "ar_status x = Ap_PENDING"
    "ar_action_type x = EXTERNAL_API_SEND"
    using k(3) by (metis actions_with_iff singletonI)
  then show "EXTERNAL_API_SEND \<in> actions_with Ap_REJECTED q"
    using c unfolding actions_with_cong[OF f(1)] actions_with_iff map_eq core_eq_iff
    by (intro bexI[of _ "x\<lparr>ar_status := Ap_REJECTED, ar_requested_by := actor_id a,
        ar_decision_note := compose_decision_note m n\<rparr>"]) (auto simp: image_iff)
qed

lemma reject_approval_settled:
  assumes "settled r"
  shows "saves_settled (reject_approval env rejected actor reason note ids r)"
proof (cases "rec_status r = P_WAITING_APPROVAL")
  case w: True
  have "settled r1" if "authorize_actions_or_raise env a i acts r = Inl (r1, e)" for a i acts r1 e
    using settled_cong[of r1 r] authorize_frame[OF that] assms by simp
  moreover have pp: "pending_approvals (approval_action_state_of r) = pending_positions r"
    by (simp add: approval_action_state_of_def)
  ultimately show ?thesis
    unfolding reject_approval_def Let_def pp
    by (intro outcome_branches; (simp only: outcome_all_simps)?)
       (auto intro: rejected_state(1)[OF assms w])
next
  case False
  then have "fst (reject_approval env rejected actor reason note ids r) = None"
    by (auto simp: reject_approval_def resolve_result_or_raise_invalid_state_def Let_def
        raise_error_def return_only_def split: sum.split option.split)
  then show ?thesis by (rule outcome_all_None)
qed

text \<open>The revision and planning lanes.\<close>

lemma lane_state:
  assumes s: "settled r" "rec_status r \<in> {P_REVISION_REQUESTED, P_READY_FOR_PLANNING}"
    and q: "core q = core r" and t: "transition env st a m q = Inr q'"
  shows "st = P_READY_FOR_PLANNING \<Longrightarrow> settled q'"
    and "st = P_IN_PROGRESS \<Longrightarrow>
      executing q' \<and> actions_with Ap_APPROVED q' = {} \<and> productive [0..<length (tasks q')] q'"
proof -
  note f = transition_fields[OF t]
  have k: "only_external r" "artifacts r \<noteq> []" "actions_with Ap_PENDING r = {}"
    "actions_with Ap_APPROVED r = {}"
    using s by (auto simp: settled_def)
  have q': "approvals q' = approvals r" "artifacts q' = artifacts r"
    using f q by (simp_all add: core_eq_iff)
  note acts = actions_with_cong[OF q'(1)]
  show "settled q'" if "st = P_READY_FOR_PLANNING"
    using that f(9) k q' acts by (simp add: settled_def only_external_def)
  show "executing q' \<and> actions_with Ap_APPROVED q' = {} \<and> productive [0..<length (tasks q')] q'"
    if "st = P_IN_PROGRESS"
    using that f(9) k q' acts by (simp add: executing_def only_external_def productive_def)
qed

lemma resume_from_revision_settled:
  assumes "settled r"
  shows "saves_settled (resume_from_revision env mode actor reason name approved r)"
  unfolding resume_from_revision_def Let_def
proof (intro outcome_branches; (simp only: outcome_all_simps)?)
  let ?a = "coerce_actor actor OPERATOR HUMAN"
  let ?m = "normalize_text reason"
  assume "resolve_result_or_raise_invalid_state r P_REVISION_REQUESTED
    [Inr (idempotent_resume_from_revision_if_ready_for_planning r mode),
     Inr (idempotent_resume_from_revision_if_completed r mode)] = Inr None"
  then have st: "rec_status r \<in> {P_REVISION_REQUESTED, P_READY_FOR_PLANNING}"
    by (auto dest: resolve_invalid)
  let ?r1 = "record_resume_triggered env ?a (revision_resume_mode_value mode)
    (str_or ?m ''Revision resume requested.'') [] r"
  obtain ds tr ns tm where c: "revision_resume_config mode = (ds, tr, ns, tm)"
    by (cases "revision_resume_config mode")
  let ?q = "reset_tasks_for_departments env ds T_PENDING ?a tr True ?m ?r1"
  have ns: "ns = P_READY_FOR_PLANNING \<or> ns = P_IN_PROGRESS" using c by (cases mode) auto
  have q: "core ?q = core r" by simp
  show "saves_settled (resume_revision_for_mode env ?a ?m mode name approved ?r1)"
    unfolding resume_revision_for_mode_def resume_revision_with_transition_def Let_def c prod.case
    by (intro outcome_branches; (simp only: outcome_all_simps)?)
       (use lane_state[OF assms st q] ns in \<open>auto intro: execute_pending_tasks_settled\<close>)
qed

lemma start_replanning_settled:
  assumes "settled r"
  shows "saves_settled (start_replanning env actor note name approved reset r)"
  unfolding start_replanning_def Let_def
proof (intro outcome_branches; (simp only: outcome_all_simps)?)
  let ?a = "coerce_actor actor OPERATOR HUMAN"
  assume "resolve_result_or_raise_invalid_state r P_READY_FOR_PLANNING
    [Inr (idempotent_start_replanning_if_completed r)] = Inr None"
  then have st: "rec_status r \<in> {P_REVISION_REQUESTED, P_READY_FOR_PLANNING}"
    by (auto dest: resolve_invalid)
  let ?q = "record_event env Ev_REPLANNING_STARTED (Some ?a)
    (str_or (normalize_text note) ''Replanning execution started.'')
    [(''reset_downstream_tasks'', JBool reset)]
    (if reset then reset_tasks_for_departments env {D_DESIGN, D_BUILD, D_TREND, D_REVIEW} T_PENDING
       ?a ''Replanning start reset.'' False '''' r else r)"
  have q: "core ?q = core r" by simp
  fix q' acts
  assume "transition env P_IN_PROGRESS ?a ''Replanning execution moved to in_progress.'' ?q = Inr q'"
  from lane_state(2)[OF assms st q this]
  show "saves_settled (execute_pending_tasks env (uuid4 env 0) name acts False ?a q')"
    by (auto intro: execute_pending_tasks_settled)
qed

lemma authentication_settled:
  assumes "settled r"
  shows "saves_settled (record_authentication_success env actor r)"
    "saves_settled (record_authentication_failure env reason r)"
proof -
  have s: "settled q" if "core q = core r" "tasks q = tasks r" for q
    using settled_cong[OF that] assms by simp
  show "saves_settled (record_authentication_success env actor r)"
    "saves_settled (record_authentication_failure env reason r)"
    by (simp_all add: record_authentication_success_def record_authentication_failure_def Let_def s)
qed

end
