(* ===== verification/Repository.thy ===== *)
theory Repository
  imports Orchestrator "HOL-Library.Multiset"
begin

text \<open>
  Project storage (\<open>app/state/repository.py\<close>): the contract of \<open>ProjectRepository\<close> as a
  locale, the in-memory repository that satisfies it, and the choice of a backend from the
  environment.

  \<open>save\<close> gives the store after it, or the text of what it raised, in which case nothing
  was stored. What a repository gives back for a saved record is \<open>norm\<close> of that record, since a
  table may return its rows in another order; the Postgres repository is in \<open>Postgres\<close>.
\<close>

section \<open>Access to the store\<close>

type_synonym 's getter = "'s \<Rightarrow> string \<Rightarrow> project_record option"
type_synonym 's saver = "project_record \<Rightarrow> 's \<Rightarrow> string + 's"

text \<open>The end of a handler: the record it saves is stored, then it returns or raises.\<close>

definition commit :: "'s saver \<Rightarrow> 'a outcome \<Rightarrow> 's \<Rightarrow> 's \<times> (orch_error + 'a)" where
  "commit save out s =
     (case out of
        (None, res) \<Rightarrow> (s, res)
      | (Some r, res) \<Rightarrow> (case save r s of Inl msg \<Rightarrow> (s, Inl (StorageErr msg)) | Inr s' \<Rightarrow> (s', res)))"

definition get_record_or_raise :: "'s getter \<Rightarrow> 's \<Rightarrow> string \<Rightarrow> orch_error + project_record" where
  "get_record_or_raise get s pid =
     (case get s pid of
        None \<Rightarrow> Inl (LookupErr (''Project not found: '' @ pid))
      | Some r \<Rightarrow> Inr r)"

definition with_record ::
  "'s getter \<Rightarrow> 's saver \<Rightarrow> string \<Rightarrow> (project_record \<Rightarrow> 'a outcome) \<Rightarrow> 's \<Rightarrow>
   's \<times> (orch_error + 'a)" where
  "with_record get save pid handler s =
     (case get_record_or_raise get s pid of
        Inl e \<Rightarrow> (s, Inl e)
      | Inr r \<Rightarrow> commit save (handler r) s)"

text \<open>The two authentication hooks swallow the \<open>LookupError\<close>.\<close>

definition with_record_if_any ::
  "'s getter \<Rightarrow> 's saver \<Rightarrow> string \<Rightarrow> (project_record \<Rightarrow> unit outcome) \<Rightarrow> 's \<Rightarrow>
   's \<times> (orch_error + unit)" where
  "with_record_if_any get save pid handler s =
     (case get_record_or_raise get s pid of
        Inl e \<Rightarrow> (s, Inr ())
      | Inr r \<Rightarrow> commit save (handler r) s)"

lemma fst_with_record_if_any:
  "fst (with_record_if_any get save pid handler s) = fst (with_record get save pid handler s)"
  by (simp add: with_record_if_any_def with_record_def split: sum.split)

section \<open>The contract\<close>

definition stored :: "'s getter \<Rightarrow> (project_record \<Rightarrow> bool) \<Rightarrow> 's \<Rightarrow> bool" where
  "stored get P s \<longleftrightarrow> (\<forall>pid r. get s pid = Some r \<longrightarrow> rec_id r = pid \<and> P r)"

locale project_repository =
  fixes get :: "'s \<Rightarrow> string \<Rightarrow> project_record option"
    and save :: "project_record \<Rightarrow> 's \<Rightarrow> string + 's"
    and norm :: "project_record \<Rightarrow> project_record"
  assumes get_saved: "save r s = Inr s' \<Longrightarrow> get s' (rec_id r) = Some (norm r)"
    and get_other: "save r s = Inr s' \<Longrightarrow> pid \<noteq> rec_id r \<Longrightarrow> get s' pid = get s pid"
    and norm_id: "rec_id (norm r) = rec_id r"
begin

lemma commit_stored:
  assumes "stored get P s" and "\<And>r res. out = (Some r, res) \<Longrightarrow> P (norm r)"
  shows "stored get P (fst (commit save out s))"
proof (cases out)
  case (Pair saved res)
  show ?thesis
  proof (cases saved)
    case None
    with assms(1) Pair show ?thesis by (simp add: commit_def)
  next
    case (Some r)
    show ?thesis
    proof (cases "save r s")
      case (Inl msg)
      with assms(1) Pair Some show ?thesis by (simp add: commit_def)
    next
      case (Inr s')
      have "rec_id q = pid \<and> P q" if "get s' pid = Some q" for pid q
      proof (cases "pid = rec_id r")
        case True
        with that get_saved[OF Inr] assms(2) Pair Some norm_id show ?thesis by auto
      next
        case False
        with that get_other[OF Inr] assms(1) show ?thesis by (simp add: stored_def)
      qed
      with Pair Some Inr show ?thesis by (simp add: commit_def stored_def)
    qed
  qed
qed

lemma with_record_stored:
  assumes "stored get P s"
    and "\<And>r r' res. P r \<Longrightarrow> rec_id r = pid \<Longrightarrow> handler r = (Some r', res) \<Longrightarrow> P (norm r')"
  shows "stored get P (fst (with_record get save pid handler s))"
proof (cases "get s pid")
  case (Some r)
  with assms(1) have "P r" "rec_id r = pid" by (simp_all add: stored_def)
  with assms have "stored get P (fst (commit save (handler r) s))"
    by (intro commit_stored) auto
  with Some show ?thesis by (simp add: with_record_def get_record_or_raise_def)
qed (simp add: with_record_def get_record_or_raise_def assms)

lemma with_record_if_any_stored:
  assumes "stored get P s"
    and "\<And>r r' res. P r \<Longrightarrow> rec_id r = pid \<Longrightarrow> handler r = (Some r', res) \<Longrightarrow> P (norm r')"
  shows "stored get P (fst (with_record_if_any get save pid handler s))"
  unfolding fst_with_record_if_any using assms by (rule with_record_stored)

text \<open>An operation on one project leaves every other project alone.\<close>

lemma commit_other:
  assumes "\<And>r res. out = (Some r, res) \<Longrightarrow> rec_id r \<noteq> pid"
  shows "get (fst (commit save out s)) pid = get s pid"
  using assms by (cases out) (auto simp: commit_def get_other split: option.splits sum.splits)

lemma with_record_other:
  assumes "\<And>r. get s pid = Some r \<Longrightarrow> rec_id r = pid" and "pid' \<noteq> pid"
    and "\<And>r r' res. rec_id r = pid \<Longrightarrow> handler r = (Some r', res) \<Longrightarrow> rec_id r' = pid"
  shows "get (fst (with_record get save pid handler s)) pid' = get s pid'"
proof (cases "get s pid")
  case (Some q)
  have "rec_id r' \<noteq> pid'" if "handler q = (Some r', res)" for r' res
    using that assms(2) assms(3)[of q r' res] assms(1) Some by auto
  with Some show ?thesis
    by (simp add: with_record_def get_record_or_raise_def commit_other)
qed (simp add: with_record_def get_record_or_raise_def)

text \<open>Only a saved record changes the store.\<close>

lemma commit_nothing: "fst out = None \<Longrightarrow> fst (commit save out s) = s"
  by (cases out) (simp add: commit_def)

lemma commit_get:
  assumes "out = (Some r, res)" and "save r s = Inr s'"
  shows "commit save out s = (s', res)" and "get (fst (commit save out s)) (rec_id r) = Some (norm r)"
  using assms get_saved by (simp_all add: commit_def)

end

section \<open>The in-memory repository\<close>

type_synonym memory = "string \<rightharpoonup> project_record"

definition memory_empty :: memory where
  "memory_empty = Map.empty"

text \<open>\<open>_snapshot\<close> is a deep copy: a value of the logic is its own copy.\<close>

definition memory_get :: "memory getter" where
  "memory_get s pid = s pid"

definition memory_save :: "memory saver" where
  "memory_save r s = Inr (s(rec_id r \<mapsto> r))"

interpretation memory: project_repository memory_get memory_save id
  by unfold_locales (auto simp: memory_get_def memory_save_def)

lemma stored_memory_empty: "stored memory_get P memory_empty"
  by (simp add: stored_def memory_get_def memory_empty_def)

section \<open>The backend that the environment selects\<close>

datatype backend = MemoryBackend | PostgresBackend string

definition backend_name :: "string \<Rightarrow> string" where
  "backend_name raw =
     (if raw \<in> {''memory'', ''in-memory'', ''inmemory''} then ''memory''
      else if raw \<in> {''postgres'', ''postgresql''} then ''postgres''
      else raw)"

text \<open>
  \<open>connect dsn\<close> stands for the construction of the Postgres repository and its
  \<open>initialize_schema()\<close>: \<open>Inl\<close> is the text of the exception.
\<close>

definition create_repository_from_env ::
  "(string \<Rightarrow> string option) \<Rightarrow> (string \<Rightarrow> string + unit) \<Rightarrow> string + backend" where
  "create_repository_from_env env connect =
     (let raw = py_lower (py_strip (opt_or (env ''STATE_BACKEND'') ''memory''));
          backend_raw = (if raw = '''' then ''memory'' else raw);
          backend = backend_name backend_raw;
          strict = parse_strict_env_flag (env ''STATE_BACKEND_STRICT'')
      in if backend \<notin> {''memory'', ''postgres''} then
           (if strict then Inl (''Unsupported STATE_BACKEND: '' @ backend) else Inr MemoryBackend)
         else if backend = ''postgres'' then
           (let dsn = py_strip (case env ''DATABASE_URL'' of None \<Rightarrow> '''' | Some d \<Rightarrow> d)
            in if dsn = '''' then
                 (if strict then Inl ''STATE_BACKEND=postgres requires DATABASE_URL''
                  else Inr MemoryBackend)
               else (case connect dsn of
                       Inr _ \<Rightarrow> Inr (PostgresBackend dsn)
                     | Inl msg \<Rightarrow> if strict then Inl msg else Inr MemoryBackend))
         else Inr MemoryBackend)"

lemma create_repository_lenient:
  "\<not> parse_strict_env_flag (env ''STATE_BACKEND_STRICT'') \<Longrightarrow>
     \<exists>b. create_repository_from_env env connect = Inr b"
  by (auto simp: create_repository_from_env_def Let_def split: sum.split)

end
