(* ===== verification/Service.thy ===== *)
theory Service
  imports Progress Repository
begin

text \<open>
  The orchestrator as a service over a repository: one request per public method of
  \<open>PMOrchestrator\<close>, \<open>serve\<close> as the whole method (load, work, save, answer), and the states
  that a repository can reach by requests. The invariant \<open>sound\<close> collects what every
  stored record satisfies.
\<close>

section \<open>Requests\<close>

datatype request =
    Run project_brief "project_policy option" string "action_arg list option" bool
  | ResumeFromApproval string "action_arg list option" actor_arg string string "py_ids dict option"
  | RejectApproval string "action_arg list option" actor_arg string string "py_ids dict option"
  | ResumeFromRevision string revision_resume_mode actor_arg string string "action_arg list option"
  | StartReplanning string actor_arg string string "action_arg list option" bool
  | GetProjectAudit string
  | AuthenticationSuccess string actor_context
  | AuthenticationFailure string string

datatype reply = Result orchestration_result | Audit project_audit | Done

fun map_result :: "('a \<Rightarrow> 'b) \<Rightarrow> 's \<times> ('e + 'a) \<Rightarrow> 's \<times> ('e + 'b)" where
  "map_result f (s, Inl e) = (s, Inl e)"
| "map_result f (s, Inr x) = (s, Inr (f x))"

lemma fst_map_result [simp]: "fst (map_result f x) = fst x"
  by (cases "(f, x)" rule: map_result.cases) auto

fun serve :: "'s getter \<Rightarrow> 's saver \<Rightarrow> runtime \<Rightarrow> request \<Rightarrow> 's \<Rightarrow> 's \<times> (orch_error + reply)" where
  "serve get save env (Run brief policy name approved sim) s =
     map_result Result (commit save (run env brief policy name approved sim) s)"
| "serve get save env (ResumeFromApproval pid approved actor n name ids) s =
     map_result Result
       (with_record get save pid (resume_from_approval env approved actor n name ids) s)"
| "serve get save env (RejectApproval pid rejected actor reason n ids) s =
     map_result Result
       (with_record get save pid (reject_approval env rejected actor reason n ids) s)"
| "serve get save env (ResumeFromRevision pid mode actor reason name approved) s =
     map_result Result
       (with_record get save pid (resume_from_revision env mode actor reason name approved) s)"
| "serve get save env (StartReplanning pid actor n name approved reset) s =
     map_result Result
       (with_record get save pid (start_replanning env actor n name approved reset) s)"
| "serve get save env (GetProjectAudit pid) s =
     map_result Audit (with_record get save pid get_project_audit s)"
| "serve get save env (AuthenticationSuccess pid actor) s =
     map_result (\<lambda>_. Done)
       (with_record_if_any get save pid (record_authentication_success env actor) s)"
| "serve get save env (AuthenticationFailure pid reason) s =
     map_result (\<lambda>_. Done)
       (with_record_if_any get save pid (record_authentication_failure env reason) s)"

section \<open>The invariant of a stored record\<close>

definition sound :: "project_record \<Rightarrow> bool" where
  "sound r \<longleftrightarrow> settled r \<and> history_ok r \<and> log_complete (task_states build_plan) r \<and>
     keys_unique r \<and> map task_shape (tasks r) = map task_shape build_plan"

lemma soundD:
  assumes "sound r"
  shows "settled r" "history_ok r" "log_complete (task_states build_plan) r" "keys_unique r"
    "map task_shape (tasks r) = map task_shape build_plan"
  using assms by (simp_all add: sound_def)

lemma plan_ids_distinct [simp]: "distinct (map t_id build_plan)"
  by code_simp

lemma new_record_ok:
  fixes env brief policy
  defines "r \<equiv> new_record env brief policy"
  shows "history_ok r" "log_complete (task_states build_plan) r" "keys_unique r"
    "map task_shape (tasks r) = map task_shape build_plan"
proof -
  show "history_ok r"
    unfolding history_ok_def by (rule exI[of _ "[]"]) (simp add: r_def new_record_def)
  have "distinct (map t_id build_plan)" by simp
  then show "log_complete (task_states build_plan) r" "keys_unique r"
    "map task_shape (tasks r) = map task_shape build_plan"
    by (simp_all add: r_def new_record_def log_complete_def replay_tasks_def replay_project_def
        keys_unique_def)
qed

lemma edits_sound:
  assumes e: "edits r r'" and "settled r'"
    and "history_ok r" "log_complete (task_states build_plan) r" "keys_unique r"
      "map task_shape (tasks r) = map task_shape build_plan"
  shows "sound r'"
  using assms edits_history[OF e] edits_log_complete[OF e] edits_keys[OF e] edits_frame[OF e]
  by (simp add: sound_def same_frame_def)

lemma run_sound: "run env brief policy name approved sim = (Some r', res) \<Longrightarrow> sound r'"
  using run_edits[of env brief policy name approved sim]
    run_settled[of env brief policy name approved sim]
  by (intro edits_sound[OF _ _ new_record_ok]) (auto simp: outcome_all_def)

section \<open>A request as one step of one record\<close>

text \<open>The project that a request names, and the record that it saves when it finds \<open>r\<close>.\<close>

fun target :: "request \<Rightarrow> string option" where
  "target (Run brief policy name approved sim) = None"
| "target (ResumeFromApproval pid approved actor n name ids) = Some pid"
| "target (RejectApproval pid rejected actor reason n ids) = Some pid"
| "target (ResumeFromRevision pid mode actor reason name approved) = Some pid"
| "target (StartReplanning pid actor n name approved reset) = Some pid"
| "target (GetProjectAudit pid) = Some pid"
| "target (AuthenticationSuccess pid actor) = Some pid"
| "target (AuthenticationFailure pid reason) = Some pid"

fun saved_record :: "runtime \<Rightarrow> request \<Rightarrow> project_record \<Rightarrow> project_record option" where
  "saved_record env (Run brief policy name approved sim) r =
     fst (run env brief policy name approved sim)"
| "saved_record env (ResumeFromApproval pid approved actor n name ids) r =
     fst (resume_from_approval env approved actor n name ids r)"
| "saved_record env (RejectApproval pid rejected actor reason n ids) r =
     fst (reject_approval env rejected actor reason n ids r)"
| "saved_record env (ResumeFromRevision pid mode actor reason name approved) r =
     fst (resume_from_revision env mode actor reason name approved r)"
| "saved_record env (StartReplanning pid actor n name approved reset) r =
     fst (start_replanning env actor n name approved reset r)"
| "saved_record env (GetProjectAudit pid) r = fst (get_project_audit r)"
| "saved_record env (AuthenticationSuccess pid actor) r =
     fst (record_authentication_success env actor r)"
| "saved_record env (AuthenticationFailure pid reason) r =
     fst (record_authentication_failure env reason r)"

lemma outcome_all_fst: "outcome_all (\<lambda>r' res. P r') out \<Longrightarrow> fst out = Some r' \<Longrightarrow> P r'"
  by (cases out) (simp add: outcome_all_def)

lemma saved_record_edits:
  "saved_record env q r = Some r' \<Longrightarrow> target q \<noteq> None \<Longrightarrow> edits r r'"
  by (cases q)
     (auto intro: outcome_all_fst[OF resume_from_approval_edits] outcome_all_fst[OF reject_approval_edits]
       outcome_all_fst[OF resume_from_revision_edits] outcome_all_fst[OF start_replanning_edits]
       outcome_all_fst[OF authentication_edits(1)] outcome_all_fst[OF authentication_edits(2)]
       simp: audit_saves_nothing)

lemma saved_record_id:
  assumes "saved_record env q r = Some r'" "target q \<noteq> None"
  shows "rec_id r' = rec_id r"
  using edits_frame[OF saved_record_edits[OF assms]] by (simp add: same_frame_def)

lemma saved_record_run_sound: "target q = None \<Longrightarrow> saved_record env q r = Some r' \<Longrightarrow> sound r'"
  by (cases q) (auto intro: run_sound simp: prod_eq_iff)

lemma saved_record_settled:
  assumes "settled r" "saved_record env q r = Some r'" "target q \<noteq> None"
  shows "settled r'"
  using assms(2,3)
  by (cases q)
     (auto intro: outcome_all_fst[OF resume_from_approval_settled[OF assms(1)]]
       outcome_all_fst[OF reject_approval_settled[OF assms(1)]]
       outcome_all_fst[OF resume_from_revision_settled[OF assms(1)]]
       outcome_all_fst[OF start_replanning_settled[OF assms(1)]]
       outcome_all_fst[OF authentication_settled(1)[OF assms(1)]]
       outcome_all_fst[OF authentication_settled(2)[OF assms(1)]] simp: audit_saves_nothing)

lemma saved_record_sound:
  "sound r \<Longrightarrow> saved_record env q r = Some r' \<Longrightarrow> target q \<noteq> None \<Longrightarrow> sound r'"
  using saved_record_edits saved_record_settled by (blast intro: edits_sound soundD)

section \<open>The service over any repository\<close>

inductive reachable ::
  "'s getter \<Rightarrow> 's saver \<Rightarrow> 's \<Rightarrow> 's \<Rightarrow> bool" for get save where
  start: "reachable get save s s"
| request: "reachable get save s s' \<Longrightarrow> serve get save env q s' = (s'', res) \<Longrightarrow>
     reachable get save s s''"

context project_repository
begin

lemma commit_cases:
  assumes "commit save out s = (s', res)" and "get s' pid = Some r'"
  obtains (same) "get s pid = Some r'"
    | (saved) x where "fst out = Some x" "pid = rec_id x" "r' = norm x"
proof (cases "fst out")
  case None
  with assms same show ?thesis by (cases out) (simp add: commit_def)
next
  case (Some x)
  show ?thesis
  proof (cases "save x s")
    case (Inl m)
    with Some assms same show ?thesis by (cases out) (simp add: commit_def)
  next
    case (Inr t)
    with Some assms(1) have "s' = t" by (cases out) (simp add: commit_def)
    with assms(2) get_saved[OF Inr] get_other[OF Inr, of pid] same saved[OF Some] show ?thesis
      by (cases "pid = rec_id x") auto
  qed
qed

lemma with_record_cases:
  assumes "fst (with_record get save p handler s) = s'" and "get s' pid = Some r'"
  obtains (same) "get s pid = Some r'"
    | (saved) r x where "get s p = Some r" "fst (handler r) = Some x" "pid = rec_id x" "r' = norm x"
proof (cases "get s p")
  case None
  with assms same show ?thesis by (simp add: with_record_def get_record_or_raise_def)
next
  case (Some r)
  with assms(1) have "commit save (handler r) s = (s', snd (commit save (handler r) s))"
    by (auto simp: with_record_def get_record_or_raise_def)
  from commit_cases[OF this assms(2)] show ?thesis using Some same saved by metis
qed

text \<open>A record in the store after a request was there before, or is what the request saved.\<close>

lemma serve_cases:
  assumes serve: "fst (serve get save env q s) = s'" and r': "get s' pid = Some r'"
    and keys: "stored get P s"
  obtains (same) "get s pid = Some r'"
    | (ran_new) r x where "target q = None" "saved_record env q r = Some x" "pid = rec_id x"
        "r' = norm x"
    | (handled) r x where "target q = Some pid" "get s pid = Some r"
        "saved_record env q r = Some x" "pid = rec_id x" "r' = norm x"
proof -
  have w: thesis
    if t: "target q = Some p" and s': "fst (with_record get save p handler s) = s'"
      and h: "\<And>r. saved_record env q r = fst (handler r)"
    for p and handler :: "project_record \<Rightarrow> 'a outcome"
    using s' r'
  proof (cases rule: with_record_cases)
    case (saved r x)
    then have "rec_id x = p"
      using h t keys saved_record_id[of env q r x] by (simp add: stored_def)
    with saved t h show thesis by (intro handled) auto
  qed (rule same)
  show thesis
  proof (cases q)
    case (Run brief policy name approved sim)
    let ?out = "run env brief policy name approved sim"
    have "commit save ?out s = (s', snd (commit save ?out s))"
      using serve Run by (auto simp: prod_eq_iff)
    then show thesis
      using r' by (cases rule: commit_cases) (use Run same ran_new in auto)
  qed (rule w; use serve in \<open>auto simp: fst_with_record_if_any\<close>)+
qed

text \<open>What every saved record satisfies as the repository gives it back, every stored record does.\<close>

lemma serve_stored:
  assumes s: "stored get P s"
    and new: "\<And>q r x. target q = None \<Longrightarrow> saved_record env q r = Some x \<Longrightarrow> P (norm x)"
    and step: "\<And>q r x. target q \<noteq> None \<Longrightarrow> P r \<Longrightarrow> saved_record env q r = Some x \<Longrightarrow> P (norm x)"
  shows "stored get P (fst (serve get save env q s))"
  unfolding stored_def
proof (intro allI impI)
  fix pid r' assume r': "get (fst (serve get save env q s)) pid = Some r'"
  from refl r' s show "rec_id r' = pid \<and> P r'"
  proof (cases rule: serve_cases)
    case same
    with s show ?thesis by (simp add: stored_def)
  next
    case (ran_new r x)
    then show ?thesis using new norm_id by auto
  next
    case (handled r x)
    then show ?thesis using s step[of q r x] norm_id by (auto simp: stored_def)
  qed
qed

lemma reachable_stored:
  assumes "reachable get save s s'" and "stored get P s"
    and "\<And>env q r x. target q = None \<Longrightarrow> saved_record env q r = Some x \<Longrightarrow> P (norm x)"
    and "\<And>env q r x. target q \<noteq> None \<Longrightarrow> P r \<Longrightarrow> saved_record env q r = Some x \<Longrightarrow> P (norm x)"
  shows "stored get P s'"
  using assms(1,2)
proof (induction rule: reachable.induct)
  case (request s s' env q s'' res)
  then have "stored get P (fst (serve get save env q s'))" using assms(3,4) by (intro serve_stored)
  with request show ?case by simp
qed

lemma serve_sound:
  assumes s: "stored get sound s" and n: "\<And>r. sound r \<Longrightarrow> sound (norm r)"
  shows "stored get sound (fst (serve get save env q s))"
  using saved_record_run_sound saved_record_sound n by (intro serve_stored[OF s]) blast+

lemma reachable_sound:
  assumes "reachable get save s s'" and "stored get sound s" and "\<And>r. sound r \<Longrightarrow> sound (norm r)"
  shows "stored get sound s'"
  using saved_record_run_sound saved_record_sound assms(3)
  by (intro reachable_stored[OF assms(1,2)]) blast+

text \<open>A request leaves the store alone or is one successful save.\<close>

lemma commit_saves:
  "fst (commit save out s) = s \<or> (\<exists>r. save r s = Inr (fst (commit save out s)))"
  by (cases out) (auto simp: commit_def split: option.split sum.split)

lemma with_record_saves:
  "fst (with_record get save pid handler s) = s \<or>
     (\<exists>r. save r s = Inr (fst (with_record get save pid handler s)))"
proof (cases "get_record_or_raise get s pid")
  case (Inr r)
  then show ?thesis using commit_saves[of "handler r" s] by (simp add: with_record_def)
qed (simp add: with_record_def)

lemma serve_saves:
  "fst (serve get save env q s) = s \<or> (\<exists>r. save r s = Inr (fst (serve get save env q s)))"
  by (cases q) (simp_all add: fst_with_record_if_any with_record_saves commit_saves)

end

end
