(* ===== verification/Safety.thy ===== *)
theory Safety
  imports Service
begin

text \<open>
  What a caller can and cannot bring about: approvals only through an authorised resume,
  external trend analysis only behind the approval gate, denied requests that leave only an
  audit trail, completed projects that stay as they are, and the ways a waiting project
  goes on or is stuck.
\<close>

section \<open>Authorisation\<close>

lemma authorize_actions_allowed:
  "authorize_actions env actor ids as r = Inr r' \<Longrightarrow> a \<in> set as \<Longrightarrow>
     ad_allowed (authorize_action a actor (Some (p_policy (project r))) ids)"
proof (induction "as" arbitrary: r)
  case (Cons b "as")
  let ?d = "authorize_action b actor (Some (p_policy (project r))) ids"
  let ?r1 = "record_authorization_granted env actor b (ad_policy_source ?d) (ad_strict_mode ?d)
    (ad_override_applied ?d) r"
  from Cons.prems(1) have d: "ad_allowed ?d" and r1: "authorize_actions env actor ids as ?r1 = Inr r'"
    by (auto simp: Let_def split: if_splits)
  have "project ?r1 = project r" by (simp add: record_authorization_granted_def Let_def)
  with Cons.IH[OF r1] d Cons.prems(2) show ?case by auto
qed simp

lemma authorize_actions_denied:
  "authorize_actions env actor ids as r = Inl (r', e) \<Longrightarrow>
     \<exists>a \<in> set as. \<not> ad_allowed (authorize_action a actor (Some (p_policy (project r))) ids) \<and>
       e = PermissionErr (ad_reason (authorize_action a actor (Some (p_policy (project r))) ids))"
proof (induction "as" arbitrary: r)
  case (Cons b "as")
  let ?d = "authorize_action b actor (Some (p_policy (project r))) ids"
  let ?r1 = "record_authorization_granted env actor b (ad_policy_source ?d) (ad_strict_mode ?d)
    (ad_override_applied ?d) r"
  have p: "project ?r1 = project r" by (simp add: record_authorization_granted_def Let_def)
  show ?case
  proof (cases "ad_allowed ?d")
    case True
    with Cons.prems Cons.IH[of ?r1] p show ?thesis by (auto simp: Let_def)
  next
    case False
    with Cons.prems show ?thesis by (auto simp: Let_def)
  qed
qed simp

lemma finite_actions [simp]: "finite (S :: approval_action_type set)"
  by (rule finite_subset[OF _ finite_set[of all_action_types]])
     (auto simp: all_action_types_def, metis approval_action_type.exhaust)

lemma authorize_allowed:
  "authorize_actions_or_raise env actor ids acts r = Inr r' \<Longrightarrow> a \<in> acts \<Longrightarrow>
     ad_allowed (authorize_action a actor (Some (p_policy (project r))) ids)"
  by (rule authorize_actions_allowed[of env actor ids "sorted_list_of_set acts" r r'])
     (simp_all add: authorize_actions_or_raise_def)

lemma authorize_denied:
  "authorize_actions_or_raise env actor ids acts r = Inl (r', e) \<Longrightarrow>
     \<exists>a \<in> acts. \<not> ad_allowed (authorize_action a actor (Some (p_policy (project r))) ids) \<and>
       e = PermissionErr (ad_reason (authorize_action a actor (Some (p_policy (project r))) ids))"
  using authorize_actions_denied[of env actor ids "sorted_list_of_set acts" r r' e]
  by (simp add: authorize_actions_or_raise_def)

section \<open>Approvals come from an authorised resume only\<close>

definition only_requests :: "project_record \<Rightarrow> project_record \<Rightarrow> bool" where
  "only_requests r r' \<longleftrightarrow>
     (\<exists>new. approvals r' = approvals r @ new \<and> (\<forall>a \<in> set new. ar_status a = Ap_PENDING))"

text \<open>Position \<open>i\<close> holds a pending approval before and an approved one after.\<close>

definition approves :: "project_record \<Rightarrow> project_record \<Rightarrow> nat \<Rightarrow> bool" where
  "approves r r' i \<longleftrightarrow>
     i < length (approvals r) \<and> ar_status (approvals r ! i) = Ap_PENDING \<and>
     i < length (approvals r') \<and> ar_status (approvals r' ! i) = Ap_APPROVED"

lemma only_requests_approves: "only_requests r r' \<Longrightarrow> \<not> approves r r' i"
  by (auto simp: only_requests_def approves_def nth_append)

lemma only_requests_same: "approvals r' = approvals r \<Longrightarrow> only_requests r r'"
  by (simp add: only_requests_def)

lemma execution_requests:
  assumes s: "rec_status r = P_IN_PROGRESS"
  shows "outcome_all (\<lambda>r' res. only_requests r r' \<and> (\<exists>x. res = Inr x))
    (execute_pending_tasks env uuid name appr sim actor r)"
proof (cases "provider_or_raise env name")
  case (Inr prov)
  let ?x = "execute_tasks env uuid prov appr sim actor [0..<length (tasks r)] r False False"
  have ok: "loop_ok prov appr uuid sim [0..<length (tasks r)] r False False ?x"
    using s by (intro execute_tasks_ok) auto
  show ?thesis
  proof (cases ?x)
    case (Continue r' rr' cf')
    with ok have f: "project r' = project r" "approvals r' = approvals r"
      by (simp_all add: loop_ok_def loop_finished_def)
    with s have "rec_status r' = P_IN_PROGRESS" by simp
    from finish_execution_eq[OF this, of env actor rr' cf'] Continue Inr f(2) show ?thesis
      by (auto simp: execute_pending_tasks_def only_requests_same)
  next
    case (Paused r' steps)
    with ok have "approvals r' = approvals r @ pause_request uuid r"
      by (simp add: loop_ok_def loop_paused_def)
    then have "only_requests r r'" by (auto simp: only_requests_def pause_request_def)
    with Paused Inr show ?thesis by (simp add: execute_pending_tasks_def)
  qed (use ok in \<open>simp add: loop_ok_def\<close>)
qed (simp add: execute_pending_tasks_def)

lemma execution_requests_from:
  assumes "rec_status r = P_IN_PROGRESS" and "approvals r = approvals r0"
  shows "outcome_all (\<lambda>r' res. only_requests r0 r') (execute_pending_tasks env uuid name appr sim actor r)"
  using execution_requests[OF assms(1), of env uuid name appr sim actor] assms(2)
  by (auto simp: outcome_all_def only_requests_def)

lemma transition_result:
  "transition env s a m q = Inr q' \<Longrightarrow> approvals q' = approvals q \<and> rec_status q' = s"
  by (simp add: transition_fields)

lemma resume_from_revision_requests:
  "outcome_all (\<lambda>r' res. only_requests r r') (resume_from_revision env mode actor reason name approved r)"
proof -
  obtain ds tr ns tm where c: "revision_resume_config mode = (ds, tr, ns, tm)"
    by (cases "revision_resume_config mode")
  have ns: "ns = P_READY_FOR_PLANNING \<or> ns = P_IN_PROGRESS" using c by (cases mode) auto
  show ?thesis
    unfolding resume_from_revision_def resume_revision_for_mode_def
      resume_revision_with_transition_def Let_def c prod.case
    by (intro outcome_branches; (simp only: outcome_all_simps)?)
       (use ns in \<open>auto intro!: execution_requests_from only_requests_same dest!: transition_result\<close>)
qed

lemma start_replanning_requests:
  "outcome_all (\<lambda>r' res. only_requests r r') (start_replanning env actor n name approved reset r)"
  unfolding start_replanning_def Let_def
  by (intro outcome_branches; (simp only: outcome_all_simps)?)
     (auto intro!: execution_requests_from dest!: transition_result)

lemma authentication_requests:
  "outcome_all (\<lambda>r' res. only_requests r r') (record_authentication_success env who r)"
  "outcome_all (\<lambda>r' res. only_requests r r') (record_authentication_failure env reason r)"
  by (simp_all add: record_authentication_success_def record_authentication_failure_def Let_def
      only_requests_same)

definition authorized_for ::
  "actor_context \<Rightarrow> py_ids dict option \<Rightarrow> project_record \<Rightarrow> approval_action_type \<Rightarrow> bool" where
  "authorized_for actor ids r a \<longleftrightarrow>
     ad_allowed (authorize_action a actor (Some (p_policy (project r))) ids)"

definition approvals_authorized ::
  "actor_context \<Rightarrow> py_ids dict option \<Rightarrow> project_record \<Rightarrow> project_record \<Rightarrow> bool" where
  "approvals_authorized actor ids r r' \<longleftrightarrow>
     (\<forall>i. approves r r' i \<longrightarrow> authorized_for actor ids r (ar_action_type (approvals r ! i)))"

lemma approvals_authorized_same:
  "only_requests r r' \<Longrightarrow> approvals_authorized actor ids r r'"
  by (simp add: approvals_authorized_def only_requests_approves)

text \<open>Step: approved in place first, then only requests are added.\<close>

lemma approvals_authorized_step:
  assumes a: "\<And>x. x \<in> acts \<Longrightarrow> authorized_for actor ids r x" and r1: "approvals r1 = approvals r"
    and q: "only_requests (approve_pending env b n acts (pending_positions r) r1) r'"
  shows "approvals_authorized actor ids r r'"
  unfolding approvals_authorized_def
proof (intro allI impI)
  fix i assume i: "approves r r' i"
  have pp: "pending_positions r = pending_positions r1" by (simp add: pending_positions_def r1)
  note m = approve_pending_approvals[of env b n acts r1, folded pp, unfolded r1]
  from i q m have "ar_action_type (approvals r ! i) \<in> acts"
    by (auto simp: approves_def only_requests_def nth_append split: if_splits)
  then show "authorized_for actor ids r (ar_action_type (approvals r ! i))" by (rule a)
qed

lemma authorize_maybe:
  assumes "(if acts \<noteq> {} then authorize_actions_or_raise env a ids acts r else Inr r) = Inr r1"
  shows "approvals r1 = approvals r" "\<And>x. x \<in> acts \<Longrightarrow> authorized_for a ids r x"
  using assms authorize_approvals[of env a ids acts r r1]
  by (auto simp: authorized_for_def intro: authorize_allowed split: if_splits)

lemma authorize_maybe_failed:
  assumes "(if acts \<noteq> {} then authorize_actions_or_raise env a ids acts r else Inr r) = Inl (r1, e)"
  shows "core r1 = core r" "tasks r1 = tasks r" "checkpoints r1 = checkpoints r"
    "\<exists>x \<in> acts. \<not> authorized_for a ids r x" "\<exists>m. e = PermissionErr m"
proof -
  have f: "authorize_actions_or_raise env a ids acts r = Inl (r1, e)"
    using assms by (simp split: if_splits)
  show "core r1 = core r" "tasks r1 = tasks r" "checkpoints r1 = checkpoints r"
    using authorize_frame[OF f] by simp_all
  show "\<exists>x \<in> acts. \<not> authorized_for a ids r x" "\<exists>m. e = PermissionErr m"
    using authorize_denied[OF f] by (auto simp: authorized_for_def)
qed

lemma full_approval_requests:
  "outcome_all (\<lambda>r' res. only_requests r r' \<and> (\<exists>x. res = Inr x)) (full_approval env actor n name eff r)"
  unfolding full_approval_def Let_def
  by (intro outcome_branches; (simp only: outcome_all_simps)?)
     (rule outcome_all_mono[OF execution_requests];
      auto dest!: transition_result simp: only_requests_def)

lemma partial_approval_requests:
  "outcome_all (\<lambda>r' res. only_requests r r' \<and> (\<exists>x. res = Inr x))
     (partial_approval env actor n acts missing r)"
  unfolding partial_approval_def Let_def
  by (intro outcome_branches; simp add: only_requests_same)

lemma resume_from_approval_authorized:
  fixes actor
  defines "a \<equiv> coerce_actor actor APPROVER HUMAN"
  shows "outcome_all (\<lambda>r' res. approvals_authorized a ids r r')
    (resume_from_approval env approved actor n name ids r)"
  unfolding resume_from_approval_def Let_def a_def[symmetric]
proof (intro outcome_branches; (simp only: outcome_all_simps)?)
  fix S r1 assume auth: "(if S - approved_actions (approval_action_state_of r) \<noteq> {}
     then authorize_actions_or_raise env a ids (S - approved_actions (approval_action_state_of r)) r
     else Inr r) = Inr r1"
  have pp: "pending_approvals (approval_action_state_of r) = pending_positions r"
    by (simp add: approval_action_state_of_def)
  note ok = authorize_maybe[OF auth]
  note step = approvals_authorized_step[OF ok(2) ok(1)]
  show "outcome_all (\<lambda>r' res. approvals_authorized a ids r r')
     (partial_approval env a (normalize_text n) (S - approved_actions (approval_action_state_of r)) ms
       (approve_pending env a (normalize_text n) (S - approved_actions (approval_action_state_of r))
         (pending_approvals (approval_action_state_of r)) r1))" for ms
    unfolding pp by (rule outcome_all_mono[OF partial_approval_requests]) (blast intro: step)
  show "outcome_all (\<lambda>r' res. approvals_authorized a ids r r')
     (full_approval env a (normalize_text n) name eff
       (approve_pending env a (normalize_text n) (S - approved_actions (approval_action_state_of r))
         (pending_approvals (approval_action_state_of r)) r1))" for eff
    unfolding pp by (rule outcome_all_mono[OF full_approval_requests]) (blast intro: step)
next
  fix S r1 e assume "(if S - approved_actions (approval_action_state_of r) \<noteq> {}
     then authorize_actions_or_raise env a ids (S - approved_actions (approval_action_state_of r)) r
     else Inr r) = Inl (r1, e)"
  from authorize_maybe_failed(1)[OF this] show "approvals_authorized a ids r r1"
    by (simp add: approvals_authorized_same only_requests_same core_eq_iff)
qed

lemma reject_approval_approves_nothing:
  "outcome_all (\<lambda>r' res. \<not> approves r r' i) (reject_approval env rejected actor reason n ids r)"
proof -
  have pp: "pending_approvals (approval_action_state_of r) = pending_positions r"
    by (simp add: approval_action_state_of_def)
  have fin: "\<not> approves r q i"
    if a: "authorize_actions_or_raise env a ids acts r = Inr r1"
      and t: "transition env s a' m' (reject_waiting_tasks env a m
        (reject_pending env a m k ds (pending_positions r) r1)) = Inr q"
    for a acts r1 s a' m' m k ds q
  proof -
    have r1: "approvals r1 = approvals r" by (rule authorize_approvals[OF a])
    then have "pending_positions r = pending_positions r1" by (simp add: pending_positions_def)
    with transition_result[OF t] reject_pending_approvals[of env a m k ds r1] r1
    show ?thesis by (auto simp: approves_def)
  qed
  have aud: "\<not> approves r r1 i"
    if "authorize_actions_or_raise env a ids acts r = Inl (r1, e)" for a acts r1 e
    using authorize_frame(1)[OF that] by (simp add: approves_def core_eq_iff)
  show ?thesis
    unfolding reject_approval_def Let_def pp
    by (intro outcome_branches; (simp only: outcome_all_simps)?) (auto dest: fin aud)
qed

lemma run_approves_nothing:
  "run env brief policy name approved sim = (Some r', res) \<Longrightarrow>
     i < length (approvals r') \<Longrightarrow> ar_status (approvals r' ! i) \<noteq> Ap_APPROVED"
proof -
  assume run: "run env brief policy name approved sim = (Some r', res)" and i: "i < length (approvals r')"
  from start_execution_eq obtain r where r: "start_execution env (new_record env brief policy) = Inr r"
    "approvals r = []" "rec_status r = P_IN_PROGRESS" by blast
  have "outcome_all (\<lambda>r' res. only_requests r r') (run env brief policy name approved sim)"
    unfolding run_def r(1)
    by (intro outcome_branches) (auto intro: execution_requests_from r(3))
  from outcome_allD[OF this run] i r(2) show ?thesis
    by (auto simp: only_requests_def)
qed

text \<open>Of all requests only a resume approves, and its actor is authorised for the action.\<close>

lemma saved_record_approves:
  assumes saved: "saved_record env q r = Some r'" and t: "target q = Some pid" and a: "approves r r' i"
  shows "\<exists>approved actor n name ids. q = ResumeFromApproval pid approved actor n name ids \<and>
    authorized_for (coerce_actor actor APPROVER HUMAN) ids r (ar_action_type (approvals r ! i))"
proof (cases q)
  case (ResumeFromApproval p approved actor n name ids)
  with saved have "fst (resume_from_approval env approved actor n name ids r) = Some r'" by simp
  from outcome_all_fst[OF resume_from_approval_authorized this] a ResumeFromApproval t
  show ?thesis by (auto simp: approvals_authorized_def)
next
  case (RejectApproval p rejected actor reason n ids)
  with saved a outcome_all_fst[OF reject_approval_approves_nothing] show ?thesis by auto
next
  case (ResumeFromRevision p mode actor reason name approved)
  with saved a outcome_all_fst[OF resume_from_revision_requests] only_requests_approves
  show ?thesis by fastforce
next
  case (StartReplanning p actor n name approved reset)
  with saved a outcome_all_fst[OF start_replanning_requests] only_requests_approves
  show ?thesis by fastforce
next
  case (AuthenticationSuccess p actor)
  with saved a outcome_all_fst[OF authentication_requests(1)] only_requests_approves
  show ?thesis by fastforce
next
  case (AuthenticationFailure p reason)
  with saved a outcome_all_fst[OF authentication_requests(2)] only_requests_approves
  show ?thesis by fastforce
qed (use saved t in \<open>simp_all add: audit_saves_nothing\<close>)

section \<open>Errors leave at most an audit trail\<close>

definition audit_only :: "project_record \<Rightarrow> project_record \<Rightarrow> bool" where
  "audit_only r r' \<longleftrightarrow>
     r' = r\<lparr>events := events r'\<rparr> \<and> prefix (events r) (events r') \<and> length (events r) < length (events r')"

lemma audit_only_fields:
  assumes "audit_only r r'"
  shows "project r' = project r" "tasks r' = tasks r" "artifacts r' = artifacts r"
    "reviews r' = reviews r" "checkpoints r' = checkpoints r" "approvals r' = approvals r"
    "history r' = history r"
proof -
  from assms have e: "r' = r\<lparr>events := events r'\<rparr>" by (simp only: audit_only_def)
  show "project r' = project r" using arg_cong[OF e, of project] by simp
  show "tasks r' = tasks r" using arg_cong[OF e, of tasks] by simp
  show "artifacts r' = artifacts r" using arg_cong[OF e, of artifacts] by simp
  show "reviews r' = reviews r" using arg_cong[OF e, of reviews] by simp
  show "checkpoints r' = checkpoints r" using arg_cong[OF e, of checkpoints] by simp
  show "approvals r' = approvals r" using arg_cong[OF e, of approvals] by simp
  show "history r' = history r" using arg_cong[OF e, of history] by simp
qed

text \<open>
  A handler that raises either saves nothing, or it was denied: then the record it saves
  differs from the one it loaded in new events only.
\<close>

definition clean_error :: "project_record \<Rightarrow> project_record \<Rightarrow> orch_error + 'a \<Rightarrow> bool" where
  "clean_error r r' res \<longleftrightarrow>
     (case res of Inl e \<Rightarrow> (\<exists>m. e = PermissionErr m) \<and> audit_only r r' | Inr x \<Rightarrow> True)"

lemma clean_error_Inr [simp]: "clean_error r r' (Inr x)"
  by (simp add: clean_error_def)

lemma authorize_actions_audit:
  "\<exists>new. record_after (authorize_actions env actor ids as r) = r\<lparr>events := events r @ new\<rparr> \<and>
     (isl (authorize_actions env actor ids as r) \<longrightarrow> new \<noteq> [])"
proof (induction "as" arbitrary: r)
  case (Cons a "as")
  let ?d = "authorize_action a actor (Some (p_policy (project r))) ids"
  let ?r1 = "record_authorization_granted env actor a (ad_policy_source ?d) (ad_strict_mode ?d)
    (ad_override_applied ?d) r"
  obtain m where m: "?r1 = r\<lparr>events := events r @ m\<rparr>"
    by (cases "ad_override_applied ?d")
      (auto simp: record_authorization_granted_def record_event_def Let_def)
  show ?case
  proof (cases "ad_allowed ?d")
    case True
    from Cons.IH[of ?r1] True m show ?thesis by (auto simp: Let_def)
  next
    case False
    then show ?thesis
      by (auto simp: Let_def record_authorization_failure_def record_event_def)
  qed
qed (simp, metis append_Nil2 project_record.surjective project_record.update_convs(8))

lemma authorize_audit_only:
  assumes "authorize_actions_or_raise env actor ids acts r = Inl (r1, e)"
  shows "audit_only r r1" "\<exists>m. e = PermissionErr m"
proof -
  from assms authorize_actions_audit[of env actor ids "sorted_list_of_set acts" r]
  obtain new where "r1 = r\<lparr>events := events r @ new\<rparr>" "new \<noteq> []"
    by (auto simp: authorize_actions_or_raise_def)
  then show "audit_only r r1" by (simp add: audit_only_def)
  show "\<exists>m. e = PermissionErr m" using authorize_denied[OF assms] by auto
qed

lemma never_raises: "outcome_all (\<lambda>r' res. P r' \<and> (\<exists>x. res = Inr x)) out \<Longrightarrow>
    outcome_all (clean_error r) out"
  by (auto simp: outcome_all_def)

lemma execution_clean:
  "rec_status q = P_IN_PROGRESS \<Longrightarrow>
     outcome_all (clean_error r) (execute_pending_tasks env uuid name appr sim actor q)"
  by (rule never_raises[OF execution_requests])

lemma handlers_clean:
  "outcome_all (clean_error r) (resume_from_approval env approved actor n name ids r)"
  "outcome_all (clean_error r) (reject_approval env approved actor reason n ids r)"
  "outcome_all (clean_error r) (resume_from_revision env mode actor reason name approved r)"
  "outcome_all (clean_error r) (start_replanning env actor n name approved reset r)"
proof -
  have auth: "clean_error r r1 (Inl e)"
    if "authorize_actions_or_raise env a ids acts r = Inl (r1, e)" for a acts r1 e
    using authorize_audit_only[OF that] by (simp add: clean_error_def)
  have auth': "clean_error r r1 (Inl e)"
    if "(if acts \<noteq> {} then authorize_actions_or_raise env a ids acts r else Inr r) = Inl (r1, e)"
    for a acts r1 e
    using that auth by (auto split: if_splits)
  show "outcome_all (clean_error r) (resume_from_approval env approved actor n name ids r)"
    unfolding resume_from_approval_def Let_def
    by (intro outcome_branches never_raises[OF full_approval_requests]
        never_raises[OF partial_approval_requests]; (simp only: outcome_all_simps)?)
      (erule auth')
  show "outcome_all (clean_error r) (reject_approval env approved actor reason n ids r)"
    unfolding reject_approval_def Let_def
    by (intro outcome_branches; (simp only: outcome_all_simps clean_error_Inr)?) (erule auth)
  show "outcome_all (clean_error r) (resume_from_revision env mode actor reason name approved r)"
    unfolding resume_from_revision_def resume_revision_for_mode_def
      resume_revision_with_transition_def Let_def
    by (intro outcome_branches; (simp only: outcome_all_simps clean_error_Inr)?)
      (cases mode; auto intro!: execution_clean dest!: transition_result)
  show "outcome_all (clean_error r) (start_replanning env actor n name approved reset r)"
    unfolding start_replanning_def Let_def
    by (intro outcome_branches; (simp only: outcome_all_simps clean_error_Inr)?)
      (auto intro!: execution_clean dest!: transition_result)
qed

lemma other_handlers_clean:
  "outcome_all (clean_error r) (get_project_audit r)"
  "outcome_all (clean_error r) (record_authentication_success env who r)"
  "outcome_all (clean_error r) (record_authentication_failure env reason r)"
  by (simp_all add: get_project_audit_def record_authentication_success_def
      record_authentication_failure_def Let_def)

lemma run_clean: "run env brief policy name approved sim = (saved, Inl e) \<Longrightarrow> saved = None"
proof -
  assume run: "run env brief policy name approved sim = (saved, Inl e)"
  have "outcome_all (\<lambda>r' res. \<exists>x. res = Inr x) (run env brief policy name approved sim)"
  proof -
    from start_execution_eq obtain r where r: "start_execution env (new_record env brief policy) = Inr r"
      "rec_status r = P_IN_PROGRESS" by blast
    show ?thesis
      unfolding run_def r(1)
      by (intro outcome_branches; (simp only: outcome_all_simps)?)
        (auto intro: outcome_all_mono[OF execution_requests[OF r(2)]])
  qed
  with run show ?thesis by (cases saved) (auto simp: outcome_all_def)
qed

text \<open>What an error leaves in the in-memory store: the same store, or one more audited record.\<close>

definition error_trail :: "memory \<Rightarrow> string option \<Rightarrow> orch_error \<Rightarrow> memory \<Rightarrow> bool" where
  "error_trail s t e s' \<longleftrightarrow>
     s' = s \<or>
     (\<exists>m pid r r'. e = PermissionErr m \<and> t = Some pid \<and> s pid = Some r \<and> audit_only r r' \<and>
        s' = s(pid \<mapsto> r'))"

lemma map_result_error [simp]: "map_result f x = (s', Inl e) \<longleftrightarrow> x = (s', Inl e)"
  by (cases "(f, x)" rule: map_result.cases) auto

lemma with_record_error:
  assumes s: "stored memory_get P s" and clean: "\<And>r. outcome_all (clean_error r) (handler r)"
    and err: "with_record memory_get memory_save pid handler s = (s', Inl e)"
  shows "error_trail s (Some pid) e s'"
proof (cases "s pid")
  case None
  with err show ?thesis
    by (simp add: with_record_def get_record_or_raise_def memory_get_def error_trail_def)
next
  case (Some r)
  with err have c: "commit memory_save (handler r) s = (s', Inl e)"
    by (simp add: with_record_def get_record_or_raise_def memory_get_def)
  obtain saved res where h: "handler r = (saved, res)" by (cases "handler r")
  show ?thesis
  proof (cases saved)
    case None
    with c h show ?thesis by (simp add: commit_def error_trail_def)
  next
    case sv: (Some r')
    with c h have e: "res = Inl e" "s' = s(rec_id r' \<mapsto> r')"
      by (auto simp: commit_def memory_save_def)
    have "clean_error r r' res" by (rule outcome_allD[OF clean]) (simp add: h sv)
    with e(1) have a: "audit_only r r'" "\<exists>m. e = PermissionErr m" by (simp_all add: clean_error_def)
    have "rec_id r = pid" using s Some by (simp add: stored_def memory_get_def)
    moreover have "rec_id r' = rec_id r" using audit_only_fields(1)[OF a(1)] by simp
    ultimately have "s' = s(pid \<mapsto> r')" using e(2) by simp
    moreover obtain m where "e = PermissionErr m" using a(2) by blast
    ultimately show ?thesis
      unfolding error_trail_def using a(1) Some
      by (intro disjI2 exI[of _ m] exI[of _ pid] exI[of _ r] exI[of _ r']) simp
  qed
qed

lemma serve_error:
  assumes s: "stored memory_get P s"
    and err: "serve memory_get memory_save env q s = (s', Inl e)"
  shows "error_trail s (target q) e s'"
proof (cases q)
  case (Run brief policy name approved sim)
  obtain saved res where out: "run env brief policy name approved sim = (saved, res)"
    by (cases "run env brief policy name approved sim")
  with err Run run_clean[of env brief policy name approved sim saved e] show ?thesis
    by (auto simp: commit_def memory_save_def error_trail_def split: option.splits)
next
  case (AuthenticationSuccess pid actor)
  with err show ?thesis
    by (auto simp: with_record_if_any_def commit_def memory_save_def error_trail_def
        record_authentication_success_def Let_def outcome_defs split: sum.splits)
next
  case (AuthenticationFailure pid reason)
  with err show ?thesis
    by (auto simp: with_record_if_any_def commit_def memory_save_def error_trail_def
        record_authentication_failure_def Let_def outcome_defs split: sum.splits)
qed (use err with_record_error[OF s handlers_clean(1)] with_record_error[OF s handlers_clean(2)]
      with_record_error[OF s handlers_clean(3)] with_record_error[OF s handlers_clean(4)]
      with_record_error[OF s other_handlers_clean(1)] in auto)

section \<open>External analysis stays behind the gate\<close>

definition external_artifact :: "artifact \<Rightarrow> bool" where
  "external_artifact x \<longleftrightarrow>
     (case map_of (a_content x) ''provider'' of
        Some (JStr p) \<Rightarrow> py_lower (py_strip p) \<noteq> ''mock'' | _ \<Rightarrow> False)"

lemma agents_internal [simp]:
  "\<not> external_artifact (ResearchAgent_run t b)"
  "\<not> external_artifact (DesignAgent_run t b)"
  "\<not> external_artifact (BuildAgent_run t b)"
  by (simp_all add: external_artifact_def ResearchAgent_run_def DesignAgent_run_def BuildAgent_run_def)

lemma trend_external [simp]:
  "external_artifact (TrendAgent_run prov t b) \<longleftrightarrow> py_lower (py_strip (provider_name prov)) \<noteq> ''mock''"
  by (simp add: external_artifact_def TrendAgent_run_def trend_model_dump_def Let_def)

definition no_new_external :: "project_record \<Rightarrow> project_record \<Rightarrow> bool" where
  "no_new_external r r' \<longleftrightarrow>
     (\<forall>x \<in> set (artifacts r'). external_artifact x \<longrightarrow> x \<in> set (artifacts r))"

lemma no_new_external_upsert:
  "no_new_external r0 r \<Longrightarrow> artifacts r' = upsert a_id x (artifacts r) \<Longrightarrow>
     \<not> external_artifact x \<Longrightarrow> no_new_external r0 r'"
  using set_upsert[of a_id x "artifacts r"] by (auto simp: no_new_external_def)

lemma no_new_external_same:
  "no_new_external r0 r \<Longrightarrow> artifacts r' = artifacts r \<Longrightarrow> no_new_external r0 r'"
  by (simp add: no_new_external_def)

lemma no_new_external_refl: "artifacts r' = artifacts r \<Longrightarrow> no_new_external r r'"
  by (simp add: no_new_external_def)

definition step_internal :: "project_record \<Rightarrow> step_result \<Rightarrow> bool" where
  "step_internal r0 x \<longleftrightarrow>
     (case x of Continue r a b \<Rightarrow> no_new_external r0 r | Paused r s \<Rightarrow> no_new_external r0 r | Failed e \<Rightarrow> True)"

lemma execute_task_internal:
  assumes "EXTERNAL_API_SEND \<notin> appr" and n: "no_new_external r0 r"
  shows "step_internal r0 (execute_task env uuid prov appr sim actor i r rr cf)"
proof (cases "t_status (tasks r ! i) = T_DONE")
  case False
  let ?r1 = "set_task_status env i T_IN_PROGRESS actor [] r"
  show ?thesis
  proof (cases "t_department (tasks ?r1 ! i)")
    case D_TREND
    have open_gate: "\<not> needs_approval prov appr \<longleftrightarrow> \<not> external_artifact (TrendAgent_run prov t b)" for t b
      using assms(1) by (simp add: needs_approval_def requires_human_approval_def)
    show ?thesis
    proof (cases "needs_approval prov appr")
      case True
      with False D_TREND show ?thesis
        by (auto simp: execute_task_def Let_def step_internal_def pause_for_approval_def
            transition_def intro: no_new_external_same[OF n])
    next
      case no: False
      with open_gate have "\<not> external_artifact (TrendAgent_run prov t b)" for t b by blast
      then show ?thesis
        using False D_TREND no
        by (simp add: execute_task_def Let_def step_internal_def no_new_external_upsert[OF n])
    qed
  qed (use False in \<open>simp_all add: execute_task_def Let_def step_internal_def
        no_new_external_upsert[OF n] no_new_external_same[OF n]\<close>)
qed (use n in \<open>simp add: execute_task_def step_internal_def\<close>)

lemma execute_tasks_internal:
  assumes "EXTERNAL_API_SEND \<notin> appr"
  shows "no_new_external r0 r \<Longrightarrow>
    step_internal r0 (execute_tasks env uuid prov appr sim actor is r rr cf)"
proof (induction "is" arbitrary: r rr cf)
  case (Cons i "is")
  have "step_internal r0 (execute_task env uuid prov appr sim actor i r rr cf)"
    by (rule execute_task_internal[OF assms Cons.prems])
  then show ?case
    by (cases "execute_task env uuid prov appr sim actor i r rr cf")
      (auto simp: step_internal_def intro!: Cons.IH[unfolded step_internal_def])
qed (simp add: step_internal_def)

lemma execution_internal:
  assumes "EXTERNAL_API_SEND \<notin> appr" "artifacts r = artifacts r0"
  shows "outcome_all (\<lambda>r' res. no_new_external r0 r')
    (execute_pending_tasks env uuid name appr sim actor r)"
proof (cases "provider_or_raise env name")
  case (Inr prov)
  let ?x = "execute_tasks env uuid prov appr sim actor [0..<length (tasks r)] r False False"
  have ok: "step_internal r0 ?x"
    by (rule execute_tasks_internal[OF assms(1)]) (simp add: no_new_external_def assms(2))
  show ?thesis
  proof (cases ?x)
    case (Continue r' rr' cf')
    with ok have n: "no_new_external r0 r'" by (simp add: step_internal_def)
    have "outcome_all (\<lambda>r' res. no_new_external r0 r') (finish_execution env actor r' rr' cf')"
      unfolding finish_execution_def Let_def
      by (intro outcome_branches; (simp only: outcome_all_simps)?)
        (auto simp: res_bind_eq_Inr dest!: transition_fields(2) intro: no_new_external_same[OF n])
    with Continue Inr show ?thesis by (simp add: execute_pending_tasks_def)
  qed (use Inr ok in \<open>simp_all add: execute_pending_tasks_def step_internal_def\<close>)
qed (simp add: execute_pending_tasks_def)

text \<open>
  The handlers that take an action list: without the external action in the list, no
  external artifact comes in. A resume after an approval has no list of its own, but it
  only executes after an authorised approval.
\<close>

lemma parsed_gate:
  assumes "parse_approved_actions approved = Inr S" "EXTERNAL_API_SEND \<notin> S" "artifacts r = artifacts r0"
  shows "outcome_all (\<lambda>r' res. no_new_external r0 r')
    (execute_pending_tasks env uuid name S sim actor r)"
  by (rule execution_internal[OF assms(2,3)])

lemma transition_artifacts: "transition env s a m q = Inr q' \<Longrightarrow> artifacts q' = artifacts q"
  by (rule transition_fields)

lemma run_internal:
  assumes "parse_approved_actions approved = Inr S" "EXTERNAL_API_SEND \<notin> S"
    and "run env brief policy name approved sim = (Some r', res)" "x \<in> set (artifacts r')"
  shows "\<not> external_artifact x"
proof -
  from start_execution_eq obtain r where r: "start_execution env (new_record env brief policy) = Inr r"
    "artifacts r = []" by blast
  have "outcome_all (\<lambda>r' res. no_new_external r r') (run env brief policy name approved sim)"
    unfolding run_def r(1) assms(1) using parsed_gate[OF assms(1,2)] by simp
  from outcome_allD[OF this assms(3)] assms(4) r(2) show ?thesis by (auto simp: no_new_external_def)
qed

lemma revision_internal:
  assumes "parse_approved_actions approved = Inr S" "EXTERNAL_API_SEND \<notin> S"
  shows "outcome_all (\<lambda>r' res. no_new_external r r')
      (resume_from_revision env mode actor reason name approved r)"
    and "outcome_all (\<lambda>r' res. no_new_external r r')
      (start_replanning env actor n name approved reset r)"
proof -
  obtain ds tr ns tm where c: "revision_resume_config mode = (ds, tr, ns, tm)"
    by (cases "revision_resume_config mode")
  show "outcome_all (\<lambda>r' res. no_new_external r r')
      (resume_from_revision env mode actor reason name approved r)"
    unfolding resume_from_revision_def resume_revision_for_mode_def
      resume_revision_with_transition_def Let_def c prod.case assms(1) sum.case
    by (intro outcome_branches; (simp only: outcome_all_simps)?)
      (auto intro!: parsed_gate[OF assms] no_new_external_refl dest!: transition_artifacts)
  show "outcome_all (\<lambda>r' res. no_new_external r r')
      (start_replanning env actor n name approved reset r)"
    unfolding start_replanning_def Let_def assms(1) sum.case
    by (intro outcome_branches; (simp only: outcome_all_simps)?)
      (auto intro!: parsed_gate[OF assms] dest!: transition_artifacts)
qed

section \<open>Completed projects stay as they are\<close>

lemma resolve_completed:
  assumes "rec_status r = P_COMPLETED" "s \<noteq> P_COMPLETED"
  shows "resolve_result_or_raise_invalid_state r s hs \<noteq> Inr None"
  using resolve_invalid[of r s hs] assms by auto

lemma completed_handlers:
  assumes "rec_status r = P_COMPLETED"
  shows "fst (resume_from_approval env approved actor n name ids r) = None"
    "fst (reject_approval env approved actor reason n ids r) = None"
    "fst (resume_from_revision env mode actor reason name approved r) = None"
    "fst (start_replanning env actor n name approved reset r) = None"
  using assms
  by (auto simp: resume_from_approval_def reject_approval_def resume_from_revision_def
      start_replanning_def Let_def raise_error_def return_only_def resolve_completed
      split: sum.split option.split)

lemma completed_saved:
  assumes "rec_status r = P_COMPLETED" "saved_record env q r = Some r'" "target q = Some pid"
  shows "r' = r\<lparr>events := events r'\<rparr>"
  using assms
  by (cases q)
     (auto simp: completed_handlers audit_saves_nothing record_authentication_success_def
       record_authentication_failure_def save_and_return_def record_event_def Let_def)

section \<open>How a waiting project goes on\<close>

lemma authorize_ok:
  assumes "authorized_for actor ids r a"
  shows "\<exists>r'. authorize_actions_or_raise env actor ids {a} r = Inr r'"
  using assms by (simp add: authorize_actions_or_raise_def authorized_for_def Let_def)

theorem approval_completes:
  assumes w: "settled r" "rec_status r = P_WAITING_APPROVAL"
    and fresh: "EXTERNAL_API_SEND \<notin> actions_with Ap_REJECTED r"
    and auth: "authorized_for (coerce_actor actor APPROVER HUMAN) ids r EXTERNAL_API_SEND"
    and prov: "provider_or_raise env name = Inr prov"
  shows "\<exists>r'. resume_from_approval env (Some [ActionEnum EXTERNAL_API_SEND]) actor n name ids r =
           save_and_return r' (summary r' completed_next_steps) \<and>
         rec_status r' = P_COMPLETED \<and> (\<forall>t \<in> set (tasks r'). t_status t = T_DONE) \<and>
         actions_with Ap_PENDING r' = {}"
proof -
  let ?a = "coerce_actor actor APPROVER HUMAN"
  have S: "parse_approved_actions (Some [ActionEnum EXTERNAL_API_SEND]) = Inr {EXTERNAL_API_SEND}"
    using parse_enum_actions[of "[EXTERNAL_API_SEND]"] by simp
  obtain r1 where r1: "authorize_actions_or_raise env ?a ids {EXTERNAL_API_SEND} r = Inr r1"
    using authorize_ok[OF auth] by blast
  from full_approval_settled(2)[OF approved_state(1-4)[OF w r1] _ prov]
  obtain r' where r': "full_approval env ?a (normalize_text n) name {EXTERNAL_API_SEND}
      (approve_pending env ?a (normalize_text n) {EXTERNAL_API_SEND} (pending_positions r) r1) =
      save_and_return r' (summary r' completed_next_steps)"
    "rec_status r' = P_COMPLETED" "settled r'" "\<forall>t \<in> set (tasks r'). t_status t = T_DONE"
    by blast
  moreover from this have "actions_with Ap_PENDING r' = {}" by (simp add: settled_def)
  ultimately show ?thesis
    using resume_waiting_eq[OF w S _ _ fresh, of env actor n name ids] r1 by (simp add: Let_def)
qed

text \<open>Once the external action was rejected, no resume of a later request gets through.\<close>

theorem rejected_is_stuck:
  assumes "settled r" "rec_status r = P_WAITING_APPROVAL"
    and "EXTERNAL_API_SEND \<in> actions_with Ap_REJECTED r"
  shows "\<exists>e. resume_from_approval env approved actor n name ids r = raise_error e"
  by (rule resume_waiting_refused[OF assms(1,2)]) (use assms(3) in auto)

section \<open>A first run\<close>

theorem run_outcome:
  assumes S: "parse_approved_actions approved = Inr S"
    and prov: "provider_or_raise env name = Inr prov"
  shows "needs_approval prov S \<Longrightarrow>
      \<exists>r'. run env brief policy name approved sim = save_and_return r' (summary r' pause_next_steps) \<and>
        rec_status r' = P_WAITING_APPROVAL \<and>
        map (\<lambda>a. (ar_action_type a, ar_status a)) (approvals r') = [(EXTERNAL_API_SEND, Ap_PENDING)]"
    and "\<not> needs_approval prov S \<Longrightarrow>
      \<exists>r'. run env brief policy name approved sim =
          save_and_return r' (summary r'
            (if sim then review_failed_next_steps else completed_next_steps)) \<and>
        rec_status r' = (if sim then P_REVISION_REQUESTED else P_COMPLETED) \<and>
        approvals r' = [] \<and> (\<forall>t \<in> set (tasks r'). t_status t = T_DONE)"
proof -
  from start_execution_eq obtain r where r: "start_execution env (new_record env brief policy) = Inr r"
    "tasks r = build_plan" "approvals r = []" "rec_status r = P_IN_PROGRESS" by blast
  note s = started_ok[OF r(2-4)]
  have run: "run env brief policy name approved sim =
      execute_pending_tasks env (uuid4 env 1) name S sim system_actor r"
    by (simp add: run_def r(1) S)
  show "\<exists>r'. run env brief policy name approved sim = save_and_return r' (summary r' pause_next_steps) \<and>
        rec_status r' = P_WAITING_APPROVAL \<and>
        map (\<lambda>a. (ar_action_type a, ar_status a)) (approvals r') = [(EXTERNAL_API_SEND, Ap_PENDING)]" if "needs_approval prov S"
    unfolding run
    using execute_pending_tasks_pauses[OF s(1) s(2) s(3,4) prov that, of "uuid4 env 1" sim system_actor]
      s(2)[of Ap_PENDING] r(3)
    by (auto simp: pause_request_def)
  show "\<exists>r'. run env brief policy name approved sim =
          save_and_return r' (summary r'
            (if sim then review_failed_next_steps else completed_next_steps)) \<and>
        rec_status r' = (if sim then P_REVISION_REQUESTED else P_COMPLETED) \<and>
        approvals r' = [] \<and> (\<forall>t \<in> set (tasks r'). t_status t = T_DONE)"
    if "\<not> needs_approval prov S"
    unfolding run
    using execute_pending_tasks_finishes[OF s(1) s(3) prov that, of sim "uuid4 env 1" system_actor]
      s(2)[of Ap_APPROVED] s(5) r(3)
    by auto
qed

end
