(* ===== verification/Task_Order.thy ===== *)
theory Task_Order
  imports Record_Edits Repository "HOL-Library.While_Combinator"
begin

text \<open>
  \<open>PostgresProjectRepository._order_tasks_for_execution\<close>: the rows of the task table come
  back sorted by id, and the tasks are put into an order in which every task follows the
  tasks it depends on. The loop is Kahn's algorithm with a ready list kept in the order of
  the input. A cyclic plan is given back as it came.
\<close>

section \<open>The routine\<close>

definition position_by_id :: "task list \<Rightarrow> string \<Rightarrow> nat" where
  "position_by_id ts i = (case map_of (rev (zip (map t_id ts) [0..<length ts])) i of
     None \<Rightarrow> 0 | Some n \<Rightarrow> n)"

definition local_dependencies :: "task list \<Rightarrow> task \<Rightarrow> string set" where
  "local_dependencies ts t = set (filter (\<lambda>d. d \<in> set (map t_id ts)) (t_depends_on t))"

definition dependents_by_id :: "task list \<Rightarrow> string \<Rightarrow> string list" where
  "dependents_by_id ts c = map t_id (filter (\<lambda>t. c \<in> local_dependencies ts t) ts)"

definition inbound_count_by_id :: "task list \<Rightarrow> int dict" where
  "inbound_count_by_id ts =
     fold (\<lambda>t. AList.update (t_id t) (int (card (local_dependencies ts t)))) ts []"

definition decrement :: "string \<Rightarrow> int dict \<Rightarrow> int dict" where
  "decrement k = map (\<lambda>(i, n). (i, if i = k then n - 1 else n))"

fun release_dependents ::
  "string list \<Rightarrow> int dict \<Rightarrow> string list \<Rightarrow> int dict \<times> string list" where
  "release_dependents [] inbound ready = (inbound, ready)"
| "release_dependents (d # ds) inbound ready =
     (let inbound' = decrement d inbound
      in release_dependents ds inbound'
           (if map_of inbound' d = Some 0 then ready @ [d] else ready))"

definition positive_counts :: "int dict \<Rightarrow> nat" where
  "positive_counts inbound = length (filter (\<lambda>(i, n). 0 < n) inbound)"

lemma positive_counts_decrement:
  "positive_counts (decrement k inbound) + (if map_of (decrement k inbound) k = Some 0 then 1 else 0)
     \<le> positive_counts inbound"
  by (induction inbound) (auto simp: positive_counts_def decrement_def split: if_splits)

lemma release_dependents_measure:
  "release_dependents ds inbound ready = (inbound', ready') \<Longrightarrow>
     length ready' + positive_counts inbound' \<le> length ready + positive_counts inbound"
proof (induction ds inbound ready rule: release_dependents.induct)
  case (2 d ds inbound ready)
  from 2(1)[OF refl] 2(2) positive_counts_decrement[of d inbound] show ?case
    by (fastforce simp: Let_def split: if_splits)
qed simp

function order_loop ::
  "(string \<Rightarrow> nat) \<Rightarrow> (string \<Rightarrow> string list) \<Rightarrow> string list \<Rightarrow> int dict \<Rightarrow> string list \<Rightarrow>
   string list" where
  "order_loop position dependents [] inbound ordered = ordered"
| "order_loop position dependents (c # ready) inbound ordered =
     (case release_dependents (dependents c) inbound ready of
        (inbound', ready') \<Rightarrow>
          order_loop position dependents (sort_key position ready') inbound' (ordered @ [c]))"
  by pat_completeness auto
termination
  by (relation "measure (\<lambda>(position, dependents, ready, inbound, ordered).
        length ready + positive_counts inbound)")
     (auto dest!: release_dependents_measure[OF sym])

definition tasks_by_id :: "task list \<Rightarrow> string \<Rightarrow> task option" where
  "tasks_by_id ts = map_of (rev (map (\<lambda>t. (t_id t, t)) ts))"

definition order_tasks_for_execution :: "task list \<Rightarrow> task list" where
  "order_tasks_for_execution ts =
     (if length ts < 2 then ts
      else
        (let position = position_by_id ts;
             inbound = inbound_count_by_id ts;
             ready = sort_key position
               (map t_id (filter (\<lambda>t. map_of inbound (t_id t) = Some 0) ts));
             ordered = order_loop position (dependents_by_id ts) ready inbound []
         in if length ordered \<noteq> length ts then ts
            else List.map_filter (tasks_by_id ts) ordered))"

section \<open>The loop on ids\<close>

lemma release_dependents_eq:
  assumes "distinct ds"
  shows "release_dependents ds inbound ready =
     (fold decrement ds inbound, ready @ filter (\<lambda>d. map_of inbound d = Some 1) ds)"
proof -
  have d: "map_of (decrement k inb) i = map_option (\<lambda>n. if i = k then n - 1 else n) (map_of inb i)"
    for k i and inb :: "int dict"
    by (induction inb) (auto simp: decrement_def)
  show ?thesis using assms
  proof (induction ds arbitrary: inbound ready)
    case (Cons a ds)
    then have "filter (\<lambda>i. map_of (decrement a inbound) i = Some 1) ds =
        filter (\<lambda>i. map_of inbound i = Some 1) ds"
      by (intro filter_cong) (auto simp: d)
    moreover have "map_of (decrement a inbound) a = Some 0 \<longleftrightarrow> map_of inbound a = Some 1"
      by (auto simp: d)
    ultimately show ?case using Cons by (simp add: Let_def)
  qed simp
qed

lemma map_of_decrement:
  "map_of (decrement k inbound) i = map_option (\<lambda>n. if i = k then n - 1 else n) (map_of inbound i)"
  by (induction inbound) (auto simp: decrement_def)

lemma map_of_fold_decrement:
  "distinct ds \<Longrightarrow> map_of (fold decrement ds inbound) i =
     map_option (\<lambda>n. if i \<in> set ds then n - 1 else n) (map_of inbound i)"
proof (induction ds arbitrary: inbound)
  case (Cons a ds)
  then show ?case by (cases "map_of inbound i") (auto simp: map_of_decrement)
qed (simp add: option.map_ident)

text \<open>
  The state of the loop: the counts are the numbers of dependencies that are still to come,
  and the ready list holds what has none left.
\<close>

definition kahn_ok ::
  "string set \<Rightarrow> (string \<Rightarrow> string set) \<Rightarrow> string list \<Rightarrow> int dict \<Rightarrow> string list \<Rightarrow> bool" where
  "kahn_ok ids D ready inbound ordered \<longleftrightarrow>
     distinct (ordered @ ready) \<and> set (ordered @ ready) \<subseteq> ids \<and>
     (\<forall>i \<in> ids. map_of inbound i = Some (int (card (D i - set ordered)))) \<and>
     (\<forall>i \<in> ids. D i \<subseteq> set ordered \<longleftrightarrow> i \<in> set (ordered @ ready)) \<and>
     (\<forall>n < length ordered. D (ordered ! n) \<subseteq> set (take n ordered))"

lemma kahn_step:
  assumes ok: "kahn_ok ids D (c # ready) inbound ordered"
    and fin: "\<And>i. finite (D i)"
    and ds: "distinct ds" "set ds = {i \<in> ids. c \<in> D i}"
    and ready': "mset ready' = mset (ready @ filter (\<lambda>d. map_of inbound d = Some 1) ds)"
  shows "kahn_ok ids D ready' (fold decrement ds inbound) (ordered @ [c])"
proof -
  note k = ok[unfolded kahn_ok_def]
  let ?new = "filter (\<lambda>d. map_of inbound d = Some 1) ds"
  have c: "c \<in> ids" "c \<notin> set ordered" "D c \<subseteq> set ordered" using k by auto
  have count: "map_of inbound i = Some (int (card (D i - set ordered)))" if "i \<in> ids" for i
    using k that by blast
  have new: "i \<in> set ?new \<longleftrightarrow> D i - set ordered = {c}" if "i \<in> ids" for i
  proof -
    have "card (D i - set ordered) = 1 \<and> c \<in> D i \<longleftrightarrow> D i - set ordered = {c}" (is "?l \<longleftrightarrow> ?r")
    proof
      assume ?l
      then have "card (D i - set ordered) = 1" by simp
      then obtain x where x: "D i - set ordered = {x}" by (rule card_1_singletonE)
      have "c \<in> D i - set ordered" using \<open>?l\<close> c(2) by simp
      with x show ?r by simp
    next
      assume ?r
      then show ?l by auto
    qed
    moreover have "i \<in> set ?new \<longleftrightarrow> card (D i - set ordered) = 1 \<and> c \<in> D i"
      using that by (auto simp: ds(2) count)
    ultimately show ?thesis by simp
  qed
  have set': "set ready' = set ready \<union> set ?new"
    using arg_cong[OF ready', of set_mset] by simp
  have nm: "set ?new \<inter> (set ordered \<union> {c} \<union> set ready) = {}"
  proof -
    have "i \<notin> set ordered \<union> {c} \<union> set ready" if "i \<in> set ?new" for i
    proof -
      from that ds(2) have "i \<in> ids" by auto
      with that new have "\<not> D i \<subseteq> set ordered" using c(2) by blast
      with k \<open>i \<in> ids\<close> show ?thesis by auto
    qed
    then show ?thesis by blast
  qed
  have "distinct ready'"
    using k ds(1) nm mset_eq_imp_distinct_iff[OF ready'] by auto
  then have 1: "distinct ((ordered @ [c]) @ ready')" using k nm set' by auto
  have 2: "set ((ordered @ [c]) @ ready') \<subseteq> ids" using k set' ds(2) by auto
  have 3: "map_of (fold decrement ds inbound) i = Some (int (card (D i - set (ordered @ [c]))))"
    if "i \<in> ids" for i
  proof (cases "c \<in> D i")
    case True
    then have "D i - set (ordered @ [c]) = (D i - set ordered) - {c}" and "c \<in> D i - set ordered"
      using c(2) by auto
    moreover from this have "card (D i - set ordered) > 0"
      using fin[of i] by (auto simp: card_gt_0_iff)
    ultimately show ?thesis
      using that True ds fin[of i]
      by (simp add: map_of_fold_decrement count card_Diff_singleton of_nat_diff)
  next
    case False
    then have "D i - set (ordered @ [c]) = D i - set ordered" by auto
    with that False ds show ?thesis by (simp add: map_of_fold_decrement count)
  qed
  have 4: "D i \<subseteq> set (ordered @ [c]) \<longleftrightarrow> i \<in> set ((ordered @ [c]) @ ready')" if "i \<in> ids" for i
  proof -
    have "D i \<subseteq> set (ordered @ [c]) \<longleftrightarrow> D i \<subseteq> set ordered \<or> D i - set ordered = {c}"
      using c(2) by auto
    also have "\<dots> \<longleftrightarrow> i \<in> set (ordered @ c # ready) \<or> i \<in> set ?new"
      using k new[OF that] that by blast
    finally show ?thesis using set' by auto
  qed
  have 5: "D ((ordered @ [c]) ! n) \<subseteq> set (take n (ordered @ [c]))"
    if "n < length (ordered @ [c])" for n
    using k c(3) that by (cases "n < length ordered") (auto simp: nth_append less_Suc_eq)
  show ?thesis unfolding kahn_ok_def using 1 2 3 4 5 by blast
qed

lemma kahn_sorted: "kahn_ok ids D ready inbound ordered \<Longrightarrow>
    kahn_ok ids D (sort_key f ready) inbound ordered"
  by (simp add: kahn_ok_def)

lemma order_loop_ok:
  assumes "\<And>i. finite (D i)"
  shows "kahn_ok ids D ready inbound ordered \<Longrightarrow>
    (\<And>c. c \<in> ids \<Longrightarrow> distinct (dependents c) \<and> set (dependents c) = {i \<in> ids. c \<in> D i}) \<Longrightarrow>
    \<exists>inbound'. kahn_ok ids D [] inbound' (order_loop position dependents ready inbound ordered)"
proof (induction position dependents ready inbound ordered rule: order_loop.induct)
  case (1 position dependents inbound ordered)
  then show ?case by auto
next
  case (2 position dependents c ready inbound ordered)
  have c: "c \<in> ids" using 2(2) by (simp add: kahn_ok_def)
  let ?new = "filter (\<lambda>d. map_of inbound d = Some 1) (dependents c)"
  have rel: "release_dependents (dependents c) inbound ready =
      (fold decrement (dependents c) inbound, ready @ ?new)"
    using 2(3)[OF c] by (intro release_dependents_eq) simp
  have "kahn_ok ids D (sort_key position (ready @ ?new)) (fold decrement (dependents c) inbound)
      (ordered @ [c])"
    using 2(3)[OF c] by (intro kahn_step[OF 2(2) assms]) auto
  from 2(1)[OF rel[symmetric] this 2(3)] rel show ?case by simp
qed

section \<open>The result\<close>

text \<open>Every dependency that is a task of the plan comes before the task.\<close>

definition dependencies_first :: "task list \<Rightarrow> bool" where
  "dependencies_first ts \<longleftrightarrow>
     (\<forall>n < length ts. local_dependencies ts (ts ! n) \<subseteq> t_id ` set (take n ts))"

lemma map_of_fold_update:
  "distinct (map f xs) \<Longrightarrow>
     map_of (fold (\<lambda>x. AList.update (f x) (g x)) xs d) i =
       (case find (\<lambda>x. f x = i) xs of None \<Rightarrow> map_of d i | Some x \<Rightarrow> Some (g x))"
proof (induction xs arbitrary: d)
  case (Cons x xs)
  have "find (\<lambda>y. f y = f x) xs = None" 
    using Cons.prems by (auto simp: find_None_iff) (metis imageI)
  with Cons show ?case by (auto simp: update_conv' split: option.splits)
qed simp

lemma find_id: "distinct (map t_id ts) \<Longrightarrow> t \<in> set ts \<Longrightarrow> find (\<lambda>u. t_id u = t_id t) ts = Some t"
  by (induction ts) auto

lemma map_of_inbound:
  assumes "distinct (map t_id ts)" and "t \<in> set ts"
  shows "map_of (inbound_count_by_id ts) (t_id t) = Some (int (card (local_dependencies ts t)))"
  using assms by (simp add: inbound_count_by_id_def map_of_fold_update find_id)

lemma tasks_by_id_iff:
  assumes "distinct (map t_id ts)"
  shows "tasks_by_id ts i = Some t \<longleftrightarrow> t \<in> set ts \<and> t_id t = i"
proof -
  have "distinct (map fst (rev (map (\<lambda>t. (t_id t, t)) ts)))"
    using assms by (simp add: rev_map[symmetric] comp_def)
  then show ?thesis by (auto simp: tasks_by_id_def)
qed

definition dependency_ids :: "task list \<Rightarrow> string \<Rightarrow> string set" where
  "dependency_ids ts i = (case tasks_by_id ts i of None \<Rightarrow> {} | Some t \<Rightarrow> local_dependencies ts t)"

lemma dependency_ids [simp]:
  "distinct (map t_id ts) \<Longrightarrow> t \<in> set ts \<Longrightarrow> dependency_ids ts (t_id t) = local_dependencies ts t"
  using tasks_by_id_iff[of ts "t_id t" t] by (simp add: dependency_ids_def)

lemma finite_dependency_ids [simp]: "finite (dependency_ids ts i)"
  by (simp add: dependency_ids_def local_dependencies_def split: option.split)

lemma dependents_ok:
  assumes "distinct (map t_id ts)"
  shows "distinct (dependents_by_id ts c)"
    and "set (dependents_by_id ts c) = {i \<in> t_id ` set ts. c \<in> dependency_ids ts i}"
  using assms by (auto simp: dependents_by_id_def distinct_map intro: inj_on_subset)

definition ordered_ids :: "task list \<Rightarrow> string list" where
  "ordered_ids ts =
     order_loop (position_by_id ts) (dependents_by_id ts)
       (sort_key (position_by_id ts)
          (map t_id (filter (\<lambda>t. map_of (inbound_count_by_id ts) (t_id t) = Some 0) ts)))
       (inbound_count_by_id ts) []"

lemma ordered_ids_ok:
  assumes d: "distinct (map t_id ts)"
  shows "\<exists>inbound. kahn_ok (t_id ` set ts) (dependency_ids ts) [] inbound (ordered_ids ts)"
  unfolding ordered_ids_def
proof (intro order_loop_ok kahn_sorted)
  let ?ready = "map t_id (filter (\<lambda>t. map_of (inbound_count_by_id ts) (t_id t) = Some 0) ts)"
  have z: "card (local_dependencies ts t) = 0 \<longleftrightarrow> local_dependencies ts t = {}" for t
    by (simp add: local_dependencies_def)
  have "filter (\<lambda>t. map_of (inbound_count_by_id ts) (t_id t) = Some 0) ts =
      filter (\<lambda>t. local_dependencies ts t = {}) ts"
    by (rule filter_cong) (simp_all add: map_of_inbound[OF d] z del: card_0_eq)
  then have r: "set ?ready = t_id ` {t \<in> set ts. local_dependencies ts t = {}}" by auto
  have "t_id t \<in> set ?ready \<longleftrightarrow> local_dependencies ts t = {}" if "t \<in> set ts" for t
    using that d unfolding r by (auto simp: distinct_map inj_on_def)
  moreover have "distinct ?ready" using d by (auto simp: distinct_map intro: inj_on_subset)
  ultimately show "kahn_ok (t_id ` set ts) (dependency_ids ts) ?ready (inbound_count_by_id ts) []"
    using d by (auto simp: kahn_ok_def map_of_inbound)
qed (use dependents_ok[OF d] in auto)

lemma order_tasks_eq:
  "order_tasks_for_execution ts =
     (if length ts < 2 \<or> length (ordered_ids ts) \<noteq> length ts then ts
      else List.map_filter (tasks_by_id ts) (ordered_ids ts))"
  by (simp add: order_tasks_for_execution_def ordered_ids_def Let_def)

text \<open>With the ids in full, the result is the tasks in the order of the ids.\<close>

lemma map_filter_ids:
  assumes d: "distinct (map t_id ts)" and "set is \<subseteq> t_id ` set ts"
  shows "map t_id (List.map_filter (tasks_by_id ts) is) = is"
    and "set (List.map_filter (tasks_by_id ts) is) \<subseteq> set ts"
proof -
  have t: "\<exists>t. tasks_by_id ts i = Some t \<and> t_id t = i \<and> t \<in> set ts" if "i \<in> set is" for i
    using that assms tasks_by_id_iff[OF d, of i] by auto
  then show "map t_id (List.map_filter (tasks_by_id ts) is) = is"
  proof (induction "is")
    case (Cons i "is")
    then obtain t where "tasks_by_id ts i = Some t" "t_id t = i" by (meson list.set_intros(1))
    with Cons show ?case by (simp add: map_filter_simps)
  qed (simp add: map_filter_simps)
  from t show "set (List.map_filter (tasks_by_id ts) is) \<subseteq> set ts"
  proof (induction "is")
    case (Cons i "is")
    then obtain t where "tasks_by_id ts i = Some t" "t \<in> set ts" by (meson list.set_intros(1))
    with Cons show ?case by (simp add: map_filter_simps)
  qed (simp add: map_filter_simps)
qed

theorem order_tasks_permutes:
  assumes d: "distinct (map t_id ts)"
  shows "mset (order_tasks_for_execution ts) = mset ts"
proof (cases "length ts < 2 \<or> length (ordered_ids ts) \<noteq> length ts")
  case False
  let ?us = "List.map_filter (tasks_by_id ts) (ordered_ids ts)"
  from ordered_ids_ok[OF d] have o: "distinct (ordered_ids ts)" "set (ordered_ids ts) \<subseteq> t_id ` set ts"
    by (auto simp: kahn_ok_def)
  note m = map_filter_ids[OF d o(2)]
  have l: "length ?us = length ts" using False m(1) by (metis length_map)
  have "distinct ?us" using o(1) m(1) by (metis distinct_map)
  moreover have "distinct ts" using d by (simp add: distinct_map)
  moreover from this \<open>distinct ?us\<close> l m(2) have "set ?us = set ts"
    by (metis card_subset_eq distinct_card finite_set)
  ultimately have "mset ?us = mset ts" by (metis set_eq_iff_mset_eq_distinct)
  with False show ?thesis by (simp add: order_tasks_eq)
qed (auto simp: order_tasks_eq)

section \<open>Dependencies come first\<close>

definition acyclic_plan :: "task list \<Rightarrow> bool" where
  "acyclic_plan ts \<longleftrightarrow>
     (\<exists>rank :: string \<Rightarrow> nat. \<forall>t \<in> set ts. \<forall>d \<in> local_dependencies ts t. rank d < rank (t_id t))"

lemma local_dependencies_mset:
  "mset us = mset ts \<Longrightarrow> local_dependencies us t = local_dependencies ts t"
  by (drule mset_eq_setD) (simp add: local_dependencies_def)

lemma acyclic_plan_mset: "mset us = mset ts \<Longrightarrow> acyclic_plan us \<longleftrightarrow> acyclic_plan ts"
  using local_dependencies_mset[of us ts] mset_eq_setD[of us ts] by (simp add: acyclic_plan_def)

lemma dependencies_first_acyclic:
  assumes d: "distinct (map t_id ts)" and f: "dependencies_first ts"
  shows "acyclic_plan ts"
  unfolding acyclic_plan_def
proof (intro exI ballI)
  let ?rank = "\<lambda>i. LEAST n. n < length ts \<and> t_id (ts ! n) = i"
  have r: "?rank (t_id (ts ! n)) = n" if "n < length ts" for n
    using that d by (intro Least_equality) (auto simp: distinct_conv_nth nth_eq_iff_index_eq)
  fix t x assume "t \<in> set ts" and x: "x \<in> local_dependencies ts t"
  then obtain n where n: "n < length ts" "t = ts ! n" by (metis in_set_conv_nth)
  with f x have "x \<in> t_id ` set (take n ts)" by (auto simp: dependencies_first_def)
  then obtain m where "m < n" "x = t_id (ts ! m)" using n by (auto simp: in_set_conv_nth)
  with n r show "?rank x < ?rank (t_id t)" by simp
qed

lemma acyclic_all_ordered:
  assumes d: "distinct (map t_id ts)" and a: "acyclic_plan ts"
  shows "set (ordered_ids ts) = t_id ` set ts"
proof
  from ordered_ids_ok[OF d] obtain inbound
    where k: "kahn_ok (t_id ` set ts) (dependency_ids ts) [] inbound (ordered_ids ts)" by blast
  then show "set (ordered_ids ts) \<subseteq> t_id ` set ts" by (simp add: kahn_ok_def)
  from a obtain rank :: "string \<Rightarrow> nat"
    where rank: "\<And>t x. t \<in> set ts \<Longrightarrow> x \<in> local_dependencies ts t \<Longrightarrow> rank x < rank (t_id t)"
    by (auto simp: acyclic_plan_def)
  have "t_id t \<in> set (ordered_ids ts)" if "t \<in> set ts" for t
    using that
  proof (induction "rank (t_id t)" arbitrary: t rule: less_induct)
    case less
    have "local_dependencies ts t \<subseteq> set (ordered_ids ts)"
    proof
      fix x assume x: "x \<in> local_dependencies ts t"
      then obtain u where "u \<in> set ts" "x = t_id u" by (auto simp: local_dependencies_def)
      with less(1)[of u] rank[OF less(2) x] show "x \<in> set (ordered_ids ts)" by simp
    qed
    with k less(2) d show ?case by (auto simp: kahn_ok_def)
  qed
  then show "t_id ` set ts \<subseteq> set (ordered_ids ts)" by auto
qed

lemma acyclic_ordered:
  assumes d: "distinct (map t_id ts)" and a: "acyclic_plan ts"
  shows "map t_id (order_tasks_for_execution ts) = ordered_ids ts \<or> length ts < 2"
proof -
  from ordered_ids_ok[OF d] have o: "distinct (ordered_ids ts)" by (auto simp: kahn_ok_def)
  have "length (ordered_ids ts) = length ts"
    using acyclic_all_ordered[OF assms] distinct_card[OF o] distinct_card[OF d] by simp
  with map_filter_ids(1)[OF d] acyclic_all_ordered[OF assms] show ?thesis
    by (auto simp: order_tasks_eq)
qed

theorem order_tasks_dependencies_first:
  assumes d: "distinct (map t_id ts)"
  shows "dependencies_first (order_tasks_for_execution ts) \<longleftrightarrow> acyclic_plan ts"
proof
  let ?us = "order_tasks_for_execution ts"
  note m = order_tasks_permutes[OF d]
  have du: "distinct (map t_id ?us)"
    using d m by (metis mset_map mset_eq_imp_distinct_iff)
  { assume "dependencies_first ?us"
    with dependencies_first_acyclic[OF du] acyclic_plan_mset[OF m] show "acyclic_plan ts" by simp }
  assume a: "acyclic_plan ts"
  show "dependencies_first ?us"
  proof (cases "length ts < 2")
    case True
    then have us: "?us = ts" by (simp add: order_tasks_eq)
    from a obtain rank :: "string \<Rightarrow> nat"
      where "\<And>t x. t \<in> set ts \<Longrightarrow> x \<in> local_dependencies ts t \<Longrightarrow> rank x < rank (t_id t)"
      by (auto simp: acyclic_plan_def)
    with True show ?thesis
      unfolding us by (cases ts) (fastforce simp: dependencies_first_def local_dependencies_def)+
  next
    case False
    with acyclic_ordered[OF d a] have ids: "map t_id ?us = ordered_ids ts" by blast
    from ordered_ids_ok[OF d] have f: "dependency_ids ts (ordered_ids ts ! n) \<subseteq>
        set (take n (ordered_ids ts))" if "n < length (ordered_ids ts)" for n
      using that by (auto simp: kahn_ok_def)
    show ?thesis
      unfolding dependencies_first_def
    proof (intro allI impI)
      fix n assume n: "n < length ?us"
      then have "?us ! n \<in> set ts" using m by (metis mset_eq_setD nth_mem)
      with d local_dependencies_mset[OF m] have "local_dependencies ?us (?us ! n) =
          dependency_ids ts (t_id (?us ! n))" by simp
      also have "\<dots> = dependency_ids ts (ordered_ids ts ! n)"
        using n by (simp add: ids[symmetric])
      also have "\<dots> \<subseteq> set (take n (ordered_ids ts))"
        using n by (intro f) (simp add: ids[symmetric])
      finally show "local_dependencies ?us (?us ! n) \<subseteq> t_id ` set (take n ?us)"
        by (simp add: ids[symmetric] take_map)
    qed
  qed
qed

section \<open>The plan comes back in its own order\<close>

text \<open>The order depends on the ids and the dependencies of the tasks only.\<close>

definition erase_task :: "task \<Rightarrow> task" where
  "erase_task t = t\<lparr>t_status := T_PENDING, t_note := ''''\<rparr>"

lemma erase_task_fields [simp]:
  "t_id (erase_task t) = t_id t" "t_depends_on (erase_task t) = t_depends_on t"
  by (simp_all add: erase_task_def)

lemma ids_erase [simp]: "map (t_id \<circ> erase_task) ts = map t_id ts"
  by simp

lemma local_dependencies_erase [simp]:
  "local_dependencies (map erase_task ts) t = local_dependencies ts t"
  "local_dependencies ts (erase_task t) = local_dependencies ts t"
  by (simp_all add: local_dependencies_def image_image)

lemma ordered_ids_erase: "ordered_ids (map erase_task ts) = ordered_ids ts"
proof -
  have p: "position_by_id (map erase_task ts) = position_by_id ts"
    by (rule ext) (simp add: position_by_id_def)
  have d: "dependents_by_id (map erase_task ts) = dependents_by_id ts"
    by (rule ext) (simp add: dependents_by_id_def filter_map comp_def)
  have i: "inbound_count_by_id (map erase_task ts) = inbound_count_by_id ts"
    by (simp add: inbound_count_by_id_def fold_map comp_def)
  show ?thesis by (simp add: ordered_ids_def p d i filter_map comp_def)
qed

lemma map_insort_key:
  "(\<And>x. g (f x) = h x) \<Longrightarrow> map f (insort_key h x xs) = insort_key g (f x) (map f xs)"
  by (induction xs) simp_all

lemma map_sort_key:
  assumes "\<And>x. g (f x) = h x"
  shows "map f (sort_key h xs) = sort_key g (map f xs)"
  by (induction xs) (simp_all add: map_insort_key[of g f h, OF assms])

lemma erase_plan:
  assumes "map task_shape ts = map task_shape build_plan"
  shows "map erase_task ts = build_plan"
proof -
  let ?f = "\<lambda>(i, ti, d, deps). \<lparr>t_id = i, t_title = ti, t_department = d, t_status = T_PENDING,
    t_depends_on = deps, t_note = ''''\<rparr>"
  have e: "erase_task t = ?f (task_shape t)" for t
    by (simp add: erase_task_def task_shape_def)
  have "map erase_task ts = map ?f (map task_shape ts)" by (simp add: e)
  also have "\<dots> = build_plan" unfolding assms by (simp add: build_plan_def task_shape_def)
  finally show ?thesis .
qed

lemma ordered_ids_plan: "ordered_ids (sort_key t_id build_plan) = map t_id build_plan"
  by code_simp

theorem order_tasks_plan:
  assumes "map task_shape ts = map task_shape build_plan"
  shows "order_tasks_for_execution (sort_key t_id ts) = ts"
proof -
  let ?us = "order_tasks_for_execution (sort_key t_id ts)"
  note e = erase_plan[OF assms]
  have ids: "map t_id ts = map t_id build_plan" unfolding e[symmetric] by simp
  have dp: "distinct (map t_id build_plan)" by code_simp
  then have d: "distinct (map t_id ts)" by (simp only: ids)
  then have ds: "distinct (map t_id (sort_key t_id ts))"
    by (metis mset_map mset_sort mset_eq_imp_distinct_iff)
  have "map erase_task (sort_key t_id ts) = sort_key t_id build_plan"
    by (simp add: map_sort_key[of t_id erase_task t_id] e)
  then have "ordered_ids (sort_key t_id ts) = map t_id ts"
    by (metis ordered_ids_erase ordered_ids_plan ids)
  moreover from this have "length (ordered_ids (sort_key t_id ts)) = length (sort_key t_id ts)"
    by simp
  moreover have "length ts = 5" using arg_cong[OF ids, of length] by (simp add: build_plan_def)
  ultimately have "map t_id ?us = map t_id ts"
    using map_filter_ids(1)[OF ds, of "map t_id ts"] by (simp add: order_tasks_eq)
  moreover have "mset ?us = mset ts" using order_tasks_permutes[OF ds] by simp
  then have "set ?us = set ts" by (rule mset_eq_setD)
  ultimately show ?thesis using d by (auto simp: distinct_map intro: map_inj_on)
qed

section \<open>The loop as a \<open>while\<close>\<close>

text \<open>
  The code's loop is a \<open>while\<close> on the ready list. Run as one, on any counts whatsoever, it ends,
  and leaves the order that \<open>order_loop\<close> computes.
\<close>

definition loop_step ::
  "(string \<Rightarrow> nat) \<Rightarrow> (string \<Rightarrow> string list) \<Rightarrow> string list \<times> int dict \<times> string list \<Rightarrow>
   string list \<times> int dict \<times> string list" where
  "loop_step position dependents st =
     (case st of (ready, inbound, ordered) \<Rightarrow>
        (case release_dependents (dependents (hd ready)) inbound (tl ready) of
           (inbound', ready') \<Rightarrow> (sort_key position ready', inbound', ordered @ [hd ready])))"

lemma while_order_loop:
  "\<exists>inbound'. while_option (\<lambda>(ready, _). ready \<noteq> []) (loop_step position dependents)
     (ready, inbound, ordered) =
   Some ([], inbound', order_loop position dependents ready inbound ordered)"
proof (induction position dependents ready inbound ordered rule: order_loop.induct)
  case (1 position dependents inbound ordered)
  then show ?case by (subst while_option_unfold) simp
next
  case (2 position dependents c ready inbound ordered)
  obtain inbound' ready' where r: "release_dependents (dependents c) inbound ready = (inbound', ready')"
    by (cases "release_dependents (dependents c) inbound ready")
  then have "loop_step position dependents (c # ready, inbound, ordered) =
      (sort_key position ready', inbound', ordered @ [c])"
    by (simp add: loop_step_def)
  with 2[OF r[symmetric]] r show ?case by (subst while_option_unfold) simp
qed

end
