(* ===== verification/Samples.thy ===== *)
theory Samples
  imports Safety Task_Order
begin

text \<open>
  Concrete inputs: an environment, a brief, an approver and a viewer, a first run that
  waits for its approval, and the store that holds it. They show that the hypotheses of
  the properties can hold together.
\<close>

definition sample_env :: runtime where
  "sample_env = \<lparr>clock = (\<lambda>i. ''2026-01-01T00:00:00+00:00''),
     uuid4 = (\<lambda>n. if n = 0 then ''p-1'' else ''u-1''), getenv = (\<lambda>name. None)\<rparr>"

definition sample_brief :: project_brief where
  "sample_brief = \<lparr>b_title = None, b_objective = ''Scan the market'', b_scope = Some ''MVP'',
     b_constraints = [''no live calls''], b_success_criteria = [], b_deadline = None,
     b_stakeholders = [], b_assumptions = [], b_raw_request = ''Scan the market''\<rparr>"

definition approver :: actor_context where
  "approver = \<lparr>actor_id = ''alice'', actor_role = APPROVER, actor_type = HUMAN\<rparr>"

definition viewer :: actor_context where
  "viewer = \<lparr>actor_id = ''bob'', actor_role = VIEWER, actor_type = HUMAN\<rparr>"

definition first_run :: "orchestration_result outcome" where
  "first_run = run sample_env sample_brief None ''gemini'' None False"

definition waiting :: project_record where
  "waiting = the (fst first_run)"

definition waiting_store :: memory where
  "waiting_store = memory_empty(''p-1'' \<mapsto> waiting)"

definition approve_request :: request where
  "approve_request = ResumeFromApproval ''p-1'' (Some [ActionEnum EXTERNAL_API_SEND])
     (ActorIs approver) ''ok'' ''gemini'' None"

definition approved_run :: "orchestration_result outcome" where
  "approved_run = resume_from_approval sample_env (Some [ActionEnum EXTERNAL_API_SEND])
     (ActorIs approver) ''ok'' ''gemini'' None waiting"

definition completed :: project_record where
  "completed = the (fst approved_run)"

section \<open>What they evaluate to\<close>

lemma first_run_eval:
  "map_option (\<lambda>r. (rec_id r, rec_status r, length (approvals r), length (events r))) (fst first_run) =
     Some (''p-1'', P_WAITING_APPROVAL, 1, 13) \<and>
   isl (snd first_run) = False"
  by code_simp

lemma waiting_eval:
  "rec_id waiting = ''p-1'' \<and> rec_status waiting = P_WAITING_APPROVAL \<and>
   map ar_status (approvals waiting) = [Ap_PENDING] \<and>
   map ar_action_type (approvals waiting) = [EXTERNAL_API_SEND]"
  by code_simp

lemma approved_run_eval:
  "map_option (\<lambda>r. (rec_id r, rec_status r, map ar_status (approvals r))) (fst approved_run) =
     Some (''p-1'', P_COMPLETED, [Ap_APPROVED])"
  by code_simp

lemma first_run_saves: "fst first_run = Some waiting"
  using first_run_eval by (auto simp: waiting_def)

lemma approved_run_saves: "fst approved_run = Some completed"
  using approved_run_eval by (auto simp: completed_def)

lemma completed_eval:
  "rec_id completed = ''p-1'' \<and> rec_status completed = P_COMPLETED \<and>
   map ar_status (approvals completed) = [Ap_APPROVED]"
  using approved_run_eval by (simp add: approved_run_saves)

lemma waiting_store_reached:
  "serve memory_get memory_save sample_env (Run sample_brief None ''gemini'' None False) memory_empty =
     (waiting_store, map_sum id Result (snd first_run))"
proof -
  obtain res where f: "run sample_env sample_brief None ''gemini'' None False = (Some waiting, res)"
    using first_run_saves by (cases first_run) (auto simp: first_run_def)
  have "rec_id waiting = ''p-1''" using waiting_eval by simp
  with f show ?thesis
    by (cases res) (simp_all add: first_run_def commit_def memory_save_def waiting_store_def)
qed

lemma waiting_reachable: "reachable memory_get memory_save memory_empty waiting_store"
  by (rule reachable.request[OF reachable.start waiting_store_reached])

text \<open>A viewer's attempt: denied, and audited.\<close>

definition denied_run :: "orchestration_result outcome" where
  "denied_run = resume_from_approval sample_env (Some [ActionEnum EXTERNAL_API_SEND])
     (ActorIs viewer) '''' ''gemini'' None waiting"

definition denied :: project_record where
  "denied = the (fst denied_run)"

definition denied_request :: request where
  "denied_request = ResumeFromApproval ''p-1'' (Some [ActionEnum EXTERNAL_API_SEND])
     (ActorIs viewer) '''' ''gemini'' None"

lemma denied_run_eval:
  "map_option rec_id (fst denied_run) = Some ''p-1'' \<and>
   (case snd denied_run of Inl (PermissionErr m) \<Rightarrow> m = ''viewer role cannot approve actions.'' | _ \<Rightarrow> False)"
  by code_simp

lemma denied_served:
  "serve memory_get memory_save sample_env denied_request waiting_store =
     (waiting_store(''p-1'' \<mapsto> denied),
      Inl (PermissionErr ''viewer role cannot approve actions.''))"
proof -
  have "resume_from_approval sample_env (Some [ActionEnum EXTERNAL_API_SEND])
      (ActorIs viewer) '''' ''gemini'' None waiting =
      (Some denied, Inl (PermissionErr ''viewer role cannot approve actions.''))"
    using denied_run_eval by (cases denied_run)
      (auto simp: denied_run_def denied_def split: sum.splits orch_error.splits)
  moreover have "rec_id denied = ''p-1''"
    using denied_run_eval by (auto simp: denied_def)
  ultimately show ?thesis
    by (simp add: denied_request_def with_record_def get_record_or_raise_def memory_get_def
        waiting_store_def commit_def memory_save_def)
qed

text \<open>A rejection, a rerun of the review and the second wait, which nothing can approve.\<close>

definition rejected_run :: "orchestration_result outcome" where
  "rejected_run = reject_approval sample_env None (ActorIs approver) ''not now'' '''' None waiting"

definition rejected :: project_record where
  "rejected = the (fst rejected_run)"

definition waiting_again_run :: "orchestration_result outcome" where
  "waiting_again_run = resume_from_revision sample_env REBUILDING ActorNone '''' ''gemini'' None rejected"

definition waiting_again :: project_record where
  "waiting_again = the (fst waiting_again_run)"

lemma rejected_run_eval:
  "map_option (\<lambda>r. (rec_id r, rec_status r)) (fst rejected_run) = Some (''p-1'', P_REVISION_REQUESTED)"
  by code_simp

lemma waiting_again_run_eval:
  "map_option (\<lambda>r. (rec_id r, rec_status r, map ar_status (approvals r))) (fst waiting_again_run) =
     Some (''p-1'', P_WAITING_APPROVAL, [Ap_REJECTED, Ap_PENDING])"
  by code_simp

lemma waiting_again_settled: "settled waiting_again"
proof -
  have "settled waiting"
    using run_settled[of sample_env sample_brief None "''gemini''" None False] first_run_saves
    by (cases first_run) (auto simp: outcome_all_def first_run_def)
  moreover have "fst rejected_run = Some rejected" and "fst waiting_again_run = Some waiting_again"
    using rejected_run_eval waiting_again_run_eval by (auto simp: rejected_def waiting_again_def)
  ultimately show ?thesis
    using outcome_all_fst[OF reject_approval_settled] outcome_all_fst[OF resume_from_revision_settled]
    unfolding rejected_run_def waiting_again_run_def by blast
qed

lemma waiting_settled: "settled waiting"
  using run_settled[of sample_env sample_brief None "''gemini''" None False] first_run_saves
  by (cases first_run) (auto simp: outcome_all_def first_run_def)

text \<open>A run with the action approved up front and a failing review, then a second review.\<close>

definition simulated :: project_record where
  "simulated = the (fst (run sample_env sample_brief None ''gemini''
     (Some [ActionStr ''external_api_send'']) True))"

definition rereview_run :: "orchestration_result outcome" where
  "rereview_run = resume_from_revision sample_env REREVIEW ActorNone '''' ''gemini'' None simulated"

definition rereviewed :: project_record where
  "rereviewed = the (fst rereview_run)"

definition gemini_artifact :: artifact where
  "gemini_artifact = artifacts rereviewed ! 3"

lemma rereview_run_eval:
  "map_option (\<lambda>r. (rec_status r, length (artifacts r), external_artifact (artifacts r ! 3)))
     (fst rereview_run) = Some (P_COMPLETED, 4, True)"
  by code_simp

end
