(* ===== verification/Regex.thy ===== *)
theory Regex
  imports Prelude
begin

text \<open>
  The part of Python's \<open>re\<close> and of its string methods that the intake uses. A pattern is
  matched as \<open>re\<close> does it, by backtracking: \<open>re_run r s caps k\<close> tries the ways in which
  \<open>r\<close> matches a prefix of \<open>s\<close>, the preferred one first, and gives the first result of the
  continuation \<open>k\<close>, which gets the rest of the text and the groups captured so far. A repetition
  that consumed nothing is not repeated. On the code points 0 to 255 \<open>\s\<close> is \<open>str.isspace\<close>
  and \<open>\d\<close> is 0 to 9.
\<close>

section \<open>Patterns\<close>

datatype re =
    Eps
  | Cls "char \<Rightarrow> bool"
  | Eos
  | Seq re re
  | Alt re re
  | Star re
  | Grp string re

type_synonym captures = "(string \<times> string) list"

definition LF :: char where "LF = CHR 0x0A"
definition CR :: char where "CR = CHR 0x0D"

text \<open>\<open>Eos\<close> is \<open>$\<close> without \<open>MULTILINE\<close>: the end, or before a newline that ends the text.\<close>

function (sequential) re_run ::
  "re \<Rightarrow> string \<Rightarrow> captures \<Rightarrow> (string \<Rightarrow> captures \<Rightarrow> 'a option) \<Rightarrow> 'a option" where
  "re_run Eps s caps k = k s caps"
| "re_run (Cls P) [] caps k = None"
| "re_run (Cls P) (c # cs) caps k = (if P c then k cs caps else None)"
| "re_run Eos s caps k = (if s = [] \<or> s = [LF] then k s caps else None)"
| "re_run (Seq a b) s caps k = re_run a s caps (\<lambda>s' caps'. re_run b s' caps' k)"
| "re_run (Alt a b) s caps k =
     (case re_run a s caps k of Some x \<Rightarrow> Some x | None \<Rightarrow> re_run b s caps k)"
| "re_run (Star a) s caps k =
     (case re_run a s caps
             (\<lambda>s' caps'. if length s' < length s then re_run (Star a) s' caps' k else None) of
        Some x \<Rightarrow> Some x
      | None \<Rightarrow> k s caps)"
| "re_run (Grp n a) s caps k =
     re_run a s caps (\<lambda>s' caps'. k s' ((n, take (length s - length s') s) # caps'))"
  by pat_completeness auto
termination
  by (relation "measures [\<lambda>(r, s, _). size r, \<lambda>(r, s, _). length s]") auto

definition re_match :: "re \<Rightarrow> string \<Rightarrow> (string \<times> captures) option" where
  "re_match r s = re_run r s [] (\<lambda>s' caps. Some (s', caps))"

text \<open>\<open>re.search\<close>: the leftmost position with a match.\<close>

fun re_search :: "re \<Rightarrow> string \<Rightarrow> captures option" where
  "re_search r [] = map_option snd (re_match r [])"
| "re_search r (c # cs) =
     (case re_match r (c # cs) of Some (_, caps) \<Rightarrow> Some caps | None \<Rightarrow> re_search r cs)"

definition group :: "string \<Rightarrow> captures \<Rightarrow> string" where
  "group n caps = (case map_of caps n of Some t \<Rightarrow> t | None \<Rightarrow> '''')"

definition Plus :: "re \<Rightarrow> re" where "Plus r = Seq r (Star r)"
definition Opt :: "re \<Rightarrow> re" where "Opt r = Alt r Eps"
definition Space :: re where "Space = Cls py_isspace"
definition Char_re :: "char \<Rightarrow> re" where "Char_re c = Cls (\<lambda>d. d = c)"
definition Digit :: re where "Digit = Cls (\<lambda>c. c \<in> set ''0123456789'')"
definition NotLF :: re where "NotLF = Cls (\<lambda>c. c \<noteq> LF)"

text \<open>A literal in lower case, matched with \<open>IGNORECASE\<close>.\<close>

fun Lit :: "string \<Rightarrow> re" where
  "Lit [] = Eps"
| "Lit (c # cs) = Seq (Cls (\<lambda>d. py_lower_char d = c)) (Lit cs)"

section \<open>String methods\<close>

text \<open>\<open>str.replace\<close> with a non-empty first argument: left to right, without overlaps.\<close>

function py_replace :: "string \<Rightarrow> string \<Rightarrow> string \<Rightarrow> string" where
  "py_replace old new [] = []"
| "py_replace old new (c # cs) =
     (if take (length old) (c # cs) = old
      then new @ py_replace old new (drop (length old - 1) cs)
      else c # py_replace old new cs)"
  by pat_completeness auto
termination
  by (relation "measure (\<lambda>(_, _, s). length s)") auto

text \<open>\<open>re.split\<close> at the characters of a class.\<close>

fun split_at :: "(char \<Rightarrow> bool) \<Rightarrow> string \<Rightarrow> string list" where
  "split_at P [] = [[]]"
| "split_at P (c # cs) =
     (if P c then [] # split_at P cs
      else (case split_at P cs of [] \<Rightarrow> [[c]] | t # ts \<Rightarrow> (c # t) # ts))"

definition line_boundary :: "char \<Rightarrow> bool" where
  "line_boundary c \<longleftrightarrow> of_char c \<in> {10, 11, 12, 13, 28, 29, 30, 133 :: nat}"

function splitlines_loop :: "string \<Rightarrow> string \<Rightarrow> string list" where
  "splitlines_loop acc [] = (if acc = [] then [] else [rev acc])"
| "splitlines_loop acc (c # cs) =
     (if c = CR \<and> cs \<noteq> [] \<and> hd cs = LF then rev acc # splitlines_loop [] (tl cs)
      else if line_boundary c then rev acc # splitlines_loop [] cs
      else splitlines_loop (c # acc) cs)"
  by pat_completeness auto
termination
  by (relation "measure (\<lambda>(_, s). length s)") auto

definition py_splitlines :: "string \<Rightarrow> string list" where
  "py_splitlines s = splitlines_loop [] s"

section \<open>Facts\<close>

lemma re_run_Lit:
  "re_run (Lit cs) s caps k =
     (if map py_lower_char (take (length cs) s) = cs then k (drop (length cs) s) caps else None)"
proof (induction cs arbitrary: s)
  case (Cons c cs)
  then show ?case by (cases s) auto
qed simp

text \<open>A repeated class: the longest run first, then one character less each time.\<close>

fun first_some :: "(string \<Rightarrow> 'a option) \<Rightarrow> (char \<Rightarrow> bool) \<Rightarrow> string \<Rightarrow> 'a option" where
  "first_some k P [] = k []"
| "first_some k P (c # cs) =
     (case (if P c then first_some k P cs else None) of Some x \<Rightarrow> Some x | None \<Rightarrow> k (c # cs))"

lemma re_run_Star_Cls: "re_run (Star (Cls P)) s caps k = first_some (\<lambda>t. k t caps) P s"
  by (induction s) auto

lemma first_some_longest:
  "k (dropWhile P s) = Some x \<Longrightarrow> first_some k P s = Some x"
  by (induction s) auto

lemma first_some_None: "first_some k P s = None \<Longrightarrow> k (dropWhile P s) = None \<and> k s = None"
  by (induction s) (auto split: option.splits)

lemma re_search_None: "re_search r s = None \<longleftrightarrow> (\<forall>i \<le> length s. re_match r (drop i s) = None)"
proof (induction s)
  case (Cons c cs)
  have "(\<forall>i \<le> Suc (length cs). re_match r (drop i (c # cs)) = None) \<longleftrightarrow>
      re_match r (c # cs) = None \<and> (\<forall>i \<le> length cs. re_match r (drop i cs) = None)"
    by (metis (no_types, lifting) Suc_le_mono drop0 drop_Suc_Cons le0 not0_implies_Suc)
  with Cons show ?case by (auto split: option.splits)
qed simp

lemma split_at_clean: "t \<in> set (split_at P s) \<Longrightarrow> \<forall>c \<in> set t. \<not> P c"
  by (induction s arbitrary: t) (fastforce split: if_splits list.splits)+

lemma split_at_nonempty [simp]: "split_at P s \<noteq> []"
  by (cases s) (auto split: list.split)

text \<open>Splitting what was joined.\<close>

lemma split_at_clean_append:
  "(\<forall>c \<in> set t. \<not> P c) \<Longrightarrow> P sep \<Longrightarrow> split_at P (t @ sep # s) = t # split_at P s"
  by (induction t) (auto split: list.split)

lemma split_at_clean_end: "(\<forall>c \<in> set t. \<not> P c) \<Longrightarrow> split_at P t = [t]"
  by (induction t) auto

lemma split_at_join:
  "ts \<noteq> [] \<Longrightarrow> (\<forall>t \<in> set ts. \<forall>c \<in> set t. \<not> P c) \<Longrightarrow> P sep \<Longrightarrow>
   split_at P (py_join [sep] ts) = ts"
proof (induction ts)
  case (Cons t ts)
  then show ?case
    by (cases ts) (simp_all add: split_at_clean_end split_at_clean_append)
qed simp

end
