(* ===== verification/Continuation.thy ===== *)
theory Continuation
  imports Prelude
begin

text \<open>
  The GO / PAUSE / REVIEW rules of \<open>app/services/continuation.py\<close>: which changed areas are
  hard gates, and the assessment of a continuation. A set of areas is a set of strings.
\<close>

section \<open>Decisions, risks and hard gates\<close>

datatype continuation_decision = GO | PAUSE | REVIEW

fun decision_value :: "continuation_decision \<Rightarrow> string" where
  "decision_value GO = ''GO''"
| "decision_value PAUSE = ''PAUSE''"
| "decision_value REVIEW = ''REVIEW''"

datatype continuation_risk = LOW | MEDIUM | HIGH

fun risk_value :: "continuation_risk \<Rightarrow> string" where
  "risk_value LOW = ''low''"
| "risk_value MEDIUM = ''medium''"
| "risk_value HIGH = ''high''"

datatype hard_gate_trigger =
    AUTHENTICATION_BEHAVIOR | AUTHORIZATION_BEHAVIOR | APPROVAL_FLOW | POLICY_MODEL | STRICT_MODE
  | ACTOR_TRUST_MODEL | AUDIT_SEMANTICS | DATABASE_SCHEMA | PROVIDER_CONTRACT | DEPENDENCY_ADDITION
  | DESTRUCTIVE_REFACTOR | PRODUCTION_BEHAVIOR | EXTERNAL_WRITE | ENV_HANDLING | ROADMAP_PHASE
  | ARCHITECTURE_DIRECTION

fun trigger_value :: "hard_gate_trigger \<Rightarrow> string" where
  "trigger_value AUTHENTICATION_BEHAVIOR = ''authentication_behavior_change''"
| "trigger_value AUTHORIZATION_BEHAVIOR = ''authorization_behavior_change''"
| "trigger_value APPROVAL_FLOW = ''approval_flow_change''"
| "trigger_value POLICY_MODEL = ''policy_model_change''"
| "trigger_value STRICT_MODE = ''strict_mode_change''"
| "trigger_value ACTOR_TRUST_MODEL = ''actor_identity_trust_change''"
| "trigger_value AUDIT_SEMANTICS = ''audit_logging_semantics_change''"
| "trigger_value DATABASE_SCHEMA = ''database_schema_or_migration''"
| "trigger_value PROVIDER_CONTRACT = ''external_provider_contract_change''"
| "trigger_value DEPENDENCY_ADDITION = ''dependency_addition_required''"
| "trigger_value DESTRUCTIVE_REFACTOR = ''destructive_refactor''"
| "trigger_value PRODUCTION_BEHAVIOR = ''production_behavior_change''"
| "trigger_value EXTERNAL_WRITE = ''external_write_send_publish_action''"
| "trigger_value ENV_HANDLING = ''secrets_credentials_env_handling_change''"
| "trigger_value ROADMAP_PHASE = ''roadmap_phase_change_required''"
| "trigger_value ARCHITECTURE_DIRECTION = ''architecture_direction_change_required''"

definition AREA_TO_HARD_GATE :: "(string \<times> hard_gate_trigger) list" where
  "AREA_TO_HARD_GATE =
    [(''auth'', AUTHENTICATION_BEHAVIOR), (''authorization'', AUTHORIZATION_BEHAVIOR),
     (''approval'', APPROVAL_FLOW), (''policy'', POLICY_MODEL), (''strict_mode'', STRICT_MODE),
     (''actor_trust'', ACTOR_TRUST_MODEL), (''audit'', AUDIT_SEMANTICS),
     (''schema'', DATABASE_SCHEMA), (''migration'', DATABASE_SCHEMA),
     (''provider_contract'', PROVIDER_CONTRACT), (''dependency'', DEPENDENCY_ADDITION),
     (''destructive_refactor'', DESTRUCTIVE_REFACTOR),
     (''production_behavior'', PRODUCTION_BEHAVIOR), (''external_write'', EXTERNAL_WRITE),
     (''env'', ENV_HANDLING), (''phase_change'', ROADMAP_PHASE),
     (''architecture_change'', ARCHITECTURE_DIRECTION)]"

section \<open>Detection and assessment\<close>

definition normalized_areas :: "string set \<Rightarrow> string set" where
  "normalized_areas areas =
     (\<lambda>area. py_lower (py_strip area)) ` {area \<in> areas. py_strip area \<noteq> ''''}"

definition detect_hard_gate_triggers :: "string set \<Rightarrow> hard_gate_trigger set" where
  "detect_hard_gate_triggers changed_areas =
     (\<lambda>area. the (map_of AREA_TO_HARD_GATE area)) `
       {area \<in> normalized_areas changed_areas. map_of AREA_TO_HARD_GATE area \<noteq> None}"

record continuation_context =
  cc_task_in_active_phase :: bool
  cc_next_step_clear :: bool
  cc_verification_passed :: bool
  cc_hard_gate_triggers :: "hard_gate_trigger set"

record continuation_assessment =
  ca_decision :: continuation_decision
  ca_risk :: continuation_risk
  ca_reason :: string

definition trigger_values :: "hard_gate_trigger set \<Rightarrow> string list" where
  "trigger_values triggers = sorted_list_of_set (trigger_value ` triggers)"

definition assess_continuation :: "continuation_context \<Rightarrow> continuation_assessment" where
  "assess_continuation context =
    (let assess = (\<lambda>d k m. \<lparr>ca_decision = d, ca_risk = k, ca_reason = m\<rparr>)
     in if cc_hard_gate_triggers context \<noteq> {} then
          assess REVIEW HIGH
            (''hard gate triggered: '' @ py_join '', '' (trigger_values (cc_hard_gate_triggers context)))
        else if \<not> cc_task_in_active_phase context then
          assess REVIEW HIGH ''task is outside the active roadmap phase.''
        else if \<not> cc_next_step_clear context then
          assess PAUSE MEDIUM ''next valid step is unclear.''
        else if \<not> cc_verification_passed context then
          assess PAUSE MEDIUM ''verification is failing or not yet isolated.''
        else assess GO LOW ''safe to continue with smallest phase-aligned change.'')"

section \<open>Facts\<close>

lemma gate_mem_iff:
  "g \<in> detect_hard_gate_triggers areas \<longleftrightarrow>
     (\<exists>a \<in> normalized_areas areas. map_of AREA_TO_HARD_GATE a = Some g)"
  by (force simp: detect_hard_gate_triggers_def image_iff)

lemma no_gate_iff:
  "detect_hard_gate_triggers areas = {} \<longleftrightarrow>
     (\<forall>a \<in> normalized_areas areas. map_of AREA_TO_HARD_GATE a = None)"
  by (auto simp: detect_hard_gate_triggers_def)

text \<open>Areas that were normalised before, as the triage passes them, are taken as they are.\<close>

lemma py_lower_char_range:
  "of_char (py_lower_char c) =
     (let n = (of_char c :: nat)
      in if (65 \<le> n \<and> n \<le> 90) \<or> (192 \<le> n \<and> n \<le> 222 \<and> n \<noteq> 215) then n + 32 else n)"
  by (simp add: py_lower_char_def Let_def of_char_of)

lemma py_lower_char_idem [simp]: "py_lower_char (py_lower_char c) = py_lower_char c"
proof -
  have "\<not> ((65 \<le> m \<and> m \<le> 90) \<or> (192 \<le> m \<and> m \<le> 222 \<and> m \<noteq> 215))"
    if "m = (of_char (py_lower_char c) :: nat)" for m
    using that by (auto simp: py_lower_char_range Let_def split: if_splits)
  then show ?thesis
    unfolding py_lower_char_def[of "py_lower_char c"] Let_def by (subst if_not_P) auto
qed

lemma py_isspace_lower [simp]: "py_isspace (py_lower_char c) = py_isspace c"
  by (auto simp: py_isspace_def py_lower_char_range Let_def)

lemma dropWhile_lower: "dropWhile py_isspace (map py_lower_char s) = map py_lower_char (dropWhile py_isspace s)"
  by (induction s) auto

lemma py_strip_lower: "py_strip (py_lower s) = py_lower (py_strip s)"
  by (simp add: py_strip_def py_lstrip_def py_lower_def dropWhile_lower rev_map)

lemma normalized_areas_idem [simp]: "normalized_areas (normalized_areas areas) = normalized_areas areas"
proof -
  have l: "py_lower (py_lower s) = py_lower s" for s by (simp add: py_lower_def)
  have e: "py_lower s = [] \<longleftrightarrow> s = []" for s by (simp add: py_lower_def)
  have "py_strip x \<noteq> [] \<and> py_lower (py_strip x) = x" if "x \<in> normalized_areas areas" for x
    using that by (auto simp: normalized_areas_def py_strip_lower l e)
  then show ?thesis by (force simp: normalized_areas_def[of "normalized_areas areas"] image_iff)
qed

lemma detect_none [simp]: "detect_hard_gate_triggers {} = {}"
  by (simp add: detect_hard_gate_triggers_def normalized_areas_def)

lemma detect_normalized [simp]:
  "detect_hard_gate_triggers (normalized_areas areas) = detect_hard_gate_triggers areas"
  by (simp add: detect_hard_gate_triggers_def)

lemma trigger_value_inj: "trigger_value x = trigger_value y \<longleftrightarrow> x = y"
  by (cases x; cases y) simp_all

lemma UNIV_trigger: "finite (UNIV :: hard_gate_trigger set)"
proof -
  have "(UNIV :: hard_gate_trigger set) \<subseteq> set
    [AUTHENTICATION_BEHAVIOR, AUTHORIZATION_BEHAVIOR, APPROVAL_FLOW, POLICY_MODEL, STRICT_MODE,
     ACTOR_TRUST_MODEL, AUDIT_SEMANTICS, DATABASE_SCHEMA, PROVIDER_CONTRACT, DEPENDENCY_ADDITION,
     DESTRUCTIVE_REFACTOR, PRODUCTION_BEHAVIOR, EXTERNAL_WRITE, ENV_HANDLING, ROADMAP_PHASE,
     ARCHITECTURE_DIRECTION]"
  proof
    fix x :: hard_gate_trigger
    show "x \<in> set [AUTHENTICATION_BEHAVIOR, AUTHORIZATION_BEHAVIOR, APPROVAL_FLOW, POLICY_MODEL,
      STRICT_MODE, ACTOR_TRUST_MODEL, AUDIT_SEMANTICS, DATABASE_SCHEMA, PROVIDER_CONTRACT,
      DEPENDENCY_ADDITION, DESTRUCTIVE_REFACTOR, PRODUCTION_BEHAVIOR, EXTERNAL_WRITE, ENV_HANDLING,
      ROADMAP_PHASE, ARCHITECTURE_DIRECTION]"
      by (cases x) simp_all
  qed
  then show ?thesis by (rule finite_subset) simp
qed

lemma finite_triggers [simp]: "finite (S :: hard_gate_trigger set)"
  by (rule finite_subset[OF subset_UNIV UNIV_trigger])

lemma trigger_values_empty [simp]: "trigger_values S = [] \<longleftrightarrow> S = {}"
  by (simp add: trigger_values_def)

lemma set_trigger_values [simp]: "set (trigger_values S) = trigger_value ` S"
  by (simp add: trigger_values_def)

lemma trigger_value_clean: "py_strip (trigger_value g) = trigger_value g"
  by (cases g) (simp_all add: py_strip_def py_lstrip_def py_isspace_def)

lemma trigger_value_nonempty [simp]: "trigger_value g \<noteq> []"
  by (cases g) simp_all

end
