(* ===== verification/Triage.thy ===== *)
theory Triage
  imports Continuation
begin

text \<open>
  Triage of a change (\<open>app/services/triage.py\<close>) and the work order drafted from it
  (\<open>app/services/work_order.py\<close>).
\<close>

section \<open>Triage\<close>

datatype routing_department = MANAGEMENT | PROGRESS_CONTROL | ACTION | IMPLEMENTATION | AUDIT_REVIEW

fun routing_value :: "routing_department \<Rightarrow> string" where
  "routing_value MANAGEMENT = ''management_department''"
| "routing_value PROGRESS_CONTROL = ''progress_control_department''"
| "routing_value ACTION = ''action_department''"
| "routing_value IMPLEMENTATION = ''implementation_department''"
| "routing_value AUDIT_REVIEW = ''audit_review_department''"

datatype escalation_reason =
    NONE | HARD_GATE_TRIGGERED | PHASE_MISMATCH | VERIFICATION_UNSTABLE | AMBIGUOUS_SCOPE
  | CROSS_DEPARTMENT

fun escalation_value :: "escalation_reason \<Rightarrow> string" where
  "escalation_value NONE = ''none''"
| "escalation_value HARD_GATE_TRIGGERED = ''hard_gate_triggered''"
| "escalation_value PHASE_MISMATCH = ''phase_mismatch''"
| "escalation_value VERIFICATION_UNSTABLE = ''verification_unstable''"
| "escalation_value AMBIGUOUS_SCOPE = ''ambiguous_scope''"
| "escalation_value CROSS_DEPARTMENT = ''cross_department_routing''"

definition LOW_RISK_AREAS :: "string set" where
  "LOW_RISK_AREAS =
     {''docs'', ''formatting'', ''tests'', ''summary'', ''classification'', ''extraction''}"

record triage_context =
  tx_changed_areas :: "string set"
  tx_task_in_active_phase :: bool
  tx_verification_passed :: bool
  tx_ambiguous_scope :: bool

record triage_result =
  tg_risk_level :: continuation_risk
  tg_routing_target :: routing_department
  tg_escalation_reason :: escalation_reason
  tg_escalation_likely_required :: bool
  tg_decision :: continuation_decision
  tg_hard_gate_triggers :: "hard_gate_trigger set"

definition triage_task :: "triage_context \<Rightarrow> triage_result" where
  "triage_task context =
    (let areas = normalized_areas (tx_changed_areas context);
         hard_gates = detect_hard_gate_triggers areas;
         continuation = assess_continuation
           \<lparr>cc_task_in_active_phase = tx_task_in_active_phase context,
            cc_next_step_clear = \<not> tx_ambiguous_scope context,
            cc_verification_passed = tx_verification_passed context,
            cc_hard_gate_triggers = hard_gates\<rparr>;
         outcome = (\<lambda>risk target reason likely decision.
           \<lparr>tg_risk_level = risk, tg_routing_target = target, tg_escalation_reason = reason,
            tg_escalation_likely_required = likely, tg_decision = decision,
            tg_hard_gate_triggers = hard_gates\<rparr>)
     in if ''cross_department'' \<in> areas then outcome HIGH MANAGEMENT CROSS_DEPARTMENT True REVIEW
        else if hard_gates \<noteq> {} then outcome HIGH MANAGEMENT HARD_GATE_TRIGGERED True REVIEW
        else if \<not> tx_task_in_active_phase context then
          outcome HIGH MANAGEMENT PHASE_MISMATCH True REVIEW
        else if \<not> tx_verification_passed context then
          outcome MEDIUM PROGRESS_CONTROL VERIFICATION_UNSTABLE False PAUSE
        else if tx_ambiguous_scope context then
          outcome MEDIUM PROGRESS_CONTROL AMBIGUOUS_SCOPE False PAUSE
        else if areas \<noteq> {} \<and> areas \<subseteq> LOW_RISK_AREAS then outcome LOW ACTION NONE False GO
        else if ca_decision continuation = GO then outcome MEDIUM IMPLEMENTATION NONE False GO
        else outcome MEDIUM PROGRESS_CONTROL AMBIGUOUS_SCOPE False PAUSE)"

section \<open>Work orders\<close>

definition DEFAULT_CONSTRAINTS :: "string list" where
  "DEFAULT_CONSTRAINTS = [''No new dependencies'', ''No auth/approval/policy/audit behavior change'']"

definition DEFAULT_COMPLETION_CRITERIA :: "string list" where
  "DEFAULT_COMPLETION_CRITERIA =
     [''Requested artifact exists'', ''No unrelated code change'', ''Verification passed'']"

record work_order_input =
  wi_task_summary :: string
  wi_required_files :: "string list"
  wi_optional_files :: "string list"
  wi_constraints :: "string list"

record work_order_verification =
  wv_commands :: "string list"
  wv_expected_result :: string

record work_order_governance =
  wg_decision_outcome :: continuation_decision
  wg_risk_level :: continuation_risk
  wg_hard_gate_triggers :: "hard_gate_trigger set"
  wg_escalation_reason :: escalation_reason
  wg_management_review_required :: bool

record work_order_draft =
  wo_work_order_id :: string
  wo_project_id :: string
  wo_title :: string
  wo_objective :: string
  wo_assigned_department :: routing_department
  wo_next_action_suggestion :: string
  wo_inputs :: work_order_input
  wo_governance :: work_order_governance
  wo_verification :: work_order_verification
  wo_completion_criteria :: "string list"

definition management_review_required :: "triage_result \<Rightarrow> bool" where
  "management_review_required t \<longleftrightarrow>
     tg_decision t = REVIEW \<or> tg_routing_target t \<in> {MANAGEMENT, AUDIT_REVIEW} \<or>
     tg_escalation_likely_required t"

definition next_action_suggestion :: "triage_result \<Rightarrow> string" where
  "next_action_suggestion t =
    (if tg_decision t = REVIEW then
       ''Escalate to Management Department for REVIEW; do not continue autonomously.''
     else if tg_decision t = PAUSE then
       ''PAUSE and isolate blockers in Progress Control before implementation handoff.''
     else if tg_routing_target t = ACTION then
       ''Run low-risk Action Department support task, then re-triage before implementation.''
     else if tg_routing_target t = IMPLEMENTATION then
       ''Proceed with the smallest implementation change and run targeted verification.''
     else ''Follow routed department instructions and keep GO/PAUSE/REVIEW governance intact.'')"

text \<open>\<open>x or []\<close> of the optional file lists and commands is the default of an option.\<close>

definition build_work_order_draft ::
  "triage_result \<Rightarrow> string \<Rightarrow> string \<Rightarrow> string \<Rightarrow> string \<Rightarrow> string list option \<Rightarrow> string list option \<Rightarrow>
   string list option \<Rightarrow> work_order_draft" where
  "build_work_order_draft t work_order_id project_id objective title required optional commands =
     \<lparr>wo_work_order_id = work_order_id, wo_project_id = project_id, wo_title = title,
      wo_objective = objective, wo_assigned_department = tg_routing_target t,
      wo_next_action_suggestion = next_action_suggestion t,
      wo_inputs = \<lparr>wi_task_summary = objective,
        wi_required_files = (case required of None \<Rightarrow> [] | Some fs \<Rightarrow> fs),
        wi_optional_files = (case optional of None \<Rightarrow> [] | Some fs \<Rightarrow> fs),
        wi_constraints = DEFAULT_CONSTRAINTS\<rparr>,
      wo_governance = \<lparr>wg_decision_outcome = tg_decision t, wg_risk_level = tg_risk_level t,
        wg_hard_gate_triggers = tg_hard_gate_triggers t,
        wg_escalation_reason = tg_escalation_reason t,
        wg_management_review_required = management_review_required t\<rparr>,
      wo_verification = \<lparr>wv_commands = (case commands of None \<Rightarrow> [] | Some cs \<Rightarrow> cs),
        wv_expected_result = ''pass''\<rparr>,
      wo_completion_criteria = DEFAULT_COMPLETION_CRITERIA\<rparr>"

definition to_artifact_payload :: "work_order_draft \<Rightarrow> json dict" where
  "to_artifact_payload w =
    (let strs = (\<lambda>xs. JList (map JStr xs)); g = wo_governance w; i = wo_inputs w
     in [(''work_order_id'', JStr (wo_work_order_id w)), (''project_id'', JStr (wo_project_id w)),
         (''title'', JStr (wo_title w)), (''objective'', JStr (wo_objective w)),
         (''assigned_department'', JStr (routing_value (wo_assigned_department w))),
         (''inputs'', JObj
           [(''task_summary'', JStr (wi_task_summary i)),
            (''required_files'', strs (wi_required_files i)),
            (''optional_files'', strs (wi_optional_files i)),
            (''constraints'', strs (wi_constraints i))]),
         (''governance'', JObj
           [(''decision_outcome'', JStr (decision_value (wg_decision_outcome g))),
            (''risk_level'', JStr (risk_value (wg_risk_level g))),
            (''hard_gate_triggers'', strs (trigger_values (wg_hard_gate_triggers g))),
            (''escalation_reason'', JStr (escalation_value (wg_escalation_reason g))),
            (''management_review_required'', JBool (wg_management_review_required g))]),
         (''next_action_suggestion'', JStr (wo_next_action_suggestion w)),
         (''verification'', JObj
           [(''commands'', strs (wv_commands (wo_verification w))),
            (''expected_result'', JStr (wv_expected_result (wo_verification w)))]),
         (''completion_criteria'', strs (wo_completion_criteria w))])"

section \<open>Facts\<close>

text \<open>The triage decides as the continuation rules do, apart from cross-department work.\<close>

definition assessment_of :: "triage_context \<Rightarrow> continuation_assessment" where
  "assessment_of context = assess_continuation
     \<lparr>cc_task_in_active_phase = tx_task_in_active_phase context,
      cc_next_step_clear = \<not> tx_ambiguous_scope context,
      cc_verification_passed = tx_verification_passed context,
      cc_hard_gate_triggers =
        detect_hard_gate_triggers (normalized_areas (tx_changed_areas context))\<rparr>"

lemma triage_decision:
  "tg_decision (triage_task c) =
     (if ''cross_department'' \<in> normalized_areas (tx_changed_areas c) then REVIEW
      else ca_decision (assessment_of c))"
  by (simp add: triage_task_def assessment_of_def assess_continuation_def Let_def)

lemma triage_gates:
  "tg_hard_gate_triggers (triage_task c) = detect_hard_gate_triggers (tx_changed_areas c)"
  by (simp add: triage_task_def Let_def)

lemma triage_review_iff:
  "tg_decision (triage_task c) = REVIEW \<longleftrightarrow> tg_escalation_likely_required (triage_task c)"
  "tg_decision (triage_task c) = REVIEW \<longleftrightarrow> tg_routing_target (triage_task c) = MANAGEMENT"
  "tg_decision (triage_task c) = REVIEW \<longleftrightarrow> tg_risk_level (triage_task c) = HIGH"
  "tg_decision (triage_task c) = GO \<longleftrightarrow> tg_escalation_reason (triage_task c) = NONE"
  "tg_routing_target (triage_task c) \<noteq> AUDIT_REVIEW"
  by (simp_all add: triage_task_def assess_continuation_def Let_def)

lemma triage_gates_review:
  "tg_hard_gate_triggers (triage_task c) \<noteq> {} \<Longrightarrow> tg_decision (triage_task c) = REVIEW"
  by (simp add: triage_gates triage_decision assessment_of_def assess_continuation_def)

lemma work_order_review: "management_review_required (triage_task c) \<longleftrightarrow> tg_decision (triage_task c) = REVIEW"
  using triage_review_iff[of c] by (auto simp: management_review_required_def)

text \<open>What lets a change continue, in terms of the areas as given.\<close>

lemma triage_go_iff:
  "tg_decision (triage_task c) = GO \<longleftrightarrow>
     tx_task_in_active_phase c \<and> tx_verification_passed c \<and> \<not> tx_ambiguous_scope c \<and>
     (\<forall>a \<in> normalized_areas (tx_changed_areas c).
        a \<noteq> ''cross_department'' \<and> map_of AREA_TO_HARD_GATE a = None)"
  unfolding triage_decision
  by (auto simp: assessment_of_def assess_continuation_def Let_def no_gate_iff)

end
