(* ===== verification/Management.thy ===== *)
theory Management
  imports Triage Agents
begin

text \<open>
  The management review: the artifacts of \<open>app/schemas/management.py\<close>,
  \<open>management_decision.py\<close> and \<open>review_queue.py\<close>, and the services that build them,
  \<open>app/intake/review_artifacts.py\<close>, \<open>app/services/trend_workflow.py\<close>,
  \<open>management_review.py\<close>, \<open>review_packet.py\<close> and \<open>review_queue.py\<close>. A literal type of
  the schemas (a decision, a risk level) is the enumeration it lists. Ids that the code
  draws from \<open>uuid4\<close> when none is given are the argument \<open>hex8\<close>, the eight hex digits.
\<close>

section \<open>Artifacts\<close>

record intake_result =
  ir_brief :: project_brief
  ir_missing_fields :: "string list"
  ir_clarifying_questions :: "string list"

record department_context =
  dc_origin_department :: string
  dc_candidate_routing :: string
  dc_ownership_boundary_note :: string

definition default_department_context :: department_context where
  "default_department_context =
     \<lparr>dc_origin_department = ''intake_department'',
      dc_candidate_routing = ''progress_control_department'',
      dc_ownership_boundary_note =
        ''Intake prepares draft brief data and does not self-approve governance-sensitive work.''\<rparr>"

record risk_snapshot =
  rs_risk_level :: continuation_risk
  rs_hard_gate_triggered :: bool
  rs_hard_gate_triggers :: "string list"
  rs_escalation_likely_required :: bool

definition default_risk_snapshot :: risk_snapshot where
  "default_risk_snapshot =
     \<lparr>rs_risk_level = LOW, rs_hard_gate_triggered = False, rs_hard_gate_triggers = [],
      rs_escalation_likely_required = False\<rparr>"

record proposed_action_draft =
  pd_summary :: string
  pd_verification_plan :: "string list"

record current_brief_artifact =
  cb_brief_id :: string
  cb_project_id :: string
  cb_active_phase :: string
  cb_current_task :: string
  cb_requested_scope :: "string list"
  cb_out_of_scope :: "string list"
  cb_department_context :: department_context
  cb_risk_snapshot :: risk_snapshot
  cb_proposed_action :: proposed_action_draft
  cb_intake_missing_fields :: "string list"
  cb_clarifying_questions :: "string list"

record management_review_input =
  mi_related_project_id :: string
  mi_related_brief_id :: string
  mi_active_phase :: string
  mi_current_task :: string
  mi_candidate_routing_department :: string
  mi_risk_level :: continuation_risk
  mi_hard_gate_triggered :: bool
  mi_hard_gate_triggers :: "string list"
  mi_intake_readiness :: string
  mi_intake_missing_fields :: "string list"
  mi_clarifying_questions :: "string list"
  mi_proposed_action_summary :: string
  mi_verification_plan :: "string list"
  mi_reviewer_hint :: "string option"
  mi_related_task_id :: "string option"

record management_review_summary =
  ms_project_id :: string
  ms_brief_id :: "string option"
  ms_current_task :: string
  ms_decision_outcome :: continuation_decision
  ms_risk_level :: continuation_risk
  ms_department_routing :: string
  ms_hard_gate_triggered :: bool
  ms_hard_gate_triggers :: "string list"
  ms_proposed_action :: string
  ms_required_review :: bool
  ms_escalation_reason :: "string option"
  ms_trend_provider :: "string option"
  ms_trend_candidate_count :: nat
  ms_work_order_id :: "string option"

record brief_summary =
  bs_requested_scope :: "string list"
  bs_out_of_scope :: "string list"
  bs_missing_fields :: "string list"
  bs_clarifying_questions :: "string list"

record management_review_packet =
  mp_packet_id :: string
  mp_project_id :: string
  mp_brief_id :: "string option"
  mp_current_task :: string
  mp_summarized_brief :: brief_summary
  mp_risk_level :: continuation_risk
  mp_department_routing_recommendation :: string
  mp_hard_gate_status :: bool
  mp_hard_gate_triggers :: "string list"
  mp_escalation_reasons :: "string list"
  mp_proposed_next_action :: string
  mp_recommendation :: continuation_decision
  mp_required_review :: bool
  mp_work_order_id :: "string option"
  mp_trend_provider :: "string option"
  mp_trend_candidate_count :: nat

record management_decision_record =
  md_item_id :: string
  md_decision :: continuation_decision
  md_reviewer_id :: string
  md_reviewer_type :: string
  md_rationale :: string
  md_constraints :: "string list"
  md_follow_up_notes :: "string list"
  md_approved_next_action :: string
  md_decided_at :: "string option"
  md_related_project_id :: "string option"
  md_related_queue_item_id :: "string option"
  md_related_packet_id :: "string option"

datatype review_queue_status = Rq_PENDING | Rq_IN_REVIEW | Rq_RESOLVED | Rq_ESCALATED

record review_queue_item =
  rq_item_id :: string
  rq_current_task :: string
  rq_risk_level :: continuation_risk
  rq_department_routing :: string
  rq_hard_gate_status :: bool
  rq_hard_gate_triggers :: "string list"
  rq_escalation_reason :: "string option"
  rq_escalation_reasons :: "string list"
  rq_recommendation :: continuation_decision
  rq_review_status :: review_queue_status
  rq_related_project_id :: "string option"
  rq_related_brief_id :: "string option"
  rq_related_work_order_id :: "string option"
  rq_created_at :: "string option"
  rq_updated_at :: "string option"
  rq_note :: string

record trend_workflow_report =
  tw_provider :: string
  tw_provider_hint :: string
  tw_trend_topic :: string
  tw_candidate_trends :: "trend_candidate list"
  tw_governance_note :: string
  tw_next_action_suggestion :: string

section \<open>Review artifacts of the intake\<close>

definition derive_requested_scope :: "intake_result \<Rightarrow> string list" where
  "derive_requested_scope i = [opt_or (b_scope (ir_brief i)) (b_objective (ir_brief i))]"

definition derive_out_of_scope :: "intake_result \<Rightarrow> string list" where
  "derive_out_of_scope i =
     (if ir_missing_fields i \<noteq> []
      then [''Final approval and detailed planning until missing fields are clarified.''] else [])"

definition intake_result_to_current_brief_artifact ::
  "intake_result \<Rightarrow> string \<Rightarrow> string \<Rightarrow> string \<Rightarrow> string option \<Rightarrow> string list option \<Rightarrow>
   string list option \<Rightarrow> string \<Rightarrow> string list option \<Rightarrow> current_brief_artifact" where
  "intake_result_to_current_brief_artifact i brief_id project_id active_phase current_task
       requested_scope out_of_scope proposed_action_summary verification_plan =
     \<lparr>cb_brief_id = brief_id, cb_project_id = project_id, cb_active_phase = active_phase,
      cb_current_task = opt_or current_task (b_objective (ir_brief i)),
      cb_requested_scope = (case requested_scope of Some s \<Rightarrow> s | None \<Rightarrow> derive_requested_scope i),
      cb_out_of_scope = (case out_of_scope of Some s \<Rightarrow> s | None \<Rightarrow> derive_out_of_scope i),
      cb_department_context = default_department_context,
      cb_risk_snapshot = default_risk_snapshot,
      cb_proposed_action = \<lparr>pd_summary = proposed_action_summary,
        pd_verification_plan = (case verification_plan of Some p \<Rightarrow> p | None \<Rightarrow> [])\<rparr>,
      cb_intake_missing_fields = ir_missing_fields i,
      cb_clarifying_questions = ir_clarifying_questions i\<rparr>"

definition current_brief_to_management_review_input ::
  "current_brief_artifact \<Rightarrow> string option \<Rightarrow> string option \<Rightarrow> management_review_input" where
  "current_brief_to_management_review_input a reviewer_hint related_task_id =
     \<lparr>mi_related_project_id = cb_project_id a, mi_related_brief_id = cb_brief_id a,
      mi_active_phase = cb_active_phase a, mi_current_task = cb_current_task a,
      mi_candidate_routing_department = dc_candidate_routing (cb_department_context a),
      mi_risk_level = rs_risk_level (cb_risk_snapshot a),
      mi_hard_gate_triggered = rs_hard_gate_triggered (cb_risk_snapshot a),
      mi_hard_gate_triggers = rs_hard_gate_triggers (cb_risk_snapshot a),
      mi_intake_readiness = (if cb_intake_missing_fields a \<noteq> [] then ''needs_clarification''
                             else ''ready_for_planning''),
      mi_intake_missing_fields = cb_intake_missing_fields a,
      mi_clarifying_questions = cb_clarifying_questions a,
      mi_proposed_action_summary = pd_summary (cb_proposed_action a),
      mi_verification_plan = pd_verification_plan (cb_proposed_action a),
      mi_reviewer_hint = reviewer_hint, mi_related_task_id = related_task_id\<rparr>"

section \<open>The trend workflow\<close>

definition PROVIDER_HINT_ALIASES :: "(string \<times> string) list" where
  "PROVIDER_HINT_ALIASES =
     [(''gemini-flash-latest'', ''gemini''), (''gemini-flash-lite-latest'', ''gemini''),
      (''grok-latest'', ''grok''), (''openai-latest'', ''openai'')]"

definition TREND_GOVERNANCE_NOTE :: string where
  "TREND_GOVERNANCE_NOTE =
     ''Trend output is informational only and cannot self-authorize risky continuation.''"

definition TREND_NEXT_ACTION :: string where
  "TREND_NEXT_ACTION =
     ''Route findings to Progress Control and Management for GO/PAUSE/REVIEW governance.''"

definition resolve_provider_hint :: "string \<Rightarrow> string" where
  "resolve_provider_hint provider_hint =
     (let normalized = py_lower (py_strip (str_or provider_hint ''mock''))
      in case map_of PROVIDER_HINT_ALIASES normalized of None \<Rightarrow> normalized | Some a \<Rightarrow> a)"

text \<open>With \<open>strict=False\<close> the factory always gives a provider.\<close>

definition run_trend_mock_workflow ::
  "trend_analysis_request \<Rightarrow> string \<Rightarrow> trend_provider option \<Rightarrow> string + trend_workflow_report" where
  "run_trend_mock_workflow request provider_hint provider =
     res_bind
       (case provider of
          Some p \<Rightarrow> Inr p
        | None \<Rightarrow> get_trend_provider None (Some False) (Some (resolve_provider_hint provider_hint)))
       (\<lambda>trend_provider.
          let result = analyze trend_provider request
          in Inr \<lparr>tw_provider = tr_provider result, tw_provider_hint = provider_hint,
                  tw_trend_topic = tr_trend_topic result,
                  tw_candidate_trends = take (tq_max_items request) (tr_candidate_trends result),
                  tw_governance_note = TREND_GOVERNANCE_NOTE,
                  tw_next_action_suggestion = TREND_NEXT_ACTION\<rparr>)"

section \<open>The management review summary\<close>

text \<open>
  Every field is taken from the work order when there is one, else from the triage, else
  from the brief.
\<close>

definition select_decision ::
  "work_order_draft option \<Rightarrow> triage_result option \<Rightarrow> continuation_decision" where
  "select_decision wo tg =
     (case wo of Some w \<Rightarrow> wg_decision_outcome (wo_governance w)
      | None \<Rightarrow> (case tg of Some t \<Rightarrow> tg_decision t | None \<Rightarrow> PAUSE))"

definition select_risk_level ::
  "current_brief_artifact \<Rightarrow> triage_result option \<Rightarrow> work_order_draft option \<Rightarrow> continuation_risk" where
  "select_risk_level cb tg wo =
     (case wo of Some w \<Rightarrow> wg_risk_level (wo_governance w)
      | None \<Rightarrow> (case tg of Some t \<Rightarrow> tg_risk_level t | None \<Rightarrow> rs_risk_level (cb_risk_snapshot cb)))"

definition select_routing ::
  "current_brief_artifact \<Rightarrow> triage_result option \<Rightarrow> work_order_draft option \<Rightarrow> string" where
  "select_routing cb tg wo =
     (case wo of Some w \<Rightarrow> routing_value (wo_assigned_department w)
      | None \<Rightarrow> (case tg of Some t \<Rightarrow> routing_value (tg_routing_target t)
                 | None \<Rightarrow> dc_candidate_routing (cb_department_context cb)))"

definition select_hard_gate_triggers ::
  "current_brief_artifact \<Rightarrow> triage_result option \<Rightarrow> work_order_draft option \<Rightarrow> string list" where
  "select_hard_gate_triggers cb tg wo =
     (case wo of Some w \<Rightarrow> trigger_values (wg_hard_gate_triggers (wo_governance w))
      | None \<Rightarrow> (case tg of Some t \<Rightarrow> trigger_values (tg_hard_gate_triggers t)
                 | None \<Rightarrow> sort (rs_hard_gate_triggers (cb_risk_snapshot cb))))"

definition select_proposed_action ::
  "current_brief_artifact \<Rightarrow> triage_result option \<Rightarrow> trend_workflow_report option \<Rightarrow>
   work_order_draft option \<Rightarrow> string" where
  "select_proposed_action cb tg tr wo =
    (let rest = (case tr of Some r \<Rightarrow> tw_next_action_suggestion r
                 | None \<Rightarrow> pd_summary (cb_proposed_action cb))
     in case wo of
          Some w \<Rightarrow> wo_next_action_suggestion w
        | None \<Rightarrow>
            (case tg of
               Some t \<Rightarrow>
                 if tg_decision t = REVIEW then ''Escalate to Management Department for REVIEW.''
                 else if tg_decision t = PAUSE then ''Pause and isolate blockers before continuing.''
                 else rest
             | None \<Rightarrow> rest))"

definition is_review_required ::
  "current_brief_artifact \<Rightarrow> triage_result option \<Rightarrow> work_order_draft option \<Rightarrow> bool \<Rightarrow> bool" where
  "is_review_required cb tg wo hard_gate_triggered =
     (case wo of Some w \<Rightarrow> wg_management_review_required (wo_governance w)
      | None \<Rightarrow>
          (case tg of
             Some t \<Rightarrow> tg_decision t = REVIEW \<or> tg_escalation_likely_required t
           | None \<Rightarrow>
               if rs_hard_gate_triggered (cb_risk_snapshot cb) \<or> hard_gate_triggered then True
               else True))"

definition select_escalation_reason ::
  "triage_result option \<Rightarrow> work_order_draft option \<Rightarrow> string option" where
  "select_escalation_reason tg wo =
     (case wo of Some w \<Rightarrow> Some (escalation_value (wg_escalation_reason (wo_governance w)))
      | None \<Rightarrow> map_option (\<lambda>t. escalation_value (tg_escalation_reason t)) tg)"

definition build_management_review_summary ::
  "current_brief_artifact \<Rightarrow> triage_result option \<Rightarrow> trend_workflow_report option \<Rightarrow>
   work_order_draft option \<Rightarrow> management_review_summary" where
  "build_management_review_summary cb tg tr wo =
    (let triggers = select_hard_gate_triggers cb tg wo;
         triggered = (triggers \<noteq> [])
     in \<lparr>ms_project_id = cb_project_id cb, ms_brief_id = Some (cb_brief_id cb),
         ms_current_task = cb_current_task cb,
         ms_decision_outcome = select_decision wo tg,
         ms_risk_level = select_risk_level cb tg wo,
         ms_department_routing = select_routing cb tg wo,
         ms_hard_gate_triggered = triggered, ms_hard_gate_triggers = triggers,
         ms_proposed_action = select_proposed_action cb tg tr wo,
         ms_required_review = is_review_required cb tg wo triggered,
         ms_escalation_reason = select_escalation_reason tg wo,
         ms_trend_provider = map_option tw_provider tr,
         ms_trend_candidate_count =
           (case tr of None \<Rightarrow> 0 | Some r \<Rightarrow> length (tw_candidate_trends r)),
         ms_work_order_id = map_option wo_work_order_id wo\<rparr>)"

section \<open>The review packet and its queue item\<close>

definition build_escalation_reasons :: "management_review_summary \<Rightarrow> string list" where
  "build_escalation_reasons s =
    (let reason = py_strip (opt_or (ms_escalation_reason s) '''');
         r1 = (if reason \<noteq> '''' \<and> py_lower reason \<noteq> ''none'' then [reason] else []);
         r2 = (if ms_hard_gate_triggered s \<and> ''hard_gate_triggered'' \<notin> set r1
               then r1 @ [''hard_gate_triggered''] else r1)
     in if ms_required_review s \<and> ms_decision_outcome s = REVIEW \<and> r2 = []
        then r2 @ [''review_required''] else r2)"

definition build_management_review_packet ::
  "string \<Rightarrow> current_brief_artifact \<Rightarrow> management_review_summary \<Rightarrow> string option \<Rightarrow>
   management_review_packet" where
  "build_management_review_packet hex8 cb s packet_id =
     \<lparr>mp_packet_id = opt_or packet_id (''packet-'' @ hex8),
      mp_project_id = ms_project_id s, mp_brief_id = ms_brief_id s,
      mp_current_task = ms_current_task s,
      mp_summarized_brief = \<lparr>bs_requested_scope = cb_requested_scope cb,
        bs_out_of_scope = cb_out_of_scope cb, bs_missing_fields = cb_intake_missing_fields cb,
        bs_clarifying_questions = cb_clarifying_questions cb\<rparr>,
      mp_risk_level = ms_risk_level s,
      mp_department_routing_recommendation = ms_department_routing s,
      mp_hard_gate_status = ms_hard_gate_triggered s,
      mp_hard_gate_triggers = ms_hard_gate_triggers s,
      mp_escalation_reasons = build_escalation_reasons s,
      mp_proposed_next_action = ms_proposed_action s,
      mp_recommendation = ms_decision_outcome s, mp_required_review = ms_required_review s,
      mp_work_order_id = ms_work_order_id s, mp_trend_provider = ms_trend_provider s,
      mp_trend_candidate_count = ms_trend_candidate_count s\<rparr>"

definition build_management_review_packet_from_components ::
  "string \<Rightarrow> current_brief_artifact \<Rightarrow> triage_result option \<Rightarrow> trend_workflow_report option \<Rightarrow>
   work_order_draft option \<Rightarrow> string option \<Rightarrow> management_review_packet" where
  "build_management_review_packet_from_components hex8 cb tg tr wo packet_id =
     build_management_review_packet hex8 cb (build_management_review_summary cb tg tr wo) packet_id"

text \<open>Stripped, non-empty, first occurrences only.\<close>

definition normalize_values :: "string list \<Rightarrow> string list" where
  "normalize_values values = unique_loop {} (filter (\<lambda>v. v \<noteq> '''') (map py_strip values))"

text \<open>
  The errors of the governance services. Constructing a model whose \<open>min_length=1\<close> field is
  empty is a validation error that lists the fields.
\<close>

datatype governance_error =
    GValidationError "string list"
  | GValueError string
  | GIndexError
  | GKeyError string
  | GAttributeError
  | GTypeError

definition validated_queue_item :: "review_queue_item \<Rightarrow> governance_error + review_queue_item" where
  "validated_queue_item q =
    (let empty = [k. (k, v) \<leftarrow> [(''item_id'', rq_item_id q), (''current_task'', rq_current_task q),
                              (''department_routing'', rq_department_routing q)], v = '''']
     in if empty \<noteq> [] then Inl (GValidationError empty) else Inr q)"

definition review_packet_to_queue_item ::
  "string \<Rightarrow> management_review_packet \<Rightarrow> string option \<Rightarrow> review_queue_status \<Rightarrow> string option \<Rightarrow>
   string option \<Rightarrow> string \<Rightarrow> governance_error + review_queue_item" where
  "review_packet_to_queue_item hex8 p item_id status created_at updated_at note =
    (let reasons = normalize_values (mp_escalation_reasons p)
     in validated_queue_item
        \<lparr>rq_item_id = opt_or item_id (''rq-'' @ hex8), rq_current_task = mp_current_task p,
         rq_risk_level = mp_risk_level p,
         rq_department_routing = mp_department_routing_recommendation p,
         rq_hard_gate_status = mp_hard_gate_status p,
         rq_hard_gate_triggers = normalize_values (mp_hard_gate_triggers p),
         rq_escalation_reason = (case reasons of [] \<Rightarrow> None | r # _ \<Rightarrow> Some r),
         rq_escalation_reasons = reasons,
         rq_recommendation = mp_recommendation p, rq_review_status = status,
         rq_related_project_id = Some (mp_project_id p), rq_related_brief_id = mp_brief_id p,
         rq_related_work_order_id = mp_work_order_id p,
         rq_created_at = created_at, rq_updated_at = updated_at, rq_note = note\<rparr>)"

section \<open>Facts\<close>

lemma validated_queue_item_eq:
  "validated_queue_item q = Inr q' \<longleftrightarrow>
     q' = q \<and> rq_item_id q \<noteq> '''' \<and> rq_current_task q \<noteq> '''' \<and> rq_department_routing q \<noteq> ''''"
  "(\<exists>e. validated_queue_item q = Inl e) \<longleftrightarrow>
     rq_item_id q = '''' \<or> rq_current_task q = '''' \<or> rq_department_routing q = ''''"
  by (auto simp: validated_queue_item_def)

lemma normalize_values_idem [simp]: "normalize_values (normalize_values xs) = normalize_values xs"
proof -
  let ?ys = "filter (\<lambda>v. v \<noteq> '''') (map py_strip xs)"
  have s: "v \<noteq> '''' \<and> py_strip v = v" if "v \<in> set (unique_loop {} ?ys)" for v
    using that by (auto simp: set_unique_loop)
  have "map py_strip (unique_loop {} ?ys) = unique_loop {} ?ys"
    by (rule map_idI) (rule conjunct2[OF s])
  moreover have "filter (\<lambda>v. v \<noteq> '''') (unique_loop {} ?ys) = unique_loop {} ?ys"
    by (rule filter_True) (use s in blast)
  ultimately show ?thesis by (simp add: normalize_values_def unique_loop_idem)
qed

lemma set_normalize_values: "set (normalize_values xs) = py_strip ` set xs - {''''}"
  by (auto simp: normalize_values_def set_unique_loop)

lemma normalize_values_empty: "normalize_values xs = [] \<longleftrightarrow> (\<forall>x \<in> set xs. py_strip x = '''')"
  unfolding set_empty[symmetric] set_normalize_values by auto

lemma normalize_triggers: "normalize_values (trigger_values S) = trigger_values S"
proof -
  have "map py_strip (trigger_values S) = trigger_values S"
    by (intro map_idI) (auto simp: trigger_value_clean)
  moreover have "filter (\<lambda>v. v \<noteq> '''') (trigger_values S) = trigger_values S"
    by (intro filter_True) (auto simp: trigger_value_nonempty)
  moreover have "distinct (trigger_values S)" by (simp add: trigger_values_def)
  ultimately show ?thesis by (simp add: normalize_values_def unique_loop_distinct_id)
qed

text \<open>A summary over a triage says what the triage says, with or without its work order.\<close>

lemma summary_of_triage:
  fixes cb tr
  assumes "wo = None \<or> wo = Some (build_work_order_draft (triage_task c) wid pid ob ti rf of' cmds)"
  defines "s \<equiv> build_management_review_summary cb (Some (triage_task c)) tr wo"
  shows "ms_decision_outcome s = tg_decision (triage_task c)"
    and "ms_risk_level s = tg_risk_level (triage_task c)"
    and "ms_department_routing s = routing_value (tg_routing_target (triage_task c))"
    and "ms_hard_gate_triggers s = trigger_values (tg_hard_gate_triggers (triage_task c))"
    and "ms_hard_gate_triggered s \<longleftrightarrow> tg_hard_gate_triggers (triage_task c) \<noteq> {}"
    and "ms_required_review s \<longleftrightarrow> tg_decision (triage_task c) = REVIEW"
    and "ms_escalation_reason s = Some (escalation_value (tg_escalation_reason (triage_task c)))"
  using assms(1) triage_review_iff(1)[of c] work_order_review[of c]
  by (auto simp: s_def build_management_review_summary_def build_work_order_draft_def Let_def
      select_decision_def select_risk_level_def select_routing_def select_hard_gate_triggers_def
      is_review_required_def select_escalation_reason_def)

end
