(* ===== verification/Intake.thy ===== *)
theory Intake
  imports Regex Schemas Management
begin

text \<open>
  The intake agent (\<open>app/intake/service.py\<close>): a free-text request becomes a project brief by
  searching for labelled fields. The patterns are those of \<open>FIELD_PATTERNS\<close> and
  \<open>LIST_FIELD_HEADERS\<close>, matched by the backtracking matcher of \<open>Regex\<close>.
\<close>

section \<open>Patterns and questions\<close>

definition FIELD_QUESTIONS :: "(string \<times> string) list" where
  "FIELD_QUESTIONS =
     [(''scope'', ''What is the scope boundary (in-scope and out-of-scope)?''),
      (''success_criteria'', ''How will we measure success for this project?''),
      (''constraints'',
        ''What key constraints should we respect (time, budget, policy, stack)?''),
      (''deadline'', ''Is there a target deadline or milestone date?'')]"

text \<open>\<open>header\s*:\s*([^\n]+)\<close> for the header of a field.\<close>

definition value_pattern :: "re \<Rightarrow> re" where
  "value_pattern header =
     Seq header (Seq (Star Space) (Seq (Char_re (CHR '':'')) (Seq (Star Space)
       (Grp ''1'' (Plus NotLF)))))"

definition constraints_header :: re where
  "constraints_header = Seq (Lit ''constraint'') (Opt (Lit ''s''))"

definition success_criteria_header :: re where
  "success_criteria_header =
     Seq (Lit ''success'')
       (Seq (Star (Cls (\<lambda>c. py_isspace c \<or> c = CHR ''_'' \<or> c = CHR ''-''))) (Lit ''criteria''))"

definition stakeholders_header :: re where
  "stakeholders_header = Seq (Lit ''stakeholder'') (Opt (Lit ''s''))"

definition FIELD_PATTERNS :: "(string \<times> re list) list" where
  "FIELD_PATTERNS =
     [(''title'', [value_pattern (Lit ''title'')]),
      (''scope'', [value_pattern (Lit ''scope'')]),
      (''constraints'', [value_pattern constraints_header]),
      (''success_criteria'', [value_pattern success_criteria_header]),
      (''deadline'', [value_pattern (Lit ''deadline'')]),
      (''stakeholders'', [value_pattern stakeholders_header])]"

definition LIST_FIELD_HEADERS :: "(string \<times> re) list" where
  "LIST_FIELD_HEADERS =
     [(''constraints'', constraints_header), (''success_criteria'', success_criteria_header),
      (''stakeholders'', stakeholders_header)]"

section \<open>Extraction\<close>

fun first_match :: "re list \<Rightarrow> string \<Rightarrow> string option" where
  "first_match [] text = None"
| "first_match (r # rs) text =
     (case re_search r text of
        Some caps \<Rightarrow> Some (py_strip (group ''1'' caps))
      | None \<Rightarrow> first_match rs text)"

definition extract_value :: "string \<Rightarrow> string \<Rightarrow> string option" where
  "extract_value text field =
     first_match (case map_of FIELD_PATTERNS field of Some rs \<Rightarrow> rs | None \<Rightarrow> []) text"

definition split_list_values :: "string \<Rightarrow> string list" where
  "split_list_values raw =
     unique_loop {}
       (map py_strip
         (filter (\<lambda>v. py_strip v \<noteq> '''') (split_at (\<lambda>c. c = CHR '','' \<or> c = CHR '';'') raw)))"

text \<open>\<open>(?:[-*]|\d+[.)])\<close>, a bullet, and \<open>\r?\n\<close>.\<close>

definition bullet :: re where
  "bullet =
     Alt (Cls (\<lambda>c. c = CHR ''-'' \<or> c = CHR ''*''))
       (Seq (Plus Digit) (Cls (\<lambda>c. c = CHR ''.'' \<or> c = CHR '')'')))"

definition newline :: re where
  "newline = Seq (Opt (Char_re CR)) (Char_re LF)"

definition multiline_pattern :: "re \<Rightarrow> re" where
  "multiline_pattern header =
     Seq header (Seq (Star Space) (Seq (Char_re (CHR '':'')) (Seq (Star Space) (Seq newline
       (Grp ''body''
         (Plus (Seq (Star Space) (Seq bullet (Seq (Star Space) (Seq (Plus NotLF)
           (Alt newline Eos)))))))))))"

text \<open>\<open>re.sub(r"^\s*(?:[-*]|\d+[.)])\s*", "", line)\<close>: only the start of the line can match.\<close>

definition strip_bullet :: "string \<Rightarrow> string" where
  "strip_bullet line =
     (case re_match (Seq (Star Space) (Seq bullet (Star Space))) line of
        Some (rest, _) \<Rightarrow> rest
      | None \<Rightarrow> line)"

definition extract_multiline_list_values :: "string \<Rightarrow> string \<Rightarrow> string list" where
  "extract_multiline_list_values text field =
     (case map_of LIST_FIELD_HEADERS field of
        None \<Rightarrow> []
      | Some header \<Rightarrow>
          (case re_search (multiline_pattern header) text of
             None \<Rightarrow> []
           | Some caps \<Rightarrow>
               unique_loop {}
                 (filter (\<lambda>v. v \<noteq> '''')
                   (map (\<lambda>line. py_strip (strip_bullet line))
                     (py_splitlines (group ''body'' caps))))))"

definition inline_pattern :: "re \<Rightarrow> re" where
  "inline_pattern header =
     Seq header (Seq (Star Space) (Seq (Char_re (CHR '':''))
       (Seq (Star (Cls (\<lambda>c. c = CHR '' '' \<or> c = CHR 0x09))) (Grp ''1'' (Plus NotLF)))))"

definition extract_inline_list_values :: "string \<Rightarrow> string \<Rightarrow> string list" where
  "extract_inline_list_values text field =
     (case map_of LIST_FIELD_HEADERS field of
        None \<Rightarrow> []
      | Some header \<Rightarrow>
          (case re_search (inline_pattern header) text of
             None \<Rightarrow> []
           | Some caps \<Rightarrow> split_list_values (py_strip (group ''1'' caps))))"

definition extract_list_field :: "string \<Rightarrow> string \<Rightarrow> string list" where
  "extract_list_field text field =
     (let inline_values = extract_inline_list_values text field
      in if inline_values \<noteq> [] then inline_values else extract_multiline_list_values text field)"

text \<open>In the code's strings the backquote escapes are literal characters.\<close>

definition normalize_user_request :: "string \<Rightarrow> string" where
  "normalize_user_request user_request =
     py_strip
       (py_replace [CR, LF] [LF]
         (py_replace [CHR 0x60, CHR ''n''] [LF]
           (py_replace [CHR 0x60, CHR ''r'', CHR 0x60, CHR ''n''] [LF] user_request)))"

section \<open>The brief\<close>

definition falsy_opt :: "string option \<Rightarrow> bool" where
  "falsy_opt x \<longleftrightarrow> opt_or x '''' = ''''"

definition missing_fields_of :: "project_brief \<Rightarrow> string list" where
  "missing_fields_of b =
     (if falsy_opt (b_scope b) then [''scope''] else [])
     @ (if b_success_criteria b = [] then [''success_criteria''] else [])
     @ (if b_constraints b = [] then [''constraints''] else [])
     @ (if falsy_opt (b_deadline b) then [''deadline''] else [])"

definition build_brief :: "string \<Rightarrow> intake_result" where
  "build_brief user_request =
    (let normalized_request = normalize_user_request user_request;
         brief =
           \<lparr>b_title = extract_value normalized_request ''title'',
            b_objective = normalized_request,
            b_scope = extract_value normalized_request ''scope'',
            b_constraints = extract_list_field normalized_request ''constraints'',
            b_success_criteria = extract_list_field normalized_request ''success_criteria'',
            b_deadline = extract_value normalized_request ''deadline'',
            b_stakeholders = extract_list_field normalized_request ''stakeholders'',
            b_assumptions =
              [''Unspecified fields remain unset until user clarification.'',
               ''This brief is a draft and not final project approval.''],
            b_raw_request = normalized_request\<rparr>;
         missing_fields = missing_fields_of brief
     in \<lparr>ir_brief = brief, ir_missing_fields = missing_fields,
         ir_clarifying_questions =
           map (\<lambda>f. the (map_of FIELD_QUESTIONS f)) (take 3 missing_fields)\<rparr>)"

end
