(* ===== verification/Activation.thy ===== *)
theory Activation
  imports Management
begin

text \<open>
  The projected activation decision (\<open>app/services/activation_decision.py\<close>), the approval
  record built from it (\<open>app/services/approval_record_builder.py\<close>) and the projections of
  \<open>app/services/dry_run_orchestration.py\<close> over them. A dictionary is an association list in
  insertion order.
\<close>

section \<open>The activation decision\<close>

record activation_decision =
  av_activation_target :: "json dict"
  av_activation_scope :: "string list dict"
  av_preconditions_satisfied :: "string list"
  av_remaining_blockers :: "string list"
  av_human_approvals_recorded :: "string dict list"
  av_recommendation :: continuation_decision
  av_autonomous_continuation_status :: string
  av_autonomous_continuation_note :: string
  av_rollback_disable_expectation :: string
  av_escalation_destination :: "string option"
  av_re_review_required :: bool

definition autonomous_note :: string where
  "autonomous_note =
     ''Autonomous continuation remains not approved unless explicitly approved ''
     @ ''through the required governance process.''"

definition collect_unresolved_blockers :: "review_queue_item \<Rightarrow> string list" where
  "collect_unresolved_blockers q =
    (let b1 = rq_hard_gate_triggers q @ rq_escalation_reasons q;
         b2 = b1 @ (case rq_escalation_reason q of
                      None \<Rightarrow> [] | Some r \<Rightarrow> if r \<noteq> '''' then [r] else []);
         b3 = (if rq_hard_gate_status q \<and> b2 = [] then b2 @ [''hard_gate_active''] else b2)
     in normalize_values b3)"

definition build_preconditions :: "string list \<Rightarrow> management_review_packet \<Rightarrow> string list" where
  "build_preconditions unresolved_blockers p =
     [''management_review_packet validated'', ''review_queue_item validated'',
      ''management_decision validated'']
     @ (if unresolved_blockers = [] \<and> \<not> mp_required_review p
        then [''no unresolved blockers detected''] else [])"

fun human_status_for_decision :: "continuation_decision \<Rightarrow> string" where
  "human_status_for_decision GO = ''approved''"
| "human_status_for_decision PAUSE = ''pending''"
| "human_status_for_decision REVIEW = ''withheld''"

fun rollback_expectation_for_decision :: "continuation_decision \<Rightarrow> string" where
  "rollback_expectation_for_decision GO =
     ''If any guardrail fails, disable limited live provider use immediately ''
     @ ''and route work to REVIEW.''"
| "rollback_expectation_for_decision PAUSE =
     ''Keep limited live provider use disabled until blockers are resolved and ''
     @ ''re-review is completed.''"
| "rollback_expectation_for_decision REVIEW =
     ''Do not activate limited live provider use; maintain disabled state and route ''
     @ ''all related work through REVIEW escalation.''"

definition activation_target :: "json dict" where
  "activation_target =
     [(''department'', JStr ''action_department''),
      (''provider_use_mode'', JStr ''limited_live_provider_use''),
      (''provider_aliases'', JList [JStr ''gemini-flash-lite-latest'', JStr ''gemini-flash-latest''])]"

definition activation_scope :: "string list dict" where
  "activation_scope =
     [(''allowed_use_cases'', [''low-risk extraction'', ''low-risk classification'',
        ''draft summarization for management review artifacts'']),
      (''excluded_use_cases'', [''final authority for risky continuation'',
        ''auth/approval/policy/audit decisions'', ''automatic autonomous continuation''])]"

definition activation_recommendation ::
  "management_review_packet \<Rightarrow> string list \<Rightarrow> continuation_decision \<Rightarrow> continuation_decision" where
  "activation_recommendation p unresolved_blockers decision =
    (let r1 = (if decision = GO \<and> unresolved_blockers \<noteq> [] then PAUSE else decision)
     in if r1 = GO \<and> mp_required_review p then PAUSE else r1)"

definition derive_dry_run_activation_decision ::
  "management_review_packet \<Rightarrow> review_queue_item \<Rightarrow> management_decision_record \<Rightarrow>
   activation_decision" where
  "derive_dry_run_activation_decision p q d =
    (let unresolved_blockers = collect_unresolved_blockers q;
         recommendation = activation_recommendation p unresolved_blockers (md_decision d)
     in \<lparr>av_activation_target = activation_target, av_activation_scope = activation_scope,
         av_preconditions_satisfied = build_preconditions unresolved_blockers p,
         av_remaining_blockers = unresolved_blockers,
         av_human_approvals_recorded =
           [[(''checkpoint'', ''limited_live_provider_use_activation''),
             (''status'', human_status_for_decision recommendation),
             (''approver_id'', md_reviewer_id d), (''approver_type'', md_reviewer_type d),
             (''note'', ''Derived from management decision artifact in dry-run mode.'')]],
         av_recommendation = recommendation,
         av_autonomous_continuation_status = ''not_approved'',
         av_autonomous_continuation_note = autonomous_note,
         av_rollback_disable_expectation = rollback_expectation_for_decision recommendation,
         av_escalation_destination =
           (if recommendation = REVIEW then Some ''Audit and Review Department'' else None),
         av_re_review_required =
           (unresolved_blockers \<noteq> [] \<or> recommendation \<in> {PAUSE, REVIEW})\<rparr>)"

section \<open>The approval record\<close>

fun retained_constraints :: "continuation_decision \<Rightarrow> string list" where
  "retained_constraints GO =
     [''latest-alias outputs remain advisory-only for risky work'',
      ''hard-gate-first REVIEW escalation remains mandatory'',
      ''external sends and production-impacting actions remain separately approval-gated'']"
| "retained_constraints PAUSE =
     [''latest-alias outputs remain advisory-only for risky work'',
      ''hard-gate-first REVIEW escalation remains mandatory'']"
| "retained_constraints REVIEW =
     [''latest-alias outputs remain advisory-only for risky work'',
      ''no live provider activation while hard-gate concerns remain unresolved'']"

text \<open>An f-string prints a missing destination as \<open>None\<close>.\<close>

definition show_opt :: "string option \<Rightarrow> string" where
  "show_opt x = (case x of None \<Rightarrow> ''None'' | Some s \<Rightarrow> s)"

fun management_review_note_for_decision ::
  "continuation_decision \<Rightarrow> string option \<Rightarrow> bool \<Rightarrow> string" where
  "management_review_note_for_decision GO dest re = ''GO for limited activation review path only.''"
| "management_review_note_for_decision PAUSE dest re =
     (if re then ''Pause until blockers are resolved and re-review is completed.''
      else ''Pause until blockers are resolved.'')"
| "management_review_note_for_decision REVIEW dest re =
     ''Escalate to '' @ show_opt dest @ '' for unresolved blocker set.''"

fun follow_up_actions_for_decision ::
  "continuation_decision \<Rightarrow> string option \<Rightarrow> bool \<Rightarrow> string list" where
  "follow_up_actions_for_decision GO dest re =
     [''Complete authn/policy hardening backlog'',
      ''Run rollback drills for limited live provider incidents'',
      ''Document broadened live-use criteria with Management + Audit sign-off'']"
| "follow_up_actions_for_decision PAUSE dest re =
     ''Resolve remaining blockers before activation reconsideration.''
     # (if re then [''Complete re-review before continuation.''] else [])"
| "follow_up_actions_for_decision REVIEW dest re =
     [''Escalate to '' @ show_opt dest @ '' before activation reconsideration.'',
      ''Resolve retained blockers and resubmit through management review.'']"



definition dict_get :: "'v dict \<Rightarrow> string \<Rightarrow> 'v \<Rightarrow> 'v" where
  "dict_get d k dflt = (case map_of d k of None \<Rightarrow> dflt | Some v \<Rightarrow> v)"

text \<open>The four optional ids that the records and envelopes carry along.\<close>

record related_ids =
  rl_project_id :: "string option"
  rl_activation_decision_id :: "string option"
  rl_packet_id :: "string option"
  rl_queue_item_id :: "string option"

definition related_keys :: "string list" where
  "related_keys =
     [''related_project_id'', ''related_activation_decision_id'', ''related_packet_id'',
      ''related_queue_item_id'']"

definition related_items :: "related_ids \<Rightarrow> (string \<times> string) list" where
  "related_items ids =
     List.map_filter (\<lambda>(k, v). map_option (Pair k) v)
       [(''related_project_id'', rl_project_id ids),
        (''related_activation_decision_id'', rl_activation_decision_id ids),
        (''related_packet_id'', rl_packet_id ids),
        (''related_queue_item_id'', rl_queue_item_id ids)]"

definition build_action_department_activation_approval_record ::
  "activation_decision \<Rightarrow> string \<Rightarrow> string option \<Rightarrow> string option \<Rightarrow> string option \<Rightarrow>
   string option \<Rightarrow> related_ids \<Rightarrow> governance_error + json dict" where
  "build_action_department_activation_approval_record a item_id approval_record_id reviewer_id
       reviewer_type rationale ids =
    (case av_human_approvals_recorded a of
       [] \<Rightarrow> Inl GIndexError
     | first_approval # _ \<Rightarrow>
         (let recommendation = av_recommendation a;
              dest = av_escalation_destination a;
              re = av_re_review_required a;
              strs = (\<lambda>xs. JList (map JStr xs))
          in if recommendation = REVIEW \<and> opt_or dest '''' = '''' then
               Inl (GValueError ''REVIEW recommendation requires explicit escalation destination.'')
             else Inr
               ([(''approval_record_id'',
                    JStr (opt_or approval_record_id (''approval_record_for_'' @ item_id))),
                 (''activation_review_item_id'', JStr item_id),
                 (''activation_target'', JObj (av_activation_target a)),
                 (''activation_scope'',
                    JObj (map (\<lambda>(k, v). (k, strs v)) (av_activation_scope a))),
                 (''human_approval_status'', JObj
                   [(''status'', JStr (dict_get first_approval ''status'' ''pending'')),
                    (''checkpoint'', JStr (dict_get first_approval ''checkpoint''
                       ''limited_live_provider_use_activation'')),
                    (''approver_id'', JStr (dict_get first_approval ''approver_id''
                       ''unknown-reviewer'')),
                    (''note'', JStr (dict_get first_approval ''note''
                       ''Derived from projected activation decision.''))]),
                 (''management_review_status'', JObj
                   [(''status'', JStr ''completed''),
                    (''reviewer_id'', JStr (opt_or reviewer_id
                       (dict_get first_approval ''approver_id'' ''unknown-reviewer''))),
                    (''reviewer_type'', JStr (opt_or reviewer_type
                       (dict_get first_approval ''approver_type'' ''unknown-type''))),
                    (''review_outcome'', JStr (decision_value recommendation)),
                    (''note'', JStr (management_review_note_for_decision recommendation dest re))]),
                 (''recommendation'', JStr (decision_value recommendation)),
                 (''autonomous_continuation_status'', JStr (av_autonomous_continuation_status a)),
                 (''autonomous_continuation_note'', JStr (av_autonomous_continuation_note a)),
                 (''retained_constraints'', strs (retained_constraints recommendation)),
                 (''blocker_notes'', strs (av_remaining_blockers a)),
                 (''rollback_disable_expectation'', JStr (av_rollback_disable_expectation a)),
                 (''follow_up_actions_before_broader_live_use'',
                    strs (follow_up_actions_for_decision recommendation dest re)),
                 (''rationale'', JStr (opt_or rationale
                    ''Derived from projected activation decision in dry-run mode.''))]
                @ map (\<lambda>(k, v). (k, JStr v)) (related_items ids))))"

end
