(* ===== verification/Relay.thy ===== *)
theory Relay
  imports Activation
begin

text \<open>
  The relay of artifacts: the 63 functions from line 436 to the end of
  \<open>app/services/dry_run_orchestration.py\<close> all have one of three shapes. Each takes a
  dictionary, copies a list of keys out of it in a fixed order (a missing one is a
  \<open>KeyError\<close>), may add one label looked up in a table of three entries, and copies the four
  optional related ids that are present. This theory holds the dictionaries, the three shapes
  and what is true of every instance; the instances are in \<open>Receiver\<close>, \<open>Consumer\<close> and
  \<open>Release\<close>.
\<close>

section \<open>Artifacts\<close>

text \<open>What the dictionaries hold: the projected decision, the approval record, and texts.\<close>

datatype artifact_value =
  VDecision activation_decision | VRecord "json dict" | VText string

type_synonym envelope = "artifact_value dict"
type_synonym relay_stage = "envelope \<Rightarrow> governance_error + envelope"

definition get_key :: "envelope \<Rightarrow> string \<Rightarrow> governance_error + artifact_value" where
  "get_key d k = (case map_of d k of None \<Rightarrow> Inl (GKeyError k) | Some v \<Rightarrow> Inr v)"

fun pick :: "string list \<Rightarrow> envelope \<Rightarrow> governance_error + envelope" where
  "pick [] d = Inr []"
| "pick (k # ks) d =
     res_bind (get_key d k) (\<lambda>v. res_bind (pick ks d) (\<lambda>fields. Inr ((k, v) # fields)))"

text \<open>\<open>if key in d: out[key] = d[key]\<close> for the four related ids.\<close>

definition carried :: "envelope \<Rightarrow> envelope" where
  "carried d = List.map_filter (\<lambda>k. map_option (Pair k) (map_of d k)) related_keys"

text \<open>
  A lookup in a table of texts. A value that is not a text is a dictionary or a data class
  that holds dictionaries, which cannot be hashed.
\<close>

definition table_label :: "(string \<times> string) list \<Rightarrow> artifact_value \<Rightarrow> governance_error + string" where
  "table_label table v =
    (case v of
       VText t \<Rightarrow> (case map_of table t of None \<Rightarrow> Inl (GKeyError t) | Some w \<Rightarrow> Inr w)
     | _ \<Rightarrow> Inl GTypeError)"

section \<open>The three shapes\<close>

definition select_stage :: "string list \<Rightarrow> relay_stage" where
  "select_stage keys d = res_bind (pick keys d) (\<lambda>fields. Inr (fields @ carried d))"

definition label_stage ::
  "string list \<Rightarrow> string \<Rightarrow> (string \<times> string) list \<Rightarrow> string \<Rightarrow> relay_stage" where
  "label_stage keys new table src d =
     res_bind (pick keys d) (\<lambda>fields.
     res_bind (get_key d src) (\<lambda>v.
     res_bind (table_label table v) (\<lambda>w.
       Inr (fields @ [(new, VText w)] @ carried d))))"

text \<open>The first label is looked up by the recommendation, which is read before anything else.\<close>

definition classify_stage ::
  "string list \<Rightarrow> string \<Rightarrow> (string \<times> string) list \<Rightarrow> relay_stage" where
  "classify_stage keys new table d =
     res_bind (get_key d ''projected_activation_decision'') (\<lambda>v.
       case v of
         VDecision a \<Rightarrow>
           res_bind (pick keys d) (\<lambda>fields.
           res_bind (table_label table (VText (decision_value (av_recommendation a)))) (\<lambda>w.
             Inr (fields @ [(new, VText w)] @ carried d)))
       | _ \<Rightarrow> Inl GAttributeError)"

definition run_stages :: "relay_stage list \<Rightarrow> relay_stage" where
  "run_stages = res_fold (\<lambda>stage. stage)"

lemma run_stages_simps [simp]:
  "run_stages [] d = Inr d"
  "run_stages (f # fs) d = res_bind (f d) (run_stages fs)"
  by (simp_all add: run_stages_def)

lemma run_stages_append: "run_stages (fs @ gs) d = res_bind (run_stages fs d) (run_stages gs)"
  by (simp add: run_stages_def res_fold_append)

lemma run_stages_snoc: "run_stages (fs @ [f]) d = res_bind (run_stages fs d) f"
proof -
  have "run_stages [f] = f" by (rule ext) (simp add: run_stages_def res_bind_def split: sum.split)
  then show ?thesis by (simp add: run_stages_append)
qed

section \<open>Artifacts of the relay\<close>

text \<open>
  Every artifact of the relay is the projected decision and the approval record, then labels,
  then the related ids.
\<close>

definition base_keys :: "string list" where
  "base_keys = [''projected_activation_decision'', ''approval_record'']"

definition texts :: "(string \<times> string) list \<Rightarrow> envelope" where
  "texts = map (\<lambda>(k, t). (k, VText t))"

definition form ::
  "activation_decision \<Rightarrow> json dict \<Rightarrow> (string \<times> string) list \<Rightarrow> related_ids \<Rightarrow> envelope" where
  "form a r labels ids =
     [(''projected_activation_decision'', VDecision a), (''approval_record'', VRecord r)]
     @ texts labels @ texts (related_items ids)"

definition fresh_keys :: "string list \<Rightarrow> bool" where
  "fresh_keys ks \<longleftrightarrow> distinct (base_keys @ ks @ related_keys)"

lemma texts_simps [simp]:
  "texts [] = []" "texts ((k, t) # ps) = (k, VText t) # texts ps"
  "texts (ps @ qs) = texts ps @ texts qs"
  by (simp_all add: texts_def)

lemma fst_texts [simp]: "map fst (texts ps) = map fst ps"
  by (simp add: texts_def case_prod_beta)

lemma map_of_texts: "map_of (texts ps) k = map_option VText (map_of ps k)"
  by (induction ps) auto

lemma pick_found:
  "distinct (map fst xs) \<Longrightarrow> set (map fst xs) \<inter> set (map fst zs) = {} \<Longrightarrow>
   pick (map fst xs) (zs @ xs @ ys) = Inr xs"
proof (induction xs arbitrary: zs)
  case (Cons x xs)
  obtain k v where x: "x = (k, v)" by (cases x)
  have "pick (map fst xs) ((zs @ [x]) @ xs @ ys) = Inr xs"
    using Cons.prems by (intro Cons.IH) (auto simp: x)
  moreover have "map_of zs k = None"
    using Cons.prems(2) by (auto simp: x map_of_eq_None_iff)
  ultimately show ?case by (simp add: x get_key_def map_add_def)
qed simp

lemma pick_prefix:
  "distinct (map fst xs) \<Longrightarrow> pick (map fst xs) (xs @ ys) = Inr xs"
  using pick_found[of xs "[]" ys] by simp

lemma pick_missing:
  "set ks \<subseteq> fst ` set d \<Longrightarrow> k \<notin> fst ` set d \<Longrightarrow> pick (ks @ k # ks') d = Inl (GKeyError k)"
proof (induction ks)
  case Nil
  then show ?case by (simp add: get_key_def map_of_eq_None_iff[THEN iffD2])
next
  case (Cons x ks)
  from Cons.prems obtain v where "map_of d x = Some v"
    by (metis domD dom_map_of_conv_image_fst list.set_intros(1) subsetD)
  with Cons show ?case by (simp add: get_key_def)
qed

lemma pick_error: "pick ks d = Inl e \<Longrightarrow> \<exists>k. e = GKeyError k \<and> k \<in> set ks \<and> map_of d k = None"
  by (induction ks) (auto simp: get_key_def res_bind_eq_Inl split: option.splits)

lemma pick_values: "pick ks d = Inr xs \<Longrightarrow> map fst xs = ks \<and> (\<forall>(k, v) \<in> set xs. map_of d k = Some v)"
  by (induction ks arbitrary: xs)
    (auto simp: get_key_def res_bind_eq_Inr split: option.splits)

lemma pick_present: "(\<exists>xs. pick ks d = Inr xs) \<longleftrightarrow> (\<forall>k \<in> set ks. map_of d k \<noteq> None)"
  by (induction ks) (auto simp: get_key_def res_bind_eq_Inr split: option.splits)

section \<open>The shapes on artifacts of the relay\<close>

lemma distinct_related_keys: "distinct related_keys"
  by (simp add: related_keys_def)

lemma map_filter_eq:
  "(\<And>x. x \<in> set xs \<Longrightarrow> f x = g x) \<Longrightarrow> List.map_filter f xs = List.map_filter g xs"
proof (induction xs)
  case (Cons x xs)
  have "f x = g x" by (rule Cons.prems) simp
  moreover have "List.map_filter f xs = List.map_filter g xs"
    by (rule Cons.IH) (rule Cons.prems, simp)
  ultimately show ?case by (simp add: List.map_filter_simps split: option.split)
qed (simp add: List.map_filter_simps)

lemma fst_set_texts [simp]: "fst ` set (texts ps) = fst ` set ps"
  by (simp only: set_map[symmetric] fst_texts)

lemma carried_append:
  assumes "fst ` set xs \<inter> set related_keys = {}"
  shows "carried (xs @ ys) = carried ys"
  unfolding carried_def
proof (rule map_filter_eq)
  fix k assume "k \<in> set related_keys"
  then have "map_of xs k = None" using assms by (auto simp: map_of_eq_None_iff)
  then show "map_option (Pair k) (map_of (xs @ ys) k) = map_option (Pair k) (map_of ys k)"
    by (simp add: map_add_def)
qed

lemma carried_related: "carried (texts (related_items ids)) = texts (related_items ids)"
  by (cases "rl_project_id ids"; cases "rl_activation_decision_id ids"; cases "rl_packet_id ids";
      cases "rl_queue_item_id ids")
    (simp_all add: carried_def related_keys_def related_items_def List.map_filter_simps)

lemma fst_related_items: "fst ` set (related_items ids) \<subseteq> set related_keys"
  by (auto simp: related_items_def related_keys_def List.map_filter_def split: if_splits)

lemma form_split:
  "form a r labels ids =
     ([(''projected_activation_decision'', VDecision a), (''approval_record'', VRecord r)]
      @ texts labels) @ texts (related_items ids)"
  by (simp add: form_def)

lemma fresh_keysD:
  assumes "fresh_keys ks"
  shows "distinct (base_keys @ ks)" "set (base_keys @ ks) \<inter> set related_keys = {}" "distinct ks"
  using assms by (auto simp: fresh_keys_def)

lemma fresh_keys_append: "fresh_keys (ks @ ks') \<Longrightarrow> fresh_keys ks"
  by (auto simp: fresh_keys_def)

lemma pick_form:
  assumes "fresh_keys (map fst (labels @ extra))"
  shows "pick (base_keys @ map fst labels) (form a r (labels @ extra) ids) =
     Inr ([(''projected_activation_decision'', VDecision a), (''approval_record'', VRecord r)]
          @ texts labels)"
  using pick_prefix[of "[(''projected_activation_decision'', VDecision a),
      (''approval_record'', VRecord r)] @ texts labels" "texts extra @ texts (related_items ids)"]
    fresh_keysD(1)[OF assms]
  by (simp add: form_def base_keys_def)

lemma carried_form:
  assumes "fresh_keys (map fst labels)"
  shows "carried (form a r labels ids) = texts (related_items ids)"
proof -
  have "set (base_keys @ map fst labels) \<inter> set related_keys = {}"
    by (rule fresh_keysD(2)[OF assms])
  then show ?thesis
    unfolding form_split
    by (subst carried_append) (auto simp: carried_related base_keys_def)
qed

lemma map_of_form_label:
  assumes "fresh_keys (map fst labels)" "(k, t) \<in> set labels"
  shows "map_of (form a r labels ids) k = Some (VText t)"
proof -
  have "k \<notin> set base_keys" "map_of labels k = Some t"
    using assms fresh_keysD(1)[OF assms(1)] by (force, simp)
  then show ?thesis
    by (auto simp: form_def base_keys_def map_add_def map_of_texts)
qed

lemma select_stage_form:
  assumes "fresh_keys (map fst (labels @ extra))"
  shows "select_stage (base_keys @ map fst labels) (form a r (labels @ extra) ids) =
     Inr (form a r labels ids)"
  by (simp only: select_stage_def pick_form[OF assms] carried_form[OF assms]) (simp add: form_def)

lemma label_stage_form:
  assumes "fresh_keys (map fst (labels @ extra))" "(src, t) \<in> set labels" "map_of table t = Some w"
  shows "label_stage (base_keys @ map fst labels) new table src (form a r (labels @ extra) ids) =
     Inr (form a r (labels @ [(new, w)]) ids)"
  using map_of_form_label[OF assms(1), of src t a r ids] assms(2)
  by (simp only: label_stage_def pick_form[OF assms(1)] carried_form[OF assms(1)] get_key_def)
    (simp add: table_label_def assms(3), simp add: form_def)

lemma classify_stage_form:
  assumes "fresh_keys (map fst extra)"
    and "map_of table (decision_value (av_recommendation a)) = Some w"
  shows "classify_stage base_keys new table (form a r extra ids) = Inr (form a r [(new, w)] ids)"
proof -
  have "map_of (form a r extra ids) ''projected_activation_decision'' = Some (VDecision a)"
    by (simp add: form_def)
  then show ?thesis
    using pick_form[of "[]" extra a r ids] carried_form[OF assms(1), of a r ids] assms
    by (simp add: classify_stage_def get_key_def table_label_def) (simp add: form_def)
qed

lemma form_keys: "fst ` set (form a r labels ids) = set base_keys \<union> fst ` set labels \<union> fst ` set (related_items ids)"
  by (simp add: form_def base_keys_def image_Un Un_assoc)

text \<open>A stage that copies a label which is not there yet stops the relay.\<close>

lemma label_stage_missing:
  assumes "set ks \<subseteq> fst ` set d" "k \<notin> fst ` set d"
  shows "label_stage (ks @ k # ks') new table src d = Inl (GKeyError k)"
    and "select_stage (ks @ k # ks') d = Inl (GKeyError k)"
  by (simp_all add: label_stage_def select_stage_def pick_missing[OF assms])

section \<open>What a stage keeps of any dictionary\<close>

lemma map_of_map_filter:
  "map_of (List.map_filter (\<lambda>k. map_option (Pair k) (f k)) ks) k = (if k \<in> set ks then f k else None)"
  by (induction ks) (auto simp: List.map_filter_simps split: option.split)

lemma map_of_carried: "map_of (carried d) k = (if k \<in> set related_keys then map_of d k else None)"
  unfolding carried_def by (rule map_of_map_filter)

lemma map_of_pick: "pick ks d = Inr xs \<Longrightarrow> map_of xs k = (if k \<in> set ks then map_of d k else None)"
  by (induction ks arbitrary: xs) (auto simp: get_key_def res_bind_eq_Inr split: option.splits)

definition keeps_artifacts :: "relay_stage \<Rightarrow> bool" where
  "keeps_artifacts f \<longleftrightarrow>
     (\<forall>d d' k. f d = Inr d' \<longrightarrow> k \<in> set base_keys \<union> set related_keys \<longrightarrow> map_of d' k = map_of d k)"

lemma keeps_select: "set base_keys \<subseteq> set keys \<Longrightarrow> keeps_artifacts (select_stage keys)"
  by (auto simp: keeps_artifacts_def select_stage_def res_bind_eq_Inr map_add_def map_of_carried
      map_of_pick split: option.split)

lemma keeps_label:
  assumes "set base_keys \<subseteq> set keys" "new \<notin> set base_keys \<union> set related_keys"
  shows "keeps_artifacts (label_stage keys new table src)"
    and "keeps_artifacts (classify_stage keys new table)"
  using assms
  by (auto simp: keeps_artifacts_def label_stage_def classify_stage_def res_bind_eq_Inr map_add_def
      map_of_carried map_of_pick split: option.split artifact_value.split_asm) blast+

lemma keeps_run:
  assumes "\<forall>f \<in> set fs. keeps_artifacts f"
  shows "keeps_artifacts (run_stages fs)"
  unfolding keeps_artifacts_def
proof (intro allI impI)
  fix d d' k
  assume "run_stages fs d = Inr d'" "k \<in> set base_keys \<union> set related_keys"
  then show "map_of d' k = map_of d k"
    using assms
    by (induction fs arbitrary: d) (auto simp: keeps_artifacts_def res_bind_eq_Inr)
qed

text \<open>The only errors are a missing key or label, a value that is no decision, and one that is no text.\<close>

lemma stage_errors:
  "select_stage keys d = Inl e \<Longrightarrow> \<exists>k. e = GKeyError k"
  "label_stage keys new table src d = Inl e \<Longrightarrow> (\<exists>k. e = GKeyError k) \<or> e = GTypeError"
  by (auto simp: select_stage_def label_stage_def res_bind_eq_Inl get_key_def table_label_def
      dest: pick_error split: option.splits artifact_value.splits)

end
