(* ===== verification/Dry_Run.thy ===== *)
theory Dry_Run
  imports Intake Relay
begin

text \<open>
  The dry run of the orchestration (\<open>app/services/dry_run_orchestration.py\<close>, lines 27 to
  433): from a request over the intake, the triage, the trend report, the work order and the
  management summary to the projected decisions, and from there to the handoff envelope that
  the relay starts with. The eight hex digits of each \<open>uuid4\<close> are the argument \<open>hex\<close>, indexed
  by what the id is for.
\<close>

section \<open>Requests and results\<close>

definition SIMULATION_NOTICE :: string where
  "SIMULATION_NOTICE =
     ''Dry-run simulation only. This output cannot authorize risky continuation by itself.''"

record dry_run_request =
  dq_user_request :: string
  dq_changed_areas :: "string set"
  dq_include_trend :: bool
  dq_trend_provider_hint :: string
  dq_task_in_active_phase :: bool
  dq_verification_passed :: bool
  dq_ambiguous_scope :: bool
  dq_generate_work_order :: bool
  dq_project_id :: "string option"
  dq_brief_id :: "string option"
  dq_work_order_id :: "string option"
  dq_current_task :: "string option"
  dq_management_decision :: "management_decision_record option"

record decision_projection =
  dp_decision :: continuation_decision
  dp_rationale :: string
  dp_next_step :: string
  dp_autonomous_continuation_allowed :: bool

record dry_run_result =
  dr_mode :: string
  dr_notice :: string
  dr_intake_result :: intake_result
  dr_current_brief :: current_brief_artifact
  dr_triage_result :: triage_result
  dr_trend_report :: "trend_workflow_report option"
  dr_work_order :: "work_order_draft option"
  dr_management_summary :: management_review_summary
  dr_management_decision :: "management_decision_record option"
  dr_decision_projection :: decision_projection
  dr_projected_activation_decision :: "activation_decision option"

datatype id_kind = Id_project | Id_brief | Id_work_order | Id_packet | Id_queue_item

type_synonym hexes = "id_kind \<Rightarrow> string"

section \<open>The projections\<close>

definition intake_result_to_trend_request :: "intake_result \<Rightarrow> trend_analysis_request" where
  "intake_result_to_trend_request i =
     \<lparr>tq_trend_topic = b_objective (ir_brief i), tq_context = b_scope (ir_brief i),
      tq_max_items = 3\<rparr>"

definition project_dry_run_decision ::
  "management_review_summary \<Rightarrow> management_decision_record option \<Rightarrow> decision_projection" where
  "project_dry_run_decision s md =
    (let decision = (case md of Some d \<Rightarrow> md_decision d | None \<Rightarrow> ms_decision_outcome s);
         rationale = (case md of Some d \<Rightarrow> md_rationale d
                      | None \<Rightarrow> ''Derived from management summary recommendation.'');
         candidate_next =
           (case md of Some d \<Rightarrow> str_or (md_approved_next_action d) (ms_proposed_action s)
            | None \<Rightarrow> ms_proposed_action s);
         projection = (\<lambda>next_step allowed.
           \<lparr>dp_decision = decision, dp_rationale = rationale, dp_next_step = next_step,
            dp_autonomous_continuation_allowed = allowed\<rparr>)
     in if decision = REVIEW then
          projection ''Escalate to Management/Audit review; do not continue autonomously.'' False
        else if decision = PAUSE then
          projection ''Pause dry-run progression and resolve blockers before next simulation step.''
            False
        else if ms_required_review s then
          projection (''Management review is still required for this dry-run outcome; ''
            @ ''do not continue autonomously.'') False
        else if ms_hard_gate_triggered s then
          projection (''GO noted in dry-run, but hard gate remains active; ''
            @ ''keep management-led review path.'') False
        else projection candidate_next True)"

definition normalize_activation_projection_inputs ::
  "hexes \<Rightarrow> current_brief_artifact \<Rightarrow> management_review_summary \<Rightarrow>
   management_decision_record option \<Rightarrow> governance_error +
   management_review_packet \<times> review_queue_item \<times> management_decision_record" where
  "normalize_activation_projection_inputs hex cb s md =
    (let packet = build_management_review_packet (hex Id_packet) cb s None
     in res_bind
          (review_packet_to_queue_item (hex Id_queue_item) packet None Rq_PENDING None None '''')
          (\<lambda>queue_item.
             let effective_decision =
               (case md of
                  Some d \<Rightarrow> d
                | None \<Rightarrow>
                    \<lparr>md_item_id = rq_item_id queue_item, md_decision = ms_decision_outcome s,
                     md_reviewer_id = ''dry-run-system'', md_reviewer_type = ''system'',
                     md_rationale = ''Derived from management summary in dry-run mode.'',
                     md_constraints = [], md_follow_up_notes = [],
                     md_approved_next_action = ms_proposed_action s, md_decided_at = None,
                     md_related_project_id = Some (ms_project_id s),
                     md_related_queue_item_id = Some (rq_item_id queue_item),
                     md_related_packet_id = Some (mp_packet_id packet)\<rparr>)
             in Inr (packet, queue_item, effective_decision)))"

definition build_projected_activation_decision ::
  "hexes \<Rightarrow> current_brief_artifact \<Rightarrow> management_review_summary \<Rightarrow>
   management_decision_record option \<Rightarrow> governance_error + activation_decision" where
  "build_projected_activation_decision hex cb s md =
     res_bind (normalize_activation_projection_inputs hex cb s md)
       (\<lambda>(packet, queue_item, effective_decision).
          Inr (derive_dry_run_activation_decision packet queue_item effective_decision))"

section \<open>The run\<close>

text \<open>
  With \<open>strict=False\<close> the trend workflow has no error; its \<open>ValueError\<close> would propagate.
\<close>

definition dry_run_trend_report ::
  "dry_run_request \<Rightarrow> intake_result \<Rightarrow> governance_error + trend_workflow_report option" where
  "dry_run_trend_report q intake =
    (if dq_include_trend q
     then (case run_trend_mock_workflow (intake_result_to_trend_request intake)
                  (dq_trend_provider_hint q) None of
             Inl msg \<Rightarrow> Inl (GValueError msg)
           | Inr r \<Rightarrow> Inr (Some r))
     else Inr None)"

definition run_dry_run_orchestration ::
  "hexes \<Rightarrow> dry_run_request \<Rightarrow> governance_error + dry_run_result" where
  "run_dry_run_orchestration hex q =
    (let intake = build_brief (dq_user_request q);
         project_id = opt_or (dq_project_id q) (''dryrun-project-'' @ hex Id_project);
         brief_id = opt_or (dq_brief_id q) (''dryrun-brief-'' @ hex Id_brief);
         current_brief = intake_result_to_current_brief_artifact intake brief_id project_id
           ''phase_4'' (dq_current_task q) None None
           ''Route to Progress Control for triage and management review.'' None;
         triage = triage_task
           \<lparr>tx_changed_areas = dq_changed_areas q,
            tx_task_in_active_phase = dq_task_in_active_phase q,
            tx_verification_passed = dq_verification_passed q,
            tx_ambiguous_scope = dq_ambiguous_scope q\<rparr>
     in res_bind (dry_run_trend_report q intake) (\<lambda>trend_report.
          let work_order =
                (if dq_generate_work_order q
                 then Some (build_work_order_draft triage
                        (opt_or (dq_work_order_id q) (''dryrun-wo-'' @ hex Id_work_order))
                        project_id (cb_current_task current_brief) ''Draft work order''
                        None None None)
                 else None);
              summary = build_management_review_summary current_brief (Some triage)
                trend_report work_order
          in res_bind
               (build_projected_activation_decision hex current_brief summary
                 (dq_management_decision q))
               (\<lambda>projected. Inr
                 \<lparr>dr_mode = ''dry_run'', dr_notice = SIMULATION_NOTICE,
                  dr_intake_result = intake, dr_current_brief = current_brief,
                  dr_triage_result = triage, dr_trend_report = trend_report,
                  dr_work_order = work_order, dr_management_summary = summary,
                  dr_management_decision = dq_management_decision q,
                  dr_decision_projection =
                    project_dry_run_decision summary (dq_management_decision q),
                  dr_projected_activation_decision = Some projected\<rparr>)))"

section \<open>Bundles and envelopes\<close>

text \<open>The arguments of the approval-record builder, as a record for the keyword dictionary.\<close>

record approval_record_kwargs =
  kw_projected_activation_decision :: activation_decision
  kw_activation_review_item_id :: string
  kw_approval_record_id :: "string option"
  kw_reviewer_id :: "string option"
  kw_reviewer_type :: "string option"
  kw_rationale :: "string option"
  kw_related :: related_ids

definition build_approval_record_builder_kwargs_from_projection ::
  "activation_decision \<Rightarrow> string \<Rightarrow> management_decision_record option \<Rightarrow> string option \<Rightarrow>
   related_ids \<Rightarrow> approval_record_kwargs" where
  "build_approval_record_builder_kwargs_from_projection a item_id md approval_record_id ids =
     \<lparr>kw_projected_activation_decision = a, kw_activation_review_item_id = item_id,
      kw_approval_record_id = approval_record_id,
      kw_reviewer_id = map_option md_reviewer_id md,
      kw_reviewer_type = map_option md_reviewer_type md,
      kw_rationale = map_option md_rationale md, kw_related = ids\<rparr>"

definition build_approval_record_from_projection_context ::
  "activation_decision \<Rightarrow> string \<Rightarrow> management_decision_record option \<Rightarrow> string option \<Rightarrow>
   related_ids \<Rightarrow> governance_error + json dict" where
  "build_approval_record_from_projection_context a item_id md approval_record_id ids =
    (let kw = build_approval_record_builder_kwargs_from_projection a item_id md
                approval_record_id ids
     in build_action_department_activation_approval_record
          (kw_projected_activation_decision kw) (kw_activation_review_item_id kw)
          (kw_approval_record_id kw) (kw_reviewer_id kw) (kw_reviewer_type kw)
          (kw_rationale kw) (kw_related kw))"

definition build_projected_artifact_pair_from_context ::
  "hexes \<Rightarrow> current_brief_artifact \<Rightarrow> management_review_summary \<Rightarrow>
   management_decision_record option \<Rightarrow> string \<Rightarrow> string option \<Rightarrow> related_ids \<Rightarrow>
   governance_error + activation_decision \<times> json dict" where
  "build_projected_artifact_pair_from_context hex cb s md item_id approval_record_id ids =
     res_bind (build_projected_activation_decision hex cb s md) (\<lambda>a.
     res_bind (build_approval_record_from_projection_context a item_id md approval_record_id ids)
       (\<lambda>r. Inr (a, r)))"

definition build_dry_run_artifact_bundle ::
  "dry_run_result \<Rightarrow> string \<Rightarrow> string option \<Rightarrow> related_ids \<Rightarrow> governance_error + envelope" where
  "build_dry_run_artifact_bundle res item_id approval_record_id ids =
    (case dr_projected_activation_decision res of
       None \<Rightarrow> Inl (GValueError
         ''DryRunOrchestrationResult must include projected_activation_decision.'')
     | Some a \<Rightarrow>
         res_bind (build_approval_record_from_projection_context a item_id
                     (dr_management_decision res) approval_record_id ids)
           (\<lambda>r. Inr [(''projected_activation_decision'', VDecision a),
                     (''approval_record'', VRecord r)]))"

definition build_dry_run_handoff_envelope ::
  "envelope \<Rightarrow> related_ids \<Rightarrow> governance_error + envelope" where
  "build_dry_run_handoff_envelope bundle ids =
     res_bind (get_key bundle ''projected_activation_decision'') (\<lambda>a.
     res_bind (get_key bundle ''approval_record'') (\<lambda>r.
       Inr ([(''projected_activation_decision'', a), (''approval_record'', r)]
            @ map (\<lambda>(k, v). (k, VText v)) (related_items ids))))"

definition build_dry_run_handoff_envelope_from_result ::
  "dry_run_result \<Rightarrow> string \<Rightarrow> string option \<Rightarrow> related_ids \<Rightarrow> governance_error + envelope" where
  "build_dry_run_handoff_envelope_from_result res item_id approval_record_id ids =
     res_bind (build_dry_run_artifact_bundle res item_id approval_record_id ids)
       (\<lambda>bundle. build_dry_run_handoff_envelope bundle ids)"

end
