(* ===== verification/Receiver.thy ===== *)
theory Receiver
  imports Relay
begin

text \<open>
  The first half of the relay, from the handoff envelope to the follow-up requirement
  (\<open>app/services/dry_run_orchestration.py\<close>, lines 436 to 1854): sixteen stages that only copy,
  then one label per stage.
\<close>

section \<open>From the envelope to the delivery manifest\<close>

definition build_next_layer_intake_from_handoff_envelope :: relay_stage where
  "build_next_layer_intake_from_handoff_envelope = select_stage
     [''projected_activation_decision'', ''approval_record'']"

definition build_downstream_work_item_from_intake :: relay_stage where
  "build_downstream_work_item_from_intake = select_stage
     [''projected_activation_decision'', ''approval_record'']"

definition build_downstream_execution_intent_from_work_item :: relay_stage where
  "build_downstream_execution_intent_from_work_item = select_stage
     [''projected_activation_decision'', ''approval_record'']"

definition build_execution_readiness_view_from_intent :: relay_stage where
  "build_execution_readiness_view_from_intent = select_stage
     [''projected_activation_decision'', ''approval_record'']"

definition build_execution_readiness_assessment_from_view :: relay_stage where
  "build_execution_readiness_assessment_from_view = select_stage
     [''projected_activation_decision'', ''approval_record'']"

definition build_execution_readiness_signal_from_assessment :: relay_stage where
  "build_execution_readiness_signal_from_assessment = select_stage
     [''projected_activation_decision'', ''approval_record'']"

definition build_execution_readiness_outcome_from_signal :: relay_stage where
  "build_execution_readiness_outcome_from_signal = select_stage
     [''projected_activation_decision'', ''approval_record'']"

definition build_downstream_consumer_payload_from_outcome :: relay_stage where
  "build_downstream_consumer_payload_from_outcome = select_stage
     [''projected_activation_decision'', ''approval_record'']"

definition build_consumer_receiver_intake_from_payload :: relay_stage where
  "build_consumer_receiver_intake_from_payload = select_stage
     [''projected_activation_decision'', ''approval_record'']"

definition build_consumer_receiver_readiness_view_from_intake :: relay_stage where
  "build_consumer_receiver_readiness_view_from_intake = select_stage
     [''projected_activation_decision'', ''approval_record'']"

definition build_consumer_receiver_readiness_assessment_from_view :: relay_stage where
  "build_consumer_receiver_readiness_assessment_from_view = select_stage
     [''projected_activation_decision'', ''approval_record'']"

definition build_consumer_receiver_readiness_signal_from_assessment :: relay_stage where
  "build_consumer_receiver_readiness_signal_from_assessment = select_stage
     [''projected_activation_decision'', ''approval_record'']"

definition build_consumer_receiver_readiness_outcome_from_signal :: relay_stage where
  "build_consumer_receiver_readiness_outcome_from_signal = select_stage
     [''projected_activation_decision'', ''approval_record'']"

definition build_consumer_receiver_delivery_payload_from_outcome :: relay_stage where
  "build_consumer_receiver_delivery_payload_from_outcome = select_stage
     [''projected_activation_decision'', ''approval_record'']"

definition build_consumer_receiver_delivery_packet_from_payload :: relay_stage where
  "build_consumer_receiver_delivery_packet_from_payload = select_stage
     [''projected_activation_decision'', ''approval_record'']"

definition build_consumer_receiver_delivery_manifest_from_packet :: relay_stage where
  "build_consumer_receiver_delivery_manifest_from_packet = select_stage
     [''projected_activation_decision'', ''approval_record'']"

section \<open>The receiver labels\<close>

definition build_consumer_receiver_readiness_classification_from_manifest :: relay_stage where
  "build_consumer_receiver_readiness_classification_from_manifest = classify_stage
     [''projected_activation_decision'', ''approval_record'']
     ''receiver_readiness_classification''
     [(''GO'', ''ready''), (''PAUSE'', ''hold''), (''REVIEW'', ''needs_review'')]"

definition build_consumer_receiver_handling_directive_from_classification :: relay_stage where
  "build_consumer_receiver_handling_directive_from_classification = label_stage
     [''projected_activation_decision'', ''approval_record'',
      ''receiver_readiness_classification'']
     ''receiver_handling_directive''
     [(''ready'', ''deliver''), (''hold'', ''defer''), (''needs_review'', ''route_for_review'')]
     ''receiver_readiness_classification''"

definition build_consumer_receiver_action_label_from_directive :: relay_stage where
  "build_consumer_receiver_action_label_from_directive = label_stage
     [''projected_activation_decision'', ''approval_record'',
      ''receiver_readiness_classification'', ''receiver_handling_directive'']
     ''receiver_action_label''
     [(''deliver'', ''dispatch''), (''defer'', ''wait''),
      (''route_for_review'', ''review_queue'')]
     ''receiver_handling_directive''"

definition build_consumer_receiver_dispatch_intent_from_action_label :: relay_stage where
  "build_consumer_receiver_dispatch_intent_from_action_label = label_stage
     [''projected_activation_decision'', ''approval_record'',
      ''receiver_readiness_classification'', ''receiver_handling_directive'',
      ''receiver_action_label'']
     ''receiver_dispatch_intent''
     [(''dispatch'', ''send''), (''wait'', ''park''), (''review_queue'', ''review'')]
     ''receiver_action_label''"

definition build_consumer_receiver_dispatch_mode_from_intent :: relay_stage where
  "build_consumer_receiver_dispatch_mode_from_intent = label_stage
     [''projected_activation_decision'', ''approval_record'',
      ''receiver_readiness_classification'', ''receiver_handling_directive'',
      ''receiver_action_label'', ''receiver_dispatch_intent'']
     ''receiver_dispatch_mode''
     [(''send'', ''active''), (''park'', ''queued''), (''review'', ''review_pending'')]
     ''receiver_dispatch_intent''"

definition build_consumer_receiver_release_gate_from_dispatch_mode :: relay_stage where
  "build_consumer_receiver_release_gate_from_dispatch_mode = label_stage
     [''projected_activation_decision'', ''approval_record'',
      ''receiver_readiness_classification'', ''receiver_handling_directive'',
      ''receiver_action_label'', ''receiver_dispatch_intent'', ''receiver_dispatch_mode'']
     ''receiver_release_gate''
     [(''active'', ''open''), (''queued'', ''deferred''),
      (''review_pending'', ''blocked_for_review'')]
     ''receiver_dispatch_mode''"

definition build_consumer_receiver_progress_state_from_release_gate :: relay_stage where
  "build_consumer_receiver_progress_state_from_release_gate = label_stage
     [''projected_activation_decision'', ''approval_record'',
      ''receiver_readiness_classification'', ''receiver_handling_directive'',
      ''receiver_action_label'', ''receiver_dispatch_intent'', ''receiver_dispatch_mode'',
      ''receiver_release_gate'']
     ''receiver_progress_state''
     [(''open'', ''in_progress''), (''deferred'', ''pending''),
      (''blocked_for_review'', ''review_hold'')]
     ''receiver_release_gate''"

definition build_consumer_receiver_progress_signal_from_state :: relay_stage where
  "build_consumer_receiver_progress_signal_from_state = label_stage
     [''projected_activation_decision'', ''approval_record'',
      ''receiver_readiness_classification'', ''receiver_handling_directive'',
      ''receiver_action_label'', ''receiver_dispatch_intent'', ''receiver_dispatch_mode'',
      ''receiver_release_gate'', ''receiver_progress_state'']
     ''receiver_progress_signal''
     [(''in_progress'', ''advance''), (''pending'', ''await''),
      (''review_hold'', ''review_wait'')]
     ''receiver_progress_state''"

definition build_consumer_receiver_progress_outcome_from_signal :: relay_stage where
  "build_consumer_receiver_progress_outcome_from_signal = label_stage
     [''projected_activation_decision'', ''approval_record'',
      ''receiver_readiness_classification'', ''receiver_handling_directive'',
      ''receiver_action_label'', ''receiver_dispatch_intent'', ''receiver_dispatch_mode'',
      ''receiver_release_gate'', ''receiver_progress_state'', ''receiver_progress_signal'']
     ''receiver_progress_outcome''
     [(''advance'', ''moving''), (''await'', ''standing_by''),
      (''review_wait'', ''awaiting_review'')]
     ''receiver_progress_signal''"

definition build_consumer_receiver_intervention_requirement_from_progress_outcome :: relay_stage where
  "build_consumer_receiver_intervention_requirement_from_progress_outcome = label_stage
     [''projected_activation_decision'', ''approval_record'',
      ''receiver_readiness_classification'', ''receiver_handling_directive'',
      ''receiver_action_label'', ''receiver_dispatch_intent'', ''receiver_dispatch_mode'',
      ''receiver_release_gate'', ''receiver_progress_state'', ''receiver_progress_signal'',
      ''receiver_progress_outcome'']
     ''receiver_intervention_requirement''
     [(''moving'', ''none''), (''standing_by'', ''monitor''),
      (''awaiting_review'', ''review_required'')]
     ''receiver_progress_outcome''"

definition build_consumer_receiver_attention_level_from_intervention_requirement :: relay_stage where
  "build_consumer_receiver_attention_level_from_intervention_requirement = label_stage
     [''projected_activation_decision'', ''approval_record'',
      ''receiver_readiness_classification'', ''receiver_handling_directive'',
      ''receiver_action_label'', ''receiver_dispatch_intent'', ''receiver_dispatch_mode'',
      ''receiver_release_gate'', ''receiver_progress_state'', ''receiver_progress_signal'',
      ''receiver_progress_outcome'', ''receiver_intervention_requirement'']
     ''receiver_attention_level''
     [(''none'', ''low''), (''monitor'', ''medium''), (''review_required'', ''high'')]
     ''receiver_intervention_requirement''"

definition build_consumer_receiver_notification_requirement_from_attention_level :: relay_stage where
  "build_consumer_receiver_notification_requirement_from_attention_level = label_stage
     [''projected_activation_decision'', ''approval_record'',
      ''receiver_readiness_classification'', ''receiver_handling_directive'',
      ''receiver_action_label'', ''receiver_dispatch_intent'', ''receiver_dispatch_mode'',
      ''receiver_release_gate'', ''receiver_progress_state'', ''receiver_progress_signal'',
      ''receiver_progress_outcome'', ''receiver_intervention_requirement'',
      ''receiver_attention_level'']
     ''receiver_notification_requirement''
     [(''low'', ''none''), (''medium'', ''notify''), (''high'', ''escalate'')]
     ''receiver_attention_level''"

definition build_consumer_receiver_response_priority_from_notification_requirement :: relay_stage where
  "build_consumer_receiver_response_priority_from_notification_requirement = label_stage
     [''projected_activation_decision'', ''approval_record'',
      ''receiver_readiness_classification'', ''receiver_handling_directive'',
      ''receiver_action_label'', ''receiver_dispatch_intent'', ''receiver_dispatch_mode'',
      ''receiver_release_gate'', ''receiver_progress_state'', ''receiver_progress_signal'',
      ''receiver_progress_outcome'', ''receiver_intervention_requirement'',
      ''receiver_attention_level'', ''receiver_notification_requirement'']
     ''receiver_response_priority''
     [(''none'', ''normal''), (''notify'', ''elevated''), (''escalate'', ''urgent'')]
     ''receiver_notification_requirement''"

definition build_consumer_receiver_response_channel_from_priority :: relay_stage where
  "build_consumer_receiver_response_channel_from_priority = label_stage
     [''projected_activation_decision'', ''approval_record'',
      ''receiver_readiness_classification'', ''receiver_handling_directive'',
      ''receiver_action_label'', ''receiver_dispatch_intent'', ''receiver_dispatch_mode'',
      ''receiver_release_gate'', ''receiver_progress_state'', ''receiver_progress_signal'',
      ''receiver_progress_outcome'', ''receiver_intervention_requirement'',
      ''receiver_attention_level'', ''receiver_notification_requirement'',
      ''receiver_response_priority'']
     ''receiver_response_channel''
     [(''normal'', ''standard_channel''), (''elevated'', ''priority_channel''),
      (''urgent'', ''escalation_channel'')]
     ''receiver_response_priority''"

definition build_consumer_receiver_response_route_from_channel :: relay_stage where
  "build_consumer_receiver_response_route_from_channel = label_stage
     [''projected_activation_decision'', ''approval_record'',
      ''receiver_readiness_classification'', ''receiver_handling_directive'',
      ''receiver_action_label'', ''receiver_dispatch_intent'', ''receiver_dispatch_mode'',
      ''receiver_release_gate'', ''receiver_progress_state'', ''receiver_progress_signal'',
      ''receiver_progress_outcome'', ''receiver_intervention_requirement'',
      ''receiver_attention_level'', ''receiver_notification_requirement'',
      ''receiver_response_priority'', ''receiver_response_channel'']
     ''receiver_response_route''
     [(''standard_channel'', ''standard_route''), (''priority_channel'', ''priority_route''),
      (''escalation_channel'', ''escalation_route'')]
     ''receiver_response_channel''"

definition build_consumer_receiver_followup_requirement_from_response_route :: relay_stage where
  "build_consumer_receiver_followup_requirement_from_response_route = label_stage
     [''projected_activation_decision'', ''approval_record'',
      ''receiver_readiness_classification'', ''receiver_handling_directive'',
      ''receiver_action_label'', ''receiver_dispatch_intent'', ''receiver_dispatch_mode'',
      ''receiver_release_gate'', ''receiver_progress_state'', ''receiver_progress_signal'',
      ''receiver_progress_outcome'', ''receiver_intervention_requirement'',
      ''receiver_attention_level'', ''receiver_notification_requirement'',
      ''receiver_response_priority'', ''receiver_response_channel'', ''receiver_response_route'']
     ''receiver_followup_requirement''
     [(''standard_route'', ''none''), (''priority_route'', ''follow_up''),
      (''escalation_route'', ''escalation_follow_up'')]
     ''receiver_response_route''"

lemmas receiver_defs =
  build_next_layer_intake_from_handoff_envelope_def
  build_downstream_work_item_from_intake_def
  build_downstream_execution_intent_from_work_item_def
  build_execution_readiness_view_from_intent_def
  build_execution_readiness_assessment_from_view_def
  build_execution_readiness_signal_from_assessment_def
  build_execution_readiness_outcome_from_signal_def
  build_downstream_consumer_payload_from_outcome_def
  build_consumer_receiver_intake_from_payload_def
  build_consumer_receiver_readiness_view_from_intake_def
  build_consumer_receiver_readiness_assessment_from_view_def
  build_consumer_receiver_readiness_signal_from_assessment_def
  build_consumer_receiver_readiness_outcome_from_signal_def
  build_consumer_receiver_delivery_payload_from_outcome_def
  build_consumer_receiver_delivery_packet_from_payload_def
  build_consumer_receiver_delivery_manifest_from_packet_def
  build_consumer_receiver_readiness_classification_from_manifest_def
  build_consumer_receiver_handling_directive_from_classification_def
  build_consumer_receiver_action_label_from_directive_def
  build_consumer_receiver_dispatch_intent_from_action_label_def
  build_consumer_receiver_dispatch_mode_from_intent_def
  build_consumer_receiver_release_gate_from_dispatch_mode_def
  build_consumer_receiver_progress_state_from_release_gate_def
  build_consumer_receiver_progress_signal_from_state_def
  build_consumer_receiver_progress_outcome_from_signal_def
  build_consumer_receiver_intervention_requirement_from_progress_outcome_def
  build_consumer_receiver_attention_level_from_intervention_requirement_def
  build_consumer_receiver_notification_requirement_from_attention_level_def
  build_consumer_receiver_response_priority_from_notification_requirement_def
  build_consumer_receiver_response_channel_from_priority_def
  build_consumer_receiver_response_route_from_channel_def
  build_consumer_receiver_followup_requirement_from_response_route_def

end
