(* ===== verification/Consumer.thy ===== *)
theory Consumer
  imports Receiver
begin

text \<open>
  The second part of the relay, from the decision surface to the dispatch clearance
  (\<open>app/services/dry_run_orchestration.py\<close>, lines 1857 to 3320).
\<close>

section \<open>From the decision surface to the scheduling commitment\<close>

definition build_consumer_decision_surface_from_followup_requirement :: relay_stage where
  "build_consumer_decision_surface_from_followup_requirement = select_stage
     [''projected_activation_decision'', ''approval_record'',
      ''receiver_readiness_classification'', ''receiver_handling_directive'',
      ''receiver_action_label'', ''receiver_dispatch_intent'', ''receiver_dispatch_mode'',
      ''receiver_release_gate'', ''receiver_progress_state'', ''receiver_progress_signal'',
      ''receiver_progress_outcome'', ''receiver_intervention_requirement'',
      ''receiver_attention_level'', ''receiver_notification_requirement'',
      ''receiver_response_priority'', ''receiver_response_channel'', ''receiver_response_route'',
      ''receiver_followup_requirement'']"

definition build_consumer_decision_posture_from_surface :: relay_stage where
  "build_consumer_decision_posture_from_surface = label_stage
     [''projected_activation_decision'', ''approval_record'',
      ''receiver_readiness_classification'', ''receiver_handling_directive'',
      ''receiver_action_label'', ''receiver_dispatch_intent'', ''receiver_dispatch_mode'',
      ''receiver_release_gate'', ''receiver_progress_state'', ''receiver_progress_signal'',
      ''receiver_progress_outcome'', ''receiver_intervention_requirement'',
      ''receiver_attention_level'', ''receiver_notification_requirement'',
      ''receiver_response_priority'', ''receiver_response_channel'', ''receiver_response_route'',
      ''receiver_followup_requirement'']
     ''consumer_decision_posture''
     [(''none'', ''observe''), (''follow_up'', ''engage''),
      (''escalation_follow_up'', ''escalate'')]
     ''receiver_followup_requirement''"

definition build_consumer_action_requirement_from_posture :: relay_stage where
  "build_consumer_action_requirement_from_posture = label_stage
     [''projected_activation_decision'', ''approval_record'',
      ''receiver_readiness_classification'', ''receiver_handling_directive'',
      ''receiver_action_label'', ''receiver_dispatch_intent'', ''receiver_dispatch_mode'',
      ''receiver_release_gate'', ''receiver_progress_state'', ''receiver_progress_signal'',
      ''receiver_progress_outcome'', ''receiver_intervention_requirement'',
      ''receiver_attention_level'', ''receiver_notification_requirement'',
      ''receiver_response_priority'', ''receiver_response_channel'', ''receiver_response_route'',
      ''receiver_followup_requirement'', ''consumer_decision_posture'']
     ''consumer_action_requirement''
     [(''observe'', ''no_action''), (''engage'', ''action_required''),
      (''escalate'', ''escalation_required'')]
     ''consumer_decision_posture''"

definition build_consumer_work_queue_assignment_from_action_requirement :: relay_stage where
  "build_consumer_work_queue_assignment_from_action_requirement = label_stage
     [''projected_activation_decision'', ''approval_record'',
      ''receiver_readiness_classification'', ''receiver_handling_directive'',
      ''receiver_action_label'', ''receiver_dispatch_intent'', ''receiver_dispatch_mode'',
      ''receiver_release_gate'', ''receiver_progress_state'', ''receiver_progress_signal'',
      ''receiver_progress_outcome'', ''receiver_intervention_requirement'',
      ''receiver_attention_level'', ''receiver_notification_requirement'',
      ''receiver_response_priority'', ''receiver_response_channel'', ''receiver_response_route'',
      ''receiver_followup_requirement'', ''consumer_decision_posture'',
      ''consumer_action_requirement'']
     ''consumer_work_queue_assignment''
     [(''no_action'', ''observation_queue''), (''action_required'', ''action_queue''),
      (''escalation_required'', ''escalation_queue'')]
     ''consumer_action_requirement''"

definition build_consumer_processing_plan_from_work_queue_assignment :: relay_stage where
  "build_consumer_processing_plan_from_work_queue_assignment = label_stage
     [''projected_activation_decision'', ''approval_record'',
      ''receiver_readiness_classification'', ''receiver_handling_directive'',
      ''receiver_action_label'', ''receiver_dispatch_intent'', ''receiver_dispatch_mode'',
      ''receiver_release_gate'', ''receiver_progress_state'', ''receiver_progress_signal'',
      ''receiver_progress_outcome'', ''receiver_intervention_requirement'',
      ''receiver_attention_level'', ''receiver_notification_requirement'',
      ''receiver_response_priority'', ''receiver_response_channel'', ''receiver_response_route'',
      ''receiver_followup_requirement'', ''consumer_decision_posture'',
      ''consumer_action_requirement'', ''consumer_work_queue_assignment'']
     ''consumer_processing_plan''
     [(''observation_queue'', ''observe_only''), (''action_queue'', ''process_action''),
      (''escalation_queue'', ''process_escalation'')]
     ''consumer_work_queue_assignment''"

definition build_consumer_operator_requirement_from_processing_plan :: relay_stage where
  "build_consumer_operator_requirement_from_processing_plan = label_stage
     [''projected_activation_decision'', ''approval_record'',
      ''receiver_readiness_classification'', ''receiver_handling_directive'',
      ''receiver_action_label'', ''receiver_dispatch_intent'', ''receiver_dispatch_mode'',
      ''receiver_release_gate'', ''receiver_progress_state'', ''receiver_progress_signal'',
      ''receiver_progress_outcome'', ''receiver_intervention_requirement'',
      ''receiver_attention_level'', ''receiver_notification_requirement'',
      ''receiver_response_priority'', ''receiver_response_channel'', ''receiver_response_route'',
      ''receiver_followup_requirement'', ''consumer_decision_posture'',
      ''consumer_action_requirement'', ''consumer_work_queue_assignment'',
      ''consumer_processing_plan'']
     ''consumer_operator_requirement''
     [(''observe_only'', ''none''), (''process_action'', ''operator_required''),
      (''process_escalation'', ''senior_operator_required'')]
     ''consumer_processing_plan''"

definition build_consumer_assignment_lane_from_operator_requirement :: relay_stage where
  "build_consumer_assignment_lane_from_operator_requirement = label_stage
     [''projected_activation_decision'', ''approval_record'',
      ''receiver_readiness_classification'', ''receiver_handling_directive'',
      ''receiver_action_label'', ''receiver_dispatch_intent'', ''receiver_dispatch_mode'',
      ''receiver_release_gate'', ''receiver_progress_state'', ''receiver_progress_signal'',
      ''receiver_progress_outcome'', ''receiver_intervention_requirement'',
      ''receiver_attention_level'', ''receiver_notification_requirement'',
      ''receiver_response_priority'', ''receiver_response_channel'', ''receiver_response_route'',
      ''receiver_followup_requirement'', ''consumer_decision_posture'',
      ''consumer_action_requirement'', ''consumer_work_queue_assignment'',
      ''consumer_processing_plan'', ''consumer_operator_requirement'']
     ''consumer_assignment_lane''
     [(''none'', ''self_service_lane''), (''operator_required'', ''operator_lane''),
      (''senior_operator_required'', ''senior_operator_lane'')]
     ''consumer_operator_requirement''"

definition build_consumer_service_tier_from_assignment_lane :: relay_stage where
  "build_consumer_service_tier_from_assignment_lane = label_stage
     [''projected_activation_decision'', ''approval_record'',
      ''receiver_readiness_classification'', ''receiver_handling_directive'',
      ''receiver_action_label'', ''receiver_dispatch_intent'', ''receiver_dispatch_mode'',
      ''receiver_release_gate'', ''receiver_progress_state'', ''receiver_progress_signal'',
      ''receiver_progress_outcome'', ''receiver_intervention_requirement'',
      ''receiver_attention_level'', ''receiver_notification_requirement'',
      ''receiver_response_priority'', ''receiver_response_channel'', ''receiver_response_route'',
      ''receiver_followup_requirement'', ''consumer_decision_posture'',
      ''consumer_action_requirement'', ''consumer_work_queue_assignment'',
      ''consumer_processing_plan'', ''consumer_operator_requirement'',
      ''consumer_assignment_lane'']
     ''consumer_service_tier''
     [(''self_service_lane'', ''self_service''), (''operator_lane'', ''operator_managed''),
      (''senior_operator_lane'', ''senior_managed'')]
     ''consumer_assignment_lane''"

definition build_consumer_sla_class_from_service_tier :: relay_stage where
  "build_consumer_sla_class_from_service_tier = label_stage
     [''projected_activation_decision'', ''approval_record'',
      ''receiver_readiness_classification'', ''receiver_handling_directive'',
      ''receiver_action_label'', ''receiver_dispatch_intent'', ''receiver_dispatch_mode'',
      ''receiver_release_gate'', ''receiver_progress_state'', ''receiver_progress_signal'',
      ''receiver_progress_outcome'', ''receiver_intervention_requirement'',
      ''receiver_attention_level'', ''receiver_notification_requirement'',
      ''receiver_response_priority'', ''receiver_response_channel'', ''receiver_response_route'',
      ''receiver_followup_requirement'', ''consumer_decision_posture'',
      ''consumer_action_requirement'', ''consumer_work_queue_assignment'',
      ''consumer_processing_plan'', ''consumer_operator_requirement'',
      ''consumer_assignment_lane'', ''consumer_service_tier'']
     ''consumer_sla_class''
     [(''self_service'', ''deferred''), (''operator_managed'', ''standard''),
      (''senior_managed'', ''priority'')]
     ''consumer_service_tier''"

definition build_consumer_response_window_from_sla_class :: relay_stage where
  "build_consumer_response_window_from_sla_class = label_stage
     [''projected_activation_decision'', ''approval_record'',
      ''receiver_readiness_classification'', ''receiver_handling_directive'',
      ''receiver_action_label'', ''receiver_dispatch_intent'', ''receiver_dispatch_mode'',
      ''receiver_release_gate'', ''receiver_progress_state'', ''receiver_progress_signal'',
      ''receiver_progress_outcome'', ''receiver_intervention_requirement'',
      ''receiver_attention_level'', ''receiver_notification_requirement'',
      ''receiver_response_priority'', ''receiver_response_channel'', ''receiver_response_route'',
      ''receiver_followup_requirement'', ''consumer_decision_posture'',
      ''consumer_action_requirement'', ''consumer_work_queue_assignment'',
      ''consumer_processing_plan'', ''consumer_operator_requirement'',
      ''consumer_assignment_lane'', ''consumer_service_tier'', ''consumer_sla_class'']
     ''consumer_response_window''
     [(''deferred'', ''backlog_window''), (''standard'', ''standard_window''),
      (''priority'', ''priority_window'')]
     ''consumer_sla_class''"

definition build_consumer_timing_posture_from_response_window :: relay_stage where
  "build_consumer_timing_posture_from_response_window = label_stage
     [''projected_activation_decision'', ''approval_record'',
      ''receiver_readiness_classification'', ''receiver_handling_directive'',
      ''receiver_action_label'', ''receiver_dispatch_intent'', ''receiver_dispatch_mode'',
      ''receiver_release_gate'', ''receiver_progress_state'', ''receiver_progress_signal'',
      ''receiver_progress_outcome'', ''receiver_intervention_requirement'',
      ''receiver_attention_level'', ''receiver_notification_requirement'',
      ''receiver_response_priority'', ''receiver_response_channel'', ''receiver_response_route'',
      ''receiver_followup_requirement'', ''consumer_decision_posture'',
      ''consumer_action_requirement'', ''consumer_work_queue_assignment'',
      ''consumer_processing_plan'', ''consumer_operator_requirement'',
      ''consumer_assignment_lane'', ''consumer_service_tier'', ''consumer_sla_class'',
      ''consumer_response_window'']
     ''consumer_timing_posture''
     [(''backlog_window'', ''later''), (''standard_window'', ''scheduled''),
      (''priority_window'', ''immediate'')]
     ''consumer_response_window''"

definition build_consumer_scheduling_commitment_from_timing_posture :: relay_stage where
  "build_consumer_scheduling_commitment_from_timing_posture = label_stage
     [''projected_activation_decision'', ''approval_record'',
      ''receiver_readiness_classification'', ''receiver_handling_directive'',
      ''receiver_action_label'', ''receiver_dispatch_intent'', ''receiver_dispatch_mode'',
      ''receiver_release_gate'', ''receiver_progress_state'', ''receiver_progress_signal'',
      ''receiver_progress_outcome'', ''receiver_intervention_requirement'',
      ''receiver_attention_level'', ''receiver_notification_requirement'',
      ''receiver_response_priority'', ''receiver_response_channel'', ''receiver_response_route'',
      ''receiver_followup_requirement'', ''consumer_decision_posture'',
      ''consumer_action_requirement'', ''consumer_work_queue_assignment'',
      ''consumer_processing_plan'', ''consumer_operator_requirement'',
      ''consumer_assignment_lane'', ''consumer_service_tier'', ''consumer_sla_class'',
      ''consumer_response_window'', ''consumer_timing_posture'']
     ''consumer_scheduling_commitment''
     [(''later'', ''backlog_commitment''), (''scheduled'', ''scheduled_commitment''),
      (''immediate'', ''immediate_commitment'')]
     ''consumer_timing_posture''"

section \<open>The dispatch labels\<close>

definition build_consumer_execution_readiness_from_scheduling_commitment :: relay_stage where
  "build_consumer_execution_readiness_from_scheduling_commitment = label_stage
     [''projected_activation_decision'', ''approval_record'',
      ''receiver_readiness_classification'', ''receiver_handling_directive'',
      ''receiver_action_label'', ''receiver_dispatch_intent'', ''receiver_dispatch_mode'',
      ''receiver_release_gate'', ''receiver_progress_state'', ''receiver_progress_signal'',
      ''receiver_progress_outcome'', ''receiver_intervention_requirement'',
      ''receiver_attention_level'', ''receiver_notification_requirement'',
      ''receiver_response_priority'', ''receiver_response_channel'', ''receiver_response_route'',
      ''receiver_followup_requirement'', ''consumer_decision_posture'',
      ''consumer_action_requirement'', ''consumer_work_queue_assignment'',
      ''consumer_processing_plan'', ''consumer_operator_requirement'',
      ''consumer_assignment_lane'', ''consumer_service_tier'', ''consumer_sla_class'',
      ''consumer_response_window'', ''consumer_timing_posture'',
      ''consumer_scheduling_commitment'']
     ''consumer_execution_readiness''
     [(''backlog_commitment'', ''deferred_readiness''),
      (''scheduled_commitment'', ''planned_readiness''),
      (''immediate_commitment'', ''ready_now'')]
     ''consumer_scheduling_commitment''"

definition build_consumer_dispatch_readiness_from_execution_readiness :: relay_stage where
  "build_consumer_dispatch_readiness_from_execution_readiness = label_stage
     [''projected_activation_decision'', ''approval_record'',
      ''receiver_readiness_classification'', ''receiver_handling_directive'',
      ''receiver_action_label'', ''receiver_dispatch_intent'', ''receiver_dispatch_mode'',
      ''receiver_release_gate'', ''receiver_progress_state'', ''receiver_progress_signal'',
      ''receiver_progress_outcome'', ''receiver_intervention_requirement'',
      ''receiver_attention_level'', ''receiver_notification_requirement'',
      ''receiver_response_priority'', ''receiver_response_channel'', ''receiver_response_route'',
      ''receiver_followup_requirement'', ''consumer_decision_posture'',
      ''consumer_action_requirement'', ''consumer_work_queue_assignment'',
      ''consumer_processing_plan'', ''consumer_operator_requirement'',
      ''consumer_assignment_lane'', ''consumer_service_tier'', ''consumer_sla_class'',
      ''consumer_response_window'', ''consumer_timing_posture'',
      ''consumer_scheduling_commitment'', ''consumer_execution_readiness'']
     ''consumer_dispatch_readiness''
     [(''deferred_readiness'', ''parked''), (''planned_readiness'', ''prepared''),
      (''ready_now'', ''dispatch_ready'')]
     ''consumer_execution_readiness''"

definition build_consumer_dispatch_authority_from_readiness :: relay_stage where
  "build_consumer_dispatch_authority_from_readiness = label_stage
     [''projected_activation_decision'', ''approval_record'',
      ''receiver_readiness_classification'', ''receiver_handling_directive'',
      ''receiver_action_label'', ''receiver_dispatch_intent'', ''receiver_dispatch_mode'',
      ''receiver_release_gate'', ''receiver_progress_state'', ''receiver_progress_signal'',
      ''receiver_progress_outcome'', ''receiver_intervention_requirement'',
      ''receiver_attention_level'', ''receiver_notification_requirement'',
      ''receiver_response_priority'', ''receiver_response_channel'', ''receiver_response_route'',
      ''receiver_followup_requirement'', ''consumer_decision_posture'',
      ''consumer_action_requirement'', ''consumer_work_queue_assignment'',
      ''consumer_processing_plan'', ''consumer_operator_requirement'',
      ''consumer_assignment_lane'', ''consumer_service_tier'', ''consumer_sla_class'',
      ''consumer_response_window'', ''consumer_timing_posture'',
      ''consumer_scheduling_commitment'', ''consumer_execution_readiness'',
      ''consumer_dispatch_readiness'']
     ''consumer_dispatch_authority''
     [(''parked'', ''withhold''), (''prepared'', ''pre_authorize''),
      (''dispatch_ready'', ''authorize'')]
     ''consumer_dispatch_readiness''"

definition build_consumer_dispatch_permission_from_authority :: relay_stage where
  "build_consumer_dispatch_permission_from_authority = label_stage
     [''projected_activation_decision'', ''approval_record'',
      ''receiver_readiness_classification'', ''receiver_handling_directive'',
      ''receiver_action_label'', ''receiver_dispatch_intent'', ''receiver_dispatch_mode'',
      ''receiver_release_gate'', ''receiver_progress_state'', ''receiver_progress_signal'',
      ''receiver_progress_outcome'', ''receiver_intervention_requirement'',
      ''receiver_attention_level'', ''receiver_notification_requirement'',
      ''receiver_response_priority'', ''receiver_response_channel'', ''receiver_response_route'',
      ''receiver_followup_requirement'', ''consumer_decision_posture'',
      ''consumer_action_requirement'', ''consumer_work_queue_assignment'',
      ''consumer_processing_plan'', ''consumer_operator_requirement'',
      ''consumer_assignment_lane'', ''consumer_service_tier'', ''consumer_sla_class'',
      ''consumer_response_window'', ''consumer_timing_posture'',
      ''consumer_scheduling_commitment'', ''consumer_execution_readiness'',
      ''consumer_dispatch_readiness'', ''consumer_dispatch_authority'']
     ''consumer_dispatch_permission''
     [(''withhold'', ''not_permitted''), (''pre_authorize'', ''conditionally_permitted''),
      (''authorize'', ''permitted'')]
     ''consumer_dispatch_authority''"

definition build_consumer_dispatch_clearance_from_permission :: relay_stage where
  "build_consumer_dispatch_clearance_from_permission = label_stage
     [''projected_activation_decision'', ''approval_record'',
      ''receiver_readiness_classification'', ''receiver_handling_directive'',
      ''receiver_action_label'', ''receiver_dispatch_intent'', ''receiver_dispatch_mode'',
      ''receiver_release_gate'', ''receiver_progress_state'', ''receiver_progress_signal'',
      ''receiver_progress_outcome'', ''receiver_intervention_requirement'',
      ''receiver_attention_level'', ''receiver_notification_requirement'',
      ''receiver_response_priority'', ''receiver_response_channel'', ''receiver_response_route'',
      ''receiver_followup_requirement'', ''consumer_decision_posture'',
      ''consumer_action_requirement'', ''consumer_work_queue_assignment'',
      ''consumer_processing_plan'', ''consumer_operator_requirement'',
      ''consumer_assignment_lane'', ''consumer_service_tier'', ''consumer_sla_class'',
      ''consumer_response_window'', ''consumer_timing_posture'',
      ''consumer_scheduling_commitment'', ''consumer_execution_readiness'',
      ''consumer_dispatch_readiness'', ''consumer_dispatch_authority'',
      ''consumer_dispatch_permission'']
     ''consumer_dispatch_clearance''
     [(''not_permitted'', ''blocked''), (''conditionally_permitted'', ''gated''),
      (''permitted'', ''clear'')]
     ''consumer_dispatch_permission''"

lemmas consumer_defs =
  build_consumer_decision_surface_from_followup_requirement_def
  build_consumer_decision_posture_from_surface_def
  build_consumer_action_requirement_from_posture_def
  build_consumer_work_queue_assignment_from_action_requirement_def
  build_consumer_processing_plan_from_work_queue_assignment_def
  build_consumer_operator_requirement_from_processing_plan_def
  build_consumer_assignment_lane_from_operator_requirement_def
  build_consumer_service_tier_from_assignment_lane_def
  build_consumer_sla_class_from_service_tier_def
  build_consumer_response_window_from_sla_class_def
  build_consumer_timing_posture_from_response_window_def
  build_consumer_scheduling_commitment_from_timing_posture_def
  build_consumer_execution_readiness_from_scheduling_commitment_def
  build_consumer_dispatch_readiness_from_execution_readiness_def
  build_consumer_dispatch_authority_from_readiness_def
  build_consumer_dispatch_permission_from_authority_def
  build_consumer_dispatch_clearance_from_permission_def

end
