(* ===== verification/Release.thy ===== *)
theory Release
  imports Consumer
begin

text \<open>
  The last part of the relay, from the release decision to the release clearance
  (\<open>app/services/dry_run_orchestration.py\<close>, lines 3323 to the end).
\<close>

section \<open>The release labels\<close>

definition build_consumer_release_decision_from_dispatch_clearance :: relay_stage where
  "build_consumer_release_decision_from_dispatch_clearance = label_stage
     [''projected_activation_decision'', ''approval_record'',
      ''receiver_readiness_classification'', ''receiver_handling_directive'',
      ''receiver_action_label'', ''receiver_dispatch_intent'', ''receiver_dispatch_mode'',
      ''receiver_release_gate'', ''receiver_progress_state'', ''receiver_progress_signal'',
      ''receiver_progress_outcome'', ''receiver_intervention_requirement'',
      ''receiver_attention_level'', ''receiver_notification_requirement'',
      ''receiver_response_priority'', ''receiver_response_channel'', ''receiver_response_route'',
      ''receiver_followup_requirement'', ''consumer_decision_posture'',
      ''consumer_action_requirement'', ''consumer_work_queue_assignment'',
      ''consumer_processing_plan'', ''consumer_operator_requirement'',
      ''consumer_assignment_lane'', ''consumer_service_tier'', ''consumer_sla_class'',
      ''consumer_response_window'', ''consumer_timing_posture'',
      ''consumer_scheduling_commitment'', ''consumer_execution_readiness'',
      ''consumer_dispatch_readiness'', ''consumer_dispatch_authority'',
      ''consumer_dispatch_permission'', ''consumer_dispatch_clearance'']
     ''consumer_release_decision''
     [(''blocked'', ''hold_release''), (''gated'', ''conditional_release''),
      (''clear'', ''release'')]
     ''consumer_dispatch_clearance''"

definition build_consumer_release_mode_from_release_decision :: relay_stage where
  "build_consumer_release_mode_from_release_decision = label_stage
     [''projected_activation_decision'', ''approval_record'',
      ''receiver_readiness_classification'', ''receiver_handling_directive'',
      ''receiver_action_label'', ''receiver_dispatch_intent'', ''receiver_dispatch_mode'',
      ''receiver_release_gate'', ''receiver_progress_state'', ''receiver_progress_signal'',
      ''receiver_progress_outcome'', ''receiver_intervention_requirement'',
      ''receiver_attention_level'', ''receiver_notification_requirement'',
      ''receiver_response_priority'', ''receiver_response_channel'', ''receiver_response_route'',
      ''receiver_followup_requirement'', ''consumer_decision_posture'',
      ''consumer_action_requirement'', ''consumer_work_queue_assignment'',
      ''consumer_processing_plan'', ''consumer_operator_requirement'',
      ''consumer_assignment_lane'', ''consumer_service_tier'', ''consumer_sla_class'',
      ''consumer_response_window'', ''consumer_timing_posture'',
      ''consumer_scheduling_commitment'', ''consumer_execution_readiness'',
      ''consumer_dispatch_readiness'', ''consumer_dispatch_authority'',
      ''consumer_dispatch_permission'', ''consumer_dispatch_clearance'',
      ''consumer_release_decision'']
     ''consumer_release_mode''
     [(''hold_release'', ''hold_mode''), (''conditional_release'', ''guarded_mode''),
      (''release'', ''release_mode'')]
     ''consumer_release_decision''"

definition build_consumer_release_execution_requirement_from_release_mode :: relay_stage where
  "build_consumer_release_execution_requirement_from_release_mode = label_stage
     [''projected_activation_decision'', ''approval_record'',
      ''receiver_readiness_classification'', ''receiver_handling_directive'',
      ''receiver_action_label'', ''receiver_dispatch_intent'', ''receiver_dispatch_mode'',
      ''receiver_release_gate'', ''receiver_progress_state'', ''receiver_progress_signal'',
      ''receiver_progress_outcome'', ''receiver_intervention_requirement'',
      ''receiver_attention_level'', ''receiver_notification_requirement'',
      ''receiver_response_priority'', ''receiver_response_channel'', ''receiver_response_route'',
      ''receiver_followup_requirement'', ''consumer_decision_posture'',
      ''consumer_action_requirement'', ''consumer_work_queue_assignment'',
      ''consumer_processing_plan'', ''consumer_operator_requirement'',
      ''consumer_assignment_lane'', ''consumer_service_tier'', ''consumer_sla_class'',
      ''consumer_response_window'', ''consumer_timing_posture'',
      ''consumer_scheduling_commitment'', ''consumer_execution_readiness'',
      ''consumer_dispatch_readiness'', ''consumer_dispatch_authority'',
      ''consumer_dispatch_permission'', ''consumer_dispatch_clearance'',
      ''consumer_release_decision'', ''consumer_release_mode'']
     ''consumer_release_execution_requirement''
     [(''hold_mode'', ''do_not_execute''), (''guarded_mode'', ''execute_with_guard''),
      (''release_mode'', ''execute_release'')]
     ''consumer_release_mode''"

definition build_consumer_release_execution_lane_from_execution_requirement :: relay_stage where
  "build_consumer_release_execution_lane_from_execution_requirement = label_stage
     [''projected_activation_decision'', ''approval_record'',
      ''receiver_readiness_classification'', ''receiver_handling_directive'',
      ''receiver_action_label'', ''receiver_dispatch_intent'', ''receiver_dispatch_mode'',
      ''receiver_release_gate'', ''receiver_progress_state'', ''receiver_progress_signal'',
      ''receiver_progress_outcome'', ''receiver_intervention_requirement'',
      ''receiver_attention_level'', ''receiver_notification_requirement'',
      ''receiver_response_priority'', ''receiver_response_channel'', ''receiver_response_route'',
      ''receiver_followup_requirement'', ''consumer_decision_posture'',
      ''consumer_action_requirement'', ''consumer_work_queue_assignment'',
      ''consumer_processing_plan'', ''consumer_operator_requirement'',
      ''consumer_assignment_lane'', ''consumer_service_tier'', ''consumer_sla_class'',
      ''consumer_response_window'', ''consumer_timing_posture'',
      ''consumer_scheduling_commitment'', ''consumer_execution_readiness'',
      ''consumer_dispatch_readiness'', ''consumer_dispatch_authority'',
      ''consumer_dispatch_permission'', ''consumer_dispatch_clearance'',
      ''consumer_release_decision'', ''consumer_release_mode'',
      ''consumer_release_execution_requirement'']
     ''consumer_release_execution_lane''
     [(''do_not_execute'', ''blocked_lane''), (''execute_with_guard'', ''guarded_lane''),
      (''execute_release'', ''release_lane'')]
     ''consumer_release_execution_requirement''"

definition build_consumer_release_handling_intent_from_execution_lane :: relay_stage where
  "build_consumer_release_handling_intent_from_execution_lane = label_stage
     [''projected_activation_decision'', ''approval_record'',
      ''receiver_readiness_classification'', ''receiver_handling_directive'',
      ''receiver_action_label'', ''receiver_dispatch_intent'', ''receiver_dispatch_mode'',
      ''receiver_release_gate'', ''receiver_progress_state'', ''receiver_progress_signal'',
      ''receiver_progress_outcome'', ''receiver_intervention_requirement'',
      ''receiver_attention_level'', ''receiver_notification_requirement'',
      ''receiver_response_priority'', ''receiver_response_channel'', ''receiver_response_route'',
      ''receiver_followup_requirement'', ''consumer_decision_posture'',
      ''consumer_action_requirement'', ''consumer_work_queue_assignment'',
      ''consumer_processing_plan'', ''consumer_operator_requirement'',
      ''consumer_assignment_lane'', ''consumer_service_tier'', ''consumer_sla_class'',
      ''consumer_response_window'', ''consumer_timing_posture'',
      ''consumer_scheduling_commitment'', ''consumer_execution_readiness'',
      ''consumer_dispatch_readiness'', ''consumer_dispatch_authority'',
      ''consumer_dispatch_permission'', ''consumer_dispatch_clearance'',
      ''consumer_release_decision'', ''consumer_release_mode'',
      ''consumer_release_execution_requirement'', ''consumer_release_execution_lane'']
     ''consumer_release_handling_intent''
     [(''blocked_lane'', ''do_not_route''), (''guarded_lane'', ''route_with_guard''),
      (''release_lane'', ''route_for_release'')]
     ''consumer_release_execution_lane''"

definition build_consumer_release_action_plan_from_handling_intent :: relay_stage where
  "build_consumer_release_action_plan_from_handling_intent = label_stage
     [''projected_activation_decision'', ''approval_record'',
      ''receiver_readiness_classification'', ''receiver_handling_directive'',
      ''receiver_action_label'', ''receiver_dispatch_intent'', ''receiver_dispatch_mode'',
      ''receiver_release_gate'', ''receiver_progress_state'', ''receiver_progress_signal'',
      ''receiver_progress_outcome'', ''receiver_intervention_requirement'',
      ''receiver_attention_level'', ''receiver_notification_requirement'',
      ''receiver_response_priority'', ''receiver_response_channel'', ''receiver_response_route'',
      ''receiver_followup_requirement'', ''consumer_decision_posture'',
      ''consumer_action_requirement'', ''consumer_work_queue_assignment'',
      ''consumer_processing_plan'', ''consumer_operator_requirement'',
      ''consumer_assignment_lane'', ''consumer_service_tier'', ''consumer_sla_class'',
      ''consumer_response_window'', ''consumer_timing_posture'',
      ''consumer_scheduling_commitment'', ''consumer_execution_readiness'',
      ''consumer_dispatch_readiness'', ''consumer_dispatch_authority'',
      ''consumer_dispatch_permission'', ''consumer_dispatch_clearance'',
      ''consumer_release_decision'', ''consumer_release_mode'',
      ''consumer_release_execution_requirement'', ''consumer_release_execution_lane'',
      ''consumer_release_handling_intent'']
     ''consumer_release_action_plan''
     [(''do_not_route'', ''hold_plan''), (''route_with_guard'', ''guarded_release_plan''),
      (''route_for_release'', ''release_plan'')]
     ''consumer_release_handling_intent''"

definition build_consumer_release_queue_from_action_plan :: relay_stage where
  "build_consumer_release_queue_from_action_plan = label_stage
     [''projected_activation_decision'', ''approval_record'',
      ''receiver_readiness_classification'', ''receiver_handling_directive'',
      ''receiver_action_label'', ''receiver_dispatch_intent'', ''receiver_dispatch_mode'',
      ''receiver_release_gate'', ''receiver_progress_state'', ''receiver_progress_signal'',
      ''receiver_progress_outcome'', ''receiver_intervention_requirement'',
      ''receiver_attention_level'', ''receiver_notification_requirement'',
      ''receiver_response_priority'', ''receiver_response_channel'', ''receiver_response_route'',
      ''receiver_followup_requirement'', ''consumer_decision_posture'',
      ''consumer_action_requirement'', ''consumer_work_queue_assignment'',
      ''consumer_processing_plan'', ''consumer_operator_requirement'',
      ''consumer_assignment_lane'', ''consumer_service_tier'', ''consumer_sla_class'',
      ''consumer_response_window'', ''consumer_timing_posture'',
      ''consumer_scheduling_commitment'', ''consumer_execution_readiness'',
      ''consumer_dispatch_readiness'', ''consumer_dispatch_authority'',
      ''consumer_dispatch_permission'', ''consumer_dispatch_clearance'',
      ''consumer_release_decision'', ''consumer_release_mode'',
      ''consumer_release_execution_requirement'', ''consumer_release_execution_lane'',
      ''consumer_release_handling_intent'', ''consumer_release_action_plan'']
     ''consumer_release_queue''
     [(''hold_plan'', ''hold_queue''), (''guarded_release_plan'', ''guarded_release_queue''),
      (''release_plan'', ''release_queue'')]
     ''consumer_release_action_plan''"

definition build_consumer_release_priority_from_queue :: relay_stage where
  "build_consumer_release_priority_from_queue = label_stage
     [''projected_activation_decision'', ''approval_record'',
      ''receiver_readiness_classification'', ''receiver_handling_directive'',
      ''receiver_action_label'', ''receiver_dispatch_intent'', ''receiver_dispatch_mode'',
      ''receiver_release_gate'', ''receiver_progress_state'', ''receiver_progress_signal'',
      ''receiver_progress_outcome'', ''receiver_intervention_requirement'',
      ''receiver_attention_level'', ''receiver_notification_requirement'',
      ''receiver_response_priority'', ''receiver_response_channel'', ''receiver_response_route'',
      ''receiver_followup_requirement'', ''consumer_decision_posture'',
      ''consumer_action_requirement'', ''consumer_work_queue_assignment'',
      ''consumer_processing_plan'', ''consumer_operator_requirement'',
      ''consumer_assignment_lane'', ''consumer_service_tier'', ''consumer_sla_class'',
      ''consumer_response_window'', ''consumer_timing_posture'',
      ''consumer_scheduling_commitment'', ''consumer_execution_readiness'',
      ''consumer_dispatch_readiness'', ''consumer_dispatch_authority'',
      ''consumer_dispatch_permission'', ''consumer_dispatch_clearance'',
      ''consumer_release_decision'', ''consumer_release_mode'',
      ''consumer_release_execution_requirement'', ''consumer_release_execution_lane'',
      ''consumer_release_handling_intent'', ''consumer_release_action_plan'',
      ''consumer_release_queue'']
     ''consumer_release_priority''
     [(''hold_queue'', ''low''), (''guarded_release_queue'', ''medium''),
      (''release_queue'', ''high'')]
     ''consumer_release_queue''"

definition build_consumer_release_window_from_priority :: relay_stage where
  "build_consumer_release_window_from_priority = label_stage
     [''projected_activation_decision'', ''approval_record'',
      ''receiver_readiness_classification'', ''receiver_handling_directive'',
      ''receiver_action_label'', ''receiver_dispatch_intent'', ''receiver_dispatch_mode'',
      ''receiver_release_gate'', ''receiver_progress_state'', ''receiver_progress_signal'',
      ''receiver_progress_outcome'', ''receiver_intervention_requirement'',
      ''receiver_attention_level'', ''receiver_notification_requirement'',
      ''receiver_response_priority'', ''receiver_response_channel'', ''receiver_response_route'',
      ''receiver_followup_requirement'', ''consumer_decision_posture'',
      ''consumer_action_requirement'', ''consumer_work_queue_assignment'',
      ''consumer_processing_plan'', ''consumer_operator_requirement'',
      ''consumer_assignment_lane'', ''consumer_service_tier'', ''consumer_sla_class'',
      ''consumer_response_window'', ''consumer_timing_posture'',
      ''consumer_scheduling_commitment'', ''consumer_execution_readiness'',
      ''consumer_dispatch_readiness'', ''consumer_dispatch_authority'',
      ''consumer_dispatch_permission'', ''consumer_dispatch_clearance'',
      ''consumer_release_decision'', ''consumer_release_mode'',
      ''consumer_release_execution_requirement'', ''consumer_release_execution_lane'',
      ''consumer_release_handling_intent'', ''consumer_release_action_plan'',
      ''consumer_release_queue'', ''consumer_release_priority'']
     ''consumer_release_window''
     [(''low'', ''deferred_window''), (''medium'', ''controlled_window''),
      (''high'', ''immediate_window'')]
     ''consumer_release_priority''"

definition build_consumer_release_schedule_from_window :: relay_stage where
  "build_consumer_release_schedule_from_window = label_stage
     [''projected_activation_decision'', ''approval_record'',
      ''receiver_readiness_classification'', ''receiver_handling_directive'',
      ''receiver_action_label'', ''receiver_dispatch_intent'', ''receiver_dispatch_mode'',
      ''receiver_release_gate'', ''receiver_progress_state'', ''receiver_progress_signal'',
      ''receiver_progress_outcome'', ''receiver_intervention_requirement'',
      ''receiver_attention_level'', ''receiver_notification_requirement'',
      ''receiver_response_priority'', ''receiver_response_channel'', ''receiver_response_route'',
      ''receiver_followup_requirement'', ''consumer_decision_posture'',
      ''consumer_action_requirement'', ''consumer_work_queue_assignment'',
      ''consumer_processing_plan'', ''consumer_operator_requirement'',
      ''consumer_assignment_lane'', ''consumer_service_tier'', ''consumer_sla_class'',
      ''consumer_response_window'', ''consumer_timing_posture'',
      ''consumer_scheduling_commitment'', ''consumer_execution_readiness'',
      ''consumer_dispatch_readiness'', ''consumer_dispatch_authority'',
      ''consumer_dispatch_permission'', ''consumer_dispatch_clearance'',
      ''consumer_release_decision'', ''consumer_release_mode'',
      ''consumer_release_execution_requirement'', ''consumer_release_execution_lane'',
      ''consumer_release_handling_intent'', ''consumer_release_action_plan'',
      ''consumer_release_queue'', ''consumer_release_priority'', ''consumer_release_window'']
     ''consumer_release_schedule''
     [(''deferred_window'', ''backlog_schedule''), (''controlled_window'', ''guarded_schedule''),
      (''immediate_window'', ''immediate_schedule'')]
     ''consumer_release_window''"

definition build_consumer_release_readiness_from_schedule :: relay_stage where
  "build_consumer_release_readiness_from_schedule = label_stage
     [''projected_activation_decision'', ''approval_record'',
      ''receiver_readiness_classification'', ''receiver_handling_directive'',
      ''receiver_action_label'', ''receiver_dispatch_intent'', ''receiver_dispatch_mode'',
      ''receiver_release_gate'', ''receiver_progress_state'', ''receiver_progress_signal'',
      ''receiver_progress_outcome'', ''receiver_intervention_requirement'',
      ''receiver_attention_level'', ''receiver_notification_requirement'',
      ''receiver_response_priority'', ''receiver_response_channel'', ''receiver_response_route'',
      ''receiver_followup_requirement'', ''consumer_decision_posture'',
      ''consumer_action_requirement'', ''consumer_work_queue_assignment'',
      ''consumer_processing_plan'', ''consumer_operator_requirement'',
      ''consumer_assignment_lane'', ''consumer_service_tier'', ''consumer_sla_class'',
      ''consumer_response_window'', ''consumer_timing_posture'',
      ''consumer_scheduling_commitment'', ''consumer_execution_readiness'',
      ''consumer_dispatch_readiness'', ''consumer_dispatch_authority'',
      ''consumer_dispatch_permission'', ''consumer_dispatch_clearance'',
      ''consumer_release_decision'', ''consumer_release_mode'',
      ''consumer_release_execution_requirement'', ''consumer_release_execution_lane'',
      ''consumer_release_handling_intent'', ''consumer_release_action_plan'',
      ''consumer_release_queue'', ''consumer_release_priority'', ''consumer_release_window'',
      ''consumer_release_schedule'']
     ''consumer_release_readiness''
     [(''backlog_schedule'', ''not_ready''), (''guarded_schedule'', ''prepared''),
      (''immediate_schedule'', ''ready'')]
     ''consumer_release_schedule''"

definition build_consumer_release_authority_from_readiness :: relay_stage where
  "build_consumer_release_authority_from_readiness = label_stage
     [''projected_activation_decision'', ''approval_record'',
      ''receiver_readiness_classification'', ''receiver_handling_directive'',
      ''receiver_action_label'', ''receiver_dispatch_intent'', ''receiver_dispatch_mode'',
      ''receiver_release_gate'', ''receiver_progress_state'', ''receiver_progress_signal'',
      ''receiver_progress_outcome'', ''receiver_intervention_requirement'',
      ''receiver_attention_level'', ''receiver_notification_requirement'',
      ''receiver_response_priority'', ''receiver_response_channel'', ''receiver_response_route'',
      ''receiver_followup_requirement'', ''consumer_decision_posture'',
      ''consumer_action_requirement'', ''consumer_work_queue_assignment'',
      ''consumer_processing_plan'', ''consumer_operator_requirement'',
      ''consumer_assignment_lane'', ''consumer_service_tier'', ''consumer_sla_class'',
      ''consumer_response_window'', ''consumer_timing_posture'',
      ''consumer_scheduling_commitment'', ''consumer_execution_readiness'',
      ''consumer_dispatch_readiness'', ''consumer_dispatch_authority'',
      ''consumer_dispatch_permission'', ''consumer_dispatch_clearance'',
      ''consumer_release_decision'', ''consumer_release_mode'',
      ''consumer_release_execution_requirement'', ''consumer_release_execution_lane'',
      ''consumer_release_handling_intent'', ''consumer_release_action_plan'',
      ''consumer_release_queue'', ''consumer_release_priority'', ''consumer_release_window'',
      ''consumer_release_schedule'', ''consumer_release_readiness'']
     ''consumer_release_authority''
     [(''not_ready'', ''withhold''), (''prepared'', ''conditional_authority''),
      (''ready'', ''full_authority'')]
     ''consumer_release_readiness''"

definition build_consumer_release_permission_from_authority :: relay_stage where
  "build_consumer_release_permission_from_authority = label_stage
     [''projected_activation_decision'', ''approval_record'',
      ''receiver_readiness_classification'', ''receiver_handling_directive'',
      ''receiver_action_label'', ''receiver_dispatch_intent'', ''receiver_dispatch_mode'',
      ''receiver_release_gate'', ''receiver_progress_state'', ''receiver_progress_signal'',
      ''receiver_progress_outcome'', ''receiver_intervention_requirement'',
      ''receiver_attention_level'', ''receiver_notification_requirement'',
      ''receiver_response_priority'', ''receiver_response_channel'', ''receiver_response_route'',
      ''receiver_followup_requirement'', ''consumer_decision_posture'',
      ''consumer_action_requirement'', ''consumer_work_queue_assignment'',
      ''consumer_processing_plan'', ''consumer_operator_requirement'',
      ''consumer_assignment_lane'', ''consumer_service_tier'', ''consumer_sla_class'',
      ''consumer_response_window'', ''consumer_timing_posture'',
      ''consumer_scheduling_commitment'', ''consumer_execution_readiness'',
      ''consumer_dispatch_readiness'', ''consumer_dispatch_authority'',
      ''consumer_dispatch_permission'', ''consumer_dispatch_clearance'',
      ''consumer_release_decision'', ''consumer_release_mode'',
      ''consumer_release_execution_requirement'', ''consumer_release_execution_lane'',
      ''consumer_release_handling_intent'', ''consumer_release_action_plan'',
      ''consumer_release_queue'', ''consumer_release_priority'', ''consumer_release_window'',
      ''consumer_release_schedule'', ''consumer_release_readiness'',
      ''consumer_release_authority'']
     ''consumer_release_permission''
     [(''withhold'', ''not_permitted''), (''conditional_authority'', ''conditionally_permitted''),
      (''full_authority'', ''permitted'')]
     ''consumer_release_authority''"

definition build_consumer_release_clearance_from_permission :: relay_stage where
  "build_consumer_release_clearance_from_permission = label_stage
     [''projected_activation_decision'', ''approval_record'',
      ''receiver_readiness_classification'', ''receiver_handling_directive'',
      ''receiver_action_label'', ''receiver_dispatch_intent'', ''receiver_dispatch_mode'',
      ''receiver_release_gate'', ''receiver_progress_state'', ''receiver_progress_signal'',
      ''receiver_progress_outcome'', ''receiver_intervention_requirement'',
      ''receiver_attention_level'', ''receiver_notification_requirement'',
      ''receiver_response_priority'', ''receiver_response_channel'', ''receiver_response_route'',
      ''receiver_followup_requirement'', ''consumer_decision_posture'',
      ''consumer_action_requirement'', ''consumer_work_queue_assignment'',
      ''consumer_processing_plan'', ''consumer_operator_requirement'',
      ''consumer_assignment_lane'', ''consumer_service_tier'', ''consumer_sla_class'',
      ''consumer_response_window'', ''consumer_timing_posture'',
      ''consumer_scheduling_commitment'', ''consumer_execution_readiness'',
      ''consumer_dispatch_readiness'', ''consumer_dispatch_authority'',
      ''consumer_dispatch_permission'', ''consumer_dispatch_clearance'',
      ''consumer_release_decision'', ''consumer_release_mode'',
      ''consumer_release_execution_requirement'', ''consumer_release_execution_lane'',
      ''consumer_release_handling_intent'', ''consumer_release_action_plan'',
      ''consumer_release_queue'', ''consumer_release_priority'', ''consumer_release_window'',
      ''consumer_release_schedule'', ''consumer_release_readiness'',
      ''consumer_release_authority'', ''consumer_release_permission'']
     ''consumer_release_clearance''
     [(''not_permitted'', ''blocked''), (''conditionally_permitted'', ''gated''),
      (''permitted'', ''clear'')]
     ''consumer_release_permission''"

lemmas release_defs =
  build_consumer_release_decision_from_dispatch_clearance_def
  build_consumer_release_mode_from_release_decision_def
  build_consumer_release_execution_requirement_from_release_mode_def
  build_consumer_release_execution_lane_from_execution_requirement_def
  build_consumer_release_handling_intent_from_execution_lane_def
  build_consumer_release_action_plan_from_handling_intent_def
  build_consumer_release_queue_from_action_plan_def
  build_consumer_release_priority_from_queue_def
  build_consumer_release_window_from_priority_def
  build_consumer_release_schedule_from_window_def
  build_consumer_release_readiness_from_schedule_def
  build_consumer_release_authority_from_readiness_def
  build_consumer_release_permission_from_authority_def
  build_consumer_release_clearance_from_permission_def

end
