(* ===== verification/Relay_Chain.thy ===== *)
theory Relay_Chain
  imports Release
begin

text \<open>
  The relay as a whole: the 63 stages in the order of the file, each on what the one before
  returned. \<open>lane_table\<close> is the specification of the labels, one row per label with its value
  for a recommendation of GO, PAUSE and REVIEW; the lemmas show that the stages compute it,
  that they have to be run in order, and what each one keeps.
\<close>

section \<open>The stages in order and the labels they should give\<close>

definition handoff_stages :: "relay_stage list" where
  "handoff_stages =
    [build_next_layer_intake_from_handoff_envelope,
     build_downstream_work_item_from_intake,
     build_downstream_execution_intent_from_work_item,
     build_execution_readiness_view_from_intent,
     build_execution_readiness_assessment_from_view,
     build_execution_readiness_signal_from_assessment,
     build_execution_readiness_outcome_from_signal,
     build_downstream_consumer_payload_from_outcome,
     build_consumer_receiver_intake_from_payload,
     build_consumer_receiver_readiness_view_from_intake,
     build_consumer_receiver_readiness_assessment_from_view,
     build_consumer_receiver_readiness_signal_from_assessment,
     build_consumer_receiver_readiness_outcome_from_signal,
     build_consumer_receiver_delivery_payload_from_outcome,
     build_consumer_receiver_delivery_packet_from_payload,
     build_consumer_receiver_delivery_manifest_from_packet,
     build_consumer_receiver_readiness_classification_from_manifest,
     build_consumer_receiver_handling_directive_from_classification,
     build_consumer_receiver_action_label_from_directive,
     build_consumer_receiver_dispatch_intent_from_action_label,
     build_consumer_receiver_dispatch_mode_from_intent,
     build_consumer_receiver_release_gate_from_dispatch_mode,
     build_consumer_receiver_progress_state_from_release_gate,
     build_consumer_receiver_progress_signal_from_state,
     build_consumer_receiver_progress_outcome_from_signal,
     build_consumer_receiver_intervention_requirement_from_progress_outcome,
     build_consumer_receiver_attention_level_from_intervention_requirement,
     build_consumer_receiver_notification_requirement_from_attention_level,
     build_consumer_receiver_response_priority_from_notification_requirement,
     build_consumer_receiver_response_channel_from_priority,
     build_consumer_receiver_response_route_from_channel,
     build_consumer_receiver_followup_requirement_from_response_route,
     build_consumer_decision_surface_from_followup_requirement,
     build_consumer_decision_posture_from_surface,
     build_consumer_action_requirement_from_posture,
     build_consumer_work_queue_assignment_from_action_requirement,
     build_consumer_processing_plan_from_work_queue_assignment,
     build_consumer_operator_requirement_from_processing_plan,
     build_consumer_assignment_lane_from_operator_requirement,
     build_consumer_service_tier_from_assignment_lane,
     build_consumer_sla_class_from_service_tier,
     build_consumer_response_window_from_sla_class,
     build_consumer_timing_posture_from_response_window,
     build_consumer_scheduling_commitment_from_timing_posture,
     build_consumer_execution_readiness_from_scheduling_commitment,
     build_consumer_dispatch_readiness_from_execution_readiness,
     build_consumer_dispatch_authority_from_readiness,
     build_consumer_dispatch_permission_from_authority,
     build_consumer_dispatch_clearance_from_permission,
     build_consumer_release_decision_from_dispatch_clearance,
     build_consumer_release_mode_from_release_decision,
     build_consumer_release_execution_requirement_from_release_mode,
     build_consumer_release_execution_lane_from_execution_requirement,
     build_consumer_release_handling_intent_from_execution_lane,
     build_consumer_release_action_plan_from_handling_intent,
     build_consumer_release_queue_from_action_plan,
     build_consumer_release_priority_from_queue,
     build_consumer_release_window_from_priority,
     build_consumer_release_schedule_from_window,
     build_consumer_release_readiness_from_schedule,
     build_consumer_release_authority_from_readiness,
     build_consumer_release_permission_from_authority,
     build_consumer_release_clearance_from_permission]"

definition lane_table :: "(string \<times> string \<times> string \<times> string) list" where
  "lane_table =
    [(''receiver_readiness_classification'', ''ready'', ''hold'', ''needs_review''),
     (''receiver_handling_directive'', ''deliver'', ''defer'', ''route_for_review''),
     (''receiver_action_label'', ''dispatch'', ''wait'', ''review_queue''),
     (''receiver_dispatch_intent'', ''send'', ''park'', ''review''),
     (''receiver_dispatch_mode'', ''active'', ''queued'', ''review_pending''),
     (''receiver_release_gate'', ''open'', ''deferred'', ''blocked_for_review''),
     (''receiver_progress_state'', ''in_progress'', ''pending'', ''review_hold''),
     (''receiver_progress_signal'', ''advance'', ''await'', ''review_wait''),
     (''receiver_progress_outcome'', ''moving'', ''standing_by'', ''awaiting_review''),
     (''receiver_intervention_requirement'', ''none'', ''monitor'', ''review_required''),
     (''receiver_attention_level'', ''low'', ''medium'', ''high''),
     (''receiver_notification_requirement'', ''none'', ''notify'', ''escalate''),
     (''receiver_response_priority'', ''normal'', ''elevated'', ''urgent''),
     (''receiver_response_channel'', ''standard_channel'',
      ''priority_channel'', ''escalation_channel''),
     (''receiver_response_route'', ''standard_route'',
      ''priority_route'', ''escalation_route''),
     (''receiver_followup_requirement'', ''none'', ''follow_up'', ''escalation_follow_up''),
     (''consumer_decision_posture'', ''observe'', ''engage'', ''escalate''),
     (''consumer_action_requirement'', ''no_action'',
      ''action_required'', ''escalation_required''),
     (''consumer_work_queue_assignment'', ''observation_queue'',
      ''action_queue'', ''escalation_queue''),
     (''consumer_processing_plan'', ''observe_only'',
      ''process_action'', ''process_escalation''),
     (''consumer_operator_requirement'', ''none'',
      ''operator_required'', ''senior_operator_required''),
     (''consumer_assignment_lane'', ''self_service_lane'',
      ''operator_lane'', ''senior_operator_lane''),
     (''consumer_service_tier'', ''self_service'', ''operator_managed'', ''senior_managed''),
     (''consumer_sla_class'', ''deferred'', ''standard'', ''priority''),
     (''consumer_response_window'', ''backlog_window'',
      ''standard_window'', ''priority_window''),
     (''consumer_timing_posture'', ''later'', ''scheduled'', ''immediate''),
     (''consumer_scheduling_commitment'', ''backlog_commitment'',
      ''scheduled_commitment'', ''immediate_commitment''),
     (''consumer_execution_readiness'', ''deferred_readiness'',
      ''planned_readiness'', ''ready_now''),
     (''consumer_dispatch_readiness'', ''parked'', ''prepared'', ''dispatch_ready''),
     (''consumer_dispatch_authority'', ''withhold'', ''pre_authorize'', ''authorize''),
     (''consumer_dispatch_permission'', ''not_permitted'',
      ''conditionally_permitted'', ''permitted''),
     (''consumer_dispatch_clearance'', ''blocked'', ''gated'', ''clear''),
     (''consumer_release_decision'', ''hold_release'', ''conditional_release'', ''release''),
     (''consumer_release_mode'', ''hold_mode'', ''guarded_mode'', ''release_mode''),
     (''consumer_release_execution_requirement'', ''do_not_execute'',
      ''execute_with_guard'', ''execute_release''),
     (''consumer_release_execution_lane'', ''blocked_lane'',
      ''guarded_lane'', ''release_lane''),
     (''consumer_release_handling_intent'', ''do_not_route'',
      ''route_with_guard'', ''route_for_release''),
     (''consumer_release_action_plan'', ''hold_plan'',
      ''guarded_release_plan'', ''release_plan''),
     (''consumer_release_queue'', ''hold_queue'', ''guarded_release_queue'', ''release_queue''),
     (''consumer_release_priority'', ''low'', ''medium'', ''high''),
     (''consumer_release_window'', ''deferred_window'',
      ''controlled_window'', ''immediate_window''),
     (''consumer_release_schedule'', ''backlog_schedule'',
      ''guarded_schedule'', ''immediate_schedule''),
     (''consumer_release_readiness'', ''not_ready'', ''prepared'', ''ready''),
     (''consumer_release_authority'', ''withhold'',
      ''conditional_authority'', ''full_authority''),
     (''consumer_release_permission'', ''not_permitted'',
      ''conditionally_permitted'', ''permitted''),
     (''consumer_release_clearance'', ''blocked'', ''gated'', ''clear'')]"

fun lane_value :: "continuation_decision \<Rightarrow> string \<times> string \<times> string \<Rightarrow> string" where
  "lane_value GO (g, p, r) = g"
| "lane_value PAUSE (g, p, r) = p"
| "lane_value REVIEW (g, p, r) = r"

definition lane_labels :: "continuation_decision \<Rightarrow> (string \<times> string) list" where
  "lane_labels c = map (\<lambda>(k, vs). (k, lane_value c vs)) lane_table"

definition lane_keys :: "string list" where
  "lane_keys = map fst lane_table"

section \<open>Every stage is its row of the table\<close>

text \<open>The table of the label \<open>n\<close> maps the values of the label before to its own.\<close>

definition row_values :: "nat \<Rightarrow> string list" where
  "row_values n = (case snd (lane_table ! n) of (g, p, r) \<Rightarrow> [g, p, r])"

definition classes :: "nat \<Rightarrow> (string \<times> string) list" where
  "classes n =
     (if n = 0 then zip [''GO'', ''PAUSE'', ''REVIEW''] (row_values 0)
      else zip (row_values (n - 1)) (row_values n))"

definition relay_label :: "nat \<Rightarrow> relay_stage" where
  "relay_label n =
     label_stage (base_keys @ take n lane_keys) (lane_keys ! n) (classes n) (lane_keys ! (n - 1))"

lemmas row_simps =
  lane_keys_def lane_table_def base_keys_def relay_label_def classes_def row_values_def

lemma stage_eqs_0:
  "build_next_layer_intake_from_handoff_envelope = select_stage base_keys"
  "build_downstream_work_item_from_intake = select_stage base_keys"
  "build_downstream_execution_intent_from_work_item = select_stage base_keys"
  "build_execution_readiness_view_from_intent = select_stage base_keys"
  "build_execution_readiness_assessment_from_view = select_stage base_keys"
  "build_execution_readiness_signal_from_assessment = select_stage base_keys"
  "build_execution_readiness_outcome_from_signal = select_stage base_keys"
  "build_downstream_consumer_payload_from_outcome = select_stage base_keys"
  "build_consumer_receiver_intake_from_payload = select_stage base_keys"
  "build_consumer_receiver_readiness_view_from_intake = select_stage base_keys"
  "build_consumer_receiver_readiness_assessment_from_view = select_stage base_keys"
  "build_consumer_receiver_readiness_signal_from_assessment = select_stage base_keys"
  "build_consumer_receiver_readiness_outcome_from_signal = select_stage base_keys"
  "build_consumer_receiver_delivery_payload_from_outcome = select_stage base_keys"
  "build_consumer_receiver_delivery_packet_from_payload = select_stage base_keys"
  "build_consumer_receiver_delivery_manifest_from_packet = select_stage base_keys"
  by (simp_all add: receiver_defs row_simps)

lemma stage_eqs_1:
  "build_consumer_receiver_readiness_classification_from_manifest = classify_stage base_keys (lane_keys ! 0) (classes 0)"
  "build_consumer_receiver_handling_directive_from_classification = relay_label 1"
  "build_consumer_receiver_action_label_from_directive = relay_label 2"
  "build_consumer_receiver_dispatch_intent_from_action_label = relay_label 3"
  "build_consumer_receiver_dispatch_mode_from_intent = relay_label 4"
  "build_consumer_receiver_release_gate_from_dispatch_mode = relay_label 5"
  "build_consumer_receiver_progress_state_from_release_gate = relay_label 6"
  "build_consumer_receiver_progress_signal_from_state = relay_label 7"
  by (simp_all add: receiver_defs row_simps)

lemma stage_eqs_2:
  "build_consumer_receiver_progress_outcome_from_signal = relay_label 8"
  "build_consumer_receiver_intervention_requirement_from_progress_outcome = relay_label 9"
  "build_consumer_receiver_attention_level_from_intervention_requirement = relay_label 10"
  "build_consumer_receiver_notification_requirement_from_attention_level = relay_label 11"
  "build_consumer_receiver_response_priority_from_notification_requirement = relay_label 12"
  "build_consumer_receiver_response_channel_from_priority = relay_label 13"
  "build_consumer_receiver_response_route_from_channel = relay_label 14"
  "build_consumer_receiver_followup_requirement_from_response_route = relay_label 15"
  by (simp_all add: receiver_defs row_simps)

lemma stage_eqs_3:
  "build_consumer_decision_surface_from_followup_requirement = select_stage (base_keys @ take 16 lane_keys)"
  "build_consumer_decision_posture_from_surface = relay_label 16"
  "build_consumer_action_requirement_from_posture = relay_label 17"
  "build_consumer_work_queue_assignment_from_action_requirement = relay_label 18"
  by (simp_all add: consumer_defs row_simps)

lemma stage_eqs_4:
  "build_consumer_processing_plan_from_work_queue_assignment = relay_label 19"
  "build_consumer_operator_requirement_from_processing_plan = relay_label 20"
  "build_consumer_assignment_lane_from_operator_requirement = relay_label 21"
  "build_consumer_service_tier_from_assignment_lane = relay_label 22"
  by (simp_all add: consumer_defs row_simps)

lemma stage_eqs_5:
  "build_consumer_sla_class_from_service_tier = relay_label 23"
  "build_consumer_response_window_from_sla_class = relay_label 24"
  "build_consumer_timing_posture_from_response_window = relay_label 25"
  "build_consumer_scheduling_commitment_from_timing_posture = relay_label 26"
  by (simp_all add: consumer_defs row_simps)

lemma stage_eqs_6:
  "build_consumer_execution_readiness_from_scheduling_commitment = relay_label 27"
  "build_consumer_dispatch_readiness_from_execution_readiness = relay_label 28"
  "build_consumer_dispatch_authority_from_readiness = relay_label 29"
  by (simp_all add: consumer_defs row_simps)

lemma stage_eqs_7:
  "build_consumer_dispatch_permission_from_authority = relay_label 30"
  "build_consumer_dispatch_clearance_from_permission = relay_label 31"
  "build_consumer_release_decision_from_dispatch_clearance = relay_label 32"
  by (simp_all add: consumer_defs release_defs row_simps)

lemma stage_eqs_8:
  "build_consumer_release_mode_from_release_decision = relay_label 33"
  "build_consumer_release_execution_requirement_from_release_mode = relay_label 34"
  "build_consumer_release_execution_lane_from_execution_requirement = relay_label 35"
  by (simp_all add: release_defs row_simps)

lemma stage_eqs_9:
  "build_consumer_release_handling_intent_from_execution_lane = relay_label 36"
  "build_consumer_release_action_plan_from_handling_intent = relay_label 37"
  "build_consumer_release_queue_from_action_plan = relay_label 38"
  by (simp_all add: release_defs row_simps)

lemma stage_eqs_10:
  "build_consumer_release_priority_from_queue = relay_label 39"
  "build_consumer_release_window_from_priority = relay_label 40"
  by (simp_all add: release_defs row_simps)

lemma stage_eqs_11:
  "build_consumer_release_schedule_from_window = relay_label 41"
  "build_consumer_release_readiness_from_schedule = relay_label 42"
  by (simp_all add: release_defs row_simps)

lemma stage_eqs_12:
  "build_consumer_release_authority_from_readiness = relay_label 43"
  "build_consumer_release_permission_from_authority = relay_label 44"
  "build_consumer_release_clearance_from_permission = relay_label 45"
  by (simp_all add: release_defs row_simps)

lemmas stage_eqs =
  stage_eqs_0 stage_eqs_1 stage_eqs_2 stage_eqs_3 stage_eqs_4 stage_eqs_5 stage_eqs_6 stage_eqs_7 stage_eqs_8 stage_eqs_9 stage_eqs_10 stage_eqs_11 stage_eqs_12

lemma handoff_stages_eq:
  "handoff_stages =
     replicate 16 (select_stage base_keys)
     @ classify_stage base_keys (lane_keys ! 0) (classes 0) # map relay_label [1..<16]
     @ select_stage (base_keys @ take 16 lane_keys) # map relay_label [16..<46]"
  by (simp add: handoff_stages_def stage_eqs numeral_eq_Suc)

section \<open>Facts of the table\<close>

lemma length_lane_table: "length lane_table = 46"
  by (simp add: lane_table_def)

lemma length_lane [simp]: "length (lane_labels c) = 46" "length lane_keys = 46"
  by (simp_all add: lane_labels_def lane_keys_def length_lane_table)

lemma fst_lane [simp]: "map fst (lane_labels c) = lane_keys"
  by (simp add: lane_labels_def lane_keys_def case_prod_beta)

lemma fresh_lane_keys: "fresh_keys lane_keys"
  by code_simp

lemma rows_distinct: "list_all (\<lambda>(k, g, p, r). g \<noteq> p \<and> g \<noteq> r \<and> p \<noteq> r) lane_table"
  by code_simp

lemma fresh_take: "fresh_keys (take n lane_keys)"
  using fresh_lane_keys fresh_keys_append[of "take n lane_keys" "drop n lane_keys"] by simp

lemma lane_nth: "n < 46 \<Longrightarrow> lane_labels c ! n = (lane_keys ! n, lane_value c (snd (lane_table ! n)))"
  by (simp add: lane_labels_def lane_keys_def length_lane_table case_prod_beta)

lemma row_distinct: "n < 46 \<Longrightarrow> distinct (row_values n)"
  using rows_distinct
  by (auto simp: row_values_def list_all_length length_lane_table split: prod.split dest: spec[of _ n])

lemma classes_0: "map_of (classes 0) (decision_value c) = Some (lane_value c (snd (lane_table ! 0)))"
  by (cases c) (simp_all add: classes_def row_values_def lane_table_def)

lemma classes_step:
  assumes "0 < n" "n < 46"
  shows "map_of (classes n) (lane_value c (snd (lane_table ! (n - 1)))) =
     Some (lane_value c (snd (lane_table ! n)))"
proof -
  obtain k g p r where row: "lane_table ! (n - 1) = (k, g, p, r)" by (cases "lane_table ! (n - 1)")
  obtain k' g' p' r' where row': "lane_table ! n = (k', g', p', r')" by (cases "lane_table ! n")
  have "distinct [g, p, r]"
    using row_distinct[of "n - 1"] assms(2) unfolding row_values_def row by simp
  then show ?thesis
    using assms(1) by (cases c) (auto simp: classes_def row_values_def row[unfolded One_nat_def] row')
qed

section \<open>Every stage on every artifact of the relay\<close>

text \<open>
  How many labels an artifact has before stage \<open>j\<close> of the relay: sixteen stages add none,
  sixteen add one each, the decision surface adds none, and the last thirty add one each.
\<close>

definition labels_before :: "nat \<Rightarrow> nat" where
  "labels_before j = (if j \<le> 16 then 0 else if j \<le> 32 then j - 16 else j - 17)"

definition relay_artifact :: "activation_decision \<Rightarrow> json dict \<Rightarrow> related_ids \<Rightarrow> nat \<Rightarrow> envelope" where
  "relay_artifact a r ids n = form a r (take n (lane_labels (av_recommendation a))) ids"

lemma take_lane_Suc: "n < 46 \<Longrightarrow> take (Suc n) (lane_labels c) = take n (lane_labels c) @ [lane_labels c ! n]"
  by (simp add: take_Suc_conv_app_nth)

lemma fst_take_lane: "map fst (take n (lane_labels c)) = take n lane_keys"
  by (simp add: take_map[symmetric])

lemma take_lane_split: "m \<le> n \<Longrightarrow> take n (lane_labels c) = take m (lane_labels c) @ drop m (take n (lane_labels c))"
  by (metis append_take_drop_id min.absorb1 take_take)

lemma fresh_lane_split:
  "m \<le> n \<Longrightarrow> fresh_keys (map fst (take m (lane_labels c) @ drop m (take n (lane_labels c))))"
  by (simp only: take_lane_split[symmetric] fst_take_lane fresh_take)

text \<open>An earlier stage also accepts a later artifact, and drops what it does not know.\<close>

lemma select_stage_artifact:
  assumes "m \<le> n"
  shows "select_stage (base_keys @ take m lane_keys) (relay_artifact a r ids n) =
     Inr (relay_artifact a r ids m)"
  using select_stage_form[OF fresh_lane_split[OF assms, of "av_recommendation a"], of a r ids]
  unfolding relay_artifact_def take_lane_split[OF assms, symmetric] fst_take_lane .

lemma relay_label_artifact:
  assumes "0 < m" "m < 46" "m \<le> n"
  shows "relay_label m (relay_artifact a r ids n) = Inr (relay_artifact a r ids (Suc m))"
proof -
  let ?c = "av_recommendation a"
  let ?t = "lane_value ?c (snd (lane_table ! (m - 1)))"
  have "take m (lane_labels ?c) ! (m - 1) \<in> set (take m (lane_labels ?c))"
    using assms by (intro nth_mem) simp
  then have src: "(lane_keys ! (m - 1), ?t) \<in> set (take m (lane_labels ?c))"
    using assms by (simp add: lane_nth)
  show ?thesis
    using label_stage_form[OF fresh_lane_split[OF assms(3)] src classes_step[OF assms(1,2)],
        of "lane_keys ! m" a r ids]
    unfolding relay_label_def relay_artifact_def take_lane_split[OF assms(3), symmetric]
      fst_take_lane take_lane_Suc[OF assms(2)] lane_nth[OF assms(2)] .
qed

lemma classify_artifact:
  "classify_stage base_keys (lane_keys ! 0) (classes 0) (relay_artifact a r ids n) =
     Inr (relay_artifact a r ids 1)"
proof -
  have "fresh_keys (map fst (take n (lane_labels (av_recommendation a))))"
    by (simp only: fst_take_lane fresh_take)
  from classify_stage_form[OF this classes_0] show ?thesis
    using take_lane_Suc[of 0 "av_recommendation a"] by (simp add: relay_artifact_def lane_nth)
qed

lemma artifact_keys:
  "fst ` set (relay_artifact a r ids n) =
     set base_keys \<union> set (take n lane_keys) \<union> fst ` set (related_items ids)"
  unfolding relay_artifact_def form_keys
  by (simp only: set_map[symmetric, of fst "take n (lane_labels (av_recommendation a))"] fst_take_lane)

text \<open>A later stage refuses an earlier artifact: the first label it misses is the error.\<close>

lemma artifact_misses:
  assumes "n < m" "m \<le> 46"
  shows "take m lane_keys = take n lane_keys @ lane_keys ! n # drop (Suc n) (take m lane_keys)"
    and "lane_keys ! n \<notin> fst ` set (relay_artifact a r ids n)"
    and "set (base_keys @ take n lane_keys) \<subseteq> fst ` set (relay_artifact a r ids n)"
proof -
  show split: "take m lane_keys = take n lane_keys @ lane_keys ! n # drop (Suc n) (take m lane_keys)"
    using assms id_take_nth_drop[of n "take m lane_keys"] by (simp add: min_def)
  have "fresh_keys (take m lane_keys)" by (rule fresh_take)
  then have "lane_keys ! n \<notin> set base_keys \<union> set (take n lane_keys) \<union> set related_keys"
    by (subst (asm) split) (auto simp: fresh_keys_def)
  then show "lane_keys ! n \<notin> fst ` set (relay_artifact a r ids n)"
    using fst_related_items[of ids] by (auto simp: artifact_keys)
  show "set (base_keys @ take n lane_keys) \<subseteq> fst ` set (relay_artifact a r ids n)"
    by (auto simp: artifact_keys)
qed

lemma relay_label_refuses:
  assumes "n < m" "m < 46"
  shows "relay_label m (relay_artifact a r ids n) = Inl (GKeyError (lane_keys ! n))"
proof -
  note miss = artifact_misses[OF assms(1) less_imp_le[OF assms(2)]]
  show ?thesis
    unfolding relay_label_def
    by (subst miss(1)) (simp only: append_assoc[symmetric] label_stage_missing(1)[OF miss(3,2)])
qed

lemma select_stage_refuses:
  assumes "n < m" "m \<le> 46"
  shows "select_stage (base_keys @ take m lane_keys) (relay_artifact a r ids n) =
     Inl (GKeyError (lane_keys ! n))"
proof -
  note miss = artifact_misses[OF assms]
  show ?thesis
    by (subst miss(1)) (simp only: append_assoc[symmetric] label_stage_missing(2)[OF miss(3,2)])
qed

lemma handoff_stage_nth:
  "j < 16 \<Longrightarrow> handoff_stages ! j = select_stage (base_keys @ take 0 lane_keys)"
  "handoff_stages ! 16 = classify_stage base_keys (lane_keys ! 0) (classes 0)"
  "16 < j \<Longrightarrow> j < 32 \<Longrightarrow> handoff_stages ! j = relay_label (j - 16)"
  "handoff_stages ! 32 = select_stage (base_keys @ take 16 lane_keys)"
  "32 < j \<Longrightarrow> j < 63 \<Longrightarrow> handoff_stages ! j = relay_label (j - 17)"
  "length handoff_stages = 63"
proof -
  define xs ys where "xs = [1..<16::nat]" and "ys = [16..<46::nat]"
  have len: "length xs = 15" "length ys = 30" by (simp_all add: xs_def ys_def)
  have nth: "i < 15 \<Longrightarrow> xs ! i = Suc i" "i < 30 \<Longrightarrow> ys ! i = i + 16" for i
    unfolding xs_def ys_def by (subst nth_upt; simp)+
  note eq = handoff_stages_eq[folded xs_def ys_def] and simps = nth_append nth_Cons' len nth
  show "j < 16 \<Longrightarrow> handoff_stages ! j = select_stage (base_keys @ take 0 lane_keys)"
    "handoff_stages ! 16 = classify_stage base_keys (lane_keys ! 0) (classes 0)"
    "handoff_stages ! 32 = select_stage (base_keys @ take 16 lane_keys)"
    "length handoff_stages = 63"
    by (simp_all add: eq simps)
  show "handoff_stages ! j = relay_label (j - 16)" if "16 < j" "j < 32"
  proof -
    from that have "j - 17 < 15" "Suc (j - 17) = j - 16" by linarith+
    with that show ?thesis by (simp add: eq simps)
  qed
  show "handoff_stages ! j = relay_label (j - 17)" if "32 < j" "j < 63"
  proof -
    from that have "\<not> j - 17 < 15" by linarith
    with that show ?thesis by (simp add: eq simps)
  qed
qed

text \<open>
  Stage \<open>j\<close> accepts exactly the artifacts that have the labels of the stages before it, and
  then gives the artifact with its own label.
\<close>

lemma handoff_stage_exact:
  assumes "j < 63" "n \<le> 46"
  shows "(handoff_stages ! j) (relay_artifact a r ids n) =
     (if n < labels_before j then Inl (GKeyError (lane_keys ! n))
      else Inr (relay_artifact a r ids (labels_before (Suc j))))"
proof -
  consider "j < 16" | "j = 16" | "16 < j" "j < 32" | "j = 32" | "32 < j" by linarith
  then show ?thesis
  proof cases
    case 1
    then show ?thesis
      using select_stage_artifact[of 0 n a r ids] by (simp add: handoff_stage_nth labels_before_def)
  next
    case 2
    then show ?thesis by (simp add: handoff_stage_nth labels_before_def classify_artifact)
  next
    case 3
    then have "labels_before j = j - 16" "labels_before (Suc j) = Suc (j - 16)"
      by (auto simp: labels_before_def)
    with 3 show ?thesis by (simp add: handoff_stage_nth relay_label_refuses relay_label_artifact)
  next
    case 4
    then show ?thesis
      using select_stage_artifact[of 16 n a r ids] select_stage_refuses[of n 16 a r ids]
      by (simp add: handoff_stage_nth labels_before_def)
  next
    case 5
    then have "labels_before j = j - 17" "labels_before (Suc j) = Suc (j - 17)"
      by (auto simp: labels_before_def)
    with 5 assms(1) show ?thesis
      by (simp add: handoff_stage_nth relay_label_refuses relay_label_artifact)
  qed
qed

text \<open>So on a handoff envelope the relay runs through.\<close>

lemma relay_runs_to:
  "i \<le> 63 \<Longrightarrow> run_stages (take i handoff_stages) (relay_artifact a r ids 0) =
     Inr (relay_artifact a r ids (labels_before i))"
proof (induction i)
  case (Suc i)
  have "labels_before i \<le> 46" using Suc.prems by (auto simp: labels_before_def)
  then have "(handoff_stages ! i) (relay_artifact a r ids (labels_before i)) =
      Inr (relay_artifact a r ids (labels_before (Suc i)))"
    using handoff_stage_exact[of i "labels_before i" a r ids] Suc.prems by simp
  then show ?case
    using Suc by (simp add: take_Suc_conv_app_nth handoff_stage_nth(6) run_stages_snoc)
qed (simp add: labels_before_def)

section \<open>The relay on any dictionary\<close>

lemma lane_key_new: "n < 46 \<Longrightarrow> lane_keys ! n \<notin> set base_keys \<union> set related_keys"
  using fresh_lane_keys nth_mem[of n lane_keys] by (auto simp: fresh_keys_def disjoint_iff)

lemma handoff_stages_keep: "\<forall>f \<in> set handoff_stages. keeps_artifacts f"
proof -
  have "keeps_artifacts (relay_label n)" if "n < 46" for n
    unfolding relay_label_def using lane_key_new[OF that] by (intro keeps_label(1)) auto
  moreover have "keeps_artifacts (classify_stage base_keys (lane_keys ! 0) (classes 0))"
    using lane_key_new[of 0] by (intro keeps_label(2)) auto
  moreover have "keeps_artifacts (select_stage base_keys)"
    "keeps_artifacts (select_stage (base_keys @ take 16 lane_keys))"
    by (auto intro: keeps_select)
  ultimately show ?thesis
    by (auto simp: handoff_stages_eq simp del: upt_rec_numeral)
qed

lemma relay_keeps:
  assumes "run_stages (take i handoff_stages) d = Inr d'" "k \<in> set base_keys \<union> set related_keys"
  shows "map_of d' k = map_of d k"
proof -
  have "\<forall>f \<in> set (take i handoff_stages). keeps_artifacts f"
    using handoff_stages_keep by (auto dest: in_set_takeD)
  from keeps_run[OF this] assms show ?thesis by (auto simp: keeps_artifacts_def)
qed

lemma lane_clearance:
  "map_of (lane_labels c) ''consumer_release_clearance'' =
     Some (case c of GO \<Rightarrow> ''blocked'' | PAUSE \<Rightarrow> ''gated'' | REVIEW \<Rightarrow> ''clear'')"
  by (cases c) (simp_all add: lane_labels_def lane_table_def)

end
