(* ===== verification/Governance.thy ===== *)
theory Governance
  imports Dry_Run Relay_Chain
begin

text \<open>
  What the governance services guarantee together: how the projected activation decision
  depends on the triage and on management's decision, when the dry run raises, and what the
  relay makes of its result.
\<close>

section \<open>The activation decision\<close>

lemma activation_recommendation_iff:
  "activation_recommendation p b d = GO \<longleftrightarrow> d = GO \<and> b = [] \<and> \<not> mp_required_review p"
  "activation_recommendation p b d = REVIEW \<longleftrightarrow> d = REVIEW"
  by (auto simp: activation_recommendation_def Let_def)

lemma derived_fields:
  fixes p q d
  defines "a \<equiv> derive_dry_run_activation_decision p q d"
  shows "av_recommendation a =
      activation_recommendation p (collect_unresolved_blockers q) (md_decision d)"
    and "av_remaining_blockers a = collect_unresolved_blockers q"
    and "av_autonomous_continuation_status a = ''not_approved''"
    and "av_escalation_destination a =
      (if av_recommendation a = REVIEW then Some ''Audit and Review Department'' else None)"
    and "av_re_review_required a \<longleftrightarrow> av_recommendation a \<noteq> GO"
    and "length (av_human_approvals_recorded a) = 1"
proof -
  show "av_recommendation a =
      activation_recommendation p (collect_unresolved_blockers q) (md_decision d)"
    "av_remaining_blockers a = collect_unresolved_blockers q"
    "av_autonomous_continuation_status a = ''not_approved''"
    "av_escalation_destination a =
      (if av_recommendation a = REVIEW then Some ''Audit and Review Department'' else None)"
    "length (av_human_approvals_recorded a) = 1"
    by (simp_all add: a_def derive_dry_run_activation_decision_def Let_def)
  have "collect_unresolved_blockers q \<noteq> [] \<Longrightarrow>
      activation_recommendation p (collect_unresolved_blockers q) (md_decision d) \<noteq> GO"
    by (simp add: activation_recommendation_iff)
  then show "av_re_review_required a \<longleftrightarrow> av_recommendation a \<noteq> GO"
    unfolding a_def derive_dry_run_activation_decision_def Let_def
    by (cases "activation_recommendation p (collect_unresolved_blockers q) (md_decision d)") auto
qed

text \<open>A decision that was derived always has an approval record.\<close>

lemma approval_record_total:
  assumes "av_human_approvals_recorded a \<noteq> []"
    and "av_recommendation a = REVIEW \<Longrightarrow> opt_or (av_escalation_destination a) '''' \<noteq> ''''"
  shows "\<exists>r. build_action_department_activation_approval_record a item rid who kind why ids = Inr r"
  using assms
  by (cases "av_human_approvals_recorded a")
    (simp_all add: build_action_department_activation_approval_record_def Let_def)

lemma derived_record_total:
  "\<exists>r. build_action_department_activation_approval_record
         (derive_dry_run_activation_decision p q d) item rid who kind why ids = Inr r"
proof (rule approval_record_total)
  let ?a = "derive_dry_run_activation_decision p q d"
  show "av_human_approvals_recorded ?a \<noteq> []"
    using derived_fields(6)[of p q d] by auto
  show "av_recommendation ?a = REVIEW \<Longrightarrow> opt_or (av_escalation_destination ?a) '''' \<noteq> ''''"
    using derived_fields(4)[of p q d] by (simp add: opt_or_def)
qed

lemma projection_record_eq:
  "build_approval_record_from_projection_context a item md rid ids =
     build_action_department_activation_approval_record a item rid (map_option md_reviewer_id md)
       (map_option md_reviewer_type md) (map_option md_rationale md) ids"
  by (simp add: build_approval_record_from_projection_context_def Let_def
      build_approval_record_builder_kwargs_from_projection_def)

lemma approval_record_recommendation:
  assumes "build_action_department_activation_approval_record a item rid who kind why ids = Inr r"
  shows "map_of r ''recommendation'' = Some (JStr (decision_value (av_recommendation a)))"
    and "map_of r ''autonomous_continuation_status'' =
      Some (JStr (av_autonomous_continuation_status a))"
    and "map_of r ''blocker_notes'' = Some (JList (map JStr (av_remaining_blockers a)))"
    and "map_of r ''activation_review_item_id'' = Some (JStr item)"
  using assms
  by (auto simp: build_action_department_activation_approval_record_def Let_def
      split: list.splits if_splits)

section \<open>Blockers of a triaged change\<close>

lemma escalation_strip [simp]: "py_strip (escalation_value e) = escalation_value e"
  by (cases e) (simp_all add: py_strip_def py_lstrip_def py_isspace_def)

lemma escalation_nonempty [simp]: "escalation_value e \<noteq> []"
  by (cases e) simp_all

lemma escalation_lower [simp]: "py_lower (escalation_value e) = escalation_value e"
  by (cases e) (simp_all add: py_lower_def py_lower_char_def)

lemma escalation_none [simp]: "escalation_value e = ''none'' \<longleftrightarrow> e = NONE"
  by (cases e) simp_all

lemma normalize_values_mem: "x \<in> set (normalize_values xs) \<Longrightarrow> py_strip x = x \<and> x \<noteq> []"
  by (auto simp: set_normalize_values)

text \<open>A queued packet has no blocker when it names no trigger, no reason and no hard gate.\<close>

lemma queued_blockers:
  assumes "review_packet_to_queue_item h p i st ca ua n = Inr q"
  shows "collect_unresolved_blockers q = [] \<longleftrightarrow>
     normalize_values (mp_hard_gate_triggers p) = [] \<and>
     normalize_values (mp_escalation_reasons p) = [] \<and> \<not> mp_hard_gate_status p"
proof -
  let ?T = "normalize_values (mp_hard_gate_triggers p)"
  let ?R = "normalize_values (mp_escalation_reasons p)"
  have q: "rq_hard_gate_triggers q = ?T" "rq_escalation_reasons q = ?R"
    "rq_escalation_reason q = (case ?R of [] \<Rightarrow> None | r # _ \<Rightarrow> Some r)"
    "rq_hard_gate_status q = mp_hard_gate_status p"
    using assms by (auto simp: review_packet_to_queue_item_def Let_def validated_queue_item_eq)
  show ?thesis
  proof (cases "?T @ ?R")
    case Nil
    then show ?thesis
      by (simp add: collect_unresolved_blockers_def q) (simp add: normalize_values_def py_strip_def
          py_lstrip_def py_isspace_def)
  next
    case (Cons x xs)
    then have "x \<in> set (?T @ ?R)" by simp
    then have x: "py_strip x \<noteq> []" "x \<in> set ((?T @ ?R) @ zs)" for zs
      by (auto dest: normalize_values_mem)
    have "collect_unresolved_blockers q = normalize_values ((?T @ ?R)
        @ (case rq_escalation_reason q of None \<Rightarrow> [] | Some r \<Rightarrow> if r \<noteq> '''' then [r] else []))"
      using Cons by (auto simp: collect_unresolved_blockers_def Let_def q)
    then have "collect_unresolved_blockers q \<noteq> []"
      using x by (auto simp only: normalize_values_empty)
    with Cons show ?thesis by auto
  qed
qed

text \<open>Work that may go on has no blocker, and work that may not has at least one.\<close>

lemma reasons_of_triage:
  fixes cb tr
  assumes "wo = None \<or> wo = Some (build_work_order_draft (triage_task c) wid pid ob ti rf of' cmds)"
  defines "s \<equiv> build_management_review_summary cb (Some (triage_task c)) tr wo"
  shows "build_escalation_reasons s = [] \<longleftrightarrow> tg_decision (triage_task c) = GO"
    and "x \<in> set (build_escalation_reasons s) \<Longrightarrow> py_strip x = x \<and> x \<noteq> []"
proof -
  have gates: "tg_hard_gate_triggers (triage_task c) \<noteq> {} \<Longrightarrow> tg_decision (triage_task c) \<noteq> GO"
    using triage_gates_review[of c] by simp
  note facts = summary_of_triage[OF assms(1), where cb = cb and tr = tr, folded s_def]
  show "build_escalation_reasons s = [] \<longleftrightarrow> tg_decision (triage_task c) = GO"
    using triage_review_iff(4)[of c] gates
    by (cases "tg_hard_gate_triggers (triage_task c) = {}"; cases "tg_decision (triage_task c)")
      (simp_all add: build_escalation_reasons_def Let_def facts opt_or_def str_or_def
        del: escalation_value.simps)
  show "x \<in> set (build_escalation_reasons s) \<Longrightarrow> py_strip x = x \<and> x \<noteq> []"
    by (auto simp: build_escalation_reasons_def Let_def facts opt_or_def str_or_def split: if_splits)
      (simp_all add: py_strip_def py_lstrip_def py_isspace_def)
qed

lemma blockers_of_triage:
  fixes cb tr
  assumes "wo = None \<or> wo = Some (build_work_order_draft (triage_task c) wid pid ob ti rf of' cmds)"
  defines "s \<equiv> build_management_review_summary cb (Some (triage_task c)) tr wo"
  assumes item: "review_packet_to_queue_item h (build_management_review_packet h' cb s pkt) i st ca ua n
      = Inr q"
  shows "collect_unresolved_blockers q = [] \<longleftrightarrow> tg_decision (triage_task c) = GO"
proof -
  note facts = summary_of_triage[OF assms(1), where cb = cb and tr = tr, folded s_def]
  note reasons = reasons_of_triage[OF assms(1), where cb = cb and tr = tr, folded s_def]
  have "(\<forall>x \<in> set (build_escalation_reasons s). py_strip x = '''') \<longleftrightarrow> build_escalation_reasons s = []"
    using reasons(2) by (cases "build_escalation_reasons s") (simp, force)
  then have "normalize_values (build_escalation_reasons s) = [] \<longleftrightarrow> tg_decision (triage_task c) = GO"
    by (simp only: reasons(1) normalize_values_empty)
  moreover have "normalize_values (ms_hard_gate_triggers s) = [] \<longleftrightarrow> \<not> ms_hard_gate_triggered s"
    by (simp add: facts normalize_triggers trigger_values_empty)
  ultimately show ?thesis
    unfolding queued_blockers[OF item] using triage_gates_review[of c]
    by (cases "tg_hard_gate_triggers (triage_task c) = {}")
      (simp_all add: build_management_review_packet_def facts)
qed

section \<open>The dry run\<close>

text \<open>The task that the dry run works on, and the decision that counts.\<close>

definition dry_run_task :: "dry_run_request \<Rightarrow> string" where
  "dry_run_task q = opt_or (dq_current_task q) (normalize_user_request (dq_user_request q))"

definition dry_run_triage :: "dry_run_request \<Rightarrow> triage_result" where
  "dry_run_triage q = triage_task
     \<lparr>tx_changed_areas = dq_changed_areas q, tx_task_in_active_phase = dq_task_in_active_phase q,
      tx_verification_passed = dq_verification_passed q, tx_ambiguous_scope = dq_ambiguous_scope q\<rparr>"

definition dry_run_decision :: "dry_run_request \<Rightarrow> continuation_decision" where
  "dry_run_decision q = (case dq_management_decision q of
     Some d \<Rightarrow> md_decision d | None \<Rightarrow> tg_decision (dry_run_triage q))"

lemma trend_report_total: "\<exists>r. dry_run_trend_report q i = Inr r"
proof -
  obtain p where "get_trend_provider None (Some False)
      (Some (resolve_provider_hint (dq_trend_provider_hint q))) = Inr p"
    using get_trend_provider_lenient by blast
  then show ?thesis by (simp add: dry_run_trend_report_def run_trend_mock_workflow_def Let_def)
qed

lemma objective_of_brief [simp]: "b_objective (ir_brief (build_brief u)) = normalize_user_request u"
  by (simp add: build_brief_def Let_def)

lemma routing_nonempty [simp]: "routing_value d \<noteq> []"
  by (cases d) simp_all

lemma projected_decision_cases:
  fixes cb tr
  assumes wo: "wo = None \<or> wo = Some (build_work_order_draft (triage_task c) wid pid ob ti rf of' cmds)"
  defines "s \<equiv> build_management_review_summary cb (Some (triage_task c)) tr wo"
  shows "cb_current_task cb = '''' \<Longrightarrow>
      build_projected_activation_decision hex cb s md = Inl (GValidationError [''current_task''])"
    and "cb_current_task cb \<noteq> '''' \<Longrightarrow> \<exists>a p q d.
      build_projected_activation_decision hex cb s md = Inr a \<and>
      a = derive_dry_run_activation_decision p q d \<and>
      md_decision d = (case md of Some d \<Rightarrow> md_decision d | None \<Rightarrow> tg_decision (triage_task c)) \<and>
      (mp_required_review p \<longleftrightarrow> tg_decision (triage_task c) = REVIEW) \<and>
      (collect_unresolved_blockers q = [] \<longleftrightarrow> tg_decision (triage_task c) = GO)"
proof -
  note facts = summary_of_triage[OF wo, where cb = cb and tr = tr, folded s_def]
  let ?p = "build_management_review_packet (hex Id_packet) cb s None"
  let ?item = "review_packet_to_queue_item (hex Id_queue_item) ?p None Rq_PENDING None None ''''"
  have p: "mp_current_task ?p = cb_current_task cb" "mp_department_routing_recommendation ?p \<noteq> []"
    "mp_required_review ?p \<longleftrightarrow> tg_decision (triage_task c) = REVIEW"
    using facts by (simp_all add: build_management_review_packet_def)
      (simp add: s_def build_management_review_summary_def Let_def)
  show "cb_current_task cb = '''' \<Longrightarrow>
      build_projected_activation_decision hex cb s md = Inl (GValidationError [''current_task''])"
    using p by (simp add: build_projected_activation_decision_def
        normalize_activation_projection_inputs_def review_packet_to_queue_item_def Let_def
        validated_queue_item_def opt_or_def)
  assume task: "cb_current_task cb \<noteq> ''''"
  then obtain q where q: "?item = Inr q"
    using p by (auto simp: review_packet_to_queue_item_def Let_def validated_queue_item_def opt_or_def)
  have "collect_unresolved_blockers q = [] \<longleftrightarrow> tg_decision (triage_task c) = GO"
    by (rule blockers_of_triage[OF wo q[unfolded s_def]])
  then show "\<exists>a p q d.
      build_projected_activation_decision hex cb s md = Inr a \<and>
      a = derive_dry_run_activation_decision p q d \<and>
      md_decision d = (case md of Some d \<Rightarrow> md_decision d | None \<Rightarrow> tg_decision (triage_task c)) \<and>
      (mp_required_review p \<longleftrightarrow> tg_decision (triage_task c) = REVIEW) \<and>
      (collect_unresolved_blockers q = [] \<longleftrightarrow> tg_decision (triage_task c) = GO)"
    using p(3) q facts(1)
    by (simp add: build_projected_activation_decision_def
        normalize_activation_projection_inputs_def Let_def) (fastforce split: option.split)
qed

lemma projection_allowed:
  "dp_autonomous_continuation_allowed (project_dry_run_decision s md) \<longleftrightarrow>
     (case md of Some d \<Rightarrow> md_decision d | None \<Rightarrow> ms_decision_outcome s) = GO \<and>
     \<not> ms_required_review s \<and> \<not> ms_hard_gate_triggered s"
  by (cases "case md of Some d \<Rightarrow> md_decision d | None \<Rightarrow> ms_decision_outcome s")
    (simp_all add: project_dry_run_decision_def Let_def)

text \<open>What the run returns, in terms of the triage and the decision that counts.\<close>

definition dry_run_recommendation :: "dry_run_request \<Rightarrow> continuation_decision" where
  "dry_run_recommendation q =
     (if dry_run_decision q = GO \<and> tg_decision (dry_run_triage q) \<noteq> GO then PAUSE
      else dry_run_decision q)"

lemma dry_run_cases:
  "dry_run_task q = '''' \<Longrightarrow>
     run_dry_run_orchestration hex q = Inl (GValidationError [''current_task''])"
  "dry_run_task q \<noteq> '''' \<Longrightarrow> \<exists>res p i d.
     run_dry_run_orchestration hex q = Inr res \<and>
     dr_projected_activation_decision res = Some (derive_dry_run_activation_decision p i d) \<and>
     av_recommendation (derive_dry_run_activation_decision p i d) = dry_run_recommendation q \<and>
     dr_management_decision res = dq_management_decision q \<and>
     dr_triage_result res = dry_run_triage q \<and>
     (dp_autonomous_continuation_allowed (dr_decision_projection res) \<longleftrightarrow>
        dry_run_decision q = GO \<and> tg_decision (dry_run_triage q) \<noteq> REVIEW)"
proof -
  define intake where "intake = build_brief (dq_user_request q)"
  define c where "c = \<lparr>tx_changed_areas = dq_changed_areas q,
    tx_task_in_active_phase = dq_task_in_active_phase q,
    tx_verification_passed = dq_verification_passed q, tx_ambiguous_scope = dq_ambiguous_scope q\<rparr>"
  define pid where "pid = opt_or (dq_project_id q) (''dryrun-project-'' @ hex Id_project)"
  define cb where "cb = intake_result_to_current_brief_artifact intake
    (opt_or (dq_brief_id q) (''dryrun-brief-'' @ hex Id_brief)) pid ''phase_4''
    (dq_current_task q) None None
    ''Route to Progress Control for triage and management review.'' None"
  define wo where "wo = (if dq_generate_work_order q
    then Some (build_work_order_draft (triage_task c)
      (opt_or (dq_work_order_id q) (''dryrun-wo-'' @ hex Id_work_order)) pid (cb_current_task cb)
      ''Draft work order'' None None None) else None)"
  obtain tr where tr: "dry_run_trend_report q intake = Inr tr" using trend_report_total by blast
  define s where "s = build_management_review_summary cb (Some (triage_task c)) tr wo"
  let ?md = "dq_management_decision q"
  have wo: "wo = None \<or> wo = Some (build_work_order_draft (triage_task c)
      (opt_or (dq_work_order_id q) (''dryrun-wo-'' @ hex Id_work_order)) pid (cb_current_task cb)
      ''Draft work order'' None None None)" by (simp add: wo_def)
  have task: "cb_current_task cb = dry_run_task q"
    by (simp add: cb_def intake_result_to_current_brief_artifact_def dry_run_task_def intake_def)
  have triage: "dry_run_triage q = triage_task c" by (simp add: dry_run_triage_def c_def)
  have run: "run_dry_run_orchestration hex q =
      res_bind (build_projected_activation_decision hex cb s ?md) (\<lambda>projected. Inr
        \<lparr>dr_mode = ''dry_run'', dr_notice = SIMULATION_NOTICE, dr_intake_result = intake,
         dr_current_brief = cb, dr_triage_result = triage_task c, dr_trend_report = tr,
         dr_work_order = wo, dr_management_summary = s, dr_management_decision = ?md,
         dr_decision_projection = project_dry_run_decision s ?md,
         dr_projected_activation_decision = Some projected\<rparr>)"
    unfolding run_dry_run_orchestration_def Let_def
    by (simp only: intake_def[symmetric] tr res_bind_simps c_def[symmetric] pid_def[symmetric]
        cb_def[symmetric] wo_def[symmetric] s_def[symmetric])
  note cases = projected_decision_cases[OF wo, where cb = cb and tr = tr and hex = hex and md = ?md,
      folded s_def]
  show "dry_run_task q = '''' \<Longrightarrow>
      run_dry_run_orchestration hex q = Inl (GValidationError [''current_task''])"
    using cases(1) by (simp add: run task)
  assume "dry_run_task q \<noteq> ''''"
  then obtain p i d where a:
    "build_projected_activation_decision hex cb s ?md = Inr (derive_dry_run_activation_decision p i d)"
    "md_decision d = dry_run_decision q"
    "mp_required_review p \<longleftrightarrow> tg_decision (dry_run_triage q) = REVIEW"
    "collect_unresolved_blockers i = [] \<longleftrightarrow> tg_decision (dry_run_triage q) = GO"
    using cases(2)[unfolded task, folded triage, folded dry_run_decision_def[of q]] by blast
  have rec: "av_recommendation (derive_dry_run_activation_decision p i d) = dry_run_recommendation q"
    unfolding derived_fields(1) activation_recommendation_def Let_def a(2) dry_run_recommendation_def
    using a(3,4) by auto
  note facts = summary_of_triage[OF wo, where cb = cb and tr = tr, folded s_def]
  have allowed: "dp_autonomous_continuation_allowed (project_dry_run_decision s ?md) \<longleftrightarrow>
      dry_run_decision q = GO \<and> tg_decision (dry_run_triage q) \<noteq> REVIEW"
    unfolding projection_allowed facts dry_run_decision_def triage
    using triage_gates_review[of c] by auto
  show "\<exists>res p i d. run_dry_run_orchestration hex q = Inr res \<and>
     dr_projected_activation_decision res = Some (derive_dry_run_activation_decision p i d) \<and>
     av_recommendation (derive_dry_run_activation_decision p i d) = dry_run_recommendation q \<and>
     dr_management_decision res = dq_management_decision q \<and>
     dr_triage_result res = dry_run_triage q \<and>
     (dp_autonomous_continuation_allowed (dr_decision_projection res) \<longleftrightarrow>
        dry_run_decision q = GO \<and> tg_decision (dry_run_triage q) \<noteq> REVIEW)"
    unfolding run a(1) res_bind_simps using rec allowed triage by (auto intro!: exI)
qed

section \<open>From the result through the relay\<close>

lemma envelope_of_result:
  assumes "dr_projected_activation_decision res = Some a"
    and "a = derive_dry_run_activation_decision p i d"
  obtains r where
    "build_approval_record_from_projection_context a item (dr_management_decision res) rid ids = Inr r"
    "build_dry_run_handoff_envelope_from_result res item rid ids = Inr (relay_artifact a r ids 0)"
proof -
  have "\<exists>r. build_approval_record_from_projection_context a item
      (dr_management_decision res) rid ids = Inr r"
    unfolding projection_record_eq assms(2) by (rule derived_record_total)
  then obtain r where r: "build_approval_record_from_projection_context a item
      (dr_management_decision res) rid ids = Inr r" by blast
  have "build_dry_run_handoff_envelope_from_result res item rid ids = Inr (relay_artifact a r ids 0)"
    using r by (simp add: build_dry_run_handoff_envelope_from_result_def
        build_dry_run_artifact_bundle_def assms(1) build_dry_run_handoff_envelope_def get_key_def
        relay_artifact_def form_def texts_def)
  with r that show thesis by blast
qed

lemma relay_of_result:
  assumes "dr_projected_activation_decision res = Some a"
    and "a = derive_dry_run_activation_decision p i d"
  shows "\<exists>r. res_bind (build_dry_run_handoff_envelope_from_result res item rid ids)
      (run_stages handoff_stages) =
    Inr ([(''projected_activation_decision'', VDecision a), (''approval_record'', VRecord r)]
         @ map (\<lambda>(k, t). (k, VText t)) (lane_labels (av_recommendation a) @ related_items ids))"
proof -
  obtain r where "build_dry_run_handoff_envelope_from_result res item rid ids =
      Inr (relay_artifact a r ids 0)"
    by (rule envelope_of_result[OF assms])
  moreover have "run_stages handoff_stages (relay_artifact a r ids 0) = Inr (relay_artifact a r ids 46)"
    using relay_runs_to[of 63 a r ids] by (simp add: handoff_stage_nth(6) labels_before_def)
  ultimately show ?thesis
    by (intro exI[of _ r]) (simp add: relay_artifact_def form_def texts_def)
qed

section \<open>Concrete requests\<close>

text \<open>Two dry runs that differ in the changed area only, and a decision to relay.\<close>

definition sample_hex :: hexes where
  "sample_hex = (\<lambda>k. ''0a1b2c3d'')"

definition area_request :: "string \<Rightarrow> dry_run_request" where
  "area_request area =
     \<lparr>dq_user_request = ''Tidy up'', dq_changed_areas = {area}, dq_include_trend = False,
      dq_trend_provider_hint = ''mock'', dq_task_in_active_phase = True,
      dq_verification_passed = True, dq_ambiguous_scope = False, dq_generate_work_order = True,
      dq_project_id = Some ''p-1'', dq_brief_id = None, dq_work_order_id = None,
      dq_current_task = Some ''tidy'', dq_management_decision = None\<rparr>"

definition sample_decision :: activation_decision where
  "sample_decision =
     \<lparr>av_activation_target = activation_target, av_activation_scope = activation_scope,
      av_preconditions_satisfied = [], av_remaining_blockers = [],
      av_human_approvals_recorded = [], av_recommendation = GO,
      av_autonomous_continuation_status = ''not_approved'',
      av_autonomous_continuation_note = autonomous_note,
      av_rollback_disable_expectation = '''', av_escalation_destination = None,
      av_re_review_required = False\<rparr>"

definition no_related :: related_ids where
  "no_related = \<lparr>rl_project_id = None, rl_activation_decision_id = None, rl_packet_id = None,
     rl_queue_item_id = None\<rparr>"

lemma area_request_runs: "\<exists>res. run_dry_run_orchestration sample_hex (area_request a) = Inr res"
  using dry_run_cases(2)[of "area_request a" sample_hex]
  by (auto simp: dry_run_task_def area_request_def opt_or_def)

lemma auth_is_gated: "detect_hard_gate_triggers {''auth''} \<noteq> {}"
proof -
  have "''auth'' \<in> normalized_areas {''auth''}" by code_simp
  moreover have "map_of AREA_TO_HARD_GATE ''auth'' = Some AUTHENTICATION_BEHAVIOR" by code_simp
  ultimately show ?thesis by (auto simp: no_gate_iff)
qed

end
