(* ===== verification/Auth.thy ===== *)
theory Auth
  imports Intake Runtime_Flags
begin

text \<open>
  Authentication by development tokens (\<open>app/services/auth.py\<close>): the table of tokens parsed
  from a seed, the actor that an Authorization header stands for, and the service made from
  the environment. An \<open>AuthenticationError\<close> is its text.
\<close>

section \<open>Tokens\<close>

definition ActorRole_of :: "string \<Rightarrow> actor_role option" where
  "ActorRole_of s = find (\<lambda>r. actor_role_value r = s) [OWNER, OPERATOR, APPROVER, ADMIN, VIEWER]"

definition ActorType_of :: "string \<Rightarrow> actor_type option" where
  "ActorType_of s = find (\<lambda>t. actor_type_value t = s) [HUMAN, SERVICE, SYSTEM]"

definition default_token_map :: "actor_context dict" where
  "default_token_map =
     [(''dev-owner-token'',
        \<lparr>actor_id = ''owner-1'', actor_role = OWNER, actor_type = HUMAN\<rparr>),
      (''dev-operator-token'',
        \<lparr>actor_id = ''operator-1'', actor_role = OPERATOR, actor_type = HUMAN\<rparr>),
      (''dev-approver-token'',
        \<lparr>actor_id = ''approver-1'', actor_role = APPROVER, actor_type = HUMAN\<rparr>),
      (''dev-admin-token'',
        \<lparr>actor_id = ''admin-1'', actor_role = ADMIN, actor_type = HUMAN\<rparr>),
      (''dev-viewer-token'',
        \<lparr>actor_id = ''viewer-1'', actor_role = VIEWER, actor_type = HUMAN\<rparr>)]"

text \<open>One item of the seed, \<open>token:actor_id:actor_role:actor_type\<close>; every other form is skipped.\<close>

definition parse_seed_item :: "string \<Rightarrow> (string \<times> actor_context) option" where
  "parse_seed_item item =
    (let raw = py_strip item
     in if raw = '''' then None
        else
          (case map py_strip (split_at (\<lambda>c. c = CHR '':'') raw) of
             [token, aid, arole, atype] \<Rightarrow>
               if token = '''' \<or> aid = '''' then None
               else
                 (case (ActorRole_of (py_lower arole), ActorType_of (py_lower atype)) of
                    (Some r, Some t) \<Rightarrow>
                      Some (token, \<lparr>actor_id = aid, actor_role = r, actor_type = t\<rparr>)
                  | _ \<Rightarrow> None)
           | _ \<Rightarrow> None))"

definition parse_token_seed :: "string option \<Rightarrow> actor_context dict" where
  "parse_token_seed seed =
    (if opt_or seed '''' = '''' then default_token_map
     else
       (let mapping = fold (\<lambda>item m. case parse_seed_item item of
                               None \<Rightarrow> m | Some (token, a) \<Rightarrow> AList.update token a m)
                        (split_at (\<lambda>c. c = CHR '','') (opt_or seed '''')) []
        in if mapping = [] then default_token_map else mapping))"

section \<open>The service\<close>

record auth_service =
  token_map :: "actor_context dict"
  auth_enabled :: bool

text \<open>\<open>str.split(None, 1)\<close>: at most two parts, separated by the first run of spaces.\<close>

definition split_once :: "string \<Rightarrow> string list" where
  "split_once s =
    (let t = py_lstrip s;
         word = takeWhile (\<lambda>c. \<not> py_isspace c) t;
         rest = py_lstrip (dropWhile (\<lambda>c. \<not> py_isspace c) t)
     in if t = '''' then [] else if rest = '''' then [word] else [word, rest])"

definition resolve_actor :: "auth_service \<Rightarrow> string option \<Rightarrow> string + actor_context" where
  "resolve_actor auth header =
    (if \<not> auth_enabled auth
     then Inr \<lparr>actor_id = ''auth-disabled'', actor_role = ADMIN, actor_type = SYSTEM\<rparr>
     else if opt_or header '''' = '''' then Inl ''Missing Authorization header.''
     else
       (case split_once (py_strip (opt_or header '''')) of
          [scheme, token] \<Rightarrow>
            if py_lower scheme \<noteq> ''bearer'' \<or> py_strip token = ''''
            then Inl ''Authorization must be Bearer token.''
            else (case map_of (token_map auth) (py_strip token) of
                    None \<Rightarrow> Inl ''Invalid bearer token.''
                  | Some actor \<Rightarrow> Inr actor)
        | _ \<Rightarrow> Inl ''Authorization must be Bearer token.''))"

definition get_auth_service :: "(string \<Rightarrow> string option) \<Rightarrow> auth_service" where
  "get_auth_service getenv =
     \<lparr>token_map = parse_token_seed
        (Some (py_strip (case getenv ''DEV_AUTH_TOKEN_SEED'' of None \<Rightarrow> '''' | Some s \<Rightarrow> s))),
      auth_enabled = parse_env_bool (getenv ''DEV_AUTH_ENABLED'') True\<rparr>"

section \<open>Facts\<close>

lemma token_map_nonempty: "parse_token_seed seed \<noteq> []"
  by (simp add: parse_token_seed_def default_token_map_def Let_def)

lemma ActorRole_of_value [simp]: "ActorRole_of (actor_role_value r) = Some r"
  by (cases r) (simp_all add: ActorRole_of_def)

lemma ActorType_of_value [simp]: "ActorType_of (actor_type_value t) = Some t"
  by (cases t) (simp_all add: ActorType_of_def)

lemma role_value_lower [simp]: "py_lower (actor_role_value r) = actor_role_value r"
  by (cases r) (simp_all add: py_lower_def py_lower_char_def)

lemma type_value_lower [simp]: "py_lower (actor_type_value t) = actor_type_value t"
  by (cases t) (simp_all add: py_lower_def py_lower_char_def)

section \<open>A seed that was written out is read back\<close>

definition seed_item :: "string \<times> actor_context \<Rightarrow> string" where
  "seed_item e =
     py_join '':'' [fst e, actor_id (snd e), actor_role_value (actor_role (snd e)),
       actor_type_value (actor_type (snd e))]"

definition render_seed :: "(string \<times> actor_context) list \<Rightarrow> string" where
  "render_seed es = py_join '','' (map seed_item es)"

text \<open>A name that the format can carry: stripped, not empty, without a separator.\<close>

definition seed_name :: "string \<Rightarrow> bool" where
  "seed_name s \<longleftrightarrow> s \<noteq> '''' \<and> py_strip s = s \<and> CHR '':'' \<notin> set s \<and> CHR '','' \<notin> set s"

lemma role_value_clean [simp]:
  "py_strip (actor_role_value r) = actor_role_value r" "actor_role_value r \<noteq> []"
  "CHR '':'' \<notin> set (actor_role_value r)" "CHR '','' \<notin> set (actor_role_value r)"
  by (cases r; simp add: py_strip_def py_lstrip_def py_isspace_def)+

lemma type_value_clean [simp]:
  "py_strip (actor_type_value t) = actor_type_value t" "actor_type_value t \<noteq> []"
  "CHR '':'' \<notin> set (actor_type_value t)" "CHR '','' \<notin> set (actor_type_value t)"
  by (cases t; simp add: py_strip_def py_lstrip_def py_isspace_def)+

lemma seed_item_read:
  assumes "seed_name (fst e)" "seed_name (actor_id (snd e))"
  shows "parse_seed_item (seed_item e) = Some e" and "CHR '','' \<notin> set (seed_item e)"
proof -
  obtain token a where e: "e = (token, a)" by (cases e)
  let ?parts = "[token, actor_id a, actor_role_value (actor_role a), actor_type_value (actor_type a)]"
  have split: "split_at (\<lambda>c. c = CHR '':'') (seed_item e) = ?parts"
    unfolding seed_item_def e fst_conv snd_conv
    using assms by (intro split_at_join) (auto simp: e seed_name_def)
  have last: "last (seed_item e) = last (actor_type_value (actor_type a))"
    by (simp add: seed_item_def e)
  have "\<not> py_isspace (hd (seed_item e))" "\<not> py_isspace (last (seed_item e))"
    using assms(1) py_strip_hd[of token] type_value_clean(1,2)[of "actor_type a"]
      py_strip_last[of "actor_type_value (actor_type a)"]
    by (simp_all add: last, simp add: seed_item_def e seed_name_def)
  then have strip: "py_strip (seed_item e) = seed_item e" by (intro py_strip_ends) simp
  show "parse_seed_item (seed_item e) = Some e"
    using assms by (simp add: parse_seed_item_def Let_def strip split)
      (simp add: e seed_item_def seed_name_def)
  show "CHR '','' \<notin> set (seed_item e)"
    using assms by (simp add: seed_item_def e seed_name_def)
qed

lemma update_new: "k \<notin> fst ` set m \<Longrightarrow> AList.update k v m = m @ [(k, v)]"
  by (induction m) auto

lemma fold_update_fresh:
  "distinct (map fst (m @ es)) \<Longrightarrow> fold (\<lambda>(k, v). AList.update k v) es m = m @ es"
proof (induction es arbitrary: m)
  case (Cons e es)
  obtain k v where e: "e = (k, v)" by (cases e)
  have "AList.update k v m = m @ [e]"
    using Cons.prems by (simp add: update_new e)
  with Cons show ?case by (simp add: e)
qed simp

lemma seed_roundtrip:
  assumes "es \<noteq> []" "distinct (map fst es)"
    and read: "\<And>e. e \<in> set es \<Longrightarrow> seed_name (fst e) \<and> seed_name (actor_id (snd e))"
  shows "parse_token_seed (Some (render_seed es)) = es"
proof -
  have split: "split_at (\<lambda>c. c = CHR '','') (render_seed es) = map seed_item es"
    unfolding render_seed_def using assms(1) seed_item_read(2) read
    by (intro split_at_join) (auto simp del: split_paired_All)
  have "fold (\<lambda>item m. case parse_seed_item item of None \<Rightarrow> m | Some (token, a) \<Rightarrow> AList.update token a m)
      (map seed_item es) [] = fold (\<lambda>(k, v). AList.update k v) es []"
    unfolding fold_map comp_def
    using seed_item_read(1) read by (intro fold_cong refl) (auto split: prod.split)
  also have "\<dots> = es" using fold_update_fresh[of "[]" es] assms(2) by simp
  moreover have "render_seed es \<noteq> []"
    using split assms(1) by (cases es; cases "render_seed es") (auto simp: seed_item_def)
  ultimately show ?thesis
    using assms(1) by (simp add: parse_token_seed_def opt_or_def str_or_def split Let_def)
qed

section \<open>Whom a header stands for\<close>

text \<open>A header that names a token: \<open>bearer\<close> in any case, spaces, the token, spaces around.\<close>

definition bearer_token :: "string \<Rightarrow> string \<Rightarrow> bool" where
  "bearer_token header token \<longleftrightarrow>
     (\<exists>scheme gap. py_strip header = scheme @ gap @ token \<and> py_lower scheme = ''bearer'' \<and>
        gap \<noteq> [] \<and> (\<forall>c \<in> set gap. py_isspace c) \<and> token \<noteq> [] \<and> \<not> py_isspace (hd token))"

lemma bearer_no_space:
  assumes "py_lower scheme = ''bearer''" "c \<in> set scheme"
  shows "\<not> py_isspace c"
proof -
  have "py_lower_char c \<in> set (py_lower scheme)" using assms(2) by (simp add: py_lower_def)
  then have "\<not> py_isspace (py_lower_char c)"
    unfolding assms(1) by (auto simp: py_isspace_def)
  then show ?thesis by simp
qed

lemma stripped_ends:
  assumes "py_strip s = s" "s \<noteq> []"
  shows "\<not> py_isspace (hd s)" "\<not> py_isspace (last s)" "py_lstrip s = s"
  using py_strip_hd[of s] py_strip_last[of s] assms
  by (simp_all add: py_lstrip_def dropWhile_id_hd)

lemma split_once_two:
  assumes "py_strip s = s"
  shows "split_once s = [word, rest] \<longleftrightarrow>
     (\<exists>gap. s = word @ gap @ rest \<and> word \<noteq> [] \<and> (\<forall>c \<in> set word. \<not> py_isspace c) \<and> gap \<noteq> [] \<and>
        (\<forall>c \<in> set gap. py_isspace c) \<and> rest \<noteq> [] \<and> \<not> py_isspace (hd rest))"
proof
  assume two: "split_once s = [word, rest]"
  then have ne: "s \<noteq> []" by (auto simp: split_once_def py_lstrip_def)
  let ?u = "dropWhile (\<lambda>c. \<not> py_isspace c) s"
  have eq: "split_once s = (if py_lstrip ?u = [] then [takeWhile (\<lambda>c. \<not> py_isspace c) s]
      else [takeWhile (\<lambda>c. \<not> py_isspace c) s, py_lstrip ?u])"
    using ne by (simp only: split_once_def Let_def stripped_ends(3)[OF assms ne]) simp
  have "py_lstrip ?u \<noteq> []"
    using eq[unfolded two] by (rule contrapos_pn) (simp only: if_True, simp)
  then have "[word, rest] = [takeWhile (\<lambda>c. \<not> py_isspace c) s, py_lstrip ?u]"
    using eq[unfolded two] by (simp only: if_False)
  then have w: "word = takeWhile (\<lambda>c. \<not> py_isspace c) s" and r: "rest = dropWhile py_isspace ?u"
    by (simp_all only: list.inject py_lstrip_def)
  have "rest \<noteq> []" using \<open>py_lstrip ?u \<noteq> []\<close> by (simp only: r py_lstrip_def not_False_eq_True)
  have "?u \<noteq> []" using \<open>py_lstrip ?u \<noteq> []\<close> by (auto simp only: py_lstrip_def dropWhile.simps)
  then have "takeWhile py_isspace ?u \<noteq> []"
    using hd_dropWhile[of "\<lambda>c. \<not> py_isspace c" s] by (cases ?u) auto
  moreover have "s = word @ takeWhile py_isspace ?u @ rest" by (simp add: w r)
  moreover have "word \<noteq> []" using stripped_ends(1)[OF assms ne] ne by (cases s) (auto simp: w)
  moreover have "\<not> py_isspace (hd rest)"
    using hd_dropWhile_not[of py_isspace ?u] \<open>rest \<noteq> []\<close> by (simp add: r)
  ultimately show "\<exists>gap. s = word @ gap @ rest \<and> word \<noteq> [] \<and> (\<forall>c \<in> set word. \<not> py_isspace c) \<and>
      gap \<noteq> [] \<and> (\<forall>c \<in> set gap. py_isspace c) \<and> rest \<noteq> [] \<and> \<not> py_isspace (hd rest)"
    using \<open>rest \<noteq> []\<close> by (intro exI[of _ "takeWhile py_isspace ?u"])
      (auto simp: w dest: set_takeWhileD)
next
  assume "\<exists>gap. s = word @ gap @ rest \<and> word \<noteq> [] \<and> (\<forall>c \<in> set word. \<not> py_isspace c) \<and>
      gap \<noteq> [] \<and> (\<forall>c \<in> set gap. py_isspace c) \<and> rest \<noteq> [] \<and> \<not> py_isspace (hd rest)"
  then obtain gap where s: "s = word @ gap @ rest" "word \<noteq> []" "\<forall>c \<in> set word. \<not> py_isspace c"
    "gap \<noteq> []" "\<forall>c \<in> set gap. py_isspace c" "rest \<noteq> []" "\<not> py_isspace (hd rest)" by blast
  have g: "\<not> (\<not> py_isspace (hd gap))" using s(4,5) by (cases gap) auto
  have parts: "takeWhile (\<lambda>c. \<not> py_isspace c) s = word"
    "dropWhile (\<lambda>c. \<not> py_isspace c) s = gap @ rest"
    using s(3,4) g by (cases gap; simp add: s(1) takeWhile_append2 dropWhile_append2)+
  have rest: "py_lstrip (gap @ rest) = rest"
    using s(5-7) by (simp add: py_lstrip_def dropWhile_append2 dropWhile_id_hd)
  have ne: "s \<noteq> []" using s(1,2) by auto
  have "py_lstrip s = s" by (rule stripped_ends(3)[OF assms ne])
  then show "split_once s = [word, rest]"
    using ne s(6) by (simp only: split_once_def Let_def parts rest) simp
qed

lemma bearer_split:
  "bearer_token header token \<longleftrightarrow>
     (\<exists>scheme. split_once (py_strip header) = [scheme, token] \<and> py_lower scheme = ''bearer'')"
proof -
  have "scheme \<noteq> [] \<and> (\<forall>c \<in> set scheme. \<not> py_isspace c)" if "py_lower scheme = ''bearer''" for scheme
    using that bearer_no_space[OF that] by auto
  then show ?thesis
    unfolding bearer_token_def split_once_two[OF py_strip_idem] by blast
qed

lemma bearer_rest_stripped:
  assumes "split_once (py_strip h) = [scheme, token]"
  shows "py_strip token = token" "token \<noteq> []"
proof -
  obtain gap where g: "py_strip h = scheme @ gap @ token" "token \<noteq> []" "\<not> py_isspace (hd token)"
    using assms split_once_two[of "py_strip h" scheme token] by auto
  then have "\<not> py_isspace (last token)" using py_strip_last[of h] by auto
  with g show "py_strip token = token" "token \<noteq> []" by (simp_all add: py_strip_ends)
qed

text \<open>The actor of a request: the one whose token the header names, or the system when disabled.\<close>

lemma resolve_actor_iff:
  "resolve_actor auth header = Inr a \<longleftrightarrow>
     (if auth_enabled auth
      then \<exists>h token. header = Some h \<and> bearer_token h token \<and> map_of (token_map auth) token = Some a
      else a = \<lparr>actor_id = ''auth-disabled'', actor_role = ADMIN, actor_type = SYSTEM\<rparr>)"
proof (cases "auth_enabled auth \<and> opt_or header '''' \<noteq> ''''")
  case False
  have "\<not> bearer_token '''' token" for token
    by (simp add: bearer_split split_once_def py_lstrip_def)
  with False show ?thesis by (cases header) (auto simp: resolve_actor_def opt_or_def str_or_def)
next
  case True
  then obtain h where h: "header = Some h" "opt_or header '''' = h" "h \<noteq> ''''"
    by (cases header) (auto simp: opt_or_def str_or_def)
  show ?thesis
  proof (cases "\<exists>scheme token. split_once (py_strip h) = [scheme, token]")
    case True
    then obtain scheme token where sp: "split_once (py_strip h) = [scheme, token]" by blast
    show ?thesis
      using \<open>auth_enabled auth \<and> _\<close> h bearer_rest_stripped[OF sp]
      by (auto simp: resolve_actor_def sp bearer_split split: option.split)
  next
    case False
    then have "resolve_actor auth header = Inl ''Authorization must be Bearer token.''"
      using \<open>auth_enabled auth \<and> _\<close> h by (auto simp: resolve_actor_def split: list.split)
    with False show ?thesis using \<open>auth_enabled auth \<and> _\<close> h by (auto simp: bearer_split)
  qed
qed

end
