(* ===== verification/Bindings.thy ===== *)
theory Bindings
  imports Prelude
begin

text \<open>
  Where a running app keeps its services (\<open>app/api/runtime_bindings.py\<close>): the attributes of
  the app object and of its \<open>state\<close>, of which each may be missing. A missing attribute and
  one that is \<open>None\<close> are the same to the code (\<open>getattr(..., None)\<close>), so both are \<open>None\<close>
  here. The two specifications name both bootstrap attributes; they stay parameters.
\<close>

section \<open>The attributes\<close>

record 'b state_attrs =
  state_binding :: "'b option"
  state_initial :: "'b option"
  state_bootstrap :: "'b option"

record 'b app_attrs =
  app_initial :: "'b option"
  app_bootstrap :: "'b option"
  app_state :: "'b state_attrs option"

record binding_spec =
  has_state_bootstrap :: bool
  has_app_bootstrap :: bool

definition AUTH_BINDING_SPEC :: binding_spec where
  "AUTH_BINDING_SPEC = \<lparr>has_state_bootstrap = True, has_app_bootstrap = True\<rparr>"

definition ORCHESTRATOR_BINDING_SPEC :: binding_spec where
  "ORCHESTRATOR_BINDING_SPEC = \<lparr>has_state_bootstrap = True, has_app_bootstrap = True\<rparr>"

section \<open>Binding and resolving\<close>

definition bind_app_scoped_binding ::
  "binding_spec \<Rightarrow> 'b \<Rightarrow> 'b app_attrs option \<Rightarrow> 'b app_attrs option" where
  "bind_app_scoped_binding spec b app =
     map_option
       (\<lambda>a. a\<lparr>app_initial := Some b,
              app_bootstrap := (if has_app_bootstrap spec then Some b else app_bootstrap a),
              app_state := map_option
                (\<lambda>s. s\<lparr>state_binding := Some b, state_initial := Some b,
                       state_bootstrap := (if has_state_bootstrap spec then Some b
                                           else state_bootstrap s)\<rparr>)
                (app_state a)\<rparr>) app"

definition state_attr :: "('b state_attrs \<Rightarrow> 'b option) \<Rightarrow> 'b app_attrs option \<Rightarrow> 'b option" where
  "state_attr f app = Option.bind (Option.bind app app_state) f"

text \<open>The first candidate that is there, else the fallback; it is then bound everywhere.\<close>

definition binding_candidates :: "binding_spec \<Rightarrow> 'b app_attrs option \<Rightarrow> 'b option list" where
  "binding_candidates spec app =
     [state_attr state_binding app, state_attr state_initial app, Option.bind app app_initial]
     @ (if has_state_bootstrap spec then [state_attr state_bootstrap app] else [])
     @ (if has_app_bootstrap spec then [Option.bind app app_bootstrap] else [])"

fun first_bound :: "'b option list \<Rightarrow> 'b \<Rightarrow> 'b" where
  "first_bound [] fallback = fallback"
| "first_bound (Some b # cs) fallback = b"
| "first_bound (None # cs) fallback = first_bound cs fallback"

definition resolve_app_scoped_binding ::
  "binding_spec \<Rightarrow> 'b \<Rightarrow> 'b app_attrs option \<Rightarrow> 'b \<times> 'b app_attrs option" where
  "resolve_app_scoped_binding spec fallback app =
     (let b = first_bound (binding_candidates spec app) fallback
      in (b, bind_app_scoped_binding spec b app))"

definition resolve_auth_service_binding :: "'b \<Rightarrow> 'b app_attrs option \<Rightarrow> 'b \<times> 'b app_attrs option" where
  "resolve_auth_service_binding = resolve_app_scoped_binding AUTH_BINDING_SPEC"

definition resolve_orchestrator_binding :: "'b \<Rightarrow> 'b app_attrs option \<Rightarrow> 'b \<times> 'b app_attrs option" where
  "resolve_orchestrator_binding = resolve_app_scoped_binding ORCHESTRATOR_BINDING_SPEC"

definition bind_auth_service_binding :: "'b \<Rightarrow> 'b app_attrs option \<Rightarrow> 'b app_attrs option" where
  "bind_auth_service_binding = bind_app_scoped_binding AUTH_BINDING_SPEC"

definition bind_orchestrator_binding :: "'b \<Rightarrow> 'b app_attrs option \<Rightarrow> 'b app_attrs option" where
  "bind_orchestrator_binding = bind_app_scoped_binding ORCHESTRATOR_BINDING_SPEC"

section \<open>Facts\<close>

lemma resolve_after_bind:
  assumes "app \<noteq> None"
  shows "resolve_app_scoped_binding spec fallback (bind_app_scoped_binding spec b app) =
     (b, bind_app_scoped_binding spec b app)"
proof -
  obtain a where "app = Some a" using assms by blast
  then show ?thesis
    by (cases "app_state a")
      (simp_all add: resolve_app_scoped_binding_def binding_candidates_def state_attr_def
        bind_app_scoped_binding_def Let_def)
qed

text \<open>Once resolved, a service stays bound, whatever the fallback is later.\<close>

lemma resolve_stable:
  assumes "resolve_app_scoped_binding spec fallback app = (b, app')" and "app \<noteq> None"
  shows "resolve_app_scoped_binding spec fallback' app' = (b, app')"
proof -
  have "app' = bind_app_scoped_binding spec b app"
    using assms(1) by (auto simp: resolve_app_scoped_binding_def Let_def)
  then show ?thesis using resolve_after_bind[OF assms(2)] by simp
qed

lemma resolve_prefers_state:
  "app = Some a \<Longrightarrow> app_state a = Some s \<Longrightarrow> state_binding s = Some b \<Longrightarrow>
   fst (resolve_app_scoped_binding spec fallback app) = b"
  by (simp add: resolve_app_scoped_binding_def binding_candidates_def state_attr_def Let_def)

lemma resolve_fallback:
  "fst (resolve_app_scoped_binding spec fallback app) = fallback \<or>
   Some (fst (resolve_app_scoped_binding spec fallback app)) \<in> set (binding_candidates spec app)"
proof -
  have "first_bound cs fallback = fallback \<or> Some (first_bound cs fallback) \<in> set cs" for cs
    by (induction cs fallback rule: first_bound.induct) auto
  then show ?thesis by (simp add: resolve_app_scoped_binding_def Let_def)
qed

end
