(* ===== verification/Api.thy ===== *)
theory Api
  imports Safety Auth Bindings
begin

text \<open>
  The HTTP routes (\<open>app/api/routes.py\<close>, \<open>app/schemas/api.py\<close>): the payload models with their
  validation, the routes over the orchestrator of \<open>Service\<close>, the actor of a protected route
  from its Authorization header, and the status code of every exception. The framework's part
  is what it documents: an invalid payload is answered with 422 before the route runs, and an
  exception that the route does not map is a 500. A payload that has been parsed has typed
  fields; what is left to check are the \<open>min_length\<close> bounds.
\<close>

section \<open>Payloads\<close>

record intake_brief_request =
  ib_user_request :: string

record orchestrator_run_request =
  or_brief :: project_brief
  or_project_policy :: "project_policy option"
  or_trend_provider :: string
  or_approved_actions :: "string list"
  or_simulate_review_failure :: bool

record approval_resume_request =
  aq_project_id :: string
  aq_approved_actions :: "string list"
  aq_actor :: "actor_context option"
  aq_note :: string
  aq_trend_provider :: string

record approval_reject_request =
  jq_project_id :: string
  jq_rejected_actions :: "string list"
  jq_actor :: "actor_context option"
  jq_reason :: string
  jq_note :: string

record revision_resume_request =
  vq_project_id :: string
  vq_resume_mode :: revision_resume_mode
  vq_actor :: "actor_context option"
  vq_reason :: string
  vq_trend_provider :: string
  vq_approved_actions :: "string list"

record replanning_start_request =
  nq_project_id :: string
  nq_actor :: "actor_context option"
  nq_note :: string
  nq_trend_provider :: string
  nq_approved_actions :: "string list"
  nq_reset_downstream_tasks :: bool

text \<open>A call: the route, its payload, and the Authorization header of the protected ones.\<close>

datatype api_call =
    Health
  | Intake_brief intake_brief_request
  | Orchestrator_run orchestrator_run_request
  | Resume_approval approval_resume_request "string option"
  | Reject_approval approval_reject_request "string option"
  | Resume_revision revision_resume_request "string option"
  | Start_replanning replanning_start_request "string option"
  | Project_audit string

text \<open>The fields of a payload that are too short.\<close>

definition too_short :: "(string \<times> string) list \<Rightarrow> string list" where
  "too_short named = map fst (filter (\<lambda>(k, v). v = '''') named)"

fun invalid_fields :: "api_call \<Rightarrow> string list" where
  "invalid_fields (Intake_brief p) = too_short [(''user_request'', ib_user_request p)]"
| "invalid_fields (Resume_approval p h) = too_short [(''project_id'', aq_project_id p)]"
| "invalid_fields (Reject_approval p h) =
     too_short [(''project_id'', jq_project_id p), (''reason'', jq_reason p)]"
| "invalid_fields (Resume_revision p h) = too_short [(''project_id'', vq_project_id p)]"
| "invalid_fields (Start_replanning p h) = too_short [(''project_id'', nq_project_id p)]"
| "invalid_fields c = []"

section \<open>Exceptions and their status codes\<close>

datatype route_exception =
  AuthenticationError string | OrchestratorError orch_error | ValidationError "string list"

datatype http_error = Http_error nat route_exception

text \<open>
  \<open>_map_exception_to_http_exception\<close>. An invalid transition and an unknown action are
  \<open>ValueError\<close>s; a storage error is none of the mapped classes.
\<close>

fun mapped_status :: "route_exception \<Rightarrow> nat option" where
  "mapped_status (AuthenticationError m) = Some 401"
| "mapped_status (OrchestratorError (LookupErr m)) = Some 404"
| "mapped_status (OrchestratorError (PermissionErr m)) = Some 403"
| "mapped_status (OrchestratorError (ValueErr m)) = Some 409"
| "mapped_status (OrchestratorError (InvalidTransition a b)) = Some 409"
| "mapped_status (OrchestratorError (UnsupportedAction a)) = Some 409"
| "mapped_status (OrchestratorError (StorageErr m)) = None"
| "mapped_status (ValidationError fs) = None"

definition raise_route_http_error :: "route_exception \<Rightarrow> http_error" where
  "raise_route_http_error e =
     Http_error (case mapped_status e of Some code \<Rightarrow> code | None \<Rightarrow> 500) e"

section \<open>Routes\<close>

datatype api_reply = Ok_health | Ok_intake intake_result | Ok_reply reply

type_synonym 's api_answer = "'s \<times> (http_error + api_reply)"

definition answer :: "'s \<times> (orch_error + reply) \<Rightarrow> 's api_answer" where
  "answer out =
     (case out of
        (s, Inl e) \<Rightarrow> (s, Inl (raise_route_http_error (OrchestratorError e)))
      | (s, Inr r) \<Rightarrow> (s, Inr (Ok_reply r)))"

text \<open>
  \<open>_resolve_authenticated_actor\<close>: the attempt is recorded before its result is used. The two
  environments are those of the two calls of the orchestrator.
\<close>

definition run_protected_orchestrator_action ::
  "'s getter \<Rightarrow> 's saver \<Rightarrow> runtime \<Rightarrow> runtime \<Rightarrow> auth_service \<Rightarrow> string \<Rightarrow> string option \<Rightarrow>
   (actor_context \<Rightarrow> request) \<Rightarrow> 's \<Rightarrow> 's api_answer" where
  "run_protected_orchestrator_action get save env env' auth pid header action s =
    (case resolve_actor auth header of
       Inl msg \<Rightarrow>
         (case serve get save env (AuthenticationFailure pid msg) s of
            (s', Inl e) \<Rightarrow> (s', Inl (raise_route_http_error (OrchestratorError e)))
          | (s', Inr _) \<Rightarrow> (s', Inl (raise_route_http_error (AuthenticationError msg))))
     | Inr actor \<Rightarrow>
         (case serve get save env (AuthenticationSuccess pid actor) s of
            (s', Inl e) \<Rightarrow> (s', Inl (raise_route_http_error (OrchestratorError e)))
          | (s', Inr _) \<Rightarrow> answer (serve get save env' (action actor) s')))"

fun route :: "'s getter \<Rightarrow> 's saver \<Rightarrow> runtime \<Rightarrow> runtime \<Rightarrow> auth_service \<Rightarrow> api_call \<Rightarrow> 's \<Rightarrow>
    's api_answer" where
  "route get save env env' auth Health s = (s, Inr Ok_health)"
| "route get save env env' auth (Intake_brief p) s =
     (s, Inr (Ok_intake (build_brief (ib_user_request p))))"
| "route get save env env' auth (Orchestrator_run p) s =
     answer (serve get save env'
       (Run (or_brief p) (or_project_policy p) (or_trend_provider p)
         (Some (map ActionStr (or_approved_actions p))) (or_simulate_review_failure p)) s)"
| "route get save env env' auth (Resume_approval p header) s =
     run_protected_orchestrator_action get save env env' auth (aq_project_id p) header
       (\<lambda>actor. ResumeFromApproval (aq_project_id p) (Some (map ActionStr (aq_approved_actions p)))
          (ActorIs actor) (aq_note p) (aq_trend_provider p) None) s"
| "route get save env env' auth (Reject_approval p header) s =
     run_protected_orchestrator_action get save env env' auth (jq_project_id p) header
       (\<lambda>actor. RejectApproval (jq_project_id p) (Some (map ActionStr (jq_rejected_actions p)))
          (ActorIs actor) (jq_reason p) (jq_note p) None) s"
| "route get save env env' auth (Resume_revision p header) s =
     run_protected_orchestrator_action get save env env' auth (vq_project_id p) header
       (\<lambda>actor. ResumeFromRevision (vq_project_id p) (vq_resume_mode p) (ActorIs actor) (vq_reason p)
          (vq_trend_provider p) (Some (map ActionStr (vq_approved_actions p)))) s"
| "route get save env env' auth (Start_replanning p header) s =
     run_protected_orchestrator_action get save env env' auth (nq_project_id p) header
       (\<lambda>actor. StartReplanning (nq_project_id p) (ActorIs actor) (nq_note p) (nq_trend_provider p)
          (Some (map ActionStr (nq_approved_actions p))) (nq_reset_downstream_tasks p)) s"
| "route get save env env' auth (Project_audit pid) s =
     answer (serve get save env' (GetProjectAudit pid) s)"

definition api_serve :: "'s getter \<Rightarrow> 's saver \<Rightarrow> runtime \<Rightarrow> runtime \<Rightarrow> auth_service \<Rightarrow> api_call \<Rightarrow>
    's \<Rightarrow> 's api_answer" where
  "api_serve get save env env' auth c s =
    (if invalid_fields c \<noteq> []
     then (s, Inl (Http_error 422 (ValidationError (invalid_fields c))))
     else route get save env env' auth c s)"

text \<open>The project, the header and the request of a protected call.\<close>

fun protected_request :: "api_call \<Rightarrow> (string \<times> string option \<times> (actor_context \<Rightarrow> request)) option" where
  "protected_request (Resume_approval p h) =
     Some (aq_project_id p, h, \<lambda>actor. ResumeFromApproval (aq_project_id p)
       (Some (map ActionStr (aq_approved_actions p))) (ActorIs actor) (aq_note p) (aq_trend_provider p)
       None)"
| "protected_request (Reject_approval p h) =
     Some (jq_project_id p, h, \<lambda>actor. RejectApproval (jq_project_id p)
       (Some (map ActionStr (jq_rejected_actions p))) (ActorIs actor) (jq_reason p) (jq_note p) None)"
| "protected_request (Resume_revision p h) =
     Some (vq_project_id p, h, \<lambda>actor. ResumeFromRevision (vq_project_id p) (vq_resume_mode p)
       (ActorIs actor) (vq_reason p) (vq_trend_provider p)
       (Some (map ActionStr (vq_approved_actions p))))"
| "protected_request (Start_replanning p h) =
     Some (nq_project_id p, h, \<lambda>actor. StartReplanning (nq_project_id p) (ActorIs actor) (nq_note p)
       (nq_trend_provider p) (Some (map ActionStr (nq_approved_actions p)))
       (nq_reset_downstream_tasks p))"
| "protected_request c = None"

section \<open>Facts\<close>

lemma fst_answer [simp]: "fst (answer out) = fst out"
  by (simp add: answer_def split: prod.split sum.split)

lemma answer_simps [simp]:
  "answer (s, Inl e) = (s, Inl (raise_route_http_error (OrchestratorError e)))"
  "answer (s, Inr r) = (s, Inr (Ok_reply r))"
  by (simp_all add: answer_def)

lemma protected_route:
  assumes "protected_request c = Some (pid, header, action)"
  shows "target (action actor) = Some pid"
    and "route get save env env' auth c s =
      run_protected_orchestrator_action get save env env' auth pid header action s"
  using assms by (cases c; auto)+

text \<open>A call is a sequence of at most two requests to the orchestrator.\<close>

lemma api_call_is_requests:
  "\<exists>qs. length qs \<le> 2 \<and>
     fst (api_serve get save env env' auth c s) =
       fold (\<lambda>(e, q) s. fst (serve get save e q s)) qs s"
proof -
  have p: "\<exists>qs. length qs \<le> 2 \<and>
      fst (run_protected_orchestrator_action get save env env' auth pid header action s) =
        fold (\<lambda>(e, q) s. fst (serve get save e q s)) qs s"
    for pid header and action :: "actor_context \<Rightarrow> request"
  proof (cases "resolve_actor auth header")
    case (Inl msg)
    obtain s' r where "serve get save env (AuthenticationFailure pid msg) s = (s', r)"
      by (cases "serve get save env (AuthenticationFailure pid msg) s")
    then show ?thesis
      using Inl by (intro exI[of _ "[(env, AuthenticationFailure pid msg)]"])
        (cases r; simp add: run_protected_orchestrator_action_def del: serve.simps)
  next
    case (Inr actor)
    obtain s' r where s': "serve get save env (AuthenticationSuccess pid actor) s = (s', r)"
      by (cases "serve get save env (AuthenticationSuccess pid actor) s")
    show ?thesis
    proof (cases r)
      case (Inl e)
      then show ?thesis
        using Inr s' by (intro exI[of _ "[(env, AuthenticationSuccess pid actor)]"])
          (simp add: run_protected_orchestrator_action_def del: serve.simps)
    next
      case (Inr u)
      then show ?thesis
        using \<open>resolve_actor auth header = Inr actor\<close> s'
        by (intro exI[of _ "[(env, AuthenticationSuccess pid actor), (env', action actor)]"])
          (simp add: run_protected_orchestrator_action_def del: serve.simps)
    qed
  qed
  have one: "\<exists>qs. length qs \<le> 2 \<and> fst (serve get save env' q s) =
      fold (\<lambda>(e, q) s. fst (serve get save e q s)) qs s" for q
    by (intro exI[of _ "[(env', q)]"]) simp
  have none: "\<exists>qs. length qs \<le> 2 \<and> s = fold (\<lambda>(e, q) s. fst (serve get save e q s)) qs s"
    by (intro exI[of _ "[]"]) simp
  show ?thesis
    by (cases c) (simp_all add: api_serve_def p one none del: serve.simps)
qed

lemma reachable_fold:
  "reachable get save s0 s \<Longrightarrow>
   reachable get save s0 (fold (\<lambda>(e, q) s. fst (serve get save e q s)) qs s)"
proof (induction qs arbitrary: s)
  case (Cons x qs)
  obtain e q where x: "x = (e, q)" by (cases x)
  have "reachable get save s0 (fst (serve get save e q s))"
    by (rule reachable.request[OF Cons.prems]) (simp add: prod_eq_iff)
  with Cons.IH show ?case by (simp add: x)
qed simp

lemma reachable_api:
  "reachable get save s0 s \<Longrightarrow> reachable get save s0 (fst (api_serve get save env env' auth c s))"
  using api_call_is_requests[of get save env env' auth c s] reachable_fold by metis

section \<open>The API over the in-memory repository\<close>

text \<open>Recording an authentication never fails, and changes at most the project's event log.\<close>

definition audited :: "memory \<Rightarrow> string \<Rightarrow> memory \<Rightarrow> bool" where
  "audited s pid s' \<longleftrightarrow>
     (s pid = None \<and> s' = s) \<or> (\<exists>r r'. s pid = Some r \<and> s' = s(pid \<mapsto> r') \<and> audit_only r r')"

lemma authentication_saves:
  "\<exists>r'. record_authentication_success env a r = (Some r', Inr ()) \<and> audit_only r r'"
  "\<exists>r'. record_authentication_failure env m r = (Some r', Inr ()) \<and> audit_only r r'"
  by (simp_all add: record_authentication_success_def record_authentication_failure_def
      save_and_return_def record_event_def Let_def audit_only_def)

lemma recorded_if_any:
  assumes "stored memory_get P s"
    and "\<And>r. s pid = Some r \<Longrightarrow> \<exists>r'. handler r = (Some r', Inr ()) \<and> audit_only r r'"
  shows "\<exists>s'. with_record_if_any memory_get memory_save pid handler s = (s', Inr ()) \<and> audited s pid s'"
proof (cases "s pid")
  case None
  then show ?thesis
    by (simp add: with_record_if_any_def get_record_or_raise_def memory_get_def audited_def)
next
  case (Some r)
  from assms(2)[OF Some] obtain r' where r': "handler r = (Some r', Inr ())" "audit_only r r'" by blast
  have "rec_id r' = pid"
    using assms(1) Some audit_only_fields(1)[OF r'(2)] by (auto simp: stored_def memory_get_def)
  then show ?thesis
    using Some r' by (auto simp: with_record_if_any_def get_record_or_raise_def memory_get_def
        commit_def memory_save_def audited_def)
qed

lemma authentication_recorded:
  assumes "stored memory_get P s"
  shows "\<exists>s'. serve memory_get memory_save env (AuthenticationSuccess pid a) s = (s', Inr Done) \<and>
      audited s pid s'"
    and "\<exists>s'. serve memory_get memory_save env (AuthenticationFailure pid m) s = (s', Inr Done) \<and>
      audited s pid s'"
proof -
  obtain s1 where "with_record_if_any memory_get memory_save pid
      (record_authentication_success env a) s = (s1, Inr ())" "audited s pid s1"
    using recorded_if_any[OF assms, of pid "record_authentication_success env a"] authentication_saves(1) by blast
  then show "\<exists>s'. serve memory_get memory_save env (AuthenticationSuccess pid a) s = (s', Inr Done) \<and>
      audited s pid s'" by simp
  obtain s2 where "with_record_if_any memory_get memory_save pid
      (record_authentication_failure env m) s = (s2, Inr ())" "audited s pid s2"
    using recorded_if_any[OF assms, of pid "record_authentication_failure env m"] authentication_saves(2) by blast
  then show "\<exists>s'. serve memory_get memory_save env (AuthenticationFailure pid m) s = (s', Inr Done) \<and>
      audited s pid s'" by simp
qed

lemma audited_get:
  assumes "audited s pid s'"
  shows "s p = Some r \<Longrightarrow> \<exists>r'. s' p = Some r' \<and> approvals r' = approvals r \<and> project r' = project r"
  using assms audit_only_fields(1,6) by (auto simp: audited_def split: if_splits)

text \<open>A protected call: no actor, then no project, then whatever the orchestrator says.\<close>

lemma protected_cases:
  fixes env env' auth
  assumes st: "stored memory_get P s" and c: "protected_request c = Some (pid, header, action)"
    and valid: "invalid_fields c = []"
  defines "out \<equiv> api_serve memory_get memory_save env env' auth c s"
  shows "resolve_actor auth header = Inl msg \<Longrightarrow>
      \<exists>s'. out = (s', Inl (Http_error 401 (AuthenticationError msg))) \<and> audited s pid s'"
    and "resolve_actor auth header = Inr actor \<Longrightarrow>
      \<exists>s'. audited s pid s' \<and>
        s' = fst (serve memory_get memory_save env (AuthenticationSuccess pid actor) s) \<and>
        out = answer (serve memory_get memory_save env' (action actor) s')"
proof -
  have run: "out = run_protected_orchestrator_action memory_get memory_save env env' auth pid header action s"
    by (simp only: out_def api_serve_def valid protected_route(2)[OF c]) simp
  {
    assume "resolve_actor auth header = Inl msg"
    with authentication_recorded(2)[OF st, of env pid msg]
    show "\<exists>s'. out = (s', Inl (Http_error 401 (AuthenticationError msg))) \<and> audited s pid s'"
      by (auto simp: run run_protected_orchestrator_action_def raise_route_http_error_def
          simp del: serve.simps)
  next
    assume "resolve_actor auth header = Inr actor"
    with authentication_recorded(1)[OF st, of env pid actor]
    show "\<exists>s'. audited s pid s' \<and>
        s' = fst (serve memory_get memory_save env (AuthenticationSuccess pid actor) s) \<and>
        out = answer (serve memory_get memory_save env' (action actor) s')"
      by (auto simp: run run_protected_orchestrator_action_def simp del: serve.simps)
  }
qed

lemma protected_unknown:
  assumes "protected_request c = Some (pid, header, action)" "s pid = None"
  shows "serve memory_get memory_save env (action actor) s =
     (s, Inl (LookupErr (''Project not found: '' @ pid)))"
  using assms
  by (cases c) (auto simp: with_record_def get_record_or_raise_def memory_get_def)

section \<open>Who approves through the API\<close>

text \<open>The record of a stored project after a request of the orchestrator.\<close>

lemma memory_serve_approves:
  assumes st: "stored memory_get sound s" and t: "target q \<noteq> None"
    and r: "s pid = Some r" "fst (serve memory_get memory_save env q s) pid = Some r'"
    and a: "approves r r' i"
  shows "\<exists>approved actor n name ids. q = ResumeFromApproval pid approved actor n name ids \<and>
    authorized_for (coerce_actor actor APPROVER HUMAN) ids r (ar_action_type (approvals r ! i))"
proof -
  have g: "memory_get (fst (serve memory_get memory_save env q s)) pid = Some r'"
    using r(2) by (simp add: memory_get_def)
  from refl g st show ?thesis
  proof (cases rule: memory.serve_cases)
    case same
    with r a show ?thesis by (auto simp: approves_def memory_get_def)
  next
    case (ran_new x y)
    with t show ?thesis by simp
  next
    case (handled x y)
    with r have "saved_record env q r = Some r'" by (auto simp: memory_get_def)
    from saved_record_approves[OF this handled(1) a] show ?thesis .
  qed
qed

text \<open>Reading an audit changes nothing, and a new run has an id of its own.\<close>

lemma audit_request_same: "fst (serve memory_get memory_save env (GetProjectAudit pid) s) = s"
proof (cases "memory_get s pid")
  case (Some r)
  obtain res where "get_project_audit r = (None, res)"
    using audit_saves_nothing[of r] by (cases "get_project_audit r") simp
  with Some show ?thesis by (simp add: with_record_def get_record_or_raise_def commit_def)
qed (simp add: with_record_def get_record_or_raise_def)

lemma api_approves:
  assumes st: "stored memory_get sound s"
    and t: "\<And>p. c \<noteq> Orchestrator_run p"
    and r: "s pid = Some r" "fst (api_serve memory_get memory_save env env' auth c s) pid = Some r'"
    and a: "approves r r' i"
  shows "\<exists>p header actor. c = Resume_approval p header \<and> aq_project_id p = pid \<and>
    resolve_actor auth header = Inr actor \<and>
    ad_allowed (authorize_action (ar_action_type (approvals r ! i)) actor
      (Some (p_policy (project r))) None)"
proof -
  have irrefl: "\<not> approves r r i" by (auto simp: approves_def)
  have valid: "invalid_fields c = []"
    using r a irrefl by (auto simp: api_serve_def split: if_splits)
  show ?thesis
  proof (cases "protected_request c")
    case None
    with r a irrefl t valid show ?thesis
      by (cases c) (auto simp: api_serve_def audit_request_same[simplified])
  next
    case (Some x)
    obtain p header action where c: "protected_request c = Some (p, header, action)"
      using Some by (cases x) auto
    show ?thesis
    proof (cases "resolve_actor auth header")
      case (Inl msg)
      from protected_cases(1)[OF st c valid Inl, of env env'] obtain s' where
        "fst (api_serve memory_get memory_save env env' auth c s) = s'" "audited s p s'" by force
      then have "approvals r' = approvals r"
        using r audited_get[of s p s' pid r] by auto
      with a show ?thesis by (auto simp: approves_def)
    next
      case (Inr actor)
      from protected_cases(2)[OF st c valid Inr, of env env'] obtain s' where s': "audited s p s'"
        "s' = fst (serve memory_get memory_save env (AuthenticationSuccess p actor) s)"
        "fst (api_serve memory_get memory_save env env' auth c s) =
           fst (serve memory_get memory_save env' (action actor) s')" by force
      have st': "stored memory_get sound s'"
        unfolding s'(2) by (rule memory.serve_sound[OF st]) simp
      obtain r1 where r1: "s' pid = Some r1" "approvals r1 = approvals r" "project r1 = project r"
        using audited_get[OF s'(1) r(1)] by blast
      have "approves r1 r' i" using a r1(2) by (simp add: approves_def)
      from memory_serve_approves[OF st' _ r1(1) r(2)[unfolded s'(3)] this] protected_route(1)[OF c]
      obtain approved who n name ids where q: "action actor = ResumeFromApproval pid approved who n name ids"
        "authorized_for (coerce_actor who APPROVER HUMAN) ids r1 (ar_action_type (approvals r1 ! i))"
        by blast
      from c q(1) obtain b where "c = Resume_approval b header" "aq_project_id b = pid"
        "who = ActorIs actor" "ids = None"
        by (cases c) auto
      with q(2) Inr r1 show ?thesis by (auto simp: authorized_for_def)
    qed
  qed
qed

section \<open>The requests that a call stands for\<close>

text \<open>The calls of the orchestrator that a route makes when no storage fails, in their order.\<close>

definition api_requests :: "runtime \<Rightarrow> runtime \<Rightarrow> auth_service \<Rightarrow> api_call \<Rightarrow> (runtime \<times> request) list" where
  "api_requests env env' auth c =
    (if invalid_fields c \<noteq> [] then []
     else
       (case protected_request c of
          Some (pid, header, action) \<Rightarrow>
            (case resolve_actor auth header of
               Inl msg \<Rightarrow> [(env, AuthenticationFailure pid msg)]
             | Inr actor \<Rightarrow> [(env, AuthenticationSuccess pid actor), (env', action actor)])
        | None \<Rightarrow>
            (case c of
               Orchestrator_run p \<Rightarrow>
                 [(env', Run (or_brief p) (or_project_policy p) (or_trend_provider p)
                    (Some (map ActionStr (or_approved_actions p))) (or_simulate_review_failure p))]
             | Project_audit pid \<Rightarrow> [(env', GetProjectAudit pid)]
             | _ \<Rightarrow> [])))"

definition serve_all :: "(runtime \<times> request) list \<Rightarrow> memory \<Rightarrow> memory" where
  "serve_all qs s = fold (\<lambda>(e, q) s. fst (serve memory_get memory_save e q s)) qs s"

lemma serve_all_simps [simp]:
  "serve_all [] s = s"
  "serve_all ((e, q) # qs) s = serve_all qs (fst (serve memory_get memory_save e q s))"
  by (simp_all add: serve_all_def)

lemma api_serves_requests:
  assumes st: "stored memory_get P s"
  shows "fst (api_serve memory_get memory_save env env' auth c s) =
     serve_all (api_requests env env' auth c) s"
proof (cases "invalid_fields c = []")
  case False
  then show ?thesis by (simp add: api_serve_def api_requests_def)
next
  case valid: True
  show ?thesis
  proof (cases "protected_request c")
    case None
    with valid show ?thesis
      by (cases c) (simp_all add: api_serve_def api_requests_def del: serve.simps)
  next
    case (Some x)
    obtain pid header action where c: "protected_request c = Some (pid, header, action)"
      using Some by (cases x) auto
    show ?thesis
    proof (cases "resolve_actor auth header")
      case (Inl msg)
      from authentication_recorded(2)[OF st, of env pid msg] protected_cases(1)[OF st c valid Inl, of env env']
      show ?thesis
        using valid c Inl by (auto simp: api_requests_def api_serve_def protected_route(2)[OF c]
            run_protected_orchestrator_action_def simp del: serve.simps)
    next
      case (Inr actor)
      from protected_cases(2)[OF st c valid Inr, of env env'] show ?thesis
        using valid c Inr by (auto simp: api_requests_def simp del: serve.simps)
    qed
  qed
qed

end
