(* ===== verification/Route_Errors.thy ===== *)
theory Route_Errors
  imports Api
begin

text \<open>
  The errors of the routes: every exception that the orchestrator raises over the in-memory
  repository is one of the classes that \<open>_map_exception_to_http_exception\<close> knows, so that no
  call ends as an unhandled error. One lemma per function that can raise, collected in
  \<open>raises\<close>.
\<close>

definition mapped :: "orch_error \<Rightarrow> bool" where
  "mapped e \<longleftrightarrow> mapped_status (OrchestratorError e) \<noteq> None"

lemma mapped_simps [simp]:
  "mapped (LookupErr m)" "mapped (PermissionErr m)" "mapped (ValueErr m)"
  "mapped (InvalidTransition a b)" "mapped (UnsupportedAction x)" "\<not> mapped (StorageErr m)"
  by (simp_all add: mapped_def)

text \<open>What a computation raises, if it raises, is mapped.\<close>

definition raises_mapped :: "orch_error + 'a \<Rightarrow> bool" where
  "raises_mapped res \<longleftrightarrow> (\<forall>e. res = Inl e \<longrightarrow> mapped e)"

named_theorems raises

lemma raises_simps [simp]: "raises_mapped (Inl e) \<longleftrightarrow> mapped e" "raises_mapped (Inr x)"
  by (simp_all add: raises_mapped_def)

lemma raises_bind [raises]:
  "raises_mapped x \<Longrightarrow> (\<And>v. raises_mapped (f v)) \<Longrightarrow> raises_mapped (res_bind x f)"
  by (cases x) simp_all

lemma raises_outcome [simp]:
  "raises_mapped (snd (raise_error e)) \<longleftrightarrow> mapped e" "raises_mapped (snd (return_only x))"
  "raises_mapped (snd (save_and_raise r e)) \<longleftrightarrow> mapped e" "raises_mapped (snd (save_and_return r x))"
  by (simp_all add: outcome_defs)

lemma raisesD: "x = Inl e \<Longrightarrow> raises_mapped x \<Longrightarrow> mapped e"
  by simp

section \<open>The checks of the orchestrator\<close>

lemma raises_transition [raises]: "raises_mapped (transition env st a m r)"
  by (simp add: transition_def Let_def)

lemma raises_parse [raises]: "raises_mapped (parse_approved_actions x)"
proof -
  have "raises_mapped (parse_actions_loop args S)" for args S
    by (induction args S rule: parse_actions_loop.induct) (auto simp: Let_def split: option.split)
  then show ?thesis by (simp add: parse_approved_actions_def split: option.split)
qed

lemma raises_sets [raises]:
  "raises_mapped (raise_if_actions_outside_allowed_set a b m)"
  "raises_mapped (raise_if_actions_previously_rejected a b m)"
  "raises_mapped (validate_approval_action_request a b c)"
  by (auto simp: raise_if_actions_outside_allowed_set_def raise_if_actions_previously_rejected_def
      validate_approval_action_request_def Let_def intro!: raises_bind)

lemma raises_provider [raises]: "raises_mapped (provider_or_raise env name)"
  by (simp add: provider_or_raise_def split: sum.split)

lemma raises_authorize:
  assumes "authorize_actions_or_raise env actor ids S r = Inl (r', e)"
  shows "mapped e"
proof -
  have "authorize_actions env actor ids as r = Inl (r', e) \<Longrightarrow> mapped e" for as
    by (induction as arbitrary: r) (auto simp: Let_def split: if_splits)
  with assms show ?thesis by (simp add: authorize_actions_or_raise_def)
qed

section \<open>The task loop\<close>

lemma raises_task:
  "execute_task env u p S sim a i r rr cf = Failed e \<Longrightarrow> mapped e"
  by (auto simp: execute_task_def pause_for_approval_def Let_def
      split: if_splits department.splits sum.splits dest: raisesD[OF _ raises_transition])

lemma raises_tasks:
  "execute_tasks env u p S sim a is r rr cf = Failed e \<Longrightarrow> mapped e"
  by (induction "is" arbitrary: r rr cf) (auto split: step_result.splits dest: raises_task)

lemma raises_execution [raises]:
  "raises_mapped (snd (execute_pending_tasks env u name S sim a r))"
proof -
  have "raises_mapped (snd (finish_execution env a r rr cf))" for r rr cf
    by (auto simp: finish_execution_def Let_def res_bind_eq_Inl split: sum.split
        dest: raisesD[OF _ raises_transition])
  then show ?thesis
    by (auto simp: execute_pending_tasks_def split: sum.split step_result.split
        dest: raises_tasks raisesD[OF _ raises_provider])
qed

lemma raises_run [raises]: "raises_mapped (snd (run env brief policy name approved sim))"
proof -
  have "raises_mapped (start_execution env r)" for r
    by (auto simp: start_execution_def intro!: raises)
  then show ?thesis
    by (auto simp: run_def split: sum.split intro!: raises_execution
        dest: raisesD[OF _ raises_parse] raisesD)
qed

section \<open>The handlers\<close>

lemma raises_resolve:
  assumes "\<And>h. h \<in> set hs \<Longrightarrow> raises_mapped h"
  shows "raises_mapped (resolve_result_or_raise_invalid_state r st hs)"
proof -
  have "\<forall>h \<in> set hs. raises_mapped h \<Longrightarrow> raises_mapped (first_result hs)"
    by (induction hs rule: first_result.induct) auto
  with assms have "raises_mapped (first_result hs)" by blast
  then show ?thesis
    by (auto simp: resolve_result_or_raise_invalid_state_def invalid_state_error_def
        split: sum.split option.split dest: raisesD)
qed

lemma raises_idempotent [raises]:
  "raises_mapped (approval_completed_idempotent_handler r approved)"
  "raises_mapped (revision_requested_idempotent_handler r approved)"
  by (auto simp: approval_completed_idempotent_handler_def revision_requested_idempotent_handler_def
      idempotent_resume_from_approval_if_completed_def idempotent_reject_if_revision_requested_def
      Let_def intro!: raises)

lemma raises_full [raises]: "raises_mapped (snd (full_approval env a n name S r))"
  by (auto simp: full_approval_def Let_def split: sum.split intro!: raises_execution
      dest: raisesD[OF _ raises_transition])

lemma raises_partial [raises]: "raises_mapped (snd (partial_approval env a n S M r))"
  by (auto simp: partial_approval_def Let_def split: prod.split)

lemma raises_resume_approval:
  "raises_mapped (snd (resume_from_approval env approved actor n name ids r))"
proof -
  have h: "raises_mapped (resolve_result_or_raise_invalid_state r P_WAITING_APPROVAL
      [approval_completed_idempotent_handler r approved])"
    by (rule raises_resolve) (auto intro: raises)
  show ?thesis
    by (auto simp: resume_from_approval_def Let_def split: sum.split option.split
        intro!: raises_full raises_partial
        dest: raisesD[OF _ h] raisesD[OF _ raises_parse] raisesD[OF _ raises_sets(3)] raises_authorize
        split: if_splits)
qed

lemma raises_reject: "raises_mapped (snd (reject_approval env rejected actor reason n ids r))"
proof -
  have h: "raises_mapped (resolve_result_or_raise_invalid_state r P_WAITING_APPROVAL
      [revision_requested_idempotent_handler r rejected])"
    by (rule raises_resolve) (auto intro: raises)
  show ?thesis
    by (auto simp: reject_approval_def Let_def split: sum.split option.split
        dest: raisesD[OF _ h] raisesD[OF _ raises_parse] raisesD[OF _ raises_sets(1)] raises_authorize
          raisesD[OF _ raises_transition])
qed

lemma raises_resume_revision:
  "raises_mapped (snd (resume_from_revision env mode actor reason name approved r))"
proof -
  have h: "raises_mapped (resolve_result_or_raise_invalid_state r P_REVISION_REQUESTED
      [Inr (idempotent_resume_from_revision_if_ready_for_planning r mode),
       Inr (idempotent_resume_from_revision_if_completed r mode)])"
    by (rule raises_resolve) auto
  have "raises_mapped (snd (resume_revision_for_mode env a m mode name approved r'))" for a m r'
    by (auto simp: resume_revision_for_mode_def resume_revision_with_transition_def Let_def
        split: sum.split prod.split intro!: raises_execution
        dest: raisesD[OF _ raises_transition] raisesD[OF _ raises_parse])
  then show ?thesis
    by (auto simp: resume_from_revision_def Let_def split: sum.split option.split dest: raisesD[OF _ h])
qed

lemma raises_replanning:
  "raises_mapped (snd (start_replanning env actor n name approved reset r))"
proof -
  have h: "raises_mapped (resolve_result_or_raise_invalid_state r P_READY_FOR_PLANNING
      [Inr (idempotent_start_replanning_if_completed r)])"
    by (rule raises_resolve) auto
  show ?thesis
    by (auto simp: start_replanning_def Let_def split: sum.split option.split intro!: raises_execution
        dest: raisesD[OF _ h] raisesD[OF _ raises_transition] raisesD[OF _ raises_parse])
qed

section \<open>The service and the routes\<close>

lemma raises_map_result [simp]: "raises_mapped (snd (map_result f x)) \<longleftrightarrow> raises_mapped (snd x)"
  by (cases "(f, x)" rule: map_result.cases) auto

lemma raises_commit: "raises_mapped (snd out) \<Longrightarrow> raises_mapped (snd (commit memory_save out s))"
  by (cases out) (auto simp: commit_def memory_save_def split: option.split)

lemma raises_with_record:
  "(\<And>r. raises_mapped (snd (handler r))) \<Longrightarrow>
     raises_mapped (snd (with_record memory_get memory_save pid handler s))"
  by (auto simp: with_record_def get_record_or_raise_def split: option.split intro: raises_commit)

lemma raises_if_any:
  "(\<And>r. raises_mapped (snd (handler r))) \<Longrightarrow>
     raises_mapped (snd (with_record_if_any memory_get memory_save pid handler s))"
  by (auto simp: with_record_if_any_def get_record_or_raise_def split: option.split intro: raises_commit)

lemma raises_serve: "raises_mapped (snd (serve memory_get memory_save env q s))"
  by (cases q)
     (auto intro!: raises_with_record raises_if_any raises_commit raises_run raises_resume_approval
       raises_reject raises_resume_revision raises_replanning
       simp: get_project_audit_def record_authentication_success_def
         record_authentication_failure_def Let_def)

lemma api_no_500:
  assumes "snd (api_serve memory_get memory_save env env' auth c s) = Inl (Http_error code e)"
  shows "code \<in> {401, 403, 404, 409, 422}"
proof -
  have m: "code \<in> {401, 403, 404, 409, 422}"
    if "raise_route_http_error (OrchestratorError x) = Http_error code e" "mapped x" for x
    using that by (cases x) (auto simp: raise_route_http_error_def)
  have a: "raises_mapped (snd out) \<Longrightarrow> snd (answer out) = Inl (Http_error code e) \<Longrightarrow>
      code \<in> {401, 403, 404, 409, 422}" for out :: "memory \<times> (orch_error + reply)"
    by (cases out; cases "snd out") (auto dest: m)
  have p: "code \<in> {401, 403, 404, 409, 422}"
    if out: "snd (run_protected_orchestrator_action memory_get memory_save env env' auth pid header
        action s) = Inl (Http_error code e)"
    for pid header and action :: "actor_context \<Rightarrow> request"
  proof -
    define q where "q = (case resolve_actor auth header of
      Inl msg \<Rightarrow> AuthenticationFailure pid msg | Inr actor \<Rightarrow> AuthenticationSuccess pid actor)"
    obtain s' res where q: "serve memory_get memory_save env q s = (s', res)"
      by (cases "serve memory_get memory_save env q s")
    then have res: "res = Inl x \<Longrightarrow> mapped x" for x
      using raises_serve[of env q s] by simp
    show ?thesis
    proof (cases res)
      case (Inl x)
      then show ?thesis
        using out q m[of x] res by (cases "resolve_actor auth header")
          (auto simp: run_protected_orchestrator_action_def q_def simp del: serve.simps)
    next
      case (Inr y)
      then show ?thesis
        using out q a[OF raises_serve] by (cases "resolve_actor auth header")
          (auto simp: run_protected_orchestrator_action_def q_def raise_route_http_error_def
            simp del: serve.simps)
    qed
  qed
  show ?thesis
    using assms a[OF raises_serve] by (cases c)
      (auto simp: api_serve_def simp del: serve.simps split: if_splits dest: p)
qed

end
