(* ===== verification/App.thy ===== *)
theory App
  imports Auth Bindings
begin

text \<open>
  The application (\<open>app/api/main.py\<close>, \<open>app/api/dependencies.py\<close>): how \<open>create_app\<close> binds the
  orchestrator and the authentication service, and what the dependency of the protected routes
  resolves to. The two services use attributes of their own, so the app is a pair of attribute
  records. The two \<open>lru_cache\<close>s hold at most one service each; the environment is the
  argument \<open>getenv\<close> at the time of the call.
\<close>

section \<open>The caches\<close>

record auth_caches =
  service_cache :: "auth_service option"
  dependency_cache :: "auth_service option"

definition get_auth_service_cached ::
  "(string \<Rightarrow> string option) \<Rightarrow> auth_caches \<Rightarrow> auth_service \<times> auth_caches" where
  "get_auth_service_cached getenv c =
     (case service_cache c of
        Some s \<Rightarrow> (s, c)
      | None \<Rightarrow> (let s = get_auth_service getenv in (s, c\<lparr>service_cache := Some s\<rparr>)))"

definition get_cached_auth_service_dependency ::
  "(string \<Rightarrow> string option) \<Rightarrow> auth_caches \<Rightarrow> auth_service \<times> auth_caches" where
  "get_cached_auth_service_dependency getenv c =
     (case dependency_cache c of
        Some s \<Rightarrow> (s, c)
      | None \<Rightarrow>
          (let (s, c1) = get_auth_service_cached getenv c in (s, c1\<lparr>dependency_cache := Some s\<rparr>)))"

definition clear_auth_service_dependency_caches :: "auth_caches \<Rightarrow> auth_caches" where
  "clear_auth_service_dependency_caches c = c\<lparr>dependency_cache := None, service_cache := None\<rparr>"

text \<open>The resolver of the fallback runs only when no attribute is bound.\<close>

definition get_auth_service_dependency ::
  "(string \<Rightarrow> string option) \<Rightarrow> auth_service app_attrs option \<Rightarrow> auth_caches \<Rightarrow>
   auth_service \<times> auth_service app_attrs option \<times> auth_caches" where
  "get_auth_service_dependency getenv app c =
     (let (fallback, c1) = get_cached_auth_service_dependency getenv c;
          (s, app') = resolve_auth_service_binding fallback app;
          unbound = (\<forall>b \<in> set (binding_candidates AUTH_BINDING_SPEC app). b = None)
      in (s, app', if unbound then c1 else c))"

section \<open>The application\<close>

record 'o application =
  auth_attrs :: "auth_service app_attrs"
  orchestrator_attrs :: "'o app_attrs"

definition fresh_attrs :: "'b app_attrs" where
  "fresh_attrs = \<lparr>app_initial = None, app_bootstrap = None,
     app_state = Some \<lparr>state_binding = None, state_initial = None, state_bootstrap = None\<rparr>\<rparr>"

definition create_app ::
  "(string \<Rightarrow> string option) \<Rightarrow> 'o \<Rightarrow> auth_caches \<Rightarrow> 'o application \<times> auth_caches" where
  "create_app getenv runtime_orchestrator c =
     (let (auth, c1) = get_auth_service_cached getenv (clear_auth_service_dependency_caches c)
      in (\<lparr>auth_attrs = the (bind_auth_service_binding auth (Some fresh_attrs)),
           orchestrator_attrs =
             the (bind_orchestrator_binding runtime_orchestrator (Some fresh_attrs))\<rparr>, c1))"

section \<open>Facts\<close>

lemma bind_Some: "Some (the (bind_app_scoped_binding spec b (Some a))) = bind_app_scoped_binding spec b (Some a)"
  by (simp add: bind_app_scoped_binding_def)

lemma create_app_attrs:
  assumes "create_app getenv orch c = (app, c')"
  shows "Some (auth_attrs app) =
      bind_app_scoped_binding AUTH_BINDING_SPEC (get_auth_service getenv) (Some fresh_attrs)"
    and "Some (orchestrator_attrs app) =
      bind_app_scoped_binding ORCHESTRATOR_BINDING_SPEC orch (Some fresh_attrs)"
proof -
  have app: "app = fst (create_app getenv orch c)" using assms by simp
  show "Some (auth_attrs app) =
      bind_app_scoped_binding AUTH_BINDING_SPEC (get_auth_service getenv) (Some fresh_attrs)"
    "Some (orchestrator_attrs app) =
      bind_app_scoped_binding ORCHESTRATOR_BINDING_SPEC orch (Some fresh_attrs)"
    by (simp_all add: app create_app_def get_auth_service_cached_def bind_Some Let_def
        clear_auth_service_dependency_caches_def bind_auth_service_binding_def
        bind_orchestrator_binding_def)
qed

text \<open>
  Whatever the environment says later and whatever the caches hold, a request finds the two
  services that the app was created with, and leaves the app and the caches as they are.
\<close>

lemma created_app_resolves:
  assumes "create_app getenv orch c = (app, c')"
  shows "get_auth_service_dependency getenv' (Some (auth_attrs app)) c'' =
      (get_auth_service getenv, Some (auth_attrs app), c'')"
    and "resolve_orchestrator_binding fallback (Some (orchestrator_attrs app)) =
      (orch, Some (orchestrator_attrs app))"
proof -
  note attrs = create_app_attrs[OF assms]
  have "state_attr state_binding (Some (auth_attrs app)) = Some (get_auth_service getenv)"
    unfolding attrs(1) by (simp add: bind_app_scoped_binding_def state_attr_def fresh_attrs_def)
  then have "\<not> (\<forall>b \<in> set (binding_candidates AUTH_BINDING_SPEC (Some (auth_attrs app))). b = None)"
    by (simp add: binding_candidates_def)
  moreover have "resolve_auth_service_binding f (Some (auth_attrs app)) =
      (get_auth_service getenv, Some (auth_attrs app))" for f
    unfolding attrs(1) resolve_auth_service_binding_def by (rule resolve_after_bind) simp
  ultimately show "get_auth_service_dependency getenv' (Some (auth_attrs app)) c'' =
      (get_auth_service getenv, Some (auth_attrs app), c'')"
    by (simp only: get_auth_service_dependency_def Let_def case_prod_beta fst_conv snd_conv if_False)
  show "resolve_orchestrator_binding fallback (Some (orchestrator_attrs app)) =
      (orch, Some (orchestrator_attrs app))"
    unfolding attrs(2) resolve_orchestrator_binding_def by (rule resolve_after_bind) simp
qed

end
