(* ===== verification/Regex_Lang.thy ===== *)
theory Regex_Lang
  imports Regex
begin

text \<open>
  What the matcher of \<open>Regex\<close> accepts: the language of a pattern as an inductive relation, and
  the two halves of its correctness for patterns without groups and end-of-text tests: a result
  comes from a prefix in the language, and a prefix in the language whose rest the continuation
  accepts gives a result. From them, how a labelled field of the intake is found.
\<close>

section \<open>The language of a pattern\<close>

fun plain :: "re \<Rightarrow> bool" where
  "plain Eps = True"
| "plain (Cls P) = True"
| "plain Eos = False"
| "plain (Seq a b) = (plain a \<and> plain b)"
| "plain (Alt a b) = (plain a \<and> plain b)"
| "plain (Star a) = plain a"
| "plain (Grp n a) = False"

inductive lang :: "re \<Rightarrow> string \<Rightarrow> bool" where
  eps: "lang Eps []"
| cls: "P c \<Longrightarrow> lang (Cls P) [c]"
| seq: "lang a p \<Longrightarrow> lang b q \<Longrightarrow> lang (Seq a b) (p @ q)"
| left: "lang a p \<Longrightarrow> lang (Alt a b) p"
| right: "lang b p \<Longrightarrow> lang (Alt a b) p"
| star_done: "lang (Star a) []"
| star_more: "lang a p \<Longrightarrow> p \<noteq> [] \<Longrightarrow> lang (Star a) q \<Longrightarrow> lang (Star a) (p @ q)"

inductive_cases lang_StarE: "lang (Star a) s"

inductive_simps lang_simps: "lang Eps s" "lang (Cls P) s" "lang (Seq a b) s" "lang (Alt a b) s"

lemma lang_Star_Cls: "lang (Star (Cls P)) s \<longleftrightarrow> (\<forall>c \<in> set s. P c)"
proof
  assume "lang (Star (Cls P)) s"
  then show "\<forall>c \<in> set s. P c"
    by (induction "Star (Cls P)" s rule: lang.induct) (auto simp: lang_simps)
next
  assume "\<forall>c \<in> set s. P c"
  then show "lang (Star (Cls P)) s"
  proof (induction s)
    case (Cons c s)
    then have "lang (Star (Cls P)) ([c] @ s)" by (intro lang.star_more lang.cls) auto
    then show ?case by simp
  qed (rule lang.star_done)
qed

lemma lang_Seq_Cls: "lang (Seq (Cls P) b) s \<longleftrightarrow> (\<exists>c t. s = c # t \<and> P c \<and> lang b t)"
proof
  assume "\<exists>c t. s = c # t \<and> P c \<and> lang b t"
  then obtain c t where "s = [c] @ t" "P c" "lang b t" by auto
  then show "lang (Seq (Cls P) b) s" by (simp only: lang.seq lang.cls)
qed (auto simp: lang_simps(2,3))

lemma lang_Lit: "lang (Lit cs) s \<longleftrightarrow> py_lower s = cs"
proof (induction cs arbitrary: s)
  case (Cons c cs)
  then show ?case by (auto simp: lang_Seq_Cls py_lower_def)
qed (auto simp: lang_simps py_lower_def)

section \<open>The matcher is correct\<close>

lemma re_run_sound:
  "plain r \<Longrightarrow> re_run r s caps k = Some x \<Longrightarrow>
     \<exists>p s'. s = p @ s' \<and> lang r p \<and> k s' caps = Some x"
proof (induction r arbitrary: s k)
  case (Cls P)
  then obtain c t where "s = [c] @ t" "P c" "k t caps = Some x"
    by (cases s) (auto split: if_splits)
  then show ?case by (blast intro: lang.cls)
next
  case (Seq a b)
  from Seq.IH(1)[of s "\<lambda>s' caps'. re_run b s' caps' k"] Seq.prems obtain p s'
    where p: "s = p @ s'" "lang a p" "re_run b s' caps k = Some x" by auto
  from Seq.IH(2)[OF _ p(3)] Seq.prems obtain q t
    where q: "s' = q @ t" "lang b q" "k t caps = Some x" by auto
  from p q show ?case by (intro exI[of _ "p @ q"] exI[of _ t]) (auto intro: lang.seq)
next
  case (Alt a b)
  show ?case
  proof (cases "re_run a s caps k")
    case None
    with Alt.prems Alt.IH(2)[of s k] show ?thesis by (auto intro: lang.right)
  next
    case (Some y)
    with Alt.prems Alt.IH(1)[of s k] show ?thesis by (auto intro: lang.left)
  qed
next
  case (Star a)
  from Star.prems show ?case
  proof (induction s rule: length_induct)
    case (1 s)
    let ?k = "\<lambda>s' caps'. if length s' < length s then re_run (Star a) s' caps' k else None"
    show ?case
    proof (cases "re_run a s caps ?k")
      case None
      with "1.prems" show ?thesis by (intro exI[of _ "[]"] exI[of _ s]) (simp add: lang.star_done)
    next
      case (Some y)
      with Star.IH[of s ?k] "1.prems" obtain p s' where
        p: "s = p @ s'" "lang a p" "length s' < length s" "re_run (Star a) s' caps k = Some x"
        by (auto split: if_splits)
      from "1.IH" p(3,4) "1.prems"(1) obtain q t where
        q: "s' = q @ t" "lang (Star a) q" "k t caps = Some x" by blast
      have "lang (Star a) (p @ q)" using p q by (intro lang.star_more) auto
      with p(1) q show ?thesis by (intro exI[of _ "p @ q"] exI[of _ t]) auto
    qed
  qed
qed (auto intro: lang.eps)

lemma re_run_complete:
  "lang r p \<Longrightarrow> plain r \<Longrightarrow> k s' caps \<noteq> None \<Longrightarrow> re_run r (p @ s') caps k \<noteq> None"
proof (induction r p arbitrary: s' k rule: lang.induct)
  case (seq a p b q)
  then have "re_run b (q @ s') caps k \<noteq> None" by simp
  with seq.IH(1)[of "\<lambda>s' caps'. re_run b s' caps' k" "q @ s'"] seq.prems show ?case by simp
next
  case (left a p b)
  then have "re_run a (p @ s') caps k \<noteq> None" by simp
  then show ?case by (auto split: option.split)
next
  case (right b p a)
  then have "re_run b (p @ s') caps k \<noteq> None" by simp
  then show ?case by (auto split: option.split)
next
  case (star_done a)
  then show ?case by (auto split: option.split)
next
  case (star_more a p q)
  let ?k = "\<lambda>t caps'. if length t < length ((p @ q) @ s') then re_run (Star a) t caps' k else None"
  have "re_run (Star a) (q @ s') caps k \<noteq> None" using star_more by simp
  then have "?k (q @ s') caps \<noteq> None" using star_more.hyps(2) by simp
  from star_more.IH(1)[of ?k, OF _ this] star_more.prems(1)
  have "re_run a ((p @ q) @ s') caps ?k \<noteq> None" by simp
  then show ?case by (auto split: option.split)
qed auto

section \<open>Labelled fields\<close>

text \<open>A header, spaces, a colon, and a pattern for what follows.\<close>

definition after_header :: "re \<Rightarrow> re" where
  "after_header K = Seq (Star Space) (Seq (Char_re (CHR '':'')) K)"

definition field_re :: "re \<Rightarrow> re \<Rightarrow> re" where
  "field_re header K = Seq header (after_header K)"

definition header_ok :: "re \<Rightarrow> bool" where
  "header_ok header \<longleftrightarrow> plain header \<and> (\<forall>p. lang header p \<longrightarrow> CHR '':'' \<notin> set p)"

text \<open>The spaces before the colon leave the matcher no choice.\<close>

lemma re_run_Colon:
  "re_run (Seq (Char_re (CHR '':'')) K) s caps k =
     (case s of [] \<Rightarrow> None | c # rest \<Rightarrow> if c = CHR '':'' then re_run K rest caps k else None)"
  by (cases s) (simp_all add: Char_re_def)

lemma colon_no_space: "\<not> py_isspace (CHR '':'')"
  by (simp add: py_isspace_def)

lemma re_run_colon:
  "re_run (after_header K) s caps k =
     (case dropWhile py_isspace s of
        [] \<Rightarrow> None
      | c # rest \<Rightarrow> if c = CHR '':'' then re_run K rest caps k else None)"
proof -
  have *: "first_some (\<lambda>t. re_run (Seq (Char_re (CHR '':'')) K) t caps k) py_isspace s =
      re_run (Seq (Char_re (CHR '':'')) K) (dropWhile py_isspace s) caps k"
  proof (induction s)
    case (Cons d s)
    show ?case
    proof (cases "py_isspace d")
      case True
      then have "d \<noteq> CHR '':''" using colon_no_space by auto
      with True Cons show ?thesis by (simp add: re_run_Colon del: re_run.simps split: option.split)
    qed (simp del: re_run.simps)
  qed (simp del: re_run.simps)
  show ?thesis
    unfolding after_header_def Space_def
    by (subst re_run.simps(5)) (simp only: re_run_Star_Cls re_run_Colon *[unfolded re_run_Colon])
qed

text \<open>On a text up to its first colon, the header must take all of it but trailing spaces.\<close>

definition header_hit :: "re \<Rightarrow> string \<Rightarrow> bool" where
  "header_hit header u \<longleftrightarrow>
     (\<exists>p sp. u = p @ sp \<and> lang header p \<and> (\<forall>c \<in> set sp. py_isspace c))"

lemma dropWhile_colon:
  assumes "CHR '':'' \<notin> set u"
  shows "dropWhile py_isspace (u @ CHR '':'' # rest) = CHR '':'' # t \<longleftrightarrow>
     (\<forall>c \<in> set u. py_isspace c) \<and> t = rest"
  using assms by (induction u) (auto simp: py_isspace_def)

lemma field_re_run:
  assumes h: "header_ok header" and u: "CHR '':'' \<notin> set u"
  shows "re_run (field_re header K) (u @ CHR '':'' # rest) caps k =
     (if header_hit header u then re_run K rest caps k else None)"
proof -
  let ?s = "u @ CHR '':'' # rest"
  let ?C = "after_header K"
  have sound: "header_hit header u \<and> re_run K rest caps k = Some x"
    if run: "re_run (field_re header K) ?s caps k = Some x" for x
  proof -
    obtain p s' where p: "?s = p @ s'" "lang header p" "re_run ?C s' caps k = Some x"
      using re_run_sound[of header ?s caps "\<lambda>s' caps'. re_run ?C s' caps' k" x] h run
      by (auto simp: field_re_def header_ok_def)
    have "CHR '':'' \<notin> set p" using h p(2) by (simp add: header_ok_def)
    with p(1) obtain u' where u': "u = p @ u'" "s' = u' @ CHR '':'' # rest"
      by (auto simp: append_eq_append_conv2 Cons_eq_append_conv)
    from p(3) obtain t where "dropWhile py_isspace s' = CHR '':'' # t" "re_run K t caps k = Some x"
      by (auto simp: re_run_colon split: list.splits if_splits)
    with u u' p(2) show ?thesis by (auto simp: dropWhile_colon header_hit_def)
  qed
  have complete: "re_run (field_re header K) ?s caps k \<noteq> None"
    if hit: "header_hit header u" and K: "re_run K rest caps k \<noteq> None"
  proof -
    obtain p sp where p: "u = p @ sp" "lang header p" "\<forall>c \<in> set sp. py_isspace c"
      using hit by (auto simp: header_hit_def)
    have "dropWhile py_isspace (sp @ CHR '':'' # rest) = CHR '':'' # rest"
      using p(3) by (simp add: py_isspace_def)
    then have "re_run ?C (sp @ CHR '':'' # rest) caps k \<noteq> None" using K by (simp add: re_run_colon)
    from re_run_complete[OF p(2), of "\<lambda>s' caps'. re_run ?C s' caps' k", OF _ this] h
    show ?thesis by (simp add: field_re_def header_ok_def p(1))
  qed
  show ?thesis
    using sound complete
    by (cases "re_run (field_re header K) ?s caps k"; cases "re_run K rest caps k") auto
qed

lemma field_re_no_colon:
  assumes h: "header_ok header" and u: "CHR '':'' \<notin> set u"
  shows "re_run (field_re header K) u caps k = None"
proof (cases "re_run (field_re header K) u caps k")
  case (Some x)
  then obtain p s' where "u = p @ s'"
    "re_run (after_header K) s' caps k = Some x"
    using re_run_sound[of header u caps
        "\<lambda>s' caps'. re_run (after_header K) s' caps' k" x] h
    by (auto simp: field_re_def header_ok_def)
  moreover from this(2) have "CHR '':'' \<in> set (dropWhile py_isspace s')"
    by (auto simp: re_run_colon split: list.splits if_splits)
  ultimately show ?thesis using u by (auto dest: set_dropWhileD)
qed

section \<open>The value of a field\<close>

text \<open>A line: the group takes all of it.\<close>

lemma line_group:
  "re_run (Grp n (Plus NotLF)) s caps (\<lambda>s' caps. Some (s', caps)) =
     (if s = [] \<or> hd s = LF then None
      else Some (dropWhile (\<lambda>c. c \<noteq> LF) s, (n, takeWhile (\<lambda>c. c \<noteq> LF) s) # caps))"
proof (cases s)
  case (Cons c t)
  define a where "a = takeWhile (\<lambda>c. c \<noteq> LF) t"
  define b where "b = dropWhile (\<lambda>c. c \<noteq> LF) t"
  have s: "s = (c # a) @ b" by (simp add: Cons a_def b_def)
  let ?k = "\<lambda>s'. Some (s', (n, take (length s - length s') s) # caps)"
  have "first_some ?k (\<lambda>c. c \<noteq> LF) t = ?k b"
    unfolding b_def by (rule first_some_longest) (rule refl)
  moreover have "take (length s - length b) s = c # a" by (simp add: s)
  ultimately have "first_some ?k (\<lambda>c. c \<noteq> LF) t = Some (b, (n, c # a) # caps)" by (simp only:)
  then show ?thesis
    by (simp add: Cons Plus_def NotLF_def re_run_Star_Cls a_def b_def del: re_run.simps(7))
qed (simp add: Plus_def NotLF_def)

text \<open>Spaces and then a line, on a text that goes on after the spaces.\<close>

lemma spaced_line:
  assumes "dropWhile P s \<noteq> []" "hd (dropWhile P s) \<noteq> LF"
  shows "re_run (Seq (Star (Cls P)) (Grp n (Plus NotLF))) s caps (\<lambda>s' caps. Some (s', caps)) =
    Some (dropWhile (\<lambda>c. c \<noteq> LF) (dropWhile P s),
      (n, takeWhile (\<lambda>c. c \<noteq> LF) (dropWhile P s)) # caps)"
  by (subst re_run.simps(5), subst re_run_Star_Cls, rule first_some_longest)
    (simp only: line_group assms if_False disj_not1 simp_thms)

end
