(* ===== verification/Intake_Facts.thy ===== *)
theory Intake_Facts
  imports Intake Regex_Lang "HOL-Library.Sublist"
begin

text \<open>
  What the intake guarantees: its lists are clean, its questions are those of the first three
  missing fields, and a brief that is written out with the labels of the form is read back as
  it was.
\<close>

section \<open>Clean lists and bounded questions\<close>

definition clean_list :: "string list \<Rightarrow> bool" where
  "clean_list xs \<longleftrightarrow> distinct xs \<and> (\<forall>v \<in> set xs. v \<noteq> '''' \<and> py_strip v = v)"

lemma clean_split: "clean_list (split_list_values raw)"
  by (auto simp: clean_list_def split_list_values_def distinct_unique_loop set_unique_loop)

lemma clean_extract: "clean_list (extract_list_field text field)"
proof -
  have e: "clean_list []" by (simp add: clean_list_def)
  have "clean_list (extract_inline_list_values text field)"
    by (auto simp: extract_inline_list_values_def e clean_split split: option.split)
  moreover have "clean_list (extract_multiline_list_values text field)"
    by (auto simp: extract_multiline_list_values_def e split: option.split)
      (auto simp: clean_list_def distinct_unique_loop set_unique_loop)
  ultimately show ?thesis by (simp add: extract_list_field_def Let_def)
qed

lemma missing_fields_known:
  "set (missing_fields_of b) \<subseteq> set (map fst FIELD_QUESTIONS)" "distinct (missing_fields_of b)"
  "length (missing_fields_of b) \<le> 4"
  by (auto simp: missing_fields_of_def FIELD_QUESTIONS_def)

lemma questions_known:
  assumes "set fs \<subseteq> set (map fst FIELD_QUESTIONS)"
  shows "set (map (\<lambda>f. the (map_of FIELD_QUESTIONS f)) fs) \<subseteq> snd ` set FIELD_QUESTIONS"
proof -
  have *: "the (map_of m f) \<in> snd ` set m" if "f \<in> fst ` set m" for m :: "(string \<times> string) list" and f
    using that by (induction m) auto
  show ?thesis
    using assms by (simp only: set_map image_subset_iff) (blast intro: *)
qed

section \<open>Searching for a labelled field\<close>

lemma re_search_here: "re_match r s = Some (t, caps) \<Longrightarrow> re_search r s = Some caps"
  by (cases s) auto

lemma re_search_skip:
  "(\<And>i. i < length u \<Longrightarrow> re_match r (drop i u @ s) = None) \<Longrightarrow> re_search r (u @ s) = re_search r s"
proof (induction u)
  case (Cons c u)
  have "re_match r (c # u @ s) = None" using Cons.prems[of 0] by simp
  moreover have "re_match r (drop i u @ s) = None" if "i < length u" for i
    using Cons.prems[of "Suc i"] that by simp
  ultimately show ?case using Cons.IH by simp
qed simp

lemma field_search_no_colon:
  assumes "header_ok h" "CHR '':'' \<notin> set u"
  shows "re_search (field_re h K) u = None"
proof -
  have "CHR '':'' \<notin> set (drop i u)" for i using assms(2) by (auto dest: in_set_dropD)
  then show ?thesis by (simp add: re_search_None re_match_def field_re_no_colon[OF assms(1)])
qed

text \<open>The labels of the form, and when a header finds only the one that is its own.\<close>

definition labels :: "string list" where
  "labels = [''Title'', ''Scope'', ''Constraints'', ''Success criteria'', ''Deadline'', ''Stakeholders'']"

definition separates :: "re \<Rightarrow> string \<Rightarrow> bool" where
  "separates h own \<longleftrightarrow> header_ok h \<and>
     (\<forall>l \<in> set labels. \<forall>w u. (w = [] \<or> last w = LF) \<and> suffix u (w @ l) \<longrightarrow>
        header_hit h u = (u = l \<and> l = own))"

lemma label_facts:
  assumes "l \<in> set labels"
  shows "l \<noteq> []" "\<not> py_isspace (hd l)" "\<not> py_isspace (last l)" "CHR '':'' \<notin> set l" "LF \<notin> set l"
    "CR \<notin> set l" "CHR 0x60 \<notin> set l"
  using assms by (auto simp: labels_def py_isspace_def LF_def CR_def)

definition field_text :: "string \<times> string \<Rightarrow> string" where
  "field_text e = fst e @ '': '' @ snd e"

definition render_fields :: "(string \<times> string) list \<Rightarrow> string" where
  "render_fields fs = py_join [LF] (map field_text fs)"

text \<open>A value that a line can carry.\<close>

definition line_value :: "string \<Rightarrow> bool" where
  "line_value v \<longleftrightarrow> v \<noteq> '''' \<and> py_strip v = v \<and> CHR '':'' \<notin> set v \<and> LF \<notin> set v \<and>
     CR \<notin> set v \<and> CHR 0x60 \<notin> set v"

definition line_rest :: "(string \<times> string) list \<Rightarrow> string" where
  "line_rest fs = (if fs = [] then [] else LF # render_fields fs)"

lemma render_Cons: "render_fields ((l, v) # fs) = l @ CHR '':'' # CHR '' '' # v @ line_rest fs"
  by (cases fs) (simp_all add: render_fields_def field_text_def line_rest_def)

lemma search_labelled:
  assumes sep: "separates h own" and w: "w = [] \<or> last w = LF" "CHR '':'' \<notin> set w"
    and fs: "\<And>l v. (l, v) \<in> set fs \<Longrightarrow> l \<in> set labels \<and> line_value v"
  shows "map_of fs own = None \<Longrightarrow> re_search (field_re h K) (w @ render_fields fs) = None"
    and "map_of fs own = Some v \<Longrightarrow>
      (\<And>t. t = [] \<or> hd t = LF \<Longrightarrow> re_match K (CHR '' '' # v @ t) = Some (t, caps)) \<Longrightarrow>
      re_search (field_re h K) (w @ render_fields fs) = Some caps"
  using w fs
proof (induction fs arbitrary: w)
  case Nil
  note ok = sep[unfolded separates_def, THEN conjunct1]
  { case 1 then show ?case by (simp add: render_fields_def field_search_no_colon[OF ok]) }
  { case 2 then show ?case by simp }
next
  case (Cons e fs)
  obtain l u where e: "e = (l, u)" by (cases e)
  note ok = sep[unfolded separates_def, THEN conjunct1]
  let ?r = "field_re h K" and ?rest = "CHR '' '' # u @ line_rest fs"
  have prefix: "re_match ?r (drop i (w @ l) @ CHR '':'' # t) =
      (if drop i (w @ l) = l \<and> l = own then re_match K t else None)"
    if "w = [] \<or> last w = LF" "CHR '':'' \<notin> set w" "l \<in> set labels" for i t w
  proof -
    have "CHR '':'' \<notin> set (drop i (w @ l))"
      using that label_facts(4)[of l] by (auto simp del: drop_append dest: in_set_dropD)
    moreover have "header_hit h (drop i (w @ l)) = (drop i (w @ l) = l \<and> l = own)"
      using sep[unfolded separates_def, THEN conjunct2, rule_format, OF that(3), of w "drop i (w @ l)"]
        that(1) suffix_drop by blast
    ultimately show ?thesis
      using field_re_run[OF ok, of "drop i (w @ l)" K t "[]" "\<lambda>s' caps. Some (s', caps)"]
      by (simp only: re_match_def simp_thms)
  qed
  have other: "re_search ?r (w @ render_fields (e # fs)) =
      (if fs = [] then None else re_search ?r ((CHR '' '' # u @ [LF]) @ render_fields fs))"
    if "l \<noteq> own" and w: "w = [] \<or> last w = LF" "CHR '':'' \<notin> set w" and l: "l \<in> set labels" "line_value u"
    for w
  proof -
    have "re_match ?r (drop i ((w @ l) @ [CHR '':'']) @ ?rest) = None"
      if "i < length ((w @ l) @ [CHR '':''])" for i
      using prefix[OF w l(1), of i ?rest] \<open>l \<noteq> own\<close> that by simp
    from re_search_skip[of "(w @ l) @ [CHR '':'']" ?r ?rest, OF this]
    have "re_search ?r (w @ render_fields (e # fs)) = re_search ?r ?rest"
      by (simp add: e render_Cons)
    also have "\<dots> = (if fs = [] then None
        else re_search ?r ((CHR '' '' # u @ [LF]) @ render_fields fs))"
      using l(2) field_search_no_colon[OF ok, of "CHR '' '' # u" K]
      by (cases "fs = []") (simp_all add: line_rest_def line_value_def del: re_search.simps)
    finally show ?thesis .
  qed
  have w': "last (CHR '' '' # u @ [LF]) = LF" "line_value u \<Longrightarrow> CHR '':'' \<notin> set (CHR '' '' # u @ [LF])"
    by (simp_all add: line_value_def LF_def)
  {
    case 1
    then have l: "l \<noteq> own" "l \<in> set labels" "line_value u" "map_of fs own = None"
      by (auto simp: e split: if_splits)
    have "re_search ?r ((CHR '' '' # u @ [LF]) @ render_fields fs) = None"
      by (rule Cons.IH(1)[OF l(4) disjI2[OF w'(1)] w'(2)[OF l(3)]]) (rule 1(4), simp)
    then show ?case using other[OF l(1) 1(2,3) l(2,3)] by simp
  next
    case 2
    then have l: "l \<in> set labels" "line_value u" by (auto simp: e)
    show ?case
    proof (cases "l = own")
      case False
      with 2 have v: "fs \<noteq> []" "map_of fs own = Some v" by (auto simp: e)
      have "re_search ?r ((CHR '' '' # u @ [LF]) @ render_fields fs) = Some caps"
        by (rule Cons.IH(2)[OF v(2) 2(2) disjI2[OF w'(1)] w'(2)[OF l(2)]]) (assumption, rule 2(5), simp)
      then show ?thesis using other[OF False 2(3,4) l] v(1) by simp
    next
      case True
      with 2 have v: "u = v" by (simp add: e)
      have "re_match ?r (drop i w @ l @ CHR '':'' # ?rest) = None" if "i < length w" for i
        using prefix[of w i ?rest] 2 l that by (auto simp: drop_append)
      from re_search_skip[of w ?r, OF this]
      have "re_search ?r (w @ render_fields (e # fs)) = re_search ?r (l @ CHR '':'' # ?rest)"
        by (simp add: e render_Cons)
      moreover have "re_match ?r (l @ CHR '':'' # ?rest) = re_match K ?rest"
        using prefix[of "[]" 0 ?rest] l True by simp
      moreover have "re_match K ?rest = Some (line_rest fs, caps)"
        using 2(2)[of "line_rest fs"] by (simp add: v line_rest_def)
      ultimately show ?thesis using re_search_here by simp
    qed
  }
qed

section \<open>The headers of the form\<close>

lemma lower_LF: "py_lower_char LF = LF"
  by (simp add: py_lower_char_def LF_def)

lemma lower_colon: "CHR '':'' \<in> set s \<Longrightarrow> CHR '':'' \<in> set (py_lower s)"
proof -
  have "py_lower_char (CHR '':'') = CHR '':''" by (simp add: py_lower_char_def)
  then show "CHR '':'' \<in> set s \<Longrightarrow> CHR '':'' \<in> set (py_lower s)"
    by (metis image_eqI list.set_map py_lower_def)
qed

lemma header_hit_label:
  assumes "l \<in> set labels" "suffix u (w @ l)" "u \<noteq> []"
  shows "header_hit h u \<longleftrightarrow> lang h u"
proof -
  have "last u = last l"
    using assms label_facts(1)[OF assms(1)] by (auto simp: suffix_def) (metis last_appendR)
  then have "\<not> py_isspace (last u)" using label_facts(3)[OF assms(1)] by simp
  then have "sp = []" if "u = p @ sp" "\<forall>c \<in> set sp. py_isspace c" for p sp
    using that by (cases sp rule: rev_cases) auto
  then show ?thesis unfolding header_hit_def by (metis append_Nil2 empty_iff list.set(1))
qed

text \<open>A header whose language is a few words, up to case.\<close>

lemma separates_words:
  assumes "plain h" and W: "\<And>p. lang h p \<longleftrightarrow> py_lower p \<in> set W"
    and clean: "\<forall>x \<in> set W. x \<noteq> [] \<and> CHR '':'' \<notin> set x \<and> LF \<notin> set x"
    and check: "\<forall>l \<in> set labels. \<forall>u \<in> set (suffixes l). py_lower u \<in> set W \<longleftrightarrow> u = l \<and> l = own"
  shows "separates h own"
  unfolding separates_def
proof (intro conjI ballI allI impI)
  show "header_ok h" using assms(1) W clean lower_colon by (auto simp: header_ok_def)
  fix l w u assume l: "l \<in> set labels" and wu: "(w = [] \<or> last w = LF) \<and> suffix u (w @ l)"
  show "header_hit h u = (u = l \<and> l = own)"
  proof (cases "u = []")
    case True
    moreover have "\<not> header_hit h []" using W[of "[]"] clean by (auto simp: header_hit_def)
    ultimately show ?thesis using label_facts(1)[OF l] by auto
  next
    case False
    have hit: "header_hit h u \<longleftrightarrow> py_lower u \<in> set W"
      using header_hit_label[OF l _ False] wu W by blast
    show ?thesis
    proof (cases "suffix u l")
      case True
      then show ?thesis using check l hit by simp
    next
      case False
      then obtain a where a: "u = a @ l" "suffix a w"
        using wu unfolding suffix_append by blast
      have ne: "a \<noteq> []" using a(1) False by (cases a) simp_all
      then have "last a = LF" using a(2) wu by (auto simp: suffix_def)
      then have "LF \<in> set u" using a(1) last_in_set[OF ne] by simp
      then have "py_lower_char LF \<in> set (py_lower u)" unfolding py_lower_def set_map by (rule imageI)
      then have "LF \<in> set (py_lower u)" by (simp only: lower_LF)
      then have "py_lower u \<notin> set W" using clean by blast
      then show ?thesis using hit False by auto
    qed
  qed
qed

text \<open>Only the suffix of a label that is as long as a word can be that word.\<close>

lemma words_check:
  assumes "\<forall>l \<in> set labels. \<forall>w \<in> set W. py_lower (drop (length l - length w) l) = w \<longrightarrow>
      l = own \<and> length w = length l"
    and "py_lower own \<in> set W"
  shows "\<forall>l \<in> set labels. \<forall>u \<in> set (suffixes l). py_lower u \<in> set W \<longleftrightarrow> u = l \<and> l = own"
proof (intro ballI iffI)
  fix l u assume l: "l \<in> set labels" and u: "u \<in> set (suffixes l)" and w: "py_lower u \<in> set W"
  obtain v where v: "l = v @ u" using u by (auto simp: suffix_def)
  have "length (py_lower u) = length u" by (simp add: py_lower_def)
  then have "py_lower (drop (length l - length (py_lower u)) l) = py_lower u" by (simp add: v)
  then have "l = own \<and> length (py_lower u) = length l" using assms(1) l w by blast
  then show "u = l \<and> l = own" using v by (auto simp: py_lower_def)
qed (use assms(2) in blast)

lemma separates_Lit:
  assumes "cs \<noteq> [] \<and> CHR '':'' \<notin> set cs \<and> LF \<notin> set cs"
    and "\<forall>l \<in> set labels. \<forall>w \<in> set [cs]. py_lower (drop (length l - length w) l) = w \<longrightarrow>
      l = own \<and> length w = length l"
    and "py_lower own \<in> set [cs]"
  shows "separates (Lit cs) own"
proof (rule separates_words[OF _ _ _ words_check[OF assms(2,3)]])
  show "plain (Lit cs)" by (induction cs) auto
qed (use assms(1) in \<open>auto simp: lang_Lit\<close>)

lemma separates_single:
  "separates (Lit ''title'') ''Title''" "separates (Lit ''scope'') ''Scope''"
  "separates (Lit ''deadline'') ''Deadline''"
  by (rule separates_Lit; code_simp)+

lemma plain_Lit [simp]: "plain (Lit cs)"
  by (induction cs) auto

lemma lang_plural:
  "lang (Seq (Lit cs) (Opt (Lit [c]))) p \<longleftrightarrow> py_lower p \<in> set [cs, cs @ [c]]"
proof
  assume "py_lower p \<in> set [cs, cs @ [c]]"
  then consider "py_lower p = cs" | q d where "p = q @ [d]" "py_lower q = cs" "py_lower [d] = [c]"
    by (auto simp: py_lower_def map_eq_append_conv map_eq_Cons_conv)
  then show "lang (Seq (Lit cs) (Opt (Lit [c]))) p"
  proof cases
    case 1
    then have "lang (Seq (Lit cs) (Opt (Lit [c]))) (p @ [])"
      unfolding Opt_def by (intro lang.seq lang.right lang.eps) (simp add: lang_Lit)
    then show ?thesis by simp
  next
    case 2
    then show ?thesis
      unfolding Opt_def 2(1) by (intro lang.seq lang.left) (simp_all only: lang_Lit)
  qed
qed (auto simp: lang_simps(3,4) Opt_def lang_Lit lang_simps(1) py_lower_def simp del: Lit.simps)

lemma separates_plural:
  "separates constraints_header ''Constraints''" "separates stakeholders_header ''Stakeholders''"
  unfolding constraints_header_def stakeholders_header_def
  by (rule separates_words[OF _ lang_plural _ words_check]; simp add: Opt_def; code_simp)+

end
