(* ===== verification/Intake_Form.thy ===== *)
theory Intake_Form
  imports Intake_Facts
begin

text \<open>
  A brief written out as a form, one labelled line per field that is there, and the intake of
  that form: every field comes back as it was written.
\<close>

section \<open>The success header\<close>

text \<open>\<open>success[\s_-]*criteria\<close> may span lines, but never from one label into the next.\<close>

definition joiner :: "char \<Rightarrow> bool" where
  "joiner c \<longleftrightarrow> py_isspace c \<or> c = CHR ''_'' \<or> c = CHR ''-''"

lemma lang_success:
  "lang success_criteria_header p \<longleftrightarrow>
     (\<exists>a m z. p = a @ m @ z \<and> py_lower a = ''success'' \<and> (\<forall>c \<in> set m. joiner c) \<and>
        py_lower z = ''criteria'')"
  unfolding success_criteria_header_def lang_simps(3) lang_Lit lang_Star_Cls joiner_def by blast

lemma success_label: "lang success_criteria_header ''Success criteria''"
proof -
  have "''Success criteria'' = ''Success'' @ '' '' @ ''criteria''" by simp
  moreover have "py_lower ''Success'' = ''success''" "py_lower ''criteria'' = ''criteria''"
    by code_simp+
  ultimately show ?thesis unfolding lang_success
    by (intro exI[of _ "''Success''"] exI[of _ "'' ''"] exI[of _ "''criteria''"])
      (simp add: joiner_def py_isspace_def)
qed

lemma lower_last: "py_lower z = cs @ [c] \<Longrightarrow> py_lower_char (last z) = c"
  by (cases z rule: rev_cases) (simp_all add: py_lower_def)

lemma success_suffix:
  assumes "lang success_criteria_header (a @ ''Success criteria'')"
  shows "a = []"
proof (rule ccontr)
  assume "a \<noteq> []"
  obtain b m z where p: "a @ ''Success criteria'' = b @ m @ z" "py_lower b = ''success''"
    "\<forall>c \<in> set m. joiner c" "py_lower z = ''criteria''"
    using assms unfolding lang_success by blast
  have len: "length b = 7" "length z = 8"
    using arg_cong[OF p(2), of length] arg_cong[OF p(4), of length] by (simp_all add: py_lower_def)
  have "(a @ ''Success '') @ ''criteria'' = (b @ m) @ z" using p(1) by simp
  then have bm: "a @ ''Success '' = b @ m" using len(2) by (subst (asm) append_eq_append_conv) simp_all
  have "length a + 8 = 7 + length m" using arg_cong[OF bm, of length] len(1) by simp
  then have i: "length m - 2 < length m" "2 \<le> length m" using \<open>a \<noteq> []\<close> by (cases a; simp)+
  have a: "\<not> length a + 6 < length b" "length a + 6 - length b = length m - 2"
    using \<open>length a + 8 = _\<close> i(2) len(1) by linarith+
  have "m ! (length m - 2) = (b @ m) ! (length a + 6)"
    unfolding nth_append if_not_P[OF a(1)] a(2) ..
  also have "\<dots> = CHR ''s''" unfolding bm[symmetric] by (simp add: nth_append)
  finally have "CHR ''s'' \<in> set m" using i(1) by (metis nth_mem)
  then show False using p(3) by (auto simp: joiner_def py_isspace_def)
qed

lemma separates_success: "separates success_criteria_header ''Success criteria''"
  unfolding separates_def
proof (intro conjI ballI allI impI)
  have "CHR '':'' \<notin> set p" if lang: "lang success_criteria_header p" for p
  proof
    assume c: "CHR '':'' \<in> set p"
    obtain a m z where p: "p = a @ m @ z" "py_lower a = ''success''" "\<forall>c \<in> set m. joiner c"
      "py_lower z = ''criteria''" using lang unfolding lang_success by blast
    have "CHR '':'' \<notin> set m" using p(3) by (auto simp: joiner_def py_isspace_def)
    with c p(1) lower_colon[of a] lower_colon[of z] show False by (auto simp: p(2,4))
  qed
  then show "header_ok success_criteria_header"
    by (simp add: header_ok_def success_criteria_header_def)
  fix l w u assume l: "l \<in> set labels" and wu: "(w = [] \<or> last w = LF) \<and> suffix u (w @ l)"
  show "header_hit success_criteria_header u = (u = l \<and> l = ''Success criteria'')"
  proof (cases "u = []")
    case True
    then show ?thesis using label_facts(1)[OF l] by (auto simp: header_hit_def lang_success)
  next
    case ne: False
    note hit = header_hit_label[OF l wu[THEN conjunct2] ne]
    show ?thesis
    proof (cases "l = ''Success criteria''")
      case True
      have "u = l" if lang: "lang success_criteria_header u"
      proof -
        obtain a m z where p: "u = a @ m @ z" "py_lower a = ''success''" "py_lower z = ''criteria''"
          using lang unfolding lang_success by blast
        have "length a = 7" "length z = 8"
          using arg_cong[OF p(2), of length] arg_cong[OF p(3), of length] by (simp_all add: py_lower_def)
        then have len: "15 \<le> length u" by (simp add: p(1))
        from wu True consider "suffix u l" | b where "u = b @ l"
          unfolding suffix_append by blast
        then show ?thesis
        proof cases
          case 1
          then obtain b where b: "''Success criteria'' = b @ u" using True by (auto simp: suffix_def)
          have "length b \<le> 1" using arg_cong[OF b, of length] len by simp
          then have "u = l \<or> u = ''uccess criteria''"
            using b True by (cases b; cases "tl b") simp_all
          moreover have "u \<noteq> ''uccess criteria''"
          proof
            assume u: "u = ''uccess criteria''"
            have "a = take 7 u" using p(1) \<open>length a = 7\<close> by simp
            then have "py_lower (take 7 ''uccess criteria'') = ''success''" using p(2) u by simp
            moreover have "py_lower (take 7 ''uccess criteria'') \<noteq> ''success''" by code_simp
            ultimately show False by simp
          qed
          ultimately show ?thesis by simp
        next
          case 2
          with lang True success_suffix show ?thesis by simp
        qed
      qed
      then show ?thesis using hit True success_label by auto
    next
      case False
      have "\<not> lang success_criteria_header u"
      proof
        assume "lang success_criteria_header u"
        then obtain a m z where u: "u = a @ m @ z" "py_lower z = ''criteria''"
          unfolding lang_success by blast
        then have "z \<noteq> []" by auto
        then have "last u = last z" using u(1) by simp
        moreover have "py_lower_char (last z) = CHR ''a''"
          by (rule lower_last[of _ "''criteri''"]) (simp add: u(2))
        moreover have "last u = last l"
          using wu ne label_facts(1)[OF l] by (auto simp: suffix_def) (metis last_appendR)
        ultimately have "py_lower_char (last l) = CHR ''a''" by simp
        with l False show False by (auto simp: labels_def py_lower_char_def)
      qed
      then show ?thesis using hit False by simp
    qed
  qed
qed

section \<open>The value of a labelled line\<close>

lemma line_value_facts:
  assumes "line_value v"
  shows "v \<noteq> []" "\<not> py_isspace (hd v)" "py_strip v = v" "LF \<notin> set v"
  using assms py_strip_hd[of v] by (auto simp: line_value_def)

lemma line_match:
  assumes v: "line_value v" and t: "t = [] \<or> hd t = LF"
    and P: "P (CHR '' '')" "\<And>c. P c \<Longrightarrow> py_isspace c"
  shows "re_match (Seq (Star (Cls P)) (Grp ''1'' (Plus NotLF))) (CHR '' '' # v @ t) =
    Some (t, [(''1'', v)])"
proof -
  note facts = line_value_facts[OF v]
  have d: "dropWhile P (CHR '' '' # v @ t) = v @ t"
    using P facts(1,2) by (cases v) auto
  have "takeWhile (\<lambda>c. c \<noteq> LF) (v @ t) = v \<and> dropWhile (\<lambda>c. c \<noteq> LF) (v @ t) = t"
    using facts(4) t by (induction v) (auto simp: neq_Nil_conv, (cases t; simp)+)
  moreover have "hd (v @ t) \<noteq> LF" using facts(1,4) by (cases v) auto
  ultimately show ?thesis
    unfolding re_match_def
    by (subst spaced_line) (use d facts(1) in simp_all)
qed

lemma value_pattern_field:
  "value_pattern h = field_re h (Seq (Star (Cls py_isspace)) (Grp ''1'' (Plus NotLF)))"
  "inline_pattern h =
     field_re h (Seq (Star (Cls (\<lambda>c. c = CHR '' '' \<or> c = CHR 0x09))) (Grp ''1'' (Plus NotLF)))"
  "\<exists>K. multiline_pattern h = field_re h K"
  by (auto simp: value_pattern_def inline_pattern_def multiline_pattern_def field_re_def
      after_header_def Space_def)

section \<open>Reading a form\<close>

text \<open>A form is a list of labelled lines, each with a label of the form and a value.\<close>

definition form_ok :: "(string \<times> string) list \<Rightarrow> bool" where
  "form_ok fs \<longleftrightarrow> (\<forall>(l, v) \<in> set fs. l \<in> set labels \<and> line_value v)"

lemma form_search:
  assumes "separates h own" "form_ok fs"
  shows "re_search (value_pattern h) (render_fields fs) = map_option (\<lambda>v. [(''1'', v)]) (map_of fs own)"
    and "re_search (inline_pattern h) (render_fields fs) = map_option (\<lambda>v. [(''1'', v)]) (map_of fs own)"
    and "map_of fs own = None \<Longrightarrow> re_search (multiline_pattern h) (render_fields fs) = None"
proof -
  have fs: "\<And>l v. (l, v) \<in> set fs \<Longrightarrow> l \<in> set labels \<and> line_value v"
    using assms(2) by (auto simp: form_ok_def)
  let ?K = "\<lambda>P. Seq (Star (Cls P)) (Grp ''1'' (Plus NotLF))"
  have none: "re_search (field_re h K) (render_fields fs) = None" if "map_of fs own = None" for K
    using search_labelled(1)[OF assms(1), of "[]" fs K] fs that by simp
  have some: "re_search (field_re h (?K P)) (render_fields fs) = Some [(''1'', v)]"
    if v: "map_of fs own = Some v" and P: "P (CHR '' '')" "\<And>c. P c \<Longrightarrow> py_isspace c" for P v
  proof -
    have "line_value v" using fs map_of_SomeD[OF v] by simp
    then have "re_match (?K P) (CHR '' '' # v @ t) = Some (t, [(''1'', v)])"
      if "t = [] \<or> hd t = LF" for t
      using that P by (rule line_match)
    from search_labelled(2)[OF assms(1), of "[]" fs v "?K P" "[(''1'', v)]", OF _ _ fs v this]
    show ?thesis by simp
  qed
  have space: "py_isspace (CHR '' '')" "\<And>c. c = CHR '' '' \<or> c = CHR 0x09 \<Longrightarrow> py_isspace c"
    by (auto simp: py_isspace_def)
  show "map_of fs own = None \<Longrightarrow> re_search (multiline_pattern h) (render_fields fs) = None"
    using none value_pattern_field(3)[of h] by auto
  show "re_search (value_pattern h) (render_fields fs) = map_option (\<lambda>v. [(''1'', v)]) (map_of fs own)"
    unfolding value_pattern_field
    by (cases "map_of fs own") (simp_all add: none some[of _ py_isspace] space)
  show "re_search (inline_pattern h) (render_fields fs) = map_option (\<lambda>v. [(''1'', v)]) (map_of fs own)"
    unfolding value_pattern_field
    by (cases "map_of fs own")
      (simp_all add: none some[of _ "\<lambda>c. c = CHR '' '' \<or> c = CHR 0x09"] space)
qed

section \<open>The form is read as it is\<close>

lemma py_replace_none: "old \<noteq> [] \<Longrightarrow> hd old \<notin> set s \<Longrightarrow> py_replace old new s = s"
  by (induction old new s rule: py_replace.induct) (auto simp: neq_Nil_conv)

lemma render_chars:
  assumes "form_ok fs" "c \<in> set (render_fields fs)"
  shows "c \<noteq> CR \<and> c \<noteq> CHR 0x60"
  using assms
proof (induction fs)
  case (Cons e fs)
  obtain l v where e: "e = (l, v)" by (cases e)
  with Cons.prems(1) have "l \<in> set labels" "line_value v" "form_ok fs" by (simp_all add: form_ok_def)
  with Cons label_facts(6,7)[of l] show ?case
    by (auto simp: e render_Cons line_rest_def line_value_def CR_def LF_def split: if_splits)
qed (simp add: render_fields_def)

lemma render_ends:
  "form_ok fs \<Longrightarrow> fs \<noteq> [] \<Longrightarrow>
    render_fields fs \<noteq> [] \<and> \<not> py_isspace (hd (render_fields fs)) \<and> \<not> py_isspace (last (render_fields fs))"
proof (induction fs)
  case (Cons e fs)
  obtain l v where e: "e = (l, v)" by (cases e)
  with Cons.prems(1) have l: "l \<in> set labels" "line_value v" "form_ok fs" by (simp_all add: form_ok_def)
  have "\<not> py_isspace (last v)"
    using l(2) py_strip_last[of v] by (simp add: line_value_def)
  with Cons l label_facts(1,2)[OF l(1)] line_value_facts(1)[OF l(2)] show ?case
    by (auto simp: e render_Cons line_rest_def)
qed simp

lemma normalize_form: "form_ok fs \<Longrightarrow> normalize_user_request (render_fields fs) = render_fields fs"
proof -
  assume ok: "form_ok fs"
  have n: "py_replace old new (render_fields fs) = render_fields fs"
    if "old \<noteq> []" "hd old = CR \<or> hd old = CHR 0x60" for old new
    using render_chars[OF ok] that by (intro py_replace_none) auto
  have "py_strip (render_fields fs) = render_fields fs"
    using render_ends[OF ok] by (intro py_strip_ends) (cases "fs = []"; auto simp: render_fields_def)
  then show ?thesis by (simp add: normalize_user_request_def n)
qed

lemma extract_value_form:
  assumes "form_ok fs"
  shows "extract_value (render_fields fs) ''title'' = map_of fs ''Title''"
    and "extract_value (render_fields fs) ''scope'' = map_of fs ''Scope''"
    and "extract_value (render_fields fs) ''deadline'' = map_of fs ''Deadline''"
proof -
  have e: "first_match [value_pattern h] (render_fields fs) = map_of fs own" if "separates h own" for h own
  proof (cases "map_of fs own")
    case (Some v)
    then have "py_strip v = v"
      using assms line_value_facts(3)[of v] map_of_SomeD[OF Some] by (auto simp: form_ok_def)
    with Some show ?thesis using form_search(1)[OF that assms] by (simp add: group_def)
  qed (use form_search(1)[OF that assms] in simp)
  show "extract_value (render_fields fs) ''title'' = map_of fs ''Title''"
    "extract_value (render_fields fs) ''scope'' = map_of fs ''Scope''"
    "extract_value (render_fields fs) ''deadline'' = map_of fs ''Deadline''"
    by (simp_all add: extract_value_def FIELD_PATTERNS_def e separates_single
        del: first_match.simps Lit.simps)
qed

text \<open>Lists are written with \<open>; \<close> between their items.\<close>

definition list_item :: "string \<Rightarrow> bool" where
  "list_item v \<longleftrightarrow> line_value v \<and> CHR '','' \<notin> set v \<and> CHR '';'' \<notin> set v"

abbreviation sep_char :: "char \<Rightarrow> bool" where
  "sep_char \<equiv> (\<lambda>c. c = CHR '','' \<or> c = CHR '';'')"

lemma strip_space: "py_strip (CHR '' '' # v) = py_strip v"
  by (simp add: py_strip_def py_lstrip_def py_isspace_def)

lemma split_items:
  "xs \<noteq> [] \<Longrightarrow> \<forall>v \<in> set xs. list_item v \<Longrightarrow> lead = [] \<or> lead = '' '' \<Longrightarrow>
   map py_strip (filter (\<lambda>v. py_strip v \<noteq> '''') (split_at sep_char (lead @ py_join ''; '' xs))) = xs"
proof (induction xs arbitrary: lead)
  case (Cons x xs)
  have x: "\<forall>c \<in> set (lead @ x). \<not> sep_char c" "py_strip (lead @ x) = x" "x \<noteq> []"
    using Cons.prems by (auto simp: list_item_def strip_space dest: line_value_facts)
  show ?case
  proof (cases xs)
    case Nil
    then show ?thesis using x split_at_clean_end[OF x(1)] by simp
  next
    case (Cons y ys)
    have "split_at sep_char (lead @ py_join ''; '' (x # xs)) =
        (lead @ x) # split_at sep_char ('' '' @ py_join ''; '' xs)"
      using split_at_clean_append[OF x(1), of "CHR '';''"] by (simp add: Cons)
    with Cons.IH[of "'' ''"] Cons.prems x show ?thesis by (simp add: Cons)
  qed
qed simp

lemma join_line_value:
  "xs \<noteq> [] \<Longrightarrow> \<forall>v \<in> set xs. list_item v \<Longrightarrow>
   py_join ''; '' xs \<noteq> [] \<and> \<not> py_isspace (hd (py_join ''; '' xs)) \<and>
   \<not> py_isspace (last (py_join ''; '' xs)) \<and>
   set (py_join ''; '' xs) \<inter> {CHR '':'', LF, CR, CHR 0x60} = {}"
proof (induction xs)
  case (Cons x xs)
  have x: "x \<noteq> []" "\<not> py_isspace (hd x)" "\<not> py_isspace (last x)"
    "set x \<inter> {CHR '':'', LF, CR, CHR 0x60} = {}"
    using Cons.prems line_value_facts(1,2)[of x] py_strip_last[of x]
    by (auto simp: list_item_def line_value_def)
  show ?case
  proof (cases xs)
    case (Cons y ys)
    with Cons.IH Cons.prems x show ?thesis by (auto simp: LF_def CR_def)
  qed (use x in simp)
qed simp

lemma join_line: "xs \<noteq> [] \<Longrightarrow> \<forall>v \<in> set xs. list_item v \<Longrightarrow> line_value (py_join ''; '' xs)"
  using join_line_value[of xs] py_strip_ends[of "py_join ''; '' xs"] by (auto simp: line_value_def)

lemma extract_list_form:
  assumes sep: "map_of LIST_FIELD_HEADERS field = Some h" "separates h own" and ok: "form_ok fs"
    and xs: "map_of fs own = (if xs = [] then None else Some (py_join ''; '' xs))"
    and items: "distinct xs" "\<forall>v \<in> set xs. list_item v"
  shows "extract_list_field (render_fields fs) field = xs"
proof (cases "xs = []")
  case True
  with xs form_search(2,3)[OF sep(2) ok] sep(1) show ?thesis
    by (simp add: extract_list_field_def extract_inline_list_values_def
        extract_multiline_list_values_def Let_def)
next
  case False
  have "py_strip (py_join ''; '' xs) = py_join ''; '' xs"
    by (rule line_value_facts(3)[OF join_line[OF False items(2)]])
  moreover have "split_list_values (py_join ''; '' xs) = xs"
    using split_items[OF False items(2), of "[]"] items(1)
    by (simp add: split_list_values_def unique_loop_distinct_id)
  ultimately have "extract_inline_list_values (render_fields fs) field = xs"
    using form_search(2)[OF sep(2) ok] xs False sep(1)
    by (simp add: extract_inline_list_values_def group_def)
  then show ?thesis using False by (simp add: extract_list_field_def Let_def)
qed

section \<open>A brief written as a form\<close>

definition value_field :: "string \<Rightarrow> string option \<Rightarrow> (string \<times> string) list" where
  "value_field l x = (case x of None \<Rightarrow> [] | Some v \<Rightarrow> [(l, v)])"

definition list_field :: "string \<Rightarrow> string list \<Rightarrow> (string \<times> string) list" where
  "list_field l xs = (if xs = [] then [] else [(l, py_join ''; '' xs)])"

definition brief_form :: "project_brief \<Rightarrow> (string \<times> string) list" where
  "brief_form b =
     value_field ''Title'' (b_title b) @ value_field ''Scope'' (b_scope b)
     @ list_field ''Constraints'' (b_constraints b)
     @ list_field ''Success criteria'' (b_success_criteria b)
     @ value_field ''Deadline'' (b_deadline b) @ list_field ''Stakeholders'' (b_stakeholders b)"

text \<open>A brief whose values each fit on a line, and whose list items have no separator in them.\<close>

definition writable :: "project_brief \<Rightarrow> bool" where
  "writable b \<longleftrightarrow>
     (\<forall>x \<in> {b_title b, b_scope b, b_deadline b}. \<forall>v. x = Some v \<longrightarrow> line_value v) \<and>
     (\<forall>xs \<in> {b_constraints b, b_success_criteria b, b_stakeholders b}.
        distinct xs \<and> (\<forall>v \<in> set xs. list_item v))"

definition render_brief :: "project_brief \<Rightarrow> string" where
  "render_brief b = render_fields (brief_form b)"

lemma field_ok:
  "l \<in> set labels \<Longrightarrow> (\<And>v. x = Some v \<Longrightarrow> line_value v) \<Longrightarrow> form_ok (value_field l x)"
  "l \<in> set labels \<Longrightarrow> \<forall>v \<in> set xs. list_item v \<Longrightarrow> form_ok (list_field l xs)"
  using join_line[of xs] by (auto simp: form_ok_def value_field_def list_field_def split: option.split)

lemma form_ok_append: "form_ok (a @ b) \<longleftrightarrow> form_ok a \<and> form_ok b"
  by (auto simp: form_ok_def)

lemma brief_form_ok: "writable b \<Longrightarrow> form_ok (brief_form b)"
  unfolding brief_form_def form_ok_append
  by (intro conjI field_ok) (auto simp: writable_def labels_def)

lemma map_of_field:
  "map_of (value_field l x) k = (if k = l then x else None)"
  "map_of (list_field l xs) k = (if k = l \<and> xs \<noteq> [] then Some (py_join ''; '' xs) else None)"
  by (auto simp: value_field_def list_field_def split: option.split)

lemma map_of_form:
  "map_of (brief_form b) ''Title'' = b_title b"
  "map_of (brief_form b) ''Scope'' = b_scope b"
  "map_of (brief_form b) ''Deadline'' = b_deadline b"
  "map_of (brief_form b) ''Constraints'' =
     (if b_constraints b = [] then None else Some (py_join ''; '' (b_constraints b)))"
  "map_of (brief_form b) ''Success criteria'' =
     (if b_success_criteria b = [] then None else Some (py_join ''; '' (b_success_criteria b)))"
  "map_of (brief_form b) ''Stakeholders'' =
     (if b_stakeholders b = [] then None else Some (py_join ''; '' (b_stakeholders b)))"
  by (simp_all add: brief_form_def map_of_field map_add_def split: option.split)

lemma header_of_list:
  "map_of LIST_FIELD_HEADERS ''constraints'' = Some constraints_header"
  "map_of LIST_FIELD_HEADERS ''success_criteria'' = Some success_criteria_header"
  "map_of LIST_FIELD_HEADERS ''stakeholders'' = Some stakeholders_header"
  by (simp_all add: LIST_FIELD_HEADERS_def)

lemma missing_fields_cong:
  "b_scope a = b_scope b \<Longrightarrow> b_success_criteria a = b_success_criteria b \<Longrightarrow>
   b_constraints a = b_constraints b \<Longrightarrow> b_deadline a = b_deadline b \<Longrightarrow>
   missing_fields_of a = missing_fields_of b"
  by (simp add: missing_fields_of_def)

lemma build_brief_fields:
  fixes u
  defines "t \<equiv> normalize_user_request u" and "i \<equiv> build_brief u"
  shows "b_title (ir_brief i) = extract_value t ''title''"
    "b_scope (ir_brief i) = extract_value t ''scope''"
    "b_deadline (ir_brief i) = extract_value t ''deadline''"
    "b_constraints (ir_brief i) = extract_list_field t ''constraints''"
    "b_success_criteria (ir_brief i) = extract_list_field t ''success_criteria''"
    "b_stakeholders (ir_brief i) = extract_list_field t ''stakeholders''"
    "b_objective (ir_brief i) = t" "b_raw_request (ir_brief i) = t"
    "ir_missing_fields i = missing_fields_of (ir_brief i)"
    "ir_clarifying_questions i =
       map (\<lambda>f. the (map_of FIELD_QUESTIONS f)) (take 3 (ir_missing_fields i))"
  by (simp_all add: i_def t_def build_brief_def Let_def)

lemma form_read_back:
  assumes "writable b"
  defines "i \<equiv> build_brief (render_brief b)"
  shows "b_title (ir_brief i) = b_title b" "b_scope (ir_brief i) = b_scope b"
    "b_deadline (ir_brief i) = b_deadline b" "b_constraints (ir_brief i) = b_constraints b"
    "b_success_criteria (ir_brief i) = b_success_criteria b"
    "b_stakeholders (ir_brief i) = b_stakeholders b"
    "b_raw_request (ir_brief i) = render_brief b"
    "ir_missing_fields i = missing_fields_of b"
proof -
  note ok = brief_form_ok[OF assms(1)]
  have t: "normalize_user_request (render_brief b) = render_fields (brief_form b)"
    unfolding render_brief_def by (rule normalize_form[OF ok])
  note fields = build_brief_fields[of "render_brief b", folded i_def, unfolded t]
  have d: "distinct (b_constraints b)" "distinct (b_success_criteria b)" "distinct (b_stakeholders b)"
    and c: "\<forall>v \<in> set (b_constraints b). list_item v" "\<forall>v \<in> set (b_success_criteria b). list_item v"
      "\<forall>v \<in> set (b_stakeholders b). list_item v"
    using assms(1) by (simp_all add: writable_def)
  show v: "b_title (ir_brief i) = b_title b" "b_scope (ir_brief i) = b_scope b"
    "b_deadline (ir_brief i) = b_deadline b"
    unfolding fields(1-3) extract_value_form[OF ok] map_of_form by (rule refl)+
  show l: "b_constraints (ir_brief i) = b_constraints b"
    unfolding fields(4)
    by (rule extract_list_form[OF header_of_list(1) separates_plural(1) ok map_of_form(4) d(1) c(1)])
  show m: "b_success_criteria (ir_brief i) = b_success_criteria b"
    unfolding fields(5)
    by (rule extract_list_form[OF header_of_list(2) separates_success ok map_of_form(5) d(2) c(2)])
  show "b_stakeholders (ir_brief i) = b_stakeholders b"
    unfolding fields(6)
    by (rule extract_list_form[OF header_of_list(3) separates_plural(2) ok map_of_form(6) d(3) c(3)])
  show "b_raw_request (ir_brief i) = render_brief b" unfolding fields(8) render_brief_def ..
  show "ir_missing_fields i = missing_fields_of b"
    unfolding fields(9) by (rule missing_fields_cong[OF v(2) m l v(3)])
qed

text \<open>The bounds of a result, whatever the text.\<close>

lemma intake_bounds:
  fixes u
  defines "i \<equiv> build_brief u"
  shows "clean_list (b_constraints (ir_brief i))" "clean_list (b_success_criteria (ir_brief i))"
    "clean_list (b_stakeholders (ir_brief i))" "distinct (ir_missing_fields i)"
    "length (ir_missing_fields i) \<le> 4" "set (ir_missing_fields i) \<subseteq> set (map fst FIELD_QUESTIONS)"
    "length (ir_clarifying_questions i) = min 3 (length (ir_missing_fields i))"
    "set (ir_clarifying_questions i) \<subseteq> snd ` set FIELD_QUESTIONS"
proof -
  note f = build_brief_fields[of u, folded i_def]
  show "clean_list (b_constraints (ir_brief i))" "clean_list (b_success_criteria (ir_brief i))"
    "clean_list (b_stakeholders (ir_brief i))"
    unfolding f(4-6) by (rule clean_extract)+
  show k: "set (ir_missing_fields i) \<subseteq> set (map fst FIELD_QUESTIONS)"
    unfolding f(9) by (rule missing_fields_known(1))
  show "distinct (ir_missing_fields i)" "length (ir_missing_fields i) \<le> 4"
    unfolding f(9) by (rule missing_fields_known(2,3))+
  show "length (ir_clarifying_questions i) = min 3 (length (ir_missing_fields i))"
    unfolding f(10) length_map length_take by (rule min.commute)
  show "set (ir_clarifying_questions i) \<subseteq> snd ` set FIELD_QUESTIONS"
    unfolding f(10) by (rule questions_known) (rule order_trans[OF set_take_subset k])
qed

end
