(* ===== verification/Api_Samples.thy ===== *)
theory Api_Samples
  imports Route_Errors App Samples Intake_Form
begin

text \<open>
  Concrete inputs for the API and the intake: the default authentication service, calls over the
  waiting project of \<open>Samples\<close>, a brief that a form can carry.
\<close>

definition dev_auth :: auth_service where
  "dev_auth = get_auth_service (\<lambda>name. None)"

definition resume_body :: approval_resume_request where
  "resume_body = \<lparr>aq_project_id = ''p-1'', aq_approved_actions = [''external_api_send''],
     aq_actor = None, aq_note = ''ok'', aq_trend_provider = ''gemini''\<rparr>"

definition approve_call :: api_call where
  "approve_call = Resume_approval resume_body (Some ''Bearer dev-approver-token'')"

definition anonymous_call :: api_call where
  "anonymous_call = Resume_approval resume_body None"

definition token_actor :: actor_context where
  "token_actor = \<lparr>actor_id = ''approver-1'', actor_role = APPROVER, actor_type = HUMAN\<rparr>"

definition api_approved :: "memory api_answer" where
  "api_approved =
     api_serve memory_get memory_save sample_env sample_env dev_auth approve_call waiting_store"

lemma anonymous_unresolved: "resolve_actor dev_auth None = Inl ''Missing Authorization header.''"
  by code_simp

definition anonymous_action :: "actor_context \<Rightarrow> request" where
  "anonymous_action actor = ResumeFromApproval ''p-1'' (Some [ActionStr ''external_api_send''])
     (ActorIs actor) ''ok'' ''gemini'' None"

lemma anonymous_facts:
  "protected_request anonymous_call = Some (''p-1'', None, anonymous_action)"
  "invalid_fields anonymous_call = []"
  by (simp_all add: anonymous_call_def resume_body_def too_short_def anonymous_action_def fun_eq_iff)

lemma waiting_sound: "stored memory_get sound waiting_store"
  by (rule memory.reachable_sound[OF waiting_reachable stored_memory_empty]) simp

lemma api_approved_eval:
  "map_option (\<lambda>r. (rec_id r, rec_status r, map ar_status (approvals r))) (fst api_approved ''p-1'') =
     Some (''p-1'', P_COMPLETED, [Ap_APPROVED])"
  by code_simp

text \<open>A form with every kind of field, and one with none.\<close>

definition form_brief :: project_brief where
  "form_brief = \<lparr>b_title = Some ''Market scan'', b_objective = '''', b_scope = None,
     b_constraints = [''no live calls'', ''two weeks''], b_success_criteria = [''report accepted''],
     b_deadline = Some ''2026-03-01'', b_stakeholders = [], b_assumptions = [],
     b_raw_request = ''''\<rparr>"

lemma form_brief_writable: "writable form_brief"
proof -
  have "line_value ''Market scan'' \<and> line_value ''2026-03-01''" by code_simp
  moreover have "\<forall>v \<in> {''no live calls'', ''two weeks'', ''report accepted''}. list_item v" by code_simp
  moreover have "distinct [''no live calls'', ''two weeks'']" by code_simp
  ultimately show ?thesis by (simp add: writable_def form_brief_def)
qed

end
