(* ===== verification/Postgres_Json.thy ===== *)
theory Postgres_Json
  imports Auth Record_Ops
begin

text \<open>
  The JSON columns of the Postgres repository (\<open>app/state/repository.py\<close>): \<open>model_dump\<close> of the
  models that are stored as JSON, \<open>model_validate\<close> of what comes back, and what a \<open>jsonb\<close> column
  does to a value in between. The database is not in the repository: \<open>jsonb\<close> is a parameter with
  the laws that the Postgres manual states, scalars and lists are kept, an object keeps one entry
  per key (the last one) in an order of its own. Validation is modelled on the JSON types that
  \<open>model_dump\<close> writes; pydantic's coercions of other types are not needed for them.
\<close>

section \<open>What a column keeps\<close>

definition jsonb_laws :: "(json \<Rightarrow> json) \<Rightarrow> bool" where
  "jsonb_laws jb \<longleftrightarrow>
     jb JNull = JNull \<and> (\<forall>b. jb (JBool b) = JBool b) \<and> (\<forall>n. jb (JNum n) = JNum n) \<and>
     (\<forall>s. jb (JStr s) = JStr s) \<and> (\<forall>xs. jb (JList xs) = JList (map jb xs)) \<and>
     (\<forall>m. \<exists>m'. jb (JObj m) = JObj m' \<and> distinct (map fst m') \<and> fst ` set m' = fst ` set m \<and>
        (\<forall>(k, v') \<in> set m'. \<exists>v. (k, v) \<in> set m \<and> v' = jb v))"

lemma jsonb_scalars:
  assumes "jsonb_laws jb"
  shows "jb JNull = JNull" "jb (JBool b) = JBool b" "jb (JNum n) = JNum n" "jb (JStr s) = JStr s"
    "jb (JList xs) = JList (map jb xs)"
  using assms by (simp_all add: jsonb_laws_def)

fun obj_of :: "json \<Rightarrow> (string \<times> json) list option" where
  "obj_of (JObj m) = Some m"
| "obj_of j = None"

definition jsonb_obj :: "(json \<Rightarrow> json) \<Rightarrow> json dict \<Rightarrow> json dict" where
  "jsonb_obj jb m = the (obj_of (jb (JObj m)))"

lemma jsonb_object:
  assumes "jsonb_laws jb"
  shows "jb (JObj m) = JObj (jsonb_obj jb m)" "distinct (map fst (jsonb_obj jb m))"
    "fst ` set (jsonb_obj jb m) = fst ` set m"
    "(k, v') \<in> set (jsonb_obj jb m) \<Longrightarrow> \<exists>v. (k, v) \<in> set m \<and> v' = jb v"
proof -
  obtain m' where m': "jb (JObj m) = JObj m'" "distinct (map fst m')" "fst ` set m' = fst ` set m"
    "\<forall>(k, v') \<in> set m'. \<exists>v. (k, v) \<in> set m \<and> v' = jb v"
    using assms[unfolded jsonb_laws_def, THEN conjunct2, THEN conjunct2, THEN conjunct2,
        THEN conjunct2, THEN conjunct2, THEN spec[of _ m]] by blast
  then have e: "jsonb_obj jb m = m'" by (simp add: jsonb_obj_def)
  show "jb (JObj m) = JObj (jsonb_obj jb m)" "distinct (map fst (jsonb_obj jb m))"
    "fst ` set (jsonb_obj jb m) = fst ` set m"
    "(k, v') \<in> set (jsonb_obj jb m) \<Longrightarrow> \<exists>v. (k, v) \<in> set m \<and> v' = jb v"
    unfolding e using m' by auto
qed

text \<open>A lookup in a stored object finds the stored value, when the keys were those of a dictionary.\<close>

lemma jsonb_lookup:
  assumes "jsonb_laws jb" "distinct (map fst m)"
  shows "map_of (jsonb_obj jb m) k = map_option jb (map_of m k)"
proof (cases "map_of m k")
  case None
  then have "k \<notin> fst ` set (jsonb_obj jb m)"
    using jsonb_object(3)[OF assms(1), of m] by (simp add: map_of_eq_None_iff)
  then have "map_of (jsonb_obj jb m) k = None" by (simp only: map_of_eq_None_iff not_False_eq_True)
  with None show ?thesis by simp
next
  case (Some v)
  then have "k \<in> fst ` set (jsonb_obj jb m)"
    using jsonb_object(3)[OF assms(1), of m] by (metis fst_conv image_eqI map_of_SomeD)
  then obtain v' where v': "(k, v') \<in> set (jsonb_obj jb m)" by auto
  obtain u where "(k, u) \<in> set m" "v' = jb u" using jsonb_object(4)[OF assms(1) v'] by blast
  then have "v' = jb v" using assms(2) Some by (metis map_of_is_SomeI option.inject)
  with v' Some show ?thesis
    using jsonb_object(2)[OF assms(1)] by (simp add: map_of_is_SomeI)
qed

section \<open>Values of the enumerations\<close>

definition enum_of :: "('a \<Rightarrow> string) \<Rightarrow> 'a list \<Rightarrow> string \<Rightarrow> 'a option" where
  "enum_of val members s = find (\<lambda>x. val x = s) members"

fun history_event_type_value :: "history_event_type \<Rightarrow> string" where
  "history_event_type_value Ev_AUTHENTICATION_SUCCEEDED = ''authentication_succeeded''"
| "history_event_type_value Ev_AUTHENTICATION_FAILED = ''authentication_failed''"
| "history_event_type_value Ev_ACTOR_RESOLVED = ''actor_resolved''"
| "history_event_type_value Ev_STATE_TRANSITION = ''state_transition''"
| "history_event_type_value Ev_APPROVAL_REQUESTED = ''approval_requested''"
| "history_event_type_value Ev_APPROVAL_APPROVED = ''approval_approved''"
| "history_event_type_value Ev_APPROVAL_REJECTED = ''approval_rejected''"
| "history_event_type_value Ev_AUTHORIZATION_GRANTED = ''authorization_granted''"
| "history_event_type_value Ev_AUTHORIZATION_FAILED = ''authorization_failed''"
| "history_event_type_value Ev_POLICY_OVERRIDE_APPLIED = ''policy_override_applied''"
| "history_event_type_value Ev_REVISION_REQUESTED = ''revision_requested''"
| "history_event_type_value Ev_REPLANNING_STARTED = ''replanning_started''"
| "history_event_type_value Ev_RESUME_TRIGGERED = ''resume_triggered''"
| "history_event_type_value Ev_TASK_STATUS_CHANGED = ''task_status_changed''"

definition Department_of :: "string \<Rightarrow> department option" where
  "Department_of = enum_of department_value [D_RESEARCH, D_DESIGN, D_BUILD, D_REVIEW, D_TREND]"

definition TaskStatus_of :: "string \<Rightarrow> task_status option" where
  "TaskStatus_of = enum_of task_status_value
     [T_PENDING, T_IN_PROGRESS, T_WAITING_APPROVAL, T_REVISION_REQUESTED, T_DONE, T_BLOCKED]"

definition ProjectStatus_of :: "string \<Rightarrow> project_status option" where
  "ProjectStatus_of = enum_of project_status_value
     [P_DRAFT, P_INTAKE_PENDING, P_READY_FOR_PLANNING, P_IN_PROGRESS, P_WAITING_APPROVAL,
      P_REVIEW_FAILED, P_REVISION_REQUESTED, P_COMPLETED]"

definition ApprovalStatus_of :: "string \<Rightarrow> approval_status option" where
  "ApprovalStatus_of = enum_of approval_status_value [Ap_PENDING, Ap_APPROVED, Ap_REJECTED]"

definition EventType_of :: "string \<Rightarrow> history_event_type option" where
  "EventType_of = enum_of history_event_type_value
     [Ev_AUTHENTICATION_SUCCEEDED, Ev_AUTHENTICATION_FAILED, Ev_ACTOR_RESOLVED, Ev_STATE_TRANSITION,
      Ev_APPROVAL_REQUESTED, Ev_APPROVAL_APPROVED, Ev_APPROVAL_REJECTED, Ev_AUTHORIZATION_GRANTED,
      Ev_AUTHORIZATION_FAILED, Ev_POLICY_OVERRIDE_APPLIED, Ev_REVISION_REQUESTED,
      Ev_REPLANNING_STARTED, Ev_RESUME_TRIGGERED, Ev_TASK_STATUS_CHANGED]"

lemma enum_of_value [simp]:
  "Department_of (department_value d) = Some d" "TaskStatus_of (task_status_value t) = Some t"
  "ProjectStatus_of (project_status_value p) = Some p"
  "ApprovalStatus_of (approval_status_value s) = Some s"
  "EventType_of (history_event_type_value e) = Some e"
proof -
  show "Department_of (department_value d) = Some d"
    by (cases d) (simp_all add: Department_of_def enum_of_def)
  show "TaskStatus_of (task_status_value t) = Some t"
    by (cases t) (simp_all add: TaskStatus_of_def enum_of_def)
  show "ProjectStatus_of (project_status_value p) = Some p"
    by (cases p) (simp_all add: ProjectStatus_of_def enum_of_def)
  show "ApprovalStatus_of (approval_status_value s) = Some s"
    by (cases s) (simp_all add: ApprovalStatus_of_def enum_of_def)
  show "EventType_of (history_event_type_value e) = Some e"
    by (cases e) (simp_all add: EventType_of_def enum_of_def)
qed

section \<open>Reading JSON\<close>

fun str_of :: "json \<Rightarrow> string option" where
  "str_of (JStr s) = Some s"
| "str_of j = None"

fun opt_str_of :: "json \<Rightarrow> string option option" where
  "opt_str_of JNull = Some None"
| "opt_str_of (JStr s) = Some (Some s)"
| "opt_str_of j = None"

fun bool_of :: "json \<Rightarrow> bool option" where
  "bool_of (JBool b) = Some b"
| "bool_of j = None"

fun list_of :: "(json \<Rightarrow> 'a option) \<Rightarrow> json \<Rightarrow> 'a list option" where
  "list_of f (JList xs) = those (map f xs)"
| "list_of f j = None"

text \<open>A field of a model: its value, its default when it is missing, or a validation error.\<close>

definition required :: "(json \<Rightarrow> 'a option) \<Rightarrow> string \<Rightarrow> json dict \<Rightarrow> 'a option" where
  "required f k m = Option.bind (map_of m k) f"

definition defaulted :: "'a \<Rightarrow> (json \<Rightarrow> 'a option) \<Rightarrow> string \<Rightarrow> json dict \<Rightarrow> 'a option" where
  "defaulted d f k m = (case map_of m k of None \<Rightarrow> Some d | Some v \<Rightarrow> f v)"

lemma those_map_Some: "(\<And>x. x \<in> set xs \<Longrightarrow> f x = Some (g x)) \<Longrightarrow> those (map f xs) = Some (map g xs)"
  by (induction xs) auto

section \<open>Briefs\<close>

definition strs_json :: "string list \<Rightarrow> json" where
  "strs_json xs = JList (map JStr xs)"

definition opt_str_json :: "string option \<Rightarrow> json" where
  "opt_str_json x = (case x of None \<Rightarrow> JNull | Some s \<Rightarrow> JStr s)"

definition brief_dump :: "project_brief \<Rightarrow> json dict" where
  "brief_dump b =
     [(''title'', opt_str_json (b_title b)), (''objective'', JStr (b_objective b)),
      (''scope'', opt_str_json (b_scope b)), (''constraints'', strs_json (b_constraints b)),
      (''success_criteria'', strs_json (b_success_criteria b)),
      (''deadline'', opt_str_json (b_deadline b)), (''stakeholders'', strs_json (b_stakeholders b)),
      (''assumptions'', strs_json (b_assumptions b)), (''raw_request'', JStr (b_raw_request b))]"

definition brief_validate :: "json dict \<Rightarrow> project_brief option" where
  "brief_validate m =
     Option.bind (defaulted None opt_str_of ''title'' m) (\<lambda>title.
     Option.bind (required str_of ''objective'' m) (\<lambda>objective.
     Option.bind (defaulted None opt_str_of ''scope'' m) (\<lambda>scope.
     Option.bind (defaulted [] (list_of str_of) ''constraints'' m) (\<lambda>constraints.
     Option.bind (defaulted [] (list_of str_of) ''success_criteria'' m) (\<lambda>success.
     Option.bind (defaulted None opt_str_of ''deadline'' m) (\<lambda>deadline.
     Option.bind (defaulted [] (list_of str_of) ''stakeholders'' m) (\<lambda>stakeholders.
     Option.bind (defaulted [] (list_of str_of) ''assumptions'' m) (\<lambda>assumptions.
     Option.bind (required str_of ''raw_request'' m) (\<lambda>raw.
       Some \<lparr>b_title = title, b_objective = objective, b_scope = scope, b_constraints = constraints,
             b_success_criteria = success, b_deadline = deadline, b_stakeholders = stakeholders,
             b_assumptions = assumptions, b_raw_request = raw\<rparr>)))))))))"

lemma those_map_id: "those (map Some xs) = Some xs"
  using those_map_Some[of xs Some "\<lambda>x. x"] by simp

lemma stored_values:
  assumes "jsonb_laws jb"
  shows "jb (strs_json xs) = strs_json xs" "jb (opt_str_json x) = opt_str_json x"
    "list_of str_of (strs_json xs) = Some xs" "opt_str_of (opt_str_json x) = Some x"
  using jsonb_scalars[OF assms]
  by (auto simp: strs_json_def opt_str_json_def comp_def those_map_id split: option.split)

lemma brief_stored:
  assumes "jsonb_laws jb"
  shows "brief_validate (jsonb_obj jb (brief_dump b)) = Some b"
proof -
  have d: "distinct (map fst (brief_dump b))" by (simp add: brief_dump_def)
  note f = jsonb_lookup[OF assms d] stored_values[OF assms] jsonb_scalars(4)[OF assms]
  show ?thesis
    unfolding brief_validate_def required_def defaulted_def f by (simp add: brief_dump_def f)
qed

section \<open>Policies\<close>

definition rule_dump :: "project_policy_action_rule \<Rightarrow> json dict" where
  "rule_dump r =
     [(''allowed_roles'', strs_json (map actor_role_value (allowed_roles r))),
      (''allowed_actor_ids'', strs_json (allowed_actor_ids r))]"

definition role_validate :: "json \<Rightarrow> actor_role option" where
  "role_validate j = Option.bind (str_of j) ActorRole_of"

definition rule_validate :: "json \<Rightarrow> project_policy_action_rule option" where
  "rule_validate j =
     Option.bind (obj_of j) (\<lambda>m.
     Option.bind (defaulted [] (list_of role_validate) ''allowed_roles'' m) (\<lambda>roles.
     Option.bind (defaulted [] (list_of str_of) ''allowed_actor_ids'' m) (\<lambda>ids.
       Some \<lparr>allowed_roles = roles, allowed_actor_ids = ids\<rparr>)))"

definition rules_dump :: "project_policy_action_rule dict \<Rightarrow> json dict" where
  "rules_dump rules = map (\<lambda>(k, r). (k, JObj (rule_dump r))) rules"

definition rules_validate :: "json \<Rightarrow> project_policy_action_rule dict option" where
  "rules_validate j =
     Option.bind (obj_of j) (\<lambda>m. those (map (\<lambda>(k, v). map_option (Pair k) (rule_validate v)) m))"

definition policy_dump :: "project_policy \<Rightarrow> json dict" where
  "policy_dump p =
     [(''project_owner_actor_id'', opt_str_json (project_owner_actor_id p)),
      (''strict_mode'', JBool (strict_mode p)),
      (''action_rules'', JObj (rules_dump (action_rules p)))]"

definition policy_validate :: "json dict \<Rightarrow> project_policy option" where
  "policy_validate m =
     Option.bind (defaulted None opt_str_of ''project_owner_actor_id'' m) (\<lambda>owner.
     Option.bind (defaulted False bool_of ''strict_mode'' m) (\<lambda>strict.
     Option.bind (defaulted [] rules_validate ''action_rules'' m) (\<lambda>rules.
       Some \<lparr>project_owner_actor_id = owner, strict_mode = strict, action_rules = rules\<rparr>)))"

text \<open>The rules in the order in which the column gives them back.\<close>

definition stored_rules ::
  "(json \<Rightarrow> json) \<Rightarrow> project_policy_action_rule dict \<Rightarrow> project_policy_action_rule dict" where
  "stored_rules jb rules =
     map (\<lambda>(k, v). (k, the (rule_validate v))) (jsonb_obj jb (rules_dump rules))"

definition stored_policy :: "(json \<Rightarrow> json) \<Rightarrow> project_policy \<Rightarrow> project_policy" where
  "stored_policy jb p = p\<lparr>action_rules := stored_rules jb (action_rules p)\<rparr>"

lemma rule_stored:
  assumes "jsonb_laws jb"
  shows "rule_validate (jb (JObj (rule_dump r))) = Some r"
proof -
  have d: "distinct (map fst (rule_dump r))" by (simp add: rule_dump_def)
  have roles: "list_of role_validate (strs_json (map actor_role_value rs)) = Some rs" for rs
    using those_map_Some[of rs "\<lambda>r. role_validate (JStr (actor_role_value r))" "\<lambda>r. r"]
    by (simp add: strs_json_def role_validate_def comp_def)
  note f = jsonb_lookup[OF assms d] stored_values[OF assms]
  show ?thesis
    unfolding rule_validate_def defaulted_def jsonb_object(1)[OF assms] obj_of.simps Option.bind.simps f
    by (simp add: rule_dump_def f roles)
qed

lemma rules_stored:
  assumes "jsonb_laws jb"
  shows "rules_validate (jb (JObj (rules_dump rules))) = Some (stored_rules jb rules)"
proof -
  have v: "\<exists>r. rule_validate v = Some r" if "(k, v) \<in> set (jsonb_obj jb (rules_dump rules))" for k v
    using jsonb_object(4)[OF assms that] rule_stored[OF assms] by (auto simp: rules_dump_def)
  show ?thesis
    unfolding rules_validate_def jsonb_object(1)[OF assms] obj_of.simps Option.bind.simps stored_rules_def
    by (rule those_map_Some) (use v in force)
qed

lemma policy_stored:
  assumes "jsonb_laws jb"
  shows "policy_validate (jsonb_obj jb (policy_dump p)) = Some (stored_policy jb p)"
proof -
  have d: "distinct (map fst (policy_dump p))" by (simp add: policy_dump_def)
  note f = jsonb_lookup[OF assms d] stored_values[OF assms] jsonb_scalars[OF assms]
  show ?thesis
    unfolding policy_validate_def defaulted_def f
    by (simp add: policy_dump_def f rules_stored[OF assms] stored_policy_def)
qed

section \<open>Events\<close>

definition event_dump :: "history_event \<Rightarrow> json dict" where
  "event_dump e =
     [(''event_type'', JStr (history_event_type_value (e_event_type e))), (''actor'', JStr (e_actor e)),
      (''actor_role'', JStr (actor_role_value (e_actor_role e))),
      (''actor_type'', JStr (actor_type_value (e_actor_type e))),
      (''timestamp'', JStr (e_timestamp e)), (''reason'', JStr (e_reason e)),
      (''metadata'', JObj (e_metadata e))]"

text \<open>\<open>now\<close> is the default of a missing timestamp.\<close>

definition event_validate :: "string \<Rightarrow> json \<Rightarrow> history_event option" where
  "event_validate now j =
     Option.bind (obj_of j) (\<lambda>m.
     Option.bind (required (\<lambda>v. Option.bind (str_of v) EventType_of) ''event_type'' m) (\<lambda>ty.
     Option.bind (defaulted ''system'' str_of ''actor'' m) (\<lambda>actor.
     Option.bind (defaulted ADMIN role_validate ''actor_role'' m) (\<lambda>role.
     Option.bind (defaulted SYSTEM (\<lambda>v. Option.bind (str_of v) ActorType_of) ''actor_type'' m) (\<lambda>aty.
     Option.bind (defaulted now str_of ''timestamp'' m) (\<lambda>time.
     Option.bind (defaulted '''' str_of ''reason'' m) (\<lambda>reason.
     Option.bind (defaulted [] obj_of ''metadata'' m) (\<lambda>metadata.
       Some \<lparr>e_event_type = ty, e_actor = actor, e_actor_role = role, e_actor_type = aty,
             e_timestamp = time, e_reason = reason, e_metadata = metadata\<rparr>))))))))"

definition stored_event :: "(json \<Rightarrow> json) \<Rightarrow> history_event \<Rightarrow> history_event" where
  "stored_event jb e = e\<lparr>e_metadata := jsonb_obj jb (e_metadata e)\<rparr>"

lemma event_stored:
  assumes "jsonb_laws jb"
  shows "event_validate now (jb (JObj (event_dump e))) = Some (stored_event jb e)"
proof -
  have d: "distinct (map fst (event_dump e))" by (simp add: event_dump_def)
  note f = jsonb_lookup[OF assms d] jsonb_scalars[OF assms]
  show ?thesis
    unfolding event_validate_def required_def defaulted_def jsonb_object(1)[OF assms] obj_of.simps
      Option.bind.simps f
    by (simp add: event_dump_def f role_validate_def jsonb_object(1)[OF assms] stored_event_def)
qed

end
