(* ===== verification/Postgres.thy ===== *)
theory Postgres
  imports Postgres_Json Task_Order
begin

text \<open>
  The Postgres repository (\<open>PostgresProjectRepository\<close>) at the level of rows: the tables of
  \<open>initialize_schema\<close> with their primary keys, \<open>save\<close> as its statements in their order inside one
  transaction, \<open>get\<close> as its queries and the models built from the rows. What SQL says of the
  statements is used as documented: an \<open>INSERT\<close> fails on a duplicate key and then nothing of the
  transaction is kept, \<open>DELETE\<close> and \<open>SELECT\<close> with \<open>WHERE project_id\<close> touch the rows of that
  project, \<open>ORDER BY id\<close> sorts by the collation of the database, which is a parameter. The time
  stamps \<open>updated_at\<close> are written and never read, and are left out.
\<close>

section \<open>The tables\<close>

text \<open>
  What the model takes from the database and the JSON library: the value a \<open>jsonb\<close> column keeps,
  the sort key of the collation, \<open>json.loads\<close> for a column that comes back as text, and the default
  of a missing timestamp.
\<close>

record pg_config =
  jsonb :: "json \<Rightarrow> json"
  collate :: "string \<Rightarrow> string"
  json_loads :: "string \<Rightarrow> json option"
  now_text :: string

record project_row =
  pr_id :: string
  pr_status :: string
  pr_brief_json :: json
  pr_policy_json :: json

text \<open>A row of a table with the key \<open>(id, project_id)\<close>, and its other columns.\<close>

record 'c row =
  row_id :: string
  row_project :: string
  row_cols :: 'c

record task_cols =
  tk_title :: string
  tk_department :: string
  tk_status :: string
  tk_depends_on :: json
  tk_note :: string

record artifact_cols =
  af_task_id :: string
  af_artifact_type :: string
  af_content :: json

record review_cols =
  rw_task_id :: string
  rw_verdict :: string
  rw_findings :: json

record checkpoint_cols =
  cp_name :: string
  cp_approved :: bool
  cp_approver :: string
  cp_note :: string

record approval_cols =
  aw_action_type :: string
  aw_status :: string
  aw_reason :: string
  aw_requested_by :: string
  aw_decision_note :: string

record history_row =
  hr_project :: string
  hr_events :: json

record database =
  projects_table :: "project_row list"
  tasks_table :: "task_cols row list"
  artifacts_table :: "artifact_cols row list"
  reviews_table :: "review_cols row list"
  checkpoints_table :: "checkpoint_cols row list"
  approvals_table :: "approval_cols row list"
  history_table :: "history_row list"

definition empty_database :: database where
  "empty_database = \<lparr>projects_table = [], tasks_table = [], artifacts_table = [], reviews_table = [],
     checkpoints_table = [], approvals_table = [], history_table = []\<rparr>"

section \<open>Statements\<close>

definition duplicate_key :: "string \<Rightarrow> string" where
  "duplicate_key table = ''duplicate key value violates unique constraint of '' @ table"

definition insert_row :: "string \<Rightarrow> ('r \<Rightarrow> 'k) \<Rightarrow> 'r \<Rightarrow> 'r list \<Rightarrow> string + 'r list" where
  "insert_row table key row rows =
     (if key row \<in> key ` set rows then Inl (duplicate_key table) else Inr (rows @ [row]))"

definition row_key :: "'c row \<Rightarrow> string \<times> string" where
  "row_key row = (row_id row, row_project row)"

definition insert_rows :: "string \<Rightarrow> 'c row list \<Rightarrow> 'c row list \<Rightarrow> string + 'c row list" where
  "insert_rows table new rows = res_fold (insert_row table row_key) new rows"

definition delete_rows :: "string \<Rightarrow> 'c row list \<Rightarrow> 'c row list" where
  "delete_rows pid rows = filter (\<lambda>row. row_project row \<noteq> pid) rows"

definition select_rows :: "pg_config \<Rightarrow> string \<Rightarrow> 'c row list \<Rightarrow> 'c row list" where
  "select_rows cfg pid rows =
     sort_key (\<lambda>row. collate cfg (row_id row)) (filter (\<lambda>row. row_project row = pid) rows)"

section \<open>Rows of the models\<close>

definition task_row :: "pg_config \<Rightarrow> string \<Rightarrow> task \<Rightarrow> task_cols row" where
  "task_row cfg pid t = \<lparr>row_id = t_id t, row_project = pid, row_cols =
     \<lparr>tk_title = t_title t, tk_department = department_value (t_department t),
      tk_status = task_status_value (t_status t),
      tk_depends_on = jsonb cfg (strs_json (t_depends_on t)), tk_note = t_note t\<rparr>\<rparr>"

definition artifact_row :: "pg_config \<Rightarrow> string \<Rightarrow> artifact \<Rightarrow> artifact_cols row" where
  "artifact_row cfg pid a = \<lparr>row_id = a_id a, row_project = pid, row_cols =
     \<lparr>af_task_id = a_task_id a, af_artifact_type = a_artifact_type a,
      af_content = jsonb cfg (JObj (a_content a))\<rparr>\<rparr>"

definition review_row :: "pg_config \<Rightarrow> string \<Rightarrow> review \<Rightarrow> review_cols row" where
  "review_row cfg pid v = \<lparr>row_id = rv_id v, row_project = pid, row_cols =
     \<lparr>rw_task_id = rv_task_id v, rw_verdict = rv_verdict v,
      rw_findings = jsonb cfg (strs_json (rv_findings v))\<rparr>\<rparr>"

definition checkpoint_row :: "string \<Rightarrow> checkpoint \<Rightarrow> checkpoint_cols row" where
  "checkpoint_row pid c = \<lparr>row_id = c_id c, row_project = pid, row_cols =
     \<lparr>cp_name = c_name c, cp_approved = c_approved c, cp_approver = c_approver c,
      cp_note = c_note c\<rparr>\<rparr>"

definition approval_row :: "string \<Rightarrow> approval_request \<Rightarrow> approval_cols row" where
  "approval_row pid a = \<lparr>row_id = ar_id a, row_project = pid, row_cols =
     \<lparr>aw_action_type = approval_action_type_value (ar_action_type a),
      aw_status = approval_status_value (ar_status a), aw_reason = ar_reason a,
      aw_requested_by = ar_requested_by a, aw_decision_note = ar_decision_note a\<rparr>\<rparr>"

definition history_payload :: "project_record \<Rightarrow> json dict" where
  "history_payload r =
     [(''history'', strs_json (history r)),
      (''events'', JList (map (\<lambda>e. JObj (event_dump e)) (events r)))]"

section \<open>save\<close>

definition upsert_project :: "pg_config \<Rightarrow> project \<Rightarrow> project_row list \<Rightarrow> project_row list" where
  "upsert_project cfg p rows =
     upsert pr_id \<lparr>pr_id = p_id p, pr_status = project_status_value (p_status p),
       pr_brief_json = jsonb cfg (JObj (brief_dump (p_brief p))),
       pr_policy_json = jsonb cfg (JObj (policy_dump (p_policy p)))\<rparr> rows"

definition delete_children :: "string \<Rightarrow> database \<Rightarrow> database" where
  "delete_children pid db =
     db\<lparr>tasks_table := delete_rows pid (tasks_table db),
        artifacts_table := delete_rows pid (artifacts_table db),
        reviews_table := delete_rows pid (reviews_table db),
        checkpoints_table := delete_rows pid (checkpoints_table db),
        approvals_table := delete_rows pid (approvals_table db),
        history_table := filter (\<lambda>row. hr_project row \<noteq> pid) (history_table db)\<rparr>"

definition insert_children :: "pg_config \<Rightarrow> project_record \<Rightarrow> database \<Rightarrow> string + database" where
  "insert_children cfg r db =
    (let pid = rec_id r in
     res_bind (insert_rows ''tasks'' (map (task_row cfg pid) (tasks r)) (tasks_table db)) (\<lambda>ts.
     res_bind (insert_rows ''artifacts'' (map (artifact_row cfg pid) (artifacts r))
       (artifacts_table db)) (\<lambda>as.
     res_bind (insert_rows ''reviews'' (map (review_row cfg pid) (reviews r)) (reviews_table db)) (\<lambda>vs.
     res_bind (insert_rows ''checkpoints'' (map (checkpoint_row pid) (checkpoints r))
       (checkpoints_table db)) (\<lambda>cs.
     res_bind (insert_rows ''approvals'' (map (approval_row pid) (approvals r))
       (approvals_table db)) (\<lambda>ps.
     res_bind (insert_row ''project_history'' hr_project
       \<lparr>hr_project = pid, hr_events = jsonb cfg (JObj (history_payload r))\<rparr> (history_table db)) (\<lambda>hs.
       Inr (db\<lparr>tasks_table := ts, artifacts_table := as, reviews_table := vs,
               checkpoints_table := cs, approvals_table := ps, history_table := hs\<rparr>))))))))"

definition pg_save :: "pg_config \<Rightarrow> project_record \<Rightarrow> database \<Rightarrow> string + database" where
  "pg_save cfg r db =
     insert_children cfg r
       (delete_children (rec_id r)
          (db\<lparr>projects_table := upsert_project cfg (project r) (projects_table db)\<rparr>))"

section \<open>get\<close>

definition load_json :: "pg_config \<Rightarrow> json \<Rightarrow> json option" where
  "load_json cfg v = (case v of JStr s \<Rightarrow> json_loads cfg s | _ \<Rightarrow> Some v)"

fun json_falsy :: "json \<Rightarrow> bool" where
  "json_falsy JNull = True"
| "json_falsy (JBool b) = (\<not> b)"
| "json_falsy (JNum n) = (n = 0)"
| "json_falsy (JStr s) = (s = [])"
| "json_falsy (JList xs) = (xs = [])"
| "json_falsy (JObj m) = (m = [])"

text \<open>\<open>self._load_json(value) or default\<close>.\<close>

definition load_or :: "pg_config \<Rightarrow> json \<Rightarrow> json \<Rightarrow> json option" where
  "load_or cfg dflt v = map_option (\<lambda>j. if json_falsy j then dflt else j) (load_json cfg v)"

definition task_of_row :: "pg_config \<Rightarrow> task_cols row \<Rightarrow> task option" where
  "task_of_row cfg row =
    (let c = row_cols row in
     Option.bind (load_or cfg (JList []) (tk_depends_on c)) (\<lambda>deps_json.
     Option.bind (list_of str_of deps_json) (\<lambda>deps.
     Option.bind (Department_of (tk_department c)) (\<lambda>department.
     Option.bind (TaskStatus_of (tk_status c)) (\<lambda>status.
       Some \<lparr>t_id = row_id row, t_title = tk_title c, t_department = department, t_status = status,
             t_depends_on = deps, t_note = tk_note c\<rparr>)))))"

definition artifact_of_row :: "pg_config \<Rightarrow> artifact_cols row \<Rightarrow> artifact option" where
  "artifact_of_row cfg row =
    (let c = row_cols row in
     Option.bind (load_or cfg (JObj []) (af_content c)) (\<lambda>content_json.
     Option.bind (obj_of content_json) (\<lambda>content.
       Some \<lparr>a_id = row_id row, a_task_id = af_task_id c, a_artifact_type = af_artifact_type c,
             a_content = content\<rparr>)))"

definition review_of_row :: "pg_config \<Rightarrow> review_cols row \<Rightarrow> review option" where
  "review_of_row cfg row =
    (let c = row_cols row in
     Option.bind (load_or cfg (JList []) (rw_findings c)) (\<lambda>findings_json.
     Option.bind (list_of str_of findings_json) (\<lambda>findings.
       Some \<lparr>rv_id = row_id row, rv_task_id = rw_task_id c, rv_verdict = rw_verdict c,
             rv_findings = findings\<rparr>)))"

definition checkpoint_of_row :: "checkpoint_cols row \<Rightarrow> checkpoint" where
  "checkpoint_of_row row =
    (let c = row_cols row in
     \<lparr>c_id = row_id row, c_name = cp_name c, c_approved = cp_approved c, c_approver = cp_approver c,
      c_note = cp_note c\<rparr>)"

definition approval_of_row :: "approval_cols row \<Rightarrow> approval_request option" where
  "approval_of_row row =
    (let c = row_cols row in
     Option.bind (ApprovalActionType_of (aw_action_type c)) (\<lambda>action.
     Option.bind (ApprovalStatus_of (aw_status c)) (\<lambda>status.
       Some \<lparr>ar_id = row_id row, ar_action_type = action, ar_status = status,
             ar_reason = aw_reason c, ar_requested_by = aw_requested_by c,
             ar_decision_note = aw_decision_note c\<rparr>)))"

text \<open>A payload that is a list is one of an older layout: events, or plain history lines.\<close>

definition history_of_payload :: "pg_config \<Rightarrow> json \<Rightarrow> (string list \<times> history_event list) option" where
  "history_of_payload cfg payload =
    (let or_list = (\<lambda>j. if json_falsy j then JList [] else j);
         validate_events = list_of (event_validate (now_text cfg))
     in case payload of
          JObj m \<Rightarrow>
            Option.bind (defaulted [] (\<lambda>j. list_of str_of (or_list j)) ''history'' m) (\<lambda>hist.
            Option.bind (defaulted [] (\<lambda>j. validate_events (or_list j)) ''events'' m) (\<lambda>evs.
              Some (hist, evs)))
        | JList xs \<Rightarrow>
            if xs \<noteq> [] \<and> obj_of (hd xs) \<noteq> None
            then map_option (Pair []) (validate_events (JList xs))
            else map_option (\<lambda>hist. (hist, [])) (list_of str_of (JList xs))
        | _ \<Rightarrow> Some ([], []))"

text \<open>\<open>Inl ()\<close> is a validation error of one of the models.\<close>

definition or_invalid :: "'a option \<Rightarrow> unit + 'a" where
  "or_invalid x = (case x of None \<Rightarrow> Inl () | Some v \<Rightarrow> Inr v)"

definition pg_get :: "pg_config \<Rightarrow> database \<Rightarrow> string \<Rightarrow> unit + project_record option" where
  "pg_get cfg db pid =
    (case find (\<lambda>row. pr_id row = pid) (projects_table db) of
       None \<Rightarrow> Inr None
     | Some prow \<Rightarrow>
         res_bind (or_invalid (Option.bind (load_json cfg (pr_brief_json prow)) obj_of)) (\<lambda>brief_payload.
         res_bind (or_invalid (brief_validate brief_payload)) (\<lambda>brief.
         res_bind (or_invalid (Option.bind (load_or cfg (JObj []) (pr_policy_json prow)) obj_of)) (\<lambda>policy_payload.
         res_bind (or_invalid (policy_validate policy_payload)) (\<lambda>policy.
         res_bind (or_invalid (ProjectStatus_of (pr_status prow))) (\<lambda>status.
         res_bind (or_invalid (those (map (task_of_row cfg) (select_rows cfg pid (tasks_table db))))) (\<lambda>ts.
         res_bind (or_invalid (those (map (artifact_of_row cfg)
           (select_rows cfg pid (artifacts_table db))))) (\<lambda>as.
         res_bind (or_invalid (those (map (review_of_row cfg) (select_rows cfg pid (reviews_table db))))) (\<lambda>vs.
         res_bind (or_invalid (those (map approval_of_row (select_rows cfg pid (approvals_table db))))) (\<lambda>ps.
         res_bind (or_invalid
           (case find (\<lambda>row. hr_project row = pid) (history_table db) of
              None \<Rightarrow> Some (JObj [])
            | Some hrow \<Rightarrow> load_json cfg (hr_events hrow))) (\<lambda>payload.
         res_bind (or_invalid (history_of_payload cfg payload)) (\<lambda>hist.
           Inr (Some
             \<lparr>project = \<lparr>p_id = pr_id prow, p_brief = brief, p_policy = policy, p_status = status\<rparr>,
              tasks = order_tasks_for_execution ts, artifacts = as, reviews = vs,
              checkpoints = map checkpoint_of_row (select_rows cfg pid (checkpoints_table db)),
              approvals = ps, history = fst hist, events = snd hist\<rparr>)))))))))))))"

end
