(* ===== verification/Postgres_Facts.thy ===== *)
theory Postgres_Facts
  imports Postgres
begin

text \<open>
  What the row-level repository guarantees: a save succeeds exactly when the ids of each table are
  distinct, a get after it gives the record back up to the order of its lists and the normal form
  of its JSON values, and no other project is touched. So it is a repository in the sense of the
  contract of \<open>Repository\<close>.
\<close>

section \<open>Tables\<close>

lemma insert_rows_eq:
  "insert_rows table new rows =
     (if distinct (map row_key new) \<and> row_key ` set new \<inter> row_key ` set rows = {}
      then Inr (rows @ new) else Inl (duplicate_key table))"
  unfolding insert_rows_def
proof (induction new arbitrary: rows)
  case (Cons r new)
  then show ?case by (auto simp: insert_row_def)
qed simp

text \<open>The rows of one project, replaced by those of a list.\<close>

lemma replace_rows:
  assumes enc: "\<And>x. row_id (enc x) = f x" "\<And>x. row_project (enc x) = pid"
  shows "insert_rows table (map enc xs) (delete_rows pid rows) =
    (if distinct (map f xs) then Inr (delete_rows pid rows @ map enc xs) else Inl (duplicate_key table))"
proof -
  have "distinct (map row_key (map enc xs)) \<longleftrightarrow> distinct (map f xs)"
    by (simp add: row_key_def enc distinct_map inj_on_def comp_def)
  moreover have "row_key ` set (map enc xs) \<inter> row_key ` set (delete_rows pid rows) = {}"
    by (auto simp: row_key_def enc delete_rows_def)
  ultimately show ?thesis unfolding insert_rows_eq by simp
qed

definition by_id :: "pg_config \<Rightarrow> ('a \<Rightarrow> string) \<Rightarrow> 'a list \<Rightarrow> 'a list" where
  "by_id cfg f xs = sort_key (\<lambda>x. collate cfg (f x)) xs"

lemma select_replaced:
  assumes enc: "\<And>x. row_id (enc x) = f x" "\<And>x. row_project (enc x) = pid"
  shows "select_rows cfg pid (delete_rows pid rows @ map enc xs) = map enc (by_id cfg f xs)"
    and "pid' \<noteq> pid \<Longrightarrow>
      select_rows cfg pid' (delete_rows pid rows @ map enc xs) = select_rows cfg pid' rows"
proof -
  have n: "filter (\<lambda>row. row_project row = pid) (delete_rows pid rows) = []"
    by (simp add: delete_rows_def filter_empty_conv)
  have "filter (\<lambda>row. row_project row = pid) (map enc xs) = map enc xs"
    by (simp add: filter_id_conv enc)
  with n show "select_rows cfg pid (delete_rows pid rows @ map enc xs) = map enc (by_id cfg f xs)"
    by (simp add: select_rows_def by_id_def
        map_sort_key[of "\<lambda>row. collate cfg (row_id row)" enc "\<lambda>x. collate cfg (f x)"] enc)
  assume "pid' \<noteq> pid"
  then have "filter (\<lambda>row. row_project row = pid') (delete_rows pid rows @ map enc xs) =
      filter (\<lambda>row. row_project row = pid') rows"
    by (auto simp: delete_rows_def enc filter_empty_conv intro: filter_cong)
  then show "select_rows cfg pid' (delete_rows pid rows @ map enc xs) = select_rows cfg pid' rows"
    by (simp add: select_rows_def)
qed

lemma find_upsert: "find (\<lambda>r. key r = k) (upsert key x rows) =
    (if k = key x then Some x else find (\<lambda>r. key r = k) rows)"
  by (induction rows) auto

section \<open>A row gives back what it was made of\<close>

lemma load_json_stored [simp]:
  assumes "jsonb_laws (jsonb cfg)"
  shows "load_json cfg (jsonb cfg (strs_json xs)) = Some (strs_json xs)"
    "load_json cfg (jsonb cfg (JObj m)) = Some (JObj (jsonb_obj (jsonb cfg) m))"
  using stored_values(1)[OF assms] jsonb_object(1)[OF assms]
  by (simp_all add: load_json_def strs_json_def)

lemma load_or_stored:
  assumes "jsonb_laws (jsonb cfg)"
  shows "load_or cfg (JList []) (jsonb cfg (strs_json xs)) = Some (strs_json xs)"
    "load_or cfg (JObj []) (jsonb cfg (JObj m)) = Some (JObj (jsonb_obj (jsonb cfg) m))"
proof -
  have f: "json_falsy (strs_json xs) \<Longrightarrow> strs_json xs = JList []" by (simp add: strs_json_def)
  show "load_or cfg (JList []) (jsonb cfg (strs_json xs)) = Some (strs_json xs)"
    using f by (auto simp: load_or_def load_json_stored(1)[OF assms])
  show "load_or cfg (JObj []) (jsonb cfg (JObj m)) = Some (JObj (jsonb_obj (jsonb cfg) m))"
    by (simp add: load_or_def load_json_stored(2)[OF assms])
qed

lemma rows_read_back:
  assumes "jsonb_laws (jsonb cfg)"
  shows "task_of_row cfg (task_row cfg pid t) = Some t"
    "artifact_of_row cfg (artifact_row cfg pid a) =
       Some (a\<lparr>a_content := jsonb_obj (jsonb cfg) (a_content a)\<rparr>)"
    "review_of_row cfg (review_row cfg pid v) = Some v"
    "checkpoint_of_row (checkpoint_row pid c) = c"
    "approval_of_row (approval_row pid p) = Some p"
  by (simp_all add: task_of_row_def task_row_def artifact_of_row_def artifact_row_def
      review_of_row_def review_row_def checkpoint_of_row_def checkpoint_row_def approval_of_row_def
      approval_row_def load_or_stored[OF assms] stored_values(3)[OF assms] Let_def)

lemma history_read_back:
  assumes "jsonb_laws (jsonb cfg)"
  shows "Option.bind (load_json cfg (jsonb cfg (JObj (history_payload r)))) (history_of_payload cfg) =
    Some (history r, map (stored_event (jsonb cfg)) (events r))"
proof -
  have d: "distinct (map fst (history_payload r))" by (simp add: history_payload_def)
  have or_list: "(if json_falsy (JList xs) then JList [] else JList xs) = JList xs" for xs by simp
  have ev: "list_of (event_validate now)
      (JList (map (jsonb cfg) (map (\<lambda>e. JObj (event_dump e)) es))) =
      Some (map (stored_event (jsonb cfg)) es)" for now es
    by (simp add: comp_def) (rule those_map_Some, rule event_stored[OF assms])
  have keys: "map_of (history_payload r) ''history'' = Some (strs_json (history r))"
    "map_of (history_payload r) ''events'' = Some (JList (map (\<lambda>e. JObj (event_dump e)) (events r)))"
    by (simp_all add: history_payload_def)
  show ?thesis
    unfolding load_json_stored(2)[OF assms] Option.bind.simps history_of_payload_def Let_def json.case
      defaulted_def jsonb_lookup[OF assms d] keys option.map option.case
      stored_values(1)[OF assms] jsonb_scalars(5)[OF assms] or_list ev
    using stored_values(3)[OF assms, of "history r"] by (simp add: strs_json_def or_list)
qed

section \<open>Saving and reading back\<close>

definition pg_norm :: "pg_config \<Rightarrow> project_record \<Rightarrow> project_record" where
  "pg_norm cfg r =
     \<lparr>project = (project r)\<lparr>p_policy := stored_policy (jsonb cfg) (p_policy (project r))\<rparr>,
      tasks = order_tasks_for_execution (by_id cfg t_id (tasks r)),
      artifacts = map (\<lambda>a. a\<lparr>a_content := jsonb_obj (jsonb cfg) (a_content a)\<rparr>)
        (by_id cfg a_id (artifacts r)),
      reviews = by_id cfg rv_id (reviews r), checkpoints = by_id cfg c_id (checkpoints r),
      approvals = by_id cfg ar_id (approvals r), history = history r,
      events = map (stored_event (jsonb cfg)) (events r)\<rparr>"

definition ids_distinct :: "project_record \<Rightarrow> bool" where
  "ids_distinct r \<longleftrightarrow>
     distinct (map t_id (tasks r)) \<and> distinct (map a_id (artifacts r)) \<and>
     distinct (map rv_id (reviews r)) \<and> distinct (map c_id (checkpoints r)) \<and>
     distinct (map ar_id (approvals r))"

definition saved_database :: "pg_config \<Rightarrow> project_record \<Rightarrow> database \<Rightarrow> database" where
  "saved_database cfg r db =
    (let pid = rec_id r in
     \<lparr>projects_table = upsert_project cfg (project r) (projects_table db),
      tasks_table = delete_rows pid (tasks_table db) @ map (task_row cfg pid) (tasks r),
      artifacts_table = delete_rows pid (artifacts_table db) @ map (artifact_row cfg pid) (artifacts r),
      reviews_table = delete_rows pid (reviews_table db) @ map (review_row cfg pid) (reviews r),
      checkpoints_table = delete_rows pid (checkpoints_table db) @ map (checkpoint_row pid) (checkpoints r),
      approvals_table = delete_rows pid (approvals_table db) @ map (approval_row pid) (approvals r),
      history_table = filter (\<lambda>row. hr_project row \<noteq> pid) (history_table db)
        @ [\<lparr>hr_project = pid, hr_events = jsonb cfg (JObj (history_payload r))\<rparr>]\<rparr>)"

lemma row_fields [simp]:
  "row_id (task_row cfg pid t) = t_id t" "row_project (task_row cfg pid t) = pid"
  "row_id (artifact_row cfg pid a) = a_id a" "row_project (artifact_row cfg pid a) = pid"
  "row_id (review_row cfg pid v) = rv_id v" "row_project (review_row cfg pid v) = pid"
  "row_id (checkpoint_row pid c) = c_id c" "row_project (checkpoint_row pid c) = pid"
  "row_id (approval_row pid p) = ar_id p" "row_project (approval_row pid p) = pid"
  by (simp_all add: task_row_def artifact_row_def review_row_def checkpoint_row_def approval_row_def)

lemmas replace_children =
  replace_rows[of "task_row cfg pid" t_id pid for cfg pid, OF row_fields(1,2)]
  replace_rows[of "artifact_row cfg pid" a_id pid for cfg pid, OF row_fields(3,4)]
  replace_rows[of "review_row cfg pid" rv_id pid for cfg pid, OF row_fields(5,6)]
  replace_rows[of "checkpoint_row pid" c_id pid for pid, OF row_fields(7,8)]
  replace_rows[of "approval_row pid" ar_id pid for pid, OF row_fields(9,10)]

lemmas select_children =
  select_replaced[of "task_row cfg pid" t_id pid for cfg pid, OF row_fields(1,2)]
  select_replaced[of "artifact_row cfg pid" a_id pid for cfg pid, OF row_fields(3,4)]
  select_replaced[of "review_row cfg pid" rv_id pid for cfg pid, OF row_fields(5,6)]
  select_replaced[of "checkpoint_row pid" c_id pid for pid, OF row_fields(7,8)]
  select_replaced[of "approval_row pid" ar_id pid for pid, OF row_fields(9,10)]

lemma pg_save_eq:
  "pg_save cfg r db =
     (if distinct (map t_id (tasks r)) then
        if distinct (map a_id (artifacts r)) then
          if distinct (map rv_id (reviews r)) then
            if distinct (map c_id (checkpoints r)) then
              if distinct (map ar_id (approvals r)) then Inr (saved_database cfg r db)
              else Inl (duplicate_key ''approvals'')
            else Inl (duplicate_key ''checkpoints'')
          else Inl (duplicate_key ''reviews'')
        else Inl (duplicate_key ''artifacts'')
      else Inl (duplicate_key ''tasks''))"
  by (auto simp: pg_save_def insert_children_def delete_children_def replace_children
      saved_database_def insert_row_def Let_def)

lemma pg_save_iff: "pg_save cfg r db = Inr db' \<longleftrightarrow> ids_distinct r \<and> db' = saved_database cfg r db"
  by (auto simp: pg_save_eq ids_distinct_def)

lemma find_history:
  "find (\<lambda>row. hr_project row = pid') (filter (\<lambda>row. hr_project row \<noteq> pid) rows @ [h]) =
     (if pid' = pid then (if hr_project h = pid then Some h else None)
      else case find (\<lambda>row. hr_project row = pid') rows of
             Some x \<Rightarrow> Some x | None \<Rightarrow> if hr_project h = pid' then Some h else None)"
  by (induction rows) auto

lemma those_enc:
  "(\<And>x. dec (enc x) = Some (g x)) \<Longrightarrow> those (map dec (map enc xs)) = Some (map g xs)"
  using those_map_Some[of xs "dec \<circ> enc" g] by (simp add: comp_def)

lemma pg_get_saved:
  assumes jb: "jsonb_laws (jsonb cfg)"
  shows "pg_get cfg (saved_database cfg r db) (rec_id r) = Inr (Some (pg_norm cfg r))"
proof -
  let ?jb = "jsonb cfg" and ?pid = "rec_id r" and ?db = "saved_database cfg r db"
  note rb = rows_read_back[OF jb, of ?pid]
  have p: "find (\<lambda>row. pr_id row = ?pid) (projects_table ?db) =
      Some \<lparr>pr_id = ?pid, pr_status = project_status_value (rec_status r),
        pr_brief_json = ?jb (JObj (brief_dump (p_brief (project r)))),
        pr_policy_json = ?jb (JObj (policy_dump (p_policy (project r))))\<rparr>"
    by (simp add: saved_database_def upsert_project_def find_upsert Let_def)
  have t: "those (map (task_of_row cfg) (select_rows cfg ?pid (tasks_table ?db))) =
      Some (by_id cfg t_id (tasks r))"
    using those_enc[of "task_of_row cfg" "task_row cfg ?pid" "\<lambda>t. t", OF rb(1)]
    by (simp add: saved_database_def Let_def select_children)
  have a: "those (map (artifact_of_row cfg) (select_rows cfg ?pid (artifacts_table ?db))) =
      Some (map (\<lambda>a. a\<lparr>a_content := jsonb_obj ?jb (a_content a)\<rparr>) (by_id cfg a_id (artifacts r)))"
    using those_enc[of "artifact_of_row cfg" "artifact_row cfg ?pid", OF rb(2)]
    by (simp add: saved_database_def Let_def select_children)
  have v: "those (map (review_of_row cfg) (select_rows cfg ?pid (reviews_table ?db))) =
      Some (by_id cfg rv_id (reviews r))"
    using those_enc[of "review_of_row cfg" "review_row cfg ?pid" "\<lambda>t. t", OF rb(3)]
    by (simp add: saved_database_def Let_def select_children)
  have q: "those (map approval_of_row (select_rows cfg ?pid (approvals_table ?db))) =
      Some (by_id cfg ar_id (approvals r))"
    using those_enc[of approval_of_row "approval_row ?pid" "\<lambda>t. t", OF rb(5)]
    by (simp add: saved_database_def Let_def select_children)
  have c: "map checkpoint_of_row (select_rows cfg ?pid (checkpoints_table ?db)) =
      by_id cfg c_id (checkpoints r)"
    by (simp add: saved_database_def Let_def select_children rb(4) comp_def)
  have h: "find (\<lambda>row. hr_project row = ?pid) (history_table ?db) =
      Some \<lparr>hr_project = ?pid, hr_events = ?jb (JObj (history_payload r))\<rparr>"
    by (simp add: saved_database_def find_history Let_def)
  have hp: "history_of_payload cfg (JObj (jsonb_obj ?jb (history_payload r))) =
      Some (history r, map (stored_event ?jb) (events r))"
    using history_read_back[OF jb, of r] by (simp add: load_json_stored(2)[OF jb])
  have pr: "\<lparr>p_id = ?pid, p_brief = p_brief (project r), p_policy = x, p_status = rec_status r\<rparr> =
      (project r)\<lparr>p_policy := x\<rparr>" for x by simp
  show ?thesis
    unfolding pg_get_def p option.case t a v q c h
    by (simp add: load_json_stored(2)[OF jb] load_or_stored(2)[OF jb] brief_stored[OF jb]
        policy_stored[OF jb] hp or_invalid_def pg_norm_def pr)
qed

lemma pg_get_other:
  assumes "pid \<noteq> rec_id r"
  shows "pg_get cfg (saved_database cfg r db) pid = pg_get cfg db pid"
proof -
  have p: "find (\<lambda>row. pr_id row = pid) (projects_table (saved_database cfg r db)) =
      find (\<lambda>row. pr_id row = pid) (projects_table db)"
    using assms by (simp add: saved_database_def upsert_project_def find_upsert Let_def)
  have h: "find (\<lambda>row. hr_project row = pid) (history_table (saved_database cfg r db)) =
      find (\<lambda>row. hr_project row = pid) (history_table db)"
    using assms by (auto simp: saved_database_def find_history Let_def split: option.split)
  have t: "select_rows cfg pid (tasks_table (saved_database cfg r db)) = select_rows cfg pid (tasks_table db)"
    "select_rows cfg pid (artifacts_table (saved_database cfg r db)) =
       select_rows cfg pid (artifacts_table db)"
    "select_rows cfg pid (reviews_table (saved_database cfg r db)) =
       select_rows cfg pid (reviews_table db)"
    "select_rows cfg pid (checkpoints_table (saved_database cfg r db)) =
       select_rows cfg pid (checkpoints_table db)"
    "select_rows cfg pid (approvals_table (saved_database cfg r db)) =
       select_rows cfg pid (approvals_table db)"
    using assms by (simp_all add: saved_database_def select_children Let_def)
  show ?thesis unfolding pg_get_def p h t by (rule refl)
qed

end
