(* ===== verification/Postgres_Repository.thy ===== *)
theory Postgres_Repository
  imports Postgres_Facts Service
begin

text \<open>
  The row-level repository as an instance of the contract, and what follows for the service over
  it: the invariant of a stored record survives the tables, so what holds of every project behind
  the in-memory store holds of every project behind Postgres.
\<close>

section \<open>The contract\<close>

text \<open>
  \<open>get\<close> of the contract; that a stored project never fails to validate is \<open>pg_never_invalid\<close> below.
\<close>

definition pg_find :: "pg_config \<Rightarrow> database getter" where
  "pg_find cfg db pid = (case pg_get cfg db pid of Inr (Some r) \<Rightarrow> Some r | _ \<Rightarrow> None)"

lemma pg_repository:
  assumes "jsonb_laws (jsonb cfg)"
  shows "project_repository (pg_find cfg) (pg_save cfg) (pg_norm cfg)"
  by unfold_locales
    (auto simp: pg_find_def pg_save_iff pg_get_saved[OF assms] pg_get_other, simp add: pg_norm_def)

section \<open>The invariant survives the tables\<close>

text \<open>The status events carry one value per metadata key.\<close>

definition status_keys :: "project_record \<Rightarrow> bool" where
  "status_keys r \<longleftrightarrow>
     (\<forall>e \<in> set (events r). e_event_type e \<in> {Ev_STATE_TRANSITION, Ev_TASK_STATUS_CHANGED} \<longrightarrow>
        distinct (map fst (e_metadata e)))"

lemma edit_status_keys: "edit r r' \<Longrightarrow> status_keys r \<Longrightarrow> status_keys r'"
  by (cases rule: edit.cases)
    (auto simp: status_keys_def record_event_def set_task_status_def transition_def Let_def
      split: if_splits)

lemma edits_status_keys: "edits r r' \<Longrightarrow> status_keys r \<Longrightarrow> status_keys r'"
  by (induction rule: rtranclp_induct) (auto dest: edit_status_keys)

lemma saved_status_keys:
  assumes "saved_record env q r = Some x"
  shows "target q \<noteq> None \<Longrightarrow> status_keys r \<Longrightarrow> status_keys x" "target q = None \<Longrightarrow> status_keys x"
proof -
  show "target q \<noteq> None \<Longrightarrow> status_keys r \<Longrightarrow> status_keys x"
    using edits_status_keys saved_record_edits[OF assms] by blast
  assume "target q = None"
  then obtain brief policy name approved sim where q: "q = Run brief policy name approved sim"
    by (cases q) auto
  have "status_keys (new_record env brief policy)" by (simp add: status_keys_def new_record_def)
  then show "status_keys x"
    using assms run_edits[of env brief policy name approved sim] edits_status_keys
    by (cases "run env brief policy name approved sim") (auto simp: q outcome_all_def)
qed

text \<open>A collation that orders the task ids of the plan as their code points do.\<close>

definition plan_collation :: "pg_config \<Rightarrow> bool" where
  "plan_collation cfg \<longleftrightarrow>
     (\<forall>t \<in> set build_plan. \<forall>u \<in> set build_plan.
        collate cfg (t_id t) \<le> collate cfg (t_id u) \<longleftrightarrow> t_id t \<le> t_id u)"

lemma sort_key_agree:
  assumes "\<forall>x \<in> set xs. \<forall>y \<in> set xs. f x \<le> f y \<longleftrightarrow> g x \<le> g y"
  shows "sort_key f xs = sort_key g xs"
proof -
  have "insort_key f x ys = insort_key g x ys" if "\<forall>y \<in> set ys. f x \<le> f y \<longleftrightarrow> g x \<le> g y" for x ys
    using that by (induction ys) auto
  with assms show ?thesis by (induction xs) simp_all
qed

lemma plan_sorted:
  assumes "plan_collation cfg" "map task_shape ts = map task_shape build_plan"
  shows "order_tasks_for_execution (by_id cfg t_id ts) = ts"
proof -
  have ids: "set (map t_id ts) = set (map t_id build_plan)"
    using arg_cong[OF assms(2), of "map fst"] by (simp add: task_shape_def comp_def)
  have "\<forall>x \<in> set ts. \<forall>y \<in> set ts. collate cfg (t_id x) \<le> collate cfg (t_id y) \<longleftrightarrow> t_id x \<le> t_id y"
  proof (intro ballI)
    fix x y assume "x \<in> set ts" "y \<in> set ts"
    then obtain t u where "t \<in> set build_plan" "t_id t = t_id x" "u \<in> set build_plan" "t_id u = t_id y"
      using ids by (metis (no_types, lifting) imageE imageI set_map)
    then show "collate cfg (t_id x) \<le> collate cfg (t_id y) \<longleftrightarrow> t_id x \<le> t_id y"
      using assms(1) unfolding plan_collation_def by metis
  qed
  then have "by_id cfg t_id ts = sort_key t_id ts" unfolding by_id_def by (rule sort_key_agree)
  then show ?thesis using order_tasks_plan[OF assms(2)] by simp
qed

lemma set_by_id [simp]: "set (by_id cfg f xs) = set xs" "by_id cfg f xs = [] \<longleftrightarrow> xs = []"
proof -
  show s: "set (by_id cfg f xs) = set xs" by (simp add: by_id_def)
  show "by_id cfg f xs = [] \<longleftrightarrow> xs = []" using arg_cong[OF s, of "\<lambda>A. A = {}"] by simp
qed

lemma distinct_by_id: "distinct (map g (by_id cfg f xs)) \<longleftrightarrow> distinct (map g xs)"
  unfolding by_id_def by (metis mset_map mset_sort mset_eq_imp_distinct_iff)

lemma norm_fields [simp]:
  "rec_id (pg_norm cfg r) = rec_id r" "rec_status (pg_norm cfg r) = rec_status r"
  "history (pg_norm cfg r) = history r"
  "events (pg_norm cfg r) = map (stored_event (jsonb cfg)) (events r)"
  "tasks (pg_norm cfg r) = order_tasks_for_execution (by_id cfg t_id (tasks r))"
  "approvals (pg_norm cfg r) = by_id cfg ar_id (approvals r)"
  "checkpoints (pg_norm cfg r) = by_id cfg c_id (checkpoints r)"
  "artifacts (pg_norm cfg r) =
     map (\<lambda>a. a\<lparr>a_content := jsonb_obj (jsonb cfg) (a_content a)\<rparr>) (by_id cfg a_id (artifacts r))"
  by (simp_all add: pg_norm_def)

lemma norm_actions [simp]: "actions_with s (pg_norm cfg r) = actions_with s r"
  by (simp add: actions_with_def pg_norm_def)

lemma jsonb_str:
  assumes "jsonb_laws jb"
  shows "jb v = JStr s \<longleftrightarrow> v = JStr s"
  using jsonb_scalars[OF assms] jsonb_object(1)[OF assms] by (cases v) auto

lemma stored_replay:
  assumes "jsonb_laws jb"
    and "e_event_type e \<in> {Ev_STATE_TRANSITION, Ev_TASK_STATUS_CHANGED} \<longrightarrow>
      distinct (map fst (e_metadata e))"
  shows "replay_task (stored_event jb e) = replay_task e"
    and "replay_status (stored_event jb e) = replay_status e"
proof -
  have str: "map_option jb x = Some (JStr s) \<longleftrightarrow> x = Some (JStr s)" for x s
    by (cases x) (simp_all add: jsonb_str[OF assms(1)])
  have st: "status_in f all (map_option jb x) = status_in f all x" for f :: "'s \<Rightarrow> string" and all x
    by (simp only: status_in_def str)
  have ty: "e_event_type (stored_event jb e) = e_event_type e" by (simp add: stored_event_def)
  have look: "map_of (e_metadata (stored_event jb e)) k = map_option jb (map_of (e_metadata e) k)"
    if "e_event_type e \<in> {Ev_STATE_TRANSITION, Ev_TASK_STATUS_CHANGED}" for k
    using that assms jsonb_lookup[OF assms(1)] by (simp add: stored_event_def)
  show "replay_task (stored_event jb e) = replay_task e"
    unfolding replay_task_def ty
    by (cases "e_event_type e = Ev_TASK_STATUS_CHANGED") (simp_all only: look insert_iff simp_thms st str if_False)
  show "replay_status (stored_event jb e) = replay_status e"
    unfolding replay_status_def ty
    by (cases "e_event_type e = Ev_STATE_TRANSITION") (simp_all only: look insert_iff simp_thms st if_False)
qed

lemma norm_replay:
  assumes "jsonb_laws (jsonb cfg)" "status_keys r"
  shows "replay_tasks (events (pg_norm cfg r)) ts = replay_tasks (events r) ts"
    and "replay_project (events (pg_norm cfg r)) st = replay_project (events r) st"
proof -
  have e: "replay_task (stored_event (jsonb cfg) e) = replay_task e \<and>
      replay_status (stored_event (jsonb cfg) e) = replay_status e" if "e \<in> set (events r)" for e
    using that assms(2) by (intro conjI stored_replay[OF assms(1)]) (auto simp: status_keys_def)
  show "replay_tasks (events (pg_norm cfg r)) ts = replay_tasks (events r) ts"
    unfolding replay_tasks_def norm_fields fold_map by (rule fold_cong) (simp_all add: e)
  show "replay_project (events (pg_norm cfg r)) st = replay_project (events r) st"
    unfolding replay_project_def norm_fields fold_map by (rule fold_cong) (simp_all add: e)
qed

lemma norm_kept:
  "p_brief (project (pg_norm cfg r)) = p_brief (project r)"
  "mset (reviews (pg_norm cfg r)) = mset (reviews r)"
  "mset (checkpoints (pg_norm cfg r)) = mset (checkpoints r)"
  "mset (approvals (pg_norm cfg r)) = mset (approvals r)"
  "plan_collation cfg \<Longrightarrow> sound r \<Longrightarrow> tasks (pg_norm cfg r) = tasks r"
proof -
  show "plan_collation cfg \<Longrightarrow> sound r \<Longrightarrow> tasks (pg_norm cfg r) = tasks r"
    using plan_sorted soundD(5) by simp
qed (simp_all add: pg_norm_def by_id_def)

lemma norm_sound:
  assumes "jsonb_laws (jsonb cfg)" "plan_collation cfg" "sound r" "status_keys r"
  shows "sound (pg_norm cfg r) \<and> status_keys (pg_norm cfg r)"
proof -
  note s = soundD[OF assms(3)]
  have t: "tasks (pg_norm cfg r) = tasks r" by (rule norm_kept(5)[OF assms(2,3)])
  have "settled (pg_norm cfg r)"
    using s(1) by (cases "rec_status r") (simp_all add: settled_def t only_external_def del: norm_fields(5))
  moreover have "history_ok (pg_norm cfg r)" using s(2) by (rule history_ok_same) simp_all
  moreover have "log_complete (task_states build_plan) (pg_norm cfg r)"
    using s(3) by (simp add: log_complete_def t norm_replay[OF assms(1,4)] del: norm_fields(4) norm_fields(5))
  moreover have "keys_unique (pg_norm cfg r)"
    using s(4) by (simp add: keys_unique_def t distinct_by_id comp_def del: norm_fields(5))
  moreover have "status_keys (pg_norm cfg r)"
    using jsonb_object(2)[OF assms(1)] by (auto simp: status_keys_def stored_event_def)
  ultimately show ?thesis using s(5) by (simp add: sound_def t del: norm_fields(5))
qed

section \<open>What the service reaches over it\<close>

text \<open>No stored project fails to validate.\<close>

definition never_invalid :: "pg_config \<Rightarrow> database \<Rightarrow> bool" where
  "never_invalid cfg db \<longleftrightarrow> (\<forall>pid. pg_get cfg db pid \<noteq> Inl ())"

lemma empty_never_invalid: "never_invalid cfg empty_database"
  by (simp add: never_invalid_def pg_get_def empty_database_def)

lemma pg_find_empty: "pg_find cfg empty_database pid = None"
  by (simp add: pg_find_def pg_get_def empty_database_def)

lemma save_never_invalid:
  assumes "jsonb_laws (jsonb cfg)" "never_invalid cfg db" "pg_save cfg r db = Inr db'"
  shows "never_invalid cfg db'"
  unfolding never_invalid_def
proof
  fix pid
  show "pg_get cfg db' pid \<noteq> Inl ()"
    using assms(2,3) pg_get_saved[OF assms(1)] pg_get_other[of pid r cfg db]
    by (cases "pid = rec_id r") (auto simp: pg_save_iff never_invalid_def)
qed

lemma reachable_never_invalid:
  assumes "reachable (pg_find cfg) (pg_save cfg) db0 db" "jsonb_laws (jsonb cfg)" "never_invalid cfg db0"
  shows "never_invalid cfg db"
  using assms(1,3)
proof (induction rule: reachable.induct)
  case (request s s' env q s'' res)
  have "s'' = s' \<or> (\<exists>r. pg_save cfg r s' = Inr s'')"
    using project_repository.serve_saves[OF pg_repository[OF assms(2)], of env q s'] request(2) by simp
  then show ?case using request save_never_invalid[OF assms(2)] by blast
qed

lemma reachable_pg_sound:
  assumes "reachable (pg_find cfg) (pg_save cfg) empty_database db"
    and "jsonb_laws (jsonb cfg)" "plan_collation cfg"
  shows "stored (pg_find cfg) (\<lambda>r. sound r \<and> status_keys r) db"
proof (rule project_repository.reachable_stored[OF pg_repository[OF assms(2)] assms(1)])
  show "stored (pg_find cfg) (\<lambda>r. sound r \<and> status_keys r) empty_database"
    by (simp add: stored_def pg_find_empty)
  fix env q r x
  assume x: "saved_record env q r = Some x"
  show "target q = None \<Longrightarrow> sound (pg_norm cfg x) \<and> status_keys (pg_norm cfg x)"
    by (rule norm_sound[OF assms(2,3)])
      (use x saved_record_run_sound saved_status_keys(2) in blast)+
  show "target q \<noteq> None \<Longrightarrow> sound r \<and> status_keys r \<Longrightarrow>
      sound (pg_norm cfg x) \<and> status_keys (pg_norm cfg x)"
    by (rule norm_sound[OF assms(2,3)])
      (use x saved_record_sound saved_status_keys(1) in blast)+
qed

text \<open>Both together: a project is missing or it is read back, as a record that satisfies the invariant.\<close>

lemma reachable_pg_get:
  assumes "reachable (pg_find cfg) (pg_save cfg) empty_database db"
    and "jsonb_laws (jsonb cfg)" "plan_collation cfg"
  shows "pg_get cfg db pid = Inr None \<or> (\<exists>r. pg_get cfg db pid = Inr (Some r) \<and> rec_id r = pid \<and> sound r)"
proof (cases "pg_get cfg db pid")
  case (Inl u)
  then show ?thesis
    using reachable_never_invalid[OF assms(1,2) empty_never_invalid] by (simp add: never_invalid_def)
next
  case (Inr x)
  show ?thesis
  proof (cases x)
    case (Some r)
    with Inr have "pg_find cfg db pid = Some r" by (simp add: pg_find_def)
    then have "rec_id r = pid \<and> sound r" using reachable_pg_sound[OF assms] unfolding stored_def by blast
    with Inr Some show ?thesis by simp
  qed (simp add: Inr)
qed

section \<open>A column that keeps the last entry of a key\<close>

primrec last_entries :: "json \<Rightarrow> json" where
  "last_entries JNull = JNull"
| "last_entries (JBool b) = JBool b"
| "last_entries (JNum n) = JNum n"
| "last_entries (JStr s) = JStr s"
| "last_entries (JList xs) = JList (map last_entries xs)"
| "last_entries (JObj m) = JObj (dict_update [] (map (map_prod id last_entries) m))"

lemma fold_update_entries:
  "distinct (map fst d) \<Longrightarrow> distinct (map fst (dict_update d e)) \<and>
     fst ` set (dict_update d e) = fst ` set d \<union> fst ` set e \<and>
     set (dict_update d e) \<subseteq> set d \<union> set e"
proof (induction e arbitrary: d)
  case (Cons p e)
  obtain k v where p: "p = (k, v)" by fastforce
  have d: "distinct (map fst (AList.update k v d))"
    using Cons.prems by (rule AList.distinct_update)
  have "fst ` set (AList.update k v d) = insert k (fst ` set d)" by (simp add: dom_update)
  moreover have "set (AList.update k v d) \<subseteq> insert (k, v) (set d)" by (induction d) auto
  ultimately show ?case
    using Cons.IH[OF d] unfolding dict_update_def p by simp blast
qed (simp add: dict_update_def)

lemma last_entries_object:
  fixes m :: "json dict"
  defines "m' \<equiv> dict_update [] (map (map_prod id last_entries) m)"
  shows "distinct (map fst m')" "fst ` set m' = fst ` set m"
    "\<forall>(k, v') \<in> set m'. \<exists>v. (k, v) \<in> set m \<and> v' = last_entries v"
proof -
  have f: "distinct (map fst m') \<and> fst ` set m' = fst ` map_prod id last_entries ` set m \<and>
      set m' \<subseteq> map_prod id last_entries ` set m"
    using fold_update_entries[of "[]" "map (map_prod id last_entries) m"] unfolding m'_def by simp
  then show "distinct (map fst m')" by blast
  show "fst ` set m' = fst ` set m"
    using f[THEN conjunct2, THEN conjunct1] by (simp add: image_image)
  show "\<forall>(k, v') \<in> set m'. \<exists>v. (k, v) \<in> set m \<and> v' = last_entries v"
  proof clarify
    fix k v' assume "(k, v') \<in> set m'"
    then have "(k, v') \<in> map_prod id last_entries ` set m" using f by blast
    then show "\<exists>v. (k, v) \<in> set m \<and> v' = last_entries v" by auto
  qed
qed

lemma last_entries_laws: "jsonb_laws last_entries"
proof -
  have "\<exists>m'. last_entries (JObj m) = JObj m' \<and> distinct (map fst m') \<and> fst ` set m' = fst ` set m \<and>
      (\<forall>(k, v') \<in> set m'. \<exists>v. (k, v) \<in> set m \<and> v' = last_entries v)" for m
    using last_entries_object[of m] last_entries.simps(6)[of m] by blast
  then show ?thesis unfolding jsonb_laws_def by (intro conjI allI) (rule last_entries.simps | blast)+
qed

end
