(* ===== verification/Postgres_Samples.thy ===== *)
theory Postgres_Samples
  imports Postgres_Repository Samples
begin

text \<open>
  A configuration of the row-level repository whose JSON columns keep the last entry of a key, and
  the database that holds the first project of \<open>Samples\<close>.
\<close>

definition sample_pg :: pg_config where
  "sample_pg = \<lparr>jsonb = last_entries, collate = id, json_loads = (\<lambda>s. None), now_text = ''''\<rparr>"

definition pg_waiting :: database where
  "pg_waiting = saved_database sample_pg waiting empty_database"

lemma sample_pg_laws: "jsonb_laws (jsonb sample_pg)" "plan_collation sample_pg"
  by (simp_all add: sample_pg_def last_entries_laws plan_collation_def)

lemma waiting_ids: "ids_distinct waiting"
  by code_simp

lemma waiting_saved: "pg_save sample_pg waiting empty_database = Inr pg_waiting"
  by (simp add: pg_save_iff waiting_ids pg_waiting_def)

lemma pg_waiting_reachable:
  "reachable (pg_find sample_pg) (pg_save sample_pg) empty_database pg_waiting"
proof -
  obtain res where f: "run sample_env sample_brief None ''gemini'' None False = (Some waiting, res)"
    using first_run_saves by (cases "snd first_run") (auto simp: first_run_def prod_eq_iff)
  then have "serve (pg_find sample_pg) (pg_save sample_pg) sample_env
      (Run sample_brief None ''gemini'' None False) empty_database =
      (pg_waiting, snd (map_result Result (pg_waiting, res)))"
    by (cases res) (simp_all add: commit_def waiting_saved)
  from reachable.request[OF reachable.start this] show ?thesis .
qed

lemma pg_waiting_get: "pg_get sample_pg pg_waiting ''p-1'' = Inr (Some (pg_norm sample_pg waiting))"
  using pg_get_saved[OF sample_pg_laws(1), of waiting empty_database] waiting_eval
  by (simp add: pg_waiting_def)

lemma waiting_record_sound: "sound waiting"
  using first_run_saves run_sound[of sample_env sample_brief None "''gemini''" None False waiting]
  by (cases first_run) (auto simp: first_run_def)

text \<open>The record after a second review holds two reviews with one id.\<close>

lemma rereviewed_ids:
  "distinct (map t_id (tasks rereviewed)) \<and> distinct (map a_id (artifacts rereviewed)) \<and>
   \<not> distinct (map rv_id (reviews rereviewed))"
  by code_simp

lemma rereviewed_not_stored: "pg_save cfg rereviewed db = Inl (duplicate_key ''reviews'')"
  using rereviewed_ids by (simp add: pg_save_eq)

end
