(* ===== verification/Signal_Tables.thy ===== *)
theory Signal_Tables
  imports Record_Ops
begin

text \<open>
  The signal store (\<open>app/db/repositories.py\<close>), first half: what its statements do to a table, and
  the repositories of releases, markets and market snapshots. A table is the list of its rows; a
  row has the columns that the code writes, since the table models (\<open>app.db.models\<close>) are not in
  the repository. The columns named by \<open>index_elements\<close> are unique, or Postgres would refuse the
  statement. A further constraint of a table could make a statement fail, and leaves the table as
  it was. Instants are integers; \<open>ORDER BY\<close> keeps rows with one key in the order of the table.
\<close>

section \<open>Statements\<close>

type_synonym instant = int

text \<open>\<open>INSERT ... ON CONFLICT (key) DO UPDATE SET ... WHERE ...\<close> and \<open>DO NOTHING\<close>.\<close>

definition on_conflict_update_where ::
  "('r \<Rightarrow> 'k) \<Rightarrow> ('r \<Rightarrow> bool) \<Rightarrow> ('r \<Rightarrow> 'r) \<Rightarrow> 'r \<Rightarrow> 'r list \<Rightarrow> 'r list" where
  "on_conflict_update_where key cond set_columns row rows =
     (if key row \<in> key ` set rows
      then map (\<lambda>r. if key r = key row \<and> cond r then set_columns r else r) rows
      else rows @ [row])"

definition on_conflict_update :: "('r \<Rightarrow> 'k) \<Rightarrow> ('r \<Rightarrow> 'r) \<Rightarrow> 'r \<Rightarrow> 'r list \<Rightarrow> 'r list" where
  "on_conflict_update key = on_conflict_update_where key (\<lambda>_. True)"

definition on_conflict_nothing :: "('r \<Rightarrow> 'k) \<Rightarrow> 'r \<Rightarrow> 'r list \<Rightarrow> 'r list" where
  "on_conflict_nothing key row rows = (if key row \<in> key ` set rows then rows else rows @ [row])"

definition order_asc :: "('r \<Rightarrow> instant) \<Rightarrow> 'r list \<Rightarrow> 'r list" where
  "order_asc key rows = sort_key key rows"

definition order_desc :: "('r \<Rightarrow> instant) \<Rightarrow> 'r list \<Rightarrow> 'r list" where
  "order_desc key rows = sort_key (\<lambda>r. - key r) rows"

text \<open>\<open>scalar_one_or_none()\<close>: \<open>Inl\<close> is \<open>MultipleResultsFound\<close>.\<close>

fun scalar_one_or_none :: "'r list \<Rightarrow> string + 'r option" where
  "scalar_one_or_none [] = Inr None"
| "scalar_one_or_none [r] = Inr (Some r)"
| "scalar_one_or_none (r # r' # rs) =
     Inl ''Multiple rows were found when one or none was required''"

section \<open>Releases\<close>

record release_calendar =
  rc_release_id :: string
  rc_release_type :: string
  rc_release_name :: string
  rc_scheduled_time_utc :: instant
  rc_source_url :: string
  rc_status :: string

record release_actual =
  ra_release_id :: string
  ra_actual_value_raw :: string
  ra_actual_value_num :: "rat option"
  ra_parsed_payload_json :: "json dict"
  ra_parsed_at_utc :: instant

definition upsert_release :: "release_calendar \<Rightarrow> release_calendar list \<Rightarrow> release_calendar list" where
  "upsert_release v =
     on_conflict_update rc_release_id
       (\<lambda>r. r\<lparr>rc_release_type := rc_release_type v, rc_release_name := rc_release_name v,
              rc_scheduled_time_utc := rc_scheduled_time_utc v, rc_source_url := rc_source_url v,
              rc_status := rc_status v\<rparr>) v"

definition list_upcoming :: "instant \<Rightarrow> nat \<Rightarrow> release_calendar list \<Rightarrow> release_calendar list" where
  "list_upcoming now_utc limit rows =
     take limit (order_asc rc_scheduled_time_utc
       (filter (\<lambda>r. rc_scheduled_time_utc r \<ge> now_utc) rows))"

definition release_by_id :: "string \<Rightarrow> release_calendar list \<Rightarrow> string + release_calendar option" where
  "release_by_id rid rows = scalar_one_or_none (filter (\<lambda>r. rc_release_id r = rid) rows)"

definition find_by_identity ::
  "string \<Rightarrow> string \<Rightarrow> instant \<Rightarrow> release_calendar list \<Rightarrow> string + release_calendar option" where
  "find_by_identity release_type release_name scheduled_time_utc rows =
     scalar_one_or_none
       (filter (\<lambda>r. rc_release_type r = release_type \<and> rc_release_name r = release_name \<and>
                    rc_scheduled_time_utc r = scheduled_time_utc) rows)"

definition list_between :: "instant \<Rightarrow> instant \<Rightarrow> release_calendar list \<Rightarrow> release_calendar list" where
  "list_between from_utc to_utc rows =
     order_asc rc_scheduled_time_utc
       (filter (\<lambda>r. rc_scheduled_time_utc r \<ge> from_utc \<and> rc_scheduled_time_utc r \<le> to_utc) rows)"

definition count_between :: "instant \<Rightarrow> instant \<Rightarrow> release_calendar list \<Rightarrow> nat" where
  "count_between from_utc to_utc rows =
     length (filter (\<lambda>r. rc_scheduled_time_utc r \<ge> from_utc \<and> rc_scheduled_time_utc r \<le> to_utc) rows)"

text \<open>\<open>timedelta\<close> in the microseconds that an instant counts.\<close>

definition timedelta_seconds :: "int \<Rightarrow> int" where
  "timedelta_seconds n = n * 1000000"

definition timedelta_days :: "int \<Rightarrow> int" where
  "timedelta_days n = timedelta_seconds (n * 86400)"

definition list_due_for_actual ::
  "instant \<Rightarrow> nat \<Rightarrow> release_calendar list \<Rightarrow> release_calendar list" where
  "list_due_for_actual due_before_utc limit rows =
    (let lower_bound = due_before_utc - timedelta_days 30
     in take limit (order_desc rc_scheduled_time_utc
          (filter (\<lambda>r. rc_scheduled_time_utc r \<le> due_before_utc \<and>
                       rc_scheduled_time_utc r \<ge> lower_bound) rows)))"

definition upsert_actual :: "release_actual \<Rightarrow> release_actual list \<Rightarrow> release_actual list" where
  "upsert_actual v =
     on_conflict_update ra_release_id
       (\<lambda>r. r\<lparr>ra_actual_value_raw := ra_actual_value_raw v,
              ra_actual_value_num := ra_actual_value_num v,
              ra_parsed_payload_json := ra_parsed_payload_json v,
              ra_parsed_at_utc := ra_parsed_at_utc v\<rparr>) v"

definition get_actual :: "string \<Rightarrow> release_actual list \<Rightarrow> string + release_actual option" where
  "get_actual rid rows = scalar_one_or_none (filter (\<lambda>r. ra_release_id r = rid) rows)"

section \<open>Markets\<close>

record market_catalog =
  mc_market_ticker :: string
  mc_platform :: string
  mc_title :: string
  mc_subtitle :: "string option"
  mc_close_time_utc :: "instant option"
  mc_status :: string
  mc_release_type :: "string option"
  mc_mapping_confidence :: rat
  mc_mapping_payload_json :: "json dict"

definition upsert_market :: "market_catalog \<Rightarrow> market_catalog list \<Rightarrow> market_catalog list" where
  "upsert_market v =
     on_conflict_update mc_market_ticker
       (\<lambda>r. r\<lparr>mc_platform := mc_platform v, mc_title := mc_title v, mc_subtitle := mc_subtitle v,
              mc_close_time_utc := mc_close_time_utc v, mc_status := mc_status v,
              mc_release_type := mc_release_type v,
              mc_mapping_confidence := mc_mapping_confidence v,
              mc_mapping_payload_json := mc_mapping_payload_json v\<rparr>) v"

text \<open>A comparison with \<open>NULL\<close> is never true. The tickers are ordered by the collation.\<close>

definition markets_for_release_type ::
  "(string \<Rightarrow> string) \<Rightarrow> string \<Rightarrow> market_catalog list \<Rightarrow> market_catalog list" where
  "markets_for_release_type collation release_type rows =
     sort_key (\<lambda>r. collation (mc_market_ticker r))
       (filter (\<lambda>r. mc_release_type r = Some release_type) rows)"

definition market_by_ticker :: "string \<Rightarrow> market_catalog list \<Rightarrow> string + market_catalog option" where
  "market_by_ticker ticker rows = scalar_one_or_none (filter (\<lambda>r. mc_market_ticker r = ticker) rows)"

definition count_for_release_type :: "string \<Rightarrow> market_catalog list \<Rightarrow> nat" where
  "count_for_release_type release_type rows =
     length (filter (\<lambda>r. mc_release_type r = Some release_type) rows)"

section \<open>Snapshots\<close>

record market_snapshot =
  sn_market_ticker :: string
  sn_captured_at_utc :: instant
  sn_yes_bid :: "rat option"
  sn_yes_ask :: "rat option"
  sn_mid :: "rat option"
  sn_spread :: "rat option"
  sn_last_price :: "rat option"
  sn_volume :: "rat option"

definition sn_key :: "market_snapshot \<Rightarrow> string \<times> instant" where
  "sn_key r = (sn_market_ticker r, sn_captured_at_utc r)"

definition snapshot_by_market_and_time ::
  "string \<Rightarrow> instant \<Rightarrow> market_snapshot list \<Rightarrow> string + market_snapshot option" where
  "snapshot_by_market_and_time ticker captured_at rows =
     scalar_one_or_none
       (filter (\<lambda>r. sn_market_ticker r = ticker \<and> sn_captured_at_utc r = captured_at) rows)"

definition add_snapshot :: "market_snapshot \<Rightarrow> market_snapshot list \<Rightarrow> market_snapshot list" where
  "add_snapshot v = on_conflict_nothing sn_key v"

definition upsert_snapshot :: "market_snapshot \<Rightarrow> market_snapshot list \<Rightarrow> market_snapshot list" where
  "upsert_snapshot v =
     on_conflict_update sn_key
       (\<lambda>r. r\<lparr>sn_yes_bid := sn_yes_bid v, sn_yes_ask := sn_yes_ask v, sn_mid := sn_mid v,
              sn_spread := sn_spread v, sn_last_price := sn_last_price v,
              sn_volume := sn_volume v\<rparr>) v"

definition list_snapshots ::
  "string \<Rightarrow> instant \<Rightarrow> instant \<Rightarrow> market_snapshot list \<Rightarrow> market_snapshot list" where
  "list_snapshots ticker start_utc end_utc rows =
     order_asc sn_captured_at_utc
       (filter (\<lambda>r. sn_market_ticker r = ticker \<and> sn_captured_at_utc r \<ge> start_utc \<and>
                    sn_captured_at_utc r \<le> end_utc) rows)"

definition latest_snapshot_before ::
  "string \<Rightarrow> instant \<Rightarrow> market_snapshot list \<Rightarrow> string + market_snapshot option" where
  "latest_snapshot_before ticker ts_utc rows =
     scalar_one_or_none (take 1 (order_desc sn_captured_at_utc
       (filter (\<lambda>r. sn_market_ticker r = ticker \<and> sn_captured_at_utc r \<le> ts_utc) rows)))"

definition latest_snapshot_anytime ::
  "string \<Rightarrow> market_snapshot list \<Rightarrow> string + market_snapshot option" where
  "latest_snapshot_anytime ticker rows =
     scalar_one_or_none (take 1 (order_desc sn_captured_at_utc
       (filter (\<lambda>r. sn_market_ticker r = ticker) rows)))"

definition count_for_markets_since ::
  "string list \<Rightarrow> instant \<Rightarrow> market_snapshot list \<Rightarrow> nat" where
  "count_for_markets_since tickers since_utc rows =
     (if tickers = [] then 0
      else length (filter (\<lambda>r. sn_market_ticker r \<in> set tickers \<and> sn_captured_at_utc r \<ge> since_utc) rows))"

definition count_for_markets_between ::
  "string list \<Rightarrow> instant \<Rightarrow> instant \<Rightarrow> market_snapshot list \<Rightarrow> nat" where
  "count_for_markets_between tickers start_utc end_utc rows =
     (if tickers = [] then 0
      else length (filter (\<lambda>r. sn_market_ticker r \<in> set tickers \<and> sn_captured_at_utc r \<ge> start_utc \<and>
                               sn_captured_at_utc r \<le> end_utc) rows))"

end
