(* ===== verification/Signal_Events.thy ===== *)
theory Signal_Events
  imports Signal_Tables Regex
begin

text \<open>
  The signal store (\<open>app/db/repositories.py\<close>), second half: signals, notifications, evaluation
  results and monitor events. The values of the enumerations in \<open>app.domain.enums\<close> and the clock
  \<open>utc_now\<close>, which are not in the repository, are parameters.
\<close>

record signal_enums =
  Severity_HIGH :: string
  Severity_CRITICAL :: string
  DeliveryStatus_FAILED :: string
  DeliveryStatus_SENT :: string
  MonitorStatus_OPEN :: string
  MonitorStatus_ACKNOWLEDGED :: string
  MonitorStatus_SUPPRESSED :: string
  MonitorStatus_RESOLVED :: string
  MonitorType_LIVE_CYCLE_STALLED :: string
  MonitorSeverity_CRITICAL :: string

section \<open>Signals\<close>

record signal =
  sg_signal_id :: string
  sg_release_id :: string
  sg_market_ticker :: string
  sg_signal_type :: string
  sg_score :: int
  sg_severity :: string
  sg_reason_codes_json :: "string list"
  sg_metrics_json :: "json dict"
  sg_emitted_at_utc :: instant

definition upsert_signal :: "signal \<Rightarrow> signal list \<Rightarrow> signal list" where
  "upsert_signal v =
     on_conflict_update sg_signal_id
       (\<lambda>r. r\<lparr>sg_score := sg_score v, sg_severity := sg_severity v,
              sg_reason_codes_json := sg_reason_codes_json v, sg_metrics_json := sg_metrics_json v,
              sg_emitted_at_utc := sg_emitted_at_utc v\<rparr>) v"

text \<open>An optional filter of a listing: no condition for \<open>None\<close> and for the empty text.\<close>

definition if_given :: "string option \<Rightarrow> string \<Rightarrow> bool" where
  "if_given wanted x = (opt_or wanted '''' = '''' \<or> wanted = Some x)"

definition recent_signals :: "nat \<Rightarrow> string option \<Rightarrow> signal list \<Rightarrow> signal list" where
  "recent_signals limit severity rows =
     take limit (order_desc sg_emitted_at_utc (filter (\<lambda>r. if_given severity (sg_severity r)) rows))"

definition signal_by_id :: "string \<Rightarrow> signal list \<Rightarrow> string + signal option" where
  "signal_by_id sid rows = scalar_one_or_none (filter (\<lambda>r. sg_signal_id r = sid) rows)"

definition signals_for_release :: "string \<Rightarrow> signal list \<Rightarrow> signal list" where
  "signals_for_release rid rows = order_asc sg_emitted_at_utc (filter (\<lambda>r. sg_release_id r = rid) rows)"

definition count_for_release_between :: "string \<Rightarrow> instant \<Rightarrow> instant \<Rightarrow> signal list \<Rightarrow> nat" where
  "count_for_release_between rid start_utc end_utc rows =
     length (filter (\<lambda>r. sg_release_id r = rid \<and> sg_emitted_at_utc r \<ge> start_utc \<and>
                         sg_emitted_at_utc r \<le> end_utc) rows)"

definition count_high_or_critical_for_market_between ::
  "signal_enums \<Rightarrow> string \<Rightarrow> string \<Rightarrow> instant \<Rightarrow> instant \<Rightarrow> signal list \<Rightarrow> nat" where
  "count_high_or_critical_for_market_between en rid ticker start_utc end_utc rows =
     length (filter (\<lambda>r. sg_release_id r = rid \<and> sg_market_ticker r = ticker \<and>
                         sg_emitted_at_utc r \<ge> start_utc \<and> sg_emitted_at_utc r \<le> end_utc \<and>
                         sg_severity r \<in> {Severity_HIGH en, Severity_CRITICAL en}) rows)"

section \<open>Notifications\<close>

record notification =
  nt_notification_id :: string
  nt_signal_id :: string
  nt_channel :: string
  nt_sent_at_utc :: instant
  nt_delivery_status :: string
  nt_payload_json :: "json dict"

definition nt_key :: "notification \<Rightarrow> string \<times> string" where
  "nt_key r = (nt_signal_id r, nt_channel r)"

definition create_notification ::
  "signal_enums \<Rightarrow> notification \<Rightarrow> notification list \<Rightarrow> notification list" where
  "create_notification en v =
     on_conflict_update_where nt_key (\<lambda>r. nt_delivery_status r = DeliveryStatus_FAILED en)
       (\<lambda>r. r\<lparr>nt_notification_id := nt_notification_id v, nt_sent_at_utc := nt_sent_at_utc v,
              nt_delivery_status := nt_delivery_status v, nt_payload_json := nt_payload_json v\<rparr>) v"

definition join_signals :: "notification list \<Rightarrow> signal list \<Rightarrow> (notification \<times> signal) list" where
  "join_signals ns ss = [(n, s). n \<leftarrow> ns, s \<leftarrow> ss, nt_signal_id n = sg_signal_id s]"

definition has_recent_for_market ::
  "signal_enums \<Rightarrow> instant \<Rightarrow> string \<Rightarrow> int \<Rightarrow> notification list \<Rightarrow> signal list \<Rightarrow> bool" where
  "has_recent_for_market en utc_now ticker cooldown_seconds ns ss =
    (let threshold = utc_now - timedelta_seconds cooldown_seconds
     in take 1 (filter (\<lambda>(n, s). sg_market_ticker s = ticker \<and> nt_sent_at_utc n \<ge> threshold \<and>
                                  nt_delivery_status n = DeliveryStatus_SENT en)
                  (join_signals ns ss)) \<noteq> [])"

definition has_duplicate_in_cooldown ::
  "signal_enums \<Rightarrow> instant \<Rightarrow> string \<Rightarrow> string \<Rightarrow> string \<Rightarrow> int \<Rightarrow> notification list \<Rightarrow> signal list \<Rightarrow>
   bool" where
  "has_duplicate_in_cooldown en utc_now rid signal_type ticker cooldown_seconds ns ss =
    (let threshold = utc_now - timedelta_seconds cooldown_seconds
     in take 1 (filter (\<lambda>(n, s). sg_release_id s = rid \<and> sg_signal_type s = signal_type \<and>
                                  sg_market_ticker s = ticker \<and> nt_sent_at_utc n \<ge> threshold \<and>
                                  nt_delivery_status n = DeliveryStatus_SENT en)
                  (join_signals ns ss)) \<noteq> [])"

definition count_failed_since :: "signal_enums \<Rightarrow> instant \<Rightarrow> notification list \<Rightarrow> nat" where
  "count_failed_since en since_utc rows =
     length (filter (\<lambda>r. nt_delivery_status r = DeliveryStatus_FAILED en \<and>
                         nt_sent_at_utc r \<ge> since_utc) rows)"

definition last_failed_at :: "signal_enums \<Rightarrow> notification list \<Rightarrow> string + instant option" where
  "last_failed_at en rows =
     scalar_one_or_none (take 1 (map nt_sent_at_utc (order_desc nt_sent_at_utc
       (filter (\<lambda>r. nt_delivery_status r = DeliveryStatus_FAILED en) rows))))"

section \<open>Evaluation results\<close>

record evaluation_result =
  ev_signal_id :: string
  ev_horizon_sec :: int
  ev_move_after_horizon :: rat
  ev_success_bool :: bool
  ev_evaluated_at_utc :: instant

definition ev_key :: "evaluation_result \<Rightarrow> string \<times> int" where
  "ev_key r = (ev_signal_id r, ev_horizon_sec r)"

definition upsert_result :: "evaluation_result \<Rightarrow> evaluation_result list \<Rightarrow> evaluation_result list" where
  "upsert_result v =
     on_conflict_update ev_key
       (\<lambda>r. r\<lparr>ev_move_after_horizon := ev_move_after_horizon v,
              ev_success_bool := ev_success_bool v,
              ev_evaluated_at_utc := ev_evaluated_at_utc v\<rparr>) v"

section \<open>Monitor events\<close>

text \<open>
  A loaded event is the row itself: each operation works in a session that holds no older copy.
\<close>

record monitor_event =
  me_event_id :: string
  me_created_at_utc :: instant
  me_updated_at_utc :: instant
  me_monitor_type :: string
  me_component :: string
  me_severity :: string
  me_status :: string
  me_dedupe_key :: string
  me_title :: string
  me_message :: string
  me_release_id :: "string option"
  me_market_ticker :: "string option"
  me_details_json :: json
  me_first_seen_at_utc :: instant
  me_last_seen_at_utc :: instant
  me_occurrence_count :: int
  me_alert_sent_at_utc :: "instant option"
  me_resolved_at_utc :: "instant option"

definition get_by_dedupe_key :: "string \<Rightarrow> monitor_event list \<Rightarrow> string + monitor_event option" where
  "get_by_dedupe_key dedupe_key rows =
     scalar_one_or_none (filter (\<lambda>r. me_dedupe_key r = dedupe_key) rows)"

text \<open>The keyword arguments of the two upserts; \<open>upsert_resolved_event\<close> has no release and no ticker.\<close>

record monitor_values =
  mv_monitor_type :: string
  mv_component :: string
  mv_severity :: string
  mv_dedupe_key :: string
  mv_title :: string
  mv_message :: string
  mv_details_json :: "json dict"

definition after_upsert ::
  "string \<Rightarrow> string \<Rightarrow> monitor_event list \<Rightarrow> monitor_event list \<times> (string + monitor_event)" where
  "after_upsert msg dedupe_key rows =
     (rows, case get_by_dedupe_key dedupe_key rows of
              Inl e \<Rightarrow> Inl e
            | Inr None \<Rightarrow> Inl (msg @ dedupe_key)
            | Inr (Some r) \<Rightarrow> Inr r)"

definition upsert_open_event ::
  "signal_enums \<Rightarrow> string \<Rightarrow> monitor_values \<Rightarrow> string option \<Rightarrow> string option \<Rightarrow> instant \<Rightarrow>
   monitor_event list \<Rightarrow> monitor_event list \<times> (string + monitor_event)" where
  "upsert_open_event en uid v rid ticker now_utc rows =
     after_upsert ''failed to upsert monitor event: '' (mv_dedupe_key v)
       (on_conflict_update me_dedupe_key
          (\<lambda>r. r\<lparr>me_updated_at_utc := now_utc, me_monitor_type := mv_monitor_type v,
                 me_component := mv_component v, me_severity := mv_severity v,
                 me_status := MonitorStatus_OPEN en, me_title := mv_title v,
                 me_message := mv_message v, me_release_id := rid, me_market_ticker := ticker,
                 me_details_json := JObj (mv_details_json v), me_last_seen_at_utc := now_utc,
                 me_occurrence_count := me_occurrence_count r + 1, me_resolved_at_utc := None\<rparr>)
          \<lparr>me_event_id = uid, me_created_at_utc = now_utc, me_updated_at_utc = now_utc,
           me_monitor_type = mv_monitor_type v, me_component = mv_component v,
           me_severity = mv_severity v, me_status = MonitorStatus_OPEN en,
           me_dedupe_key = mv_dedupe_key v, me_title = mv_title v, me_message = mv_message v,
           me_release_id = rid, me_market_ticker = ticker,
           me_details_json = JObj (mv_details_json v), me_first_seen_at_utc = now_utc,
           me_last_seen_at_utc = now_utc, me_occurrence_count = 1, me_alert_sent_at_utc = None,
           me_resolved_at_utc = None\<rparr> rows)"

definition upsert_resolved_event ::
  "signal_enums \<Rightarrow> string \<Rightarrow> monitor_values \<Rightarrow> instant \<Rightarrow> monitor_event list \<Rightarrow>
   monitor_event list \<times> (string + monitor_event)" where
  "upsert_resolved_event en uid v now_utc rows =
     after_upsert ''failed to resolve monitor event: '' (mv_dedupe_key v)
       (on_conflict_update me_dedupe_key
          (\<lambda>r. r\<lparr>me_updated_at_utc := now_utc, me_monitor_type := mv_monitor_type v,
                 me_component := mv_component v, me_severity := mv_severity v,
                 me_status := MonitorStatus_RESOLVED en, me_title := mv_title v,
                 me_message := mv_message v, me_details_json := JObj (mv_details_json v),
                 me_last_seen_at_utc := now_utc, me_resolved_at_utc := Some now_utc\<rparr>)
          \<lparr>me_event_id = uid, me_created_at_utc = now_utc, me_updated_at_utc = now_utc,
           me_monitor_type = mv_monitor_type v, me_component = mv_component v,
           me_severity = mv_severity v, me_status = MonitorStatus_RESOLVED en,
           me_dedupe_key = mv_dedupe_key v, me_title = mv_title v, me_message = mv_message v,
           me_release_id = None, me_market_ticker = None,
           me_details_json = JObj (mv_details_json v), me_first_seen_at_utc = now_utc,
           me_last_seen_at_utc = now_utc, me_occurrence_count = 1, me_alert_sent_at_utc = None,
           me_resolved_at_utc = Some now_utc\<rparr> rows)"

text \<open>The attributes of a loaded event are written back to its row by \<open>flush\<close>.\<close>

definition flush_event ::
  "string \<Rightarrow> (monitor_event \<Rightarrow> monitor_event) \<Rightarrow> monitor_event list \<Rightarrow>
   monitor_event list \<times> (string + monitor_event option)" where
  "flush_event dedupe_key set_attributes rows =
     (case get_by_dedupe_key dedupe_key rows of
        Inl e \<Rightarrow> (rows, Inl e)
      | Inr None \<Rightarrow> (rows, Inr None)
      | Inr (Some r) \<Rightarrow>
          (map (\<lambda>x. if me_dedupe_key x = dedupe_key then set_attributes x else x) rows,
           Inr (Some (set_attributes r))))"

definition resolve_event ::
  "signal_enums \<Rightarrow> string \<Rightarrow> instant \<Rightarrow> json dict option \<Rightarrow> monitor_event list \<Rightarrow>
   monitor_event list \<times> (string + monitor_event option)" where
  "resolve_event en dedupe_key now_utc details =
     flush_event dedupe_key
       (\<lambda>r. r\<lparr>me_status := MonitorStatus_RESOLVED en, me_updated_at_utc := now_utc,
              me_last_seen_at_utc := now_utc, me_resolved_at_utc := Some now_utc,
              me_details_json := (case details of None \<Rightarrow> me_details_json r | Some d \<Rightarrow> JObj d)\<rparr>)"

definition mark_alert_sent ::
  "string \<Rightarrow> instant \<Rightarrow> monitor_event list \<Rightarrow> monitor_event list \<times> (string + unit)" where
  "mark_alert_sent dedupe_key sent_at_utc rows =
     map_prod id (map_sum id (\<lambda>_. ()))
       (flush_event dedupe_key
          (\<lambda>r. r\<lparr>me_alert_sent_at_utc := Some sent_at_utc, me_updated_at_utc := sent_at_utc\<rparr>) rows)"

definition recent_events ::
  "nat \<Rightarrow> string option \<Rightarrow> string option \<Rightarrow> string option \<Rightarrow> monitor_event list \<Rightarrow>
   monitor_event list" where
  "recent_events limit severity monitor_type status_value rows =
     take limit (order_desc me_created_at_utc
       (filter (\<lambda>r. if_given severity (me_severity r) \<and> if_given monitor_type (me_monitor_type r) \<and>
                    if_given status_value (me_status r)) rows))"

definition open_like :: "signal_enums \<Rightarrow> string set" where
  "open_like en = {MonitorStatus_OPEN en, MonitorStatus_ACKNOWLEDGED en, MonitorStatus_SUPPRESSED en}"

definition list_open_like :: "signal_enums \<Rightarrow> nat \<Rightarrow> monitor_event list \<Rightarrow> monitor_event list" where
  "list_open_like en limit rows =
     take limit (order_desc me_last_seen_at_utc (filter (\<lambda>r. me_status r \<in> open_like en) rows))"

definition count_open_by_severity :: "signal_enums \<Rightarrow> string \<Rightarrow> monitor_event list \<Rightarrow> nat" where
  "count_open_by_severity en severity rows =
     length (filter (\<lambda>r. me_status r = MonitorStatus_OPEN en \<and> me_severity r = severity) rows)"

definition count_by_statuses :: "string list \<Rightarrow> monitor_event list \<Rightarrow> nat" where
  "count_by_statuses statuses rows =
     (if statuses = [] then 0 else length (filter (\<lambda>r. me_status r \<in> set statuses) rows))"

definition latest_last_seen_for_type ::
  "string \<Rightarrow> monitor_event list \<Rightarrow> string + instant option" where
  "latest_last_seen_for_type monitor_type rows =
     scalar_one_or_none (take 1 (map me_last_seen_at_utc (order_desc me_last_seen_at_utc
       (filter (\<lambda>r. me_monitor_type r = monitor_type) rows))))"

definition is_open :: "signal_enums \<Rightarrow> string \<Rightarrow> monitor_event list \<Rightarrow> string + bool" where
  "is_open en dedupe_key rows =
     map_sum id (\<lambda>status. case status of None \<Rightarrow> False | Some s \<Rightarrow> s \<in> open_like en)
       (scalar_one_or_none (take 1 (map me_status (filter (\<lambda>r. me_dedupe_key r = dedupe_key) rows))))"

text \<open>
  \<open>isoformat\<close> and \<open>fromisoformat\<close> of the time library are parameters, the latter with \<open>None\<close> for the
  \<open>ValueError\<close>.
\<close>

definition get_last_live_cycle_success_at ::
  "signal_enums \<Rightarrow> (string \<Rightarrow> instant option) \<Rightarrow> monitor_event list \<Rightarrow> string + instant option" where
  "get_last_live_cycle_success_at en fromisoformat rows =
     map_sum id
       (\<lambda>found. case found of
          None \<Rightarrow> None
        | Some r \<Rightarrow>
            (case me_details_json r of
               JObj d \<Rightarrow>
                 (case map_of d ''last_live_cycle_success_at_utc'' of
                    Some (JStr raw) \<Rightarrow> fromisoformat (py_replace ''Z'' ''+00:00'' raw)
                  | _ \<Rightarrow> None)
             | _ \<Rightarrow> None))
       (get_by_dedupe_key (MonitorType_LIVE_CYCLE_STALLED en) rows)"

definition record_live_cycle_success ::
  "signal_enums \<Rightarrow> (instant \<Rightarrow> string) \<Rightarrow> string \<Rightarrow> instant \<Rightarrow> monitor_event list \<Rightarrow>
   monitor_event list \<times> (string + monitor_event)" where
  "record_live_cycle_success en isoformat uid now_utc =
     upsert_resolved_event en uid
       \<lparr>mv_monitor_type = MonitorType_LIVE_CYCLE_STALLED en, mv_component = ''live_runner'',
        mv_severity = MonitorSeverity_CRITICAL en,
        mv_dedupe_key = MonitorType_LIVE_CYCLE_STALLED en,
        mv_title = ''Live cycle running normally'',
        mv_message = ''Live cycle completed successfully.'',
        mv_details_json = [(''last_live_cycle_success_at_utc'', JStr (isoformat now_utc))]\<rparr> now_utc"

end
