(* ===== verification/Signal_Facts.thy ===== *)
theory Signal_Facts
  imports Signal_Events
begin

text \<open>
  What the signal store guarantees. Every table is a map from its key to at most one row, and
  every upsert changes the row of one key: the contract of \<open>keyed_table\<close>, which all tables of the
  store satisfy. Over it, the life of a monitor event as a function of the calls that name it, and
  the notifications that are kept once they were delivered.
\<close>

section \<open>Keyed tables\<close>

definition keyed :: "('r \<Rightarrow> 'k) \<Rightarrow> 'r list \<Rightarrow> bool" where
  "keyed key rows \<longleftrightarrow> distinct (map key rows)"

definition row_of :: "('r \<Rightarrow> 'k) \<Rightarrow> 'r list \<Rightarrow> 'k \<Rightarrow> 'r option" where
  "row_of key rows k = find (\<lambda>r. key r = k) rows"

lemma keyed_empty [simp]: "keyed key []"
  by (simp add: keyed_def)

lemma row_of_empty [simp]: "row_of key [] k = None"
  by (simp add: row_of_def)

lemma row_of_None: "row_of key rows k = None \<longleftrightarrow> k \<notin> key ` set rows"
  by (auto simp: row_of_def find_None_iff)

lemma row_of_Some: "row_of key rows k = Some r \<Longrightarrow> key r = k \<and> r \<in> set rows"
  by (auto simp: row_of_def find_Some_iff)

lemma row_of_mem: "keyed key rows \<Longrightarrow> r \<in> set rows \<Longrightarrow> row_of key rows (key r) = Some r"
proof (induction rows)
  case (Cons x rows)
  then show ?case by (cases "x = r") (auto simp: row_of_def keyed_def image_iff)
qed simp

lemma scalar_keyed:
  assumes "keyed key rows"
  shows "scalar_one_or_none (filter (\<lambda>r. key r = k) rows) = Inr (row_of key rows k)"
  using assms
proof (induction rows)
  case (Cons x rows)
  have "filter (\<lambda>r. key r = k) rows = []" if "key x = k"
    using Cons.prems that by (auto simp: keyed_def filter_empty_conv image_iff)
  with Cons show ?case by (auto simp: row_of_def keyed_def)
qed simp

lemma row_of_append: "row_of key (rows @ [r]) k =
    (case row_of key rows k of Some x \<Rightarrow> Some x | None \<Rightarrow> if key r = k then Some r else None)"
  by (induction rows) (auto simp: row_of_def)

lemma row_of_map:
  assumes "\<And>r. key (f r) = key r"
  shows "row_of key (map f rows) k = map_option f (row_of key rows k)"
  by (induction rows) (auto simp: row_of_def assms)

lemma keyed_map: "(\<And>r. key (f r) = key r) \<Longrightarrow> keyed key (map f rows) \<longleftrightarrow> keyed key rows"
  by (simp add: keyed_def comp_def)

text \<open>
  The contract: \<open>upsert v\<close> stores \<open>v\<close> when there is no row with its key, and otherwise merges it
  into that row where the condition holds.
\<close>

locale keyed_table =
  fixes key :: "'r \<Rightarrow> 'k"
    and cond :: "'r \<Rightarrow> bool"
    and merge :: "'r \<Rightarrow> 'r \<Rightarrow> 'r"
    and upsert :: "'r \<Rightarrow> 'r list \<Rightarrow> 'r list"
  assumes upsert_eq: "upsert v rows = on_conflict_update_where key cond (merge v) v rows"
    and merge_key: "key (merge v r) = key r"
begin

definition merged :: "'r \<Rightarrow> 'r option \<Rightarrow> 'r" where
  "merged v old = (case old of None \<Rightarrow> v | Some r \<Rightarrow> if cond r then merge v r else r)"

lemma upsert_keyed: "keyed key rows \<Longrightarrow> keyed key (upsert v rows)"
  by (auto simp: upsert_eq on_conflict_update_where_def keyed_map merge_key)
    (simp add: keyed_def)

lemma row_of_upsert:
  "row_of key (upsert v rows) = (row_of key rows)(key v \<mapsto> merged v (row_of key rows (key v)))"
proof
  fix k
  let ?f = "\<lambda>r. if key r = key v \<and> cond r then merge v r else r"
  show "row_of key (upsert v rows) k =
      ((row_of key rows)(key v \<mapsto> merged v (row_of key rows (key v)))) k"
  proof (cases "key v \<in> key ` set rows")
    case True
    then obtain r where r: "row_of key rows (key v) = Some r"
      using row_of_None[of key rows "key v"] by auto
    have "row_of key (upsert v rows) k = map_option ?f (row_of key rows k)"
      using True by (simp add: upsert_eq on_conflict_update_where_def row_of_map merge_key)
    moreover have "map_option ?f (row_of key rows k) = row_of key rows k" if "k \<noteq> key v"
      using that row_of_Some[of key rows k] by (cases "row_of key rows k") auto
    ultimately show ?thesis using r row_of_Some[OF r] by (auto simp: merged_def)
  next
    case False
    then have "row_of key rows (key v) = None" by (simp add: row_of_None)
    with False show ?thesis
      by (auto simp: upsert_eq on_conflict_update_where_def row_of_append merged_def split: option.split)
  qed
qed

end

text \<open>A table whose upsert sets every column but the key: a read finds what was written last.\<close>

locale overwriting_table = keyed_table key cond merge upsert
  for key :: "'r \<Rightarrow> 'k" and cond merge upsert +
  assumes overwrites: "key r = key v \<Longrightarrow> cond r \<and> merge v r = v"
begin

lemma row_of_overwritten: "row_of key (upsert v rows) = (row_of key rows)(key v \<mapsto> v)"
proof -
  have "merged v (row_of key rows (key v)) = v"
    using overwrites[of _ v] row_of_Some[of key rows "key v"]
    by (cases "row_of key rows (key v)") (simp_all add: merged_def)
  then show ?thesis by (simp add: row_of_upsert)
qed

lemma read_overwritten:
  assumes "keyed key rows"
  shows "scalar_one_or_none (filter (\<lambda>r. key r = k) (upsert v rows)) =
    (if k = key v then Inr (Some v) else scalar_one_or_none (filter (\<lambda>r. key r = k) rows))"
  using assms by (simp add: scalar_keyed upsert_keyed row_of_overwritten)

end

interpretation releases: overwriting_table rc_release_id "\<lambda>_. True"
  "\<lambda>v r. r\<lparr>rc_release_type := rc_release_type v, rc_release_name := rc_release_name v,
     rc_scheduled_time_utc := rc_scheduled_time_utc v, rc_source_url := rc_source_url v,
     rc_status := rc_status v\<rparr>" upsert_release
  by unfold_locales (auto simp: upsert_release_def on_conflict_update_def)

interpretation actuals: overwriting_table ra_release_id "\<lambda>_. True"
  "\<lambda>v r. r\<lparr>ra_actual_value_raw := ra_actual_value_raw v, ra_actual_value_num := ra_actual_value_num v,
     ra_parsed_payload_json := ra_parsed_payload_json v, ra_parsed_at_utc := ra_parsed_at_utc v\<rparr>"
  upsert_actual
  by unfold_locales (auto simp: upsert_actual_def on_conflict_update_def)

interpretation markets: overwriting_table mc_market_ticker "\<lambda>_. True"
  "\<lambda>v r. r\<lparr>mc_platform := mc_platform v, mc_title := mc_title v, mc_subtitle := mc_subtitle v,
     mc_close_time_utc := mc_close_time_utc v, mc_status := mc_status v,
     mc_release_type := mc_release_type v, mc_mapping_confidence := mc_mapping_confidence v,
     mc_mapping_payload_json := mc_mapping_payload_json v\<rparr>" upsert_market
  by unfold_locales (auto simp: upsert_market_def on_conflict_update_def)

interpretation snapshots: overwriting_table sn_key "\<lambda>_. True"
  "\<lambda>v r. r\<lparr>sn_yes_bid := sn_yes_bid v, sn_yes_ask := sn_yes_ask v, sn_mid := sn_mid v,
     sn_spread := sn_spread v, sn_last_price := sn_last_price v, sn_volume := sn_volume v\<rparr>"
  upsert_snapshot
  by unfold_locales (auto simp: upsert_snapshot_def on_conflict_update_def sn_key_def)

interpretation signals: keyed_table sg_signal_id "\<lambda>_. True"
  "\<lambda>v r. r\<lparr>sg_score := sg_score v, sg_severity := sg_severity v,
     sg_reason_codes_json := sg_reason_codes_json v, sg_metrics_json := sg_metrics_json v,
     sg_emitted_at_utc := sg_emitted_at_utc v\<rparr>" upsert_signal
  by unfold_locales (simp_all add: upsert_signal_def on_conflict_update_def)

interpretation notifications: keyed_table nt_key "\<lambda>r. nt_delivery_status r = DeliveryStatus_FAILED en"
  "\<lambda>v r. r\<lparr>nt_notification_id := nt_notification_id v, nt_sent_at_utc := nt_sent_at_utc v,
     nt_delivery_status := nt_delivery_status v, nt_payload_json := nt_payload_json v\<rparr>"
  "create_notification en" for en
  by unfold_locales (simp_all add: create_notification_def nt_key_def)

interpretation results: overwriting_table ev_key "\<lambda>_. True"
  "\<lambda>v r. r\<lparr>ev_move_after_horizon := ev_move_after_horizon v, ev_success_bool := ev_success_bool v,
     ev_evaluated_at_utc := ev_evaluated_at_utc v\<rparr>" upsert_result
  by unfold_locales (auto simp: upsert_result_def on_conflict_update_def ev_key_def)

section \<open>Reading what was written\<close>

lemma snapshot_key: "snapshot_by_market_and_time ticker t rows =
    scalar_one_or_none (filter (\<lambda>r. sn_key r = (ticker, t)) rows)"
  by (simp add: snapshot_by_market_and_time_def sn_key_def)

lemmas reads_last_write =
  releases.read_overwritten[folded release_by_id_def] actuals.read_overwritten[folded get_actual_def]
  markets.read_overwritten[folded market_by_ticker_def]
  snapshots.read_overwritten[where k = "(ticker, t)" for ticker t, folded snapshot_key]

text \<open>A snapshot that is added to one that is there is dropped.\<close>

lemma read_added:
  assumes "keyed sn_key rows"
  shows "keyed sn_key (add_snapshot v rows)"
    and "row_of sn_key (add_snapshot v rows) =
      (row_of sn_key rows)(sn_key v \<mapsto>
         (case row_of sn_key rows (sn_key v) of Some r \<Rightarrow> r | None \<Rightarrow> v))"
proof -
  show "keyed sn_key (add_snapshot v rows)"
    using assms by (auto simp: add_snapshot_def on_conflict_nothing_def keyed_def)
  show "row_of sn_key (add_snapshot v rows) =
      (row_of sn_key rows)(sn_key v \<mapsto>
         (case row_of sn_key rows (sn_key v) of Some r \<Rightarrow> r | None \<Rightarrow> v))"
  proof (cases "row_of sn_key rows (sn_key v)")
    case None
    then have "add_snapshot v rows = rows @ [v]"
      unfolding row_of_None by (simp add: add_snapshot_def on_conflict_nothing_def)
    with None show ?thesis by (auto simp: fun_eq_iff row_of_append split: option.split)
  next
    case (Some r)
    then have "add_snapshot v rows = rows"
      using row_of_None[of sn_key rows "sn_key v"] by (simp add: add_snapshot_def on_conflict_nothing_def)
    with Some show ?thesis by (simp add: fun_upd_idem)
  qed
qed

text \<open>A signal keeps the release, the market and the type that it was first stored with.\<close>

definition signal_identity :: "signal \<Rightarrow> string \<times> string \<times> string" where
  "signal_identity r = (sg_release_id r, sg_market_ticker r, sg_signal_type r)"

lemma signal_identity_kept:
  assumes "row_of sg_signal_id rows sid = Some r"
  shows "\<exists>r'. row_of sg_signal_id (upsert_signal v rows) sid = Some r' \<and>
    signal_identity r' = signal_identity r"
  using assms by (auto simp: signals.row_of_upsert signals.merged_def signal_identity_def)

section \<open>Delivered notifications\<close>

lemma delivered_kept:
  assumes "row_of nt_key rows k = Some n" "nt_delivery_status n \<noteq> DeliveryStatus_FAILED en"
  shows "row_of nt_key (create_notification en v rows) k = Some n"
  using assms by (auto simp: notifications.row_of_upsert notifications.merged_def)

text \<open>What may happen between two looks at the notifications: attempts and updated signals.\<close>

inductive store_step :: "signal_enums \<Rightarrow> notification list \<times> signal list \<Rightarrow>
    notification list \<times> signal list \<Rightarrow> bool" for en where
  notify: "store_step en (ns, ss) (create_notification en v ns, ss)"
| emit: "store_step en (ns, ss) (ns, upsert_signal v ss)"

inductive_cases store_stepE: "store_step en (ns, ss) (ns', ss')"

definition store_keyed :: "notification list \<times> signal list \<Rightarrow> bool" where
  "store_keyed st \<longleftrightarrow> keyed nt_key (fst st) \<and> keyed sg_signal_id (snd st)"

lemma store_step_keyed: "store_step en st st' \<Longrightarrow> store_keyed st \<Longrightarrow> store_keyed st'"
  by (cases rule: store_step.cases)
    (auto simp: store_keyed_def notifications.upsert_keyed signals.upsert_keyed)

lemma store_steps_keyed: "(store_step en)\<^sup>*\<^sup>* st st' \<Longrightarrow> store_keyed st \<Longrightarrow> store_keyed st'"
  by (induction rule: rtranclp_induct) (auto intro: store_step_keyed)

text \<open>A delivery of the store: a notification that was sent, for a signal with an identity.\<close>

definition delivery ::
  "signal_enums \<Rightarrow> notification \<Rightarrow> string \<times> string \<times> string \<Rightarrow> notification list \<times> signal list \<Rightarrow>
   bool" where
  "delivery en n i st \<longleftrightarrow>
     row_of nt_key (fst st) (nt_key n) = Some n \<and> nt_delivery_status n = DeliveryStatus_SENT en \<and>
     (\<exists>s. row_of sg_signal_id (snd st) (nt_signal_id n) = Some s \<and> signal_identity s = i)"

lemma delivery_step:
  assumes "store_step en st st'" "delivery en n i st"
    and "DeliveryStatus_SENT en \<noteq> DeliveryStatus_FAILED en"
  shows "delivery en n i st'"
  using assms(1)
proof (cases rule: store_step.cases)
  case (notify ns ss v)
  with assms(2,3) delivered_kept[of ns "nt_key n" n en v] show ?thesis by (auto simp: delivery_def)
next
  case (emit ns ss v)
  with assms(2) signal_identity_kept[of ss "nt_signal_id n" _ v] show ?thesis
    by (fastforce simp: delivery_def)
qed

lemma delivery_steps:
  assumes "(store_step en)\<^sup>*\<^sup>* st st'" "delivery en n i st"
    and "DeliveryStatus_SENT en \<noteq> DeliveryStatus_FAILED en"
  shows "delivery en n i st'"
  using assms(1,2) by (induction rule: rtranclp_induct) (auto intro: delivery_step[OF _ _ assms(3)])

lemma join_keyed:
  assumes "store_keyed (ns, ss)"
  shows "(n, s) \<in> set (join_signals ns ss) \<longleftrightarrow>
    row_of nt_key ns (nt_key n) = Some n \<and> row_of sg_signal_id ss (nt_signal_id n) = Some s"
  using assms row_of_mem[of nt_key ns n] row_of_mem[of sg_signal_id ss s]
  by (auto simp: join_signals_def store_keyed_def dest: row_of_Some)

lemma take_1_empty: "take 1 xs = [] \<longleftrightarrow> xs = []"
  by (cases xs) auto

lemma has_duplicate_iff:
  assumes "store_keyed (ns, ss)"
  shows "has_duplicate_in_cooldown en now rid ty ticker cd ns ss \<longleftrightarrow>
    (\<exists>n. delivery en n (rid, ticker, ty) (ns, ss) \<and> nt_sent_at_utc n \<ge> now - timedelta_seconds cd)"
  using join_keyed[OF assms]
  by (auto simp: has_duplicate_in_cooldown_def Let_def take_1_empty filter_empty_conv delivery_def
      signal_identity_def)

lemma has_recent_iff:
  assumes "store_keyed (ns, ss)"
  shows "has_recent_for_market en now ticker cd ns ss \<longleftrightarrow>
    (\<exists>n rid ty. delivery en n (rid, ticker, ty) (ns, ss) \<and> nt_sent_at_utc n \<ge> now - timedelta_seconds cd)"
  using join_keyed[OF assms]
  by (auto simp: has_recent_for_market_def Let_def take_1_empty filter_empty_conv delivery_def
      signal_identity_def)

end
