(* ===== verification/Monitor_Events.thy ===== *)
theory Monitor_Events
  imports Signal_Facts Intake_Form
begin

text \<open>
  The life of the monitor events: the table after any sequence of calls, read off the calls
  themselves. A key has an event from its first upsert on; whether it is open is decided by the
  last call that was not an alert, and it counts how often it was opened.
\<close>

section \<open>Calls\<close>

datatype monitor_call =
    Upsert_open string monitor_values "string option" "string option" instant
  | Upsert_resolved string monitor_values instant
  | Resolve string instant "json dict option"
  | Mark_alert string instant

fun run_call :: "signal_enums \<Rightarrow> monitor_call \<Rightarrow> monitor_event list \<Rightarrow> monitor_event list" where
  "run_call en (Upsert_open uid v rid ticker t) rows = fst (upsert_open_event en uid v rid ticker t rows)"
| "run_call en (Upsert_resolved uid v t) rows = fst (upsert_resolved_event en uid v t rows)"
| "run_call en (Resolve k t d) rows = fst (resolve_event en k t d rows)"
| "run_call en (Mark_alert k t) rows = fst (mark_alert_sent k t rows)"

definition run_calls :: "signal_enums \<Rightarrow> monitor_call list \<Rightarrow> monitor_event list \<Rightarrow> monitor_event list" where
  "run_calls en calls rows = fold (run_call en) calls rows"

fun call_key :: "monitor_call \<Rightarrow> string" where
  "call_key (Upsert_open uid v rid ticker t) = mv_dedupe_key v"
| "call_key (Upsert_resolved uid v t) = mv_dedupe_key v"
| "call_key (Resolve k t d) = k"
| "call_key (Mark_alert k t) = k"

fun call_time :: "monitor_call \<Rightarrow> instant" where
  "call_time (Upsert_open uid v rid ticker t) = t"
| "call_time (Upsert_resolved uid v t) = t"
| "call_time (Resolve k t d) = t"
| "call_time (Mark_alert k t) = t"

fun opens :: "monitor_call \<Rightarrow> bool" where
  "opens (Upsert_open uid v rid ticker t) = True"
| "opens c = False"

fun alerts :: "monitor_call \<Rightarrow> bool" where
  "alerts (Mark_alert k t) = True"
| "alerts c = False"

fun creates :: "monitor_call \<Rightarrow> bool" where
  "creates (Upsert_open uid v rid ticker t) = True"
| "creates (Upsert_resolved uid v t) = True"
| "creates c = False"

section \<open>One call, one key\<close>

lemma fst_after_upsert [simp]: "fst (after_upsert msg k rows) = rows"
  by (simp add: after_upsert_def)

text \<open>The row of a new event, and what an upsert merges into an older one.\<close>

definition event_row ::
  "string \<Rightarrow> string \<Rightarrow> monitor_values \<Rightarrow> string option \<Rightarrow> string option \<Rightarrow> instant \<Rightarrow> instant option \<Rightarrow>
   monitor_event" where
  "event_row st uid v rid ticker t res =
     \<lparr>me_event_id = uid, me_created_at_utc = t, me_updated_at_utc = t,
      me_monitor_type = mv_monitor_type v, me_component = mv_component v,
      me_severity = mv_severity v, me_status = st, me_dedupe_key = mv_dedupe_key v,
      me_title = mv_title v, me_message = mv_message v, me_release_id = rid,
      me_market_ticker = ticker, me_details_json = JObj (mv_details_json v),
      me_first_seen_at_utc = t, me_last_seen_at_utc = t, me_occurrence_count = 1,
      me_alert_sent_at_utc = None, me_resolved_at_utc = res\<rparr>"

definition seen_again :: "monitor_event \<Rightarrow> monitor_event \<Rightarrow> monitor_event" where
  "seen_again v r =
     r\<lparr>me_updated_at_utc := me_updated_at_utc v, me_monitor_type := me_monitor_type v,
       me_component := me_component v, me_severity := me_severity v, me_status := me_status v,
       me_title := me_title v, me_message := me_message v, me_details_json := me_details_json v,
       me_last_seen_at_utc := me_last_seen_at_utc v, me_resolved_at_utc := me_resolved_at_utc v\<rparr>"

definition opened_again :: "monitor_event \<Rightarrow> monitor_event \<Rightarrow> monitor_event" where
  "opened_again v r =
     (seen_again v r)\<lparr>me_release_id := me_release_id v, me_market_ticker := me_market_ticker v,
       me_occurrence_count := me_occurrence_count r + 1\<rparr>"

definition upsert_opened :: "monitor_event \<Rightarrow> monitor_event list \<Rightarrow> monitor_event list" where
  "upsert_opened v = on_conflict_update me_dedupe_key (opened_again v) v"

definition upsert_seen :: "monitor_event \<Rightarrow> monitor_event list \<Rightarrow> monitor_event list" where
  "upsert_seen v = on_conflict_update me_dedupe_key (seen_again v) v"

interpretation opened: keyed_table me_dedupe_key "\<lambda>_. True" opened_again upsert_opened
  by unfold_locales
    (simp_all add: on_conflict_update_def upsert_opened_def opened_again_def seen_again_def)

interpretation seen: keyed_table me_dedupe_key "\<lambda>_. True" seen_again upsert_seen
  by unfold_locales (simp_all add: on_conflict_update_def upsert_seen_def seen_again_def)

lemma upserts_of_rows:
  "upsert_open_event en uid v rid ticker t rows =
     after_upsert ''failed to upsert monitor event: '' (mv_dedupe_key v)
       (upsert_opened (event_row (MonitorStatus_OPEN en) uid v rid ticker t None) rows)"
  "upsert_resolved_event en uid v t rows =
     after_upsert ''failed to resolve monitor event: '' (mv_dedupe_key v)
       (upsert_seen (event_row (MonitorStatus_RESOLVED en) uid v None None t (Some t)) rows)"
proof -
  let ?o = "event_row (MonitorStatus_OPEN en) uid v rid ticker t None"
    and ?r = "event_row (MonitorStatus_RESOLVED en) uid v None None t (Some t)"
  have "opened_again ?o = (\<lambda>r. r\<lparr>me_updated_at_utc := t, me_monitor_type := mv_monitor_type v,
      me_component := mv_component v, me_severity := mv_severity v,
      me_status := MonitorStatus_OPEN en, me_title := mv_title v,
      me_message := mv_message v, me_release_id := rid, me_market_ticker := ticker,
      me_details_json := JObj (mv_details_json v), me_last_seen_at_utc := t,
      me_occurrence_count := me_occurrence_count r + 1, me_resolved_at_utc := None\<rparr>)"
    by (intro ext) (simp add: opened_again_def seen_again_def event_row_def)
  then show "upsert_open_event en uid v rid ticker t rows =
     after_upsert ''failed to upsert monitor event: '' (mv_dedupe_key v) (upsert_opened ?o rows)"
    unfolding upsert_open_event_def upsert_opened_def by (simp only: event_row_def)
  have "seen_again ?r = (\<lambda>r. r\<lparr>me_updated_at_utc := t, me_monitor_type := mv_monitor_type v,
      me_component := mv_component v, me_severity := mv_severity v,
      me_status := MonitorStatus_RESOLVED en, me_title := mv_title v,
      me_message := mv_message v, me_details_json := JObj (mv_details_json v),
      me_last_seen_at_utc := t, me_resolved_at_utc := Some t\<rparr>)"
    by (intro ext) (simp add: seen_again_def event_row_def)
  then show "upsert_resolved_event en uid v t rows =
     after_upsert ''failed to resolve monitor event: '' (mv_dedupe_key v) (upsert_seen ?r rows)"
    unfolding upsert_resolved_event_def upsert_seen_def by (simp only: event_row_def)
qed

lemma flush_keyed:
  assumes "keyed me_dedupe_key rows" "\<And>r. me_dedupe_key (f r) = me_dedupe_key r"
  shows "keyed me_dedupe_key (fst (flush_event k f rows))"
    and "row_of me_dedupe_key (fst (flush_event k f rows)) =
      (row_of me_dedupe_key rows)(k := map_option f (row_of me_dedupe_key rows k))"
    and "snd (flush_event k f rows) = Inr (map_option f (row_of me_dedupe_key rows k))"
proof -
  have g: "get_by_dedupe_key k rows = Inr (row_of me_dedupe_key rows k)"
    using assms(1) by (simp add: get_by_dedupe_key_def scalar_keyed)
  show "snd (flush_event k f rows) = Inr (map_option f (row_of me_dedupe_key rows k))"
    by (simp add: flush_event_def g split: option.split)
  let ?g = "\<lambda>x. if me_dedupe_key x = k then f x else x"
  have m: "fst (flush_event k f rows) =
      (if row_of me_dedupe_key rows k = None then rows else map ?g rows)"
    by (simp add: flush_event_def g split: option.split)
  have gk: "me_dedupe_key (?g x) = me_dedupe_key x" for x by (simp add: assms(2))
  show "keyed me_dedupe_key (fst (flush_event k f rows))"
    using assms(1) keyed_map[of me_dedupe_key ?g rows, OF gk] by (simp add: m)
  have "map_option ?g (row_of me_dedupe_key rows j) =
      (if j = k then map_option f (row_of me_dedupe_key rows k) else row_of me_dedupe_key rows j)" for j
    by (cases "row_of me_dedupe_key rows j") (auto dest: row_of_Some)
  then show "row_of me_dedupe_key (fst (flush_event k f rows)) =
      (row_of me_dedupe_key rows)(k := map_option f (row_of me_dedupe_key rows k))"
    by (auto simp: m fun_eq_iff row_of_map[of me_dedupe_key ?g, OF gk])
qed

section \<open>What is seen of an event\<close>

record event_view =
  ew_status :: string
  ew_count :: int
  ew_first_seen :: instant
  ew_last_seen :: instant
  ew_alert_sent :: "instant option"
  ew_resolved :: "instant option"

definition view :: "monitor_event \<Rightarrow> event_view" where
  "view e = \<lparr>ew_status = me_status e, ew_count = me_occurrence_count e,
     ew_first_seen = me_first_seen_at_utc e, ew_last_seen = me_last_seen_at_utc e,
     ew_alert_sent = me_alert_sent_at_utc e, ew_resolved = me_resolved_at_utc e\<rparr>"

definition new_view :: "string \<Rightarrow> instant \<Rightarrow> instant option \<Rightarrow> event_view" where
  "new_view st t res = \<lparr>ew_status = st, ew_count = 1, ew_first_seen = t, ew_last_seen = t,
     ew_alert_sent = None, ew_resolved = res\<rparr>"

fun view_after :: "signal_enums \<Rightarrow> monitor_call \<Rightarrow> event_view option \<Rightarrow> event_view option" where
  "view_after en (Upsert_open uid v rid ticker t) old =
     Some (case old of
       None \<Rightarrow> new_view (MonitorStatus_OPEN en) t None
     | Some w \<Rightarrow> w\<lparr>ew_status := MonitorStatus_OPEN en, ew_count := ew_count w + 1,
         ew_last_seen := t, ew_resolved := None\<rparr>)"
| "view_after en (Upsert_resolved uid v t) old =
     Some (case old of
       None \<Rightarrow> new_view (MonitorStatus_RESOLVED en) t (Some t)
     | Some w \<Rightarrow> w\<lparr>ew_status := MonitorStatus_RESOLVED en, ew_last_seen := t, ew_resolved := Some t\<rparr>)"
| "view_after en (Resolve k t d) old =
     map_option (\<lambda>w. w\<lparr>ew_status := MonitorStatus_RESOLVED en, ew_last_seen := t,
       ew_resolved := Some t\<rparr>) old"
| "view_after en (Mark_alert k t) old = map_option (\<lambda>w. w\<lparr>ew_alert_sent := Some t\<rparr>) old"

definition event_view_of :: "monitor_event list \<Rightarrow> string \<Rightarrow> event_view option" where
  "event_view_of rows k = map_option view (row_of me_dedupe_key rows k)"

lemma run_call_keyed: "keyed me_dedupe_key rows \<Longrightarrow> keyed me_dedupe_key (run_call en c rows)"
  by (cases c)
    (simp_all add: upserts_of_rows opened.upsert_keyed seen.upsert_keyed resolve_event_def
      mark_alert_sent_def flush_keyed)

lemma run_call_view:
  assumes "keyed me_dedupe_key rows"
  shows "event_view_of (run_call en c rows) =
    (event_view_of rows)(call_key c := view_after en c (event_view_of rows (call_key c)))"
proof (cases c)
  case (Upsert_open uid v rid ticker t)
  then show ?thesis
    by (auto simp: fun_eq_iff event_view_of_def upserts_of_rows opened.row_of_upsert opened.merged_def
        opened_again_def seen_again_def event_row_def view_def new_view_def split: option.split)
next
  case (Upsert_resolved uid v t)
  then show ?thesis
    by (auto simp: fun_eq_iff event_view_of_def upserts_of_rows seen.row_of_upsert seen.merged_def
        seen_again_def event_row_def view_def new_view_def split: option.split)
next
  case (Resolve k t d)
  then show ?thesis
    using assms by (auto simp: fun_eq_iff event_view_of_def resolve_event_def flush_keyed view_def
        option.map_comp comp_def)
next
  case (Mark_alert k t)
  then show ?thesis
    using assms by (auto simp: fun_eq_iff event_view_of_def mark_alert_sent_def flush_keyed view_def
        option.map_comp comp_def)
qed

section \<open>The history of a key\<close>

definition life :: "string \<Rightarrow> monitor_call list \<Rightarrow> monitor_call list" where
  "life k calls = dropWhile (\<lambda>c. \<not> creates c) (filter (\<lambda>c. call_key c = k) calls)"

definition last_change :: "monitor_call list \<Rightarrow> monitor_call" where
  "last_change cs = last (filter (\<lambda>c. \<not> alerts c) cs)"

definition last_alert :: "monitor_call list \<Rightarrow> instant option" where
  "last_alert cs = (if filter alerts cs = [] then None else Some (call_time (last (filter alerts cs))))"

definition view_of_life :: "signal_enums \<Rightarrow> monitor_call list \<Rightarrow> event_view option" where
  "view_of_life en cs =
     (if cs = [] then None
      else let change = last_change cs in
        Some \<lparr>ew_status = (if opens change then MonitorStatus_OPEN en else MonitorStatus_RESOLVED en),
          ew_count = 1 + int (length (filter opens (tl cs))),
          ew_first_seen = call_time (hd cs), ew_last_seen = call_time change,
          ew_alert_sent = last_alert cs,
          ew_resolved = (if opens change then None else Some (call_time change))\<rparr>)"

lemma life_snoc: "life k (calls @ [c]) =
    (if call_key c \<noteq> k then life k calls
     else if life k calls = [] then (if creates c then [c] else [])
     else life k calls @ [c])"
proof -
  have d: "dropWhile P (xs @ [x]) = (if dropWhile P xs = [] then (if P x then [] else [x])
      else dropWhile P xs @ [x])" for P :: "monitor_call \<Rightarrow> bool" and xs x
    by (induction xs) auto
  show ?thesis
    by (cases "call_key c = k") (simp_all only: life_def filter_append filter.simps d if_True if_False
        append_Nil2 not_True_eq_False not_False_eq_True not_not split: if_split, blast)
qed

lemma life_starts: "life k calls \<noteq> [] \<Longrightarrow> \<exists>c \<in> set (life k calls). \<not> alerts c"
proof -
  assume n: "life k calls \<noteq> []"
  then have "creates (hd (life k calls))" unfolding life_def using hd_dropWhile by blast
  then have "\<not> alerts (hd (life k calls))" by (cases "hd (life k calls)") auto
  with n show ?thesis by (meson hd_in_set)
qed

lemma view_of_life_snoc:
  assumes "\<exists>x \<in> set cs. \<not> alerts x"
  shows "view_of_life en (cs @ [c]) = view_after en c (view_of_life en cs)"
proof -
  have n: "cs \<noteq> []" and f: "filter (\<lambda>x. \<not> alerts x) cs \<noteq> []"
    using assms by (auto simp: filter_empty_conv)
  then show ?thesis
    by (cases c) (auto simp: view_of_life_def last_change_def last_alert_def Let_def hd_append tl_append
        split: list.split)
qed

lemma view_of_life_start: "creates c \<Longrightarrow> view_of_life en [c] = view_after en c None"
  by (cases c) (simp_all add: view_of_life_def last_change_def last_alert_def new_view_def Let_def)

lemma not_created: "\<not> creates c \<Longrightarrow> view_after en c None = None"
  by (cases c) simp_all

lemma run_calls_view:
  "keyed me_dedupe_key (run_calls en calls []) \<and>
   event_view_of (run_calls en calls []) k = view_of_life en (life k calls)"
proof (induction calls rule: rev_induct)
  case (snoc c calls)
  let ?rows = "run_calls en calls []"
  have run: "run_calls en (calls @ [c]) [] = run_call en c ?rows" by (simp add: run_calls_def)
  have v: "event_view_of (run_call en c ?rows) k =
      (if call_key c = k then view_after en c (view_of_life en (life k calls))
       else view_of_life en (life k calls))"
    using snoc run_call_view[of ?rows en c] by simp
  have "(if call_key c = k then view_after en c (view_of_life en (life k calls))
       else view_of_life en (life k calls)) = view_of_life en (life k (calls @ [c]))"
    using view_of_life_snoc[OF life_starts, of k calls en c] view_of_life_start[of c en]
      not_created[of c en]
    by (auto simp: life_snoc view_of_life_def[of en "[]"])
  with v run run_call_keyed snoc show ?case by simp
qed (simp add: run_calls_def event_view_of_def life_def view_of_life_def)

section \<open>Open events\<close>

lemma is_open_view:
  assumes "keyed me_dedupe_key rows"
  shows "is_open en k rows = Inr (case event_view_of rows k of None \<Rightarrow> False | Some w \<Rightarrow> ew_status w \<in> open_like en)"
proof -
  have "filter (\<lambda>r. me_dedupe_key r = k) rows =
      (case row_of me_dedupe_key rows k of None \<Rightarrow> [] | Some r \<Rightarrow> [r])"
    using assms
  proof (induction rows)
    case (Cons x rows)
    have "filter (\<lambda>r. me_dedupe_key r = k) rows = []" if "me_dedupe_key x = k"
      using Cons.prems that by (auto simp: keyed_def filter_empty_conv image_iff)
    with Cons show ?case by (auto simp: row_of_def keyed_def)
  qed simp
  then show ?thesis
    by (simp add: is_open_def event_view_of_def view_def split: option.split)
qed

text \<open>An event is open when the last call for it that was not an alert opened it.\<close>

definition open_life :: "monitor_call list \<Rightarrow> bool" where
  "open_life cs \<longleftrightarrow> cs \<noteq> [] \<and> opens (last_change cs)"

lemma is_open_life:
  assumes "MonitorStatus_RESOLVED en \<notin> open_like en"
  shows "is_open en k (run_calls en calls []) = Inr (open_life (life k calls))"
  using assms
  by (simp add: is_open_view run_calls_view view_of_life_def open_life_def Let_def open_like_def)

lemma open_keys:
  assumes "MonitorStatus_RESOLVED en \<notin> open_like en"
    and "length (run_calls en calls []) \<le> limit"
  shows "me_dedupe_key ` set (list_open_like en limit (run_calls en calls [])) =
    {k. open_life (life k calls)}"
proof -
  let ?rows = "run_calls en calls []"
  have l: "set (list_open_like en limit ?rows) = {r \<in> set ?rows. me_status r \<in> open_like en}"
    using assms(2) le_trans[OF length_filter_le assms(2)]
    by (simp add: list_open_like_def order_desc_def)
  have kd: "keyed me_dedupe_key ?rows" using run_calls_view by blast
  have "k \<in> me_dedupe_key ` {r \<in> set ?rows. me_status r \<in> open_like en} \<longleftrightarrow> open_life (life k calls)" for k
  proof
    assume "k \<in> me_dedupe_key ` {r \<in> set ?rows. me_status r \<in> open_like en}"
    then obtain r where r: "r \<in> set ?rows" "me_dedupe_key r = k" "me_status r \<in> open_like en" by blast
    then have "row_of me_dedupe_key ?rows k = Some r" using row_of_mem[OF kd r(1)] by simp
    then have "is_open en k ?rows = Inr True"
      using r(3) by (simp add: is_open_view[OF kd] event_view_of_def view_def)
    then show "open_life (life k calls)" by (simp add: is_open_life[OF assms(1)])
  next
    assume "open_life (life k calls)"
    then have o: "is_open en k ?rows = Inr True" by (simp add: is_open_life[OF assms(1)])
    show "k \<in> me_dedupe_key ` {r \<in> set ?rows. me_status r \<in> open_like en}"
    proof (cases "row_of me_dedupe_key ?rows k")
      case None
      with o show ?thesis by (simp add: is_open_view[OF kd] event_view_of_def)
    next
      case (Some r)
      with o have "me_status r \<in> open_like en"
        by (simp add: is_open_view[OF kd] event_view_of_def view_def)
      with row_of_Some[OF Some] show ?thesis by blast
    qed
  qed
  then show ?thesis unfolding l by blast
qed

section \<open>The last success of the live cycle\<close>

lemma live_cycle_read_back:
  assumes "keyed me_dedupe_key rows"
    and "fromisoformat (isoformat t) = Some t" and "CHR ''Z'' \<notin> set (isoformat t)"
  shows "get_last_live_cycle_success_at en fromisoformat
      (fst (record_live_cycle_success en isoformat uid t rows)) = Inr (Some t)"
proof -
  let ?rows = "fst (record_live_cycle_success en isoformat uid t rows)"
  let ?v = "event_row (MonitorStatus_RESOLVED en) uid
    \<lparr>mv_monitor_type = MonitorType_LIVE_CYCLE_STALLED en, mv_component = ''live_runner'',
     mv_severity = MonitorSeverity_CRITICAL en, mv_dedupe_key = MonitorType_LIVE_CYCLE_STALLED en,
     mv_title = ''Live cycle running normally'', mv_message = ''Live cycle completed successfully.'',
     mv_details_json = [(''last_live_cycle_success_at_utc'', JStr (isoformat t))]\<rparr> None None t (Some t)"
  have r: "?rows = upsert_seen ?v rows" by (simp add: record_live_cycle_success_def upserts_of_rows)
  have k: "keyed me_dedupe_key ?rows" unfolding r by (rule seen.upsert_keyed[OF assms(1)])
  obtain e where e: "row_of me_dedupe_key ?rows (MonitorType_LIVE_CYCLE_STALLED en) = Some e"
    "me_details_json e = JObj [(''last_live_cycle_success_at_utc'', JStr (isoformat t))]"
    unfolding r by (auto simp: seen.row_of_upsert seen.merged_def seen_again_def event_row_def
        split: option.split)
  have z: "py_replace ''Z'' ''+00:00'' (isoformat t) = isoformat t"
    using assms(3) by (intro py_replace_none) simp_all
  show ?thesis
    by (simp add: get_last_live_cycle_success_at_def get_by_dedupe_key_def scalar_keyed[OF k] e z assms(2))
qed

end
