(* ===== verification/Signal_Api.thy ===== *)
theory Signal_Api
  imports Monitor_Events "HOL-Library.Multiset"
begin

text \<open>
  The routes over the signal store (\<open>app/api/routes_signals.py\<close>, \<open>routes_monitoring.py\<close>,
  \<open>routes_health.py\<close>, response models of \<open>app/api/schemas.py\<close>). The monitoring service of the
  runtime is not in the repository: its methods are parameters, and so is what the database
  answers to \<open>SELECT 1\<close>. The limits of the query parameters are checked as FastAPI documents it,
  with status 422.
\<close>

section \<open>The store and the responses\<close>

record signal_db =
  release_rows :: "release_calendar list"
  actual_rows :: "release_actual list"
  market_rows :: "market_catalog list"
  snapshot_rows :: "market_snapshot list"
  signal_rows :: "signal list"
  notification_rows :: "notification list"
  result_rows :: "evaluation_result list"
  event_rows :: "monitor_event list"

record signal_response =
  sr_signal_id :: string
  sr_release_id :: string
  sr_market_ticker :: string
  sr_signal_type :: string
  sr_score :: int
  sr_severity :: string
  sr_reason_codes :: "string list"
  sr_emitted_at_utc :: instant

definition signal_response_of :: "signal \<Rightarrow> signal_response" where
  "signal_response_of r =
     \<lparr>sr_signal_id = sg_signal_id r, sr_release_id = sg_release_id r,
      sr_market_ticker = sg_market_ticker r, sr_signal_type = sg_signal_type r,
      sr_score = sg_score r, sr_severity = sg_severity r,
      sr_reason_codes = sg_reason_codes_json r, sr_emitted_at_utc = sg_emitted_at_utc r\<rparr>"

text \<open>\<open>MonitorEventResponse\<close> has the columns of the event, with details that must be a dictionary.\<close>

definition monitor_event_response :: "monitor_event \<Rightarrow> monitor_event option" where
  "monitor_event_response e = (case me_details_json e of JObj d \<Rightarrow> Some e | _ \<Rightarrow> None)"

record monitor_summary_response =
  ms_monitor_type :: string
  ms_status :: string
  ms_severity :: string
  ms_dedupe_key :: string
  ms_updated_at_utc :: instant
  ms_resolved_at_utc :: "instant option"

definition monitor_summary_response_of :: "monitor_event \<Rightarrow> monitor_summary_response" where
  "monitor_summary_response_of e =
     \<lparr>ms_monitor_type = me_monitor_type e, ms_status = me_status e, ms_severity = me_severity e,
      ms_dedupe_key = me_dedupe_key e, ms_updated_at_utc = me_updated_at_utc e,
      ms_resolved_at_utc = me_resolved_at_utc e\<rparr>"

record status_response =
  st_latest_live_cycle_success_at_utc :: "instant option"
  st_release_calendar_count :: nat
  st_release_actuals_count :: nat
  st_market_catalog_count :: nat
  st_market_snapshots_count :: nat
  st_signals_count :: nat
  st_open_monitor_events_count :: nat
  st_resolved_monitor_events_count :: nat
  st_monitoring_status :: string
  st_skip_remote_schedule_ingestion :: bool

record health_response =
  hr_status :: string
  hr_database_ok :: bool
  hr_time_utc :: instant

record monitoring_status_response =
  mt_last_live_cycle_success_at_utc :: "instant option"
  mt_upcoming_release_count_7d :: int
  mt_open_critical_count :: int
  mt_open_warning_count :: int
  mt_last_notification_failure_at_utc :: "instant option"
  mt_last_actual_missing_at_utc :: "instant option"
  mt_status :: string

section \<open>Query parameters\<close>

type_synonym 'a http_answer = "(nat \<times> string) + 'a"

text \<open>\<open>limit: int = Query(default=..., ge=1, le=500)\<close>\<close>

definition query_limit :: "int \<Rightarrow> int option \<Rightarrow> nat http_answer" where
  "query_limit dflt limit =
    (let n = (case limit of None \<Rightarrow> dflt | Some n \<Rightarrow> n)
     in if n < 1 \<or> n > 500 then Inl (422, ''limit'') else Inr (nat n))"

section \<open>Signals\<close>

definition list_signals :: "nat \<Rightarrow> string option \<Rightarrow> signal_db \<Rightarrow> signal_response list" where
  "list_signals limit severity db = map signal_response_of (recent_signals limit severity (signal_rows db))"

definition signals_route :: "int option \<Rightarrow> string option \<Rightarrow> signal_db \<Rightarrow> signal_response list http_answer" where
  "signals_route limit severity db =
     res_bind (query_limit 20 limit) (\<lambda>n. Inr (list_signals n severity db))"

definition recent_signals_route ::
  "int option \<Rightarrow> string option \<Rightarrow> signal_db \<Rightarrow> signal_response list http_answer" where
  "recent_signals_route limit severity db =
     res_bind (query_limit 50 limit) (\<lambda>n. Inr (list_signals n severity db))"

section \<open>Monitoring\<close>

record monitoring_service =
  get_status :: "signal_db \<Rightarrow> string + json dict"
  list_recent_events ::
    "signal_db \<Rightarrow> nat \<Rightarrow> string option \<Rightarrow> string option \<Rightarrow> string option \<Rightarrow> monitor_event list"
  list_open_events :: "signal_db \<Rightarrow> nat \<Rightarrow> monitor_event list"

definition require_monitoring_service :: "monitoring_service option \<Rightarrow> monitoring_service http_answer" where
  "require_monitoring_service svc =
     (case svc of None \<Rightarrow> Inl (503, ''Monitoring service is not configured.'') | Some m \<Rightarrow> Inr m)"

text \<open>A response that does not validate is a server error.\<close>

definition event_responses :: "monitor_event list \<Rightarrow> monitor_event list http_answer" where
  "event_responses es =
     (case those (map monitor_event_response es) of
        None \<Rightarrow> Inl (500, ''Internal Server Error'') | Some rs \<Rightarrow> Inr rs)"

text \<open>
  \<open>validated\<close> is the validation of the payload by pydantic; an exception outside of a \<open>try\<close> is the
  server error of the framework.
\<close>

definition monitoring_status ::
  "(json dict \<Rightarrow> monitoring_status_response option) \<Rightarrow> monitoring_service option \<Rightarrow> signal_db \<Rightarrow>
   monitoring_status_response http_answer" where
  "monitoring_status validated svc db =
     res_bind (require_monitoring_service svc) (\<lambda>m.
       case get_status m db of
         Inl e \<Rightarrow> Inl (500, ''Internal Server Error'')
       | Inr payload \<Rightarrow>
           (case validated payload of
              None \<Rightarrow> Inl (500, ''Internal Server Error'') | Some r \<Rightarrow> Inr r))"

definition monitoring_recent_events ::
  "monitoring_service option \<Rightarrow> int option \<Rightarrow> string option \<Rightarrow> string option \<Rightarrow> string option \<Rightarrow>
   signal_db \<Rightarrow> monitor_event list http_answer" where
  "monitoring_recent_events svc limit severity monitor_type status_value db =
     res_bind (query_limit 50 limit) (\<lambda>n.
     res_bind (require_monitoring_service svc) (\<lambda>m.
       event_responses (list_recent_events m db n severity monitor_type status_value)))"

definition monitoring_open_events ::
  "monitoring_service option \<Rightarrow> int option \<Rightarrow> signal_db \<Rightarrow> monitor_event list http_answer" where
  "monitoring_open_events svc limit db =
     res_bind (query_limit 200 limit) (\<lambda>n.
     res_bind (require_monitoring_service svc) (\<lambda>m. event_responses (list_open_events m db n)))"

definition monitor_route ::
  "monitoring_service option \<Rightarrow> int option \<Rightarrow> signal_db \<Rightarrow> monitor_summary_response list http_answer" where
  "monitor_route svc limit db =
     res_bind (query_limit 20 limit) (\<lambda>n.
     res_bind (require_monitoring_service svc) (\<lambda>m.
       Inr (map monitor_summary_response_of (list_open_events m db n))))"

section \<open>Status\<close>

text \<open>\<open>ping\<close> is the answer of the database to \<open>SELECT 1\<close>.\<close>

definition health_route :: "string + unit \<Rightarrow> instant \<Rightarrow> health_response http_answer" where
  "health_route ping utc_now =
     (case ping of
        Inl e \<Rightarrow> Inl (500, ''Internal Server Error'')
      | Inr _ \<Rightarrow> Inr \<lparr>hr_status = ''ok'', hr_database_ok = True, hr_time_utc = utc_now\<rparr>)"

text \<open>
  Any exception inside the \<open>try\<close> block is a 503. The status
  of the monitoring service is printed with \<open>str\<close>, which is a parameter for what is no text.
\<close>

definition status_text :: "(json \<Rightarrow> string) \<Rightarrow> json dict \<Rightarrow> string" where
  "status_text py_str payload =
     (case map_of payload ''status'' of
        None \<Rightarrow> ''unknown'' | Some (JStr s) \<Rightarrow> s | Some v \<Rightarrow> py_str v)"

definition status_summary ::
  "signal_enums \<Rightarrow> (string \<Rightarrow> instant option) \<Rightarrow> (json \<Rightarrow> string) \<Rightarrow> string + unit \<Rightarrow>
   monitoring_service option \<Rightarrow> bool \<Rightarrow> signal_db \<Rightarrow> status_response http_answer" where
  "status_summary en fromisoformat py_str ping svc skip db =
     map_sum (\<lambda>e. (503, ''status unavailable: '' @ e)) id
       (res_bind ping (\<lambda>_.
        res_bind (get_last_live_cycle_success_at en fromisoformat (event_rows db)) (\<lambda>latest.
        res_bind (case svc of
            None \<Rightarrow> Inr ''unknown''
          | Some m \<Rightarrow> map_sum id (status_text py_str) (get_status m db)) (\<lambda>status_value.
          Inr \<lparr>st_latest_live_cycle_success_at_utc = latest,
            st_release_calendar_count = length (release_rows db),
            st_release_actuals_count = length (actual_rows db),
            st_market_catalog_count = length (market_rows db),
            st_market_snapshots_count = length (snapshot_rows db),
            st_signals_count = length (signal_rows db),
            st_open_monitor_events_count =
              count_by_statuses [MonitorStatus_OPEN en, MonitorStatus_ACKNOWLEDGED en,
                MonitorStatus_SUPPRESSED en] (event_rows db),
            st_resolved_monitor_events_count =
              count_by_statuses [MonitorStatus_RESOLVED en] (event_rows db),
            st_monitoring_status = status_value,
            st_skip_remote_schedule_ingestion = skip\<rparr>))))"

section \<open>Facts\<close>

text \<open>The first rows of a descending order: sorted, and nothing left out is newer than what is in.\<close>

lemma newest_first:
  fixes key :: "'r \<Rightarrow> instant"
  defines "xs \<equiv> \<lambda>n rows. take n (order_desc key rows)"
  shows "sorted_wrt (\<lambda>a b. key a \<ge> key b) (xs n rows)"
    and "length (xs n rows) = min n (length rows)"
    and "mset (xs n rows) \<subseteq># mset rows"
    and "x \<in> set (xs n rows) \<Longrightarrow> y \<in># mset rows - mset (xs n rows) \<Longrightarrow> key y \<le> key x"
proof -
  let ?s = "order_desc key rows"
  have "sorted (map (\<lambda>r. - key r) ?s)" by (simp add: order_desc_def)
  then have s: "sorted_wrt (\<lambda>a b. key a \<ge> key b) ?s" by (simp add: sorted_map)
  have m: "mset ?s = mset rows" by (simp add: order_desc_def)
  show "sorted_wrt (\<lambda>a b. key a \<ge> key b) (xs n rows)"
    using s unfolding xs_def by (metis append_take_drop_id sorted_wrt_append)
  have "length ?s = length rows" using arg_cong[OF m, of size] by simp
  then show "length (xs n rows) = min n (length rows)" by (simp add: xs_def)
  have split: "mset rows = mset (take n ?s) + mset (drop n ?s)"
    unfolding m[symmetric] by (metis append_take_drop_id mset_append)
  then show "mset (xs n rows) \<subseteq># mset rows" by (simp add: xs_def)
  assume x: "x \<in> set (xs n rows)" and y: "y \<in># mset rows - mset (xs n rows)"
  have "y \<in> set (drop n ?s)" using y by (simp add: xs_def split)
  with x s show "key y \<le> key x"
    unfolding xs_def by (metis append_take_drop_id sorted_wrt_append)
qed

lemma query_limit_iff: "query_limit dflt limit = Inr n \<longleftrightarrow>
    n \<ge> 1 \<and> n \<le> 500 \<and> int n = (case limit of None \<Rightarrow> dflt | Some m \<Rightarrow> m)"
  by (auto simp: query_limit_def Let_def split: option.split)

end
