(* ===== verification/Signal_Samples.thy ===== *)
theory Signal_Samples
  imports Signal_Api
begin

text \<open>Concrete inputs for the signal store: enumeration values, a resolved event, a delivery.\<close>

definition sample_enums :: signal_enums where
  "sample_enums = \<lparr>Severity_HIGH = ''high'', Severity_CRITICAL = ''critical'',
     DeliveryStatus_FAILED = ''failed'', DeliveryStatus_SENT = ''sent'',
     MonitorStatus_OPEN = ''open'', MonitorStatus_ACKNOWLEDGED = ''acknowledged'',
     MonitorStatus_SUPPRESSED = ''suppressed'', MonitorStatus_RESOLVED = ''resolved'',
     MonitorType_LIVE_CYCLE_STALLED = ''live_cycle_stalled'',
     MonitorSeverity_CRITICAL = ''critical''\<rparr>"

lemma sample_enums_facts:
  "MonitorStatus_RESOLVED sample_enums \<notin> open_like sample_enums"
  "DeliveryStatus_SENT sample_enums \<noteq> DeliveryStatus_FAILED sample_enums"
  by (simp_all add: sample_enums_def open_like_def)

definition stalled :: monitor_values where
  "stalled = \<lparr>mv_monitor_type = ''lag'', mv_component = ''feed'', mv_severity = ''critical'',
     mv_dedupe_key = ''lag:feed'', mv_title = ''Feed lags'', mv_message = ''No data'',
     mv_details_json = []\<rparr>"

definition stalled_calls :: "monitor_call list" where
  "stalled_calls = [Resolve ''lag:feed'' 1 None, Upsert_open ''e-1'' stalled None None 2,
     Mark_alert ''lag:feed'' 3, Upsert_open ''e-2'' stalled None None 4]"

lemma stalled_life: "life ''lag:feed'' stalled_calls = drop 1 stalled_calls"
  by (simp add: life_def stalled_calls_def stalled_def)

lemma stalled_view: "view_of_life sample_enums (drop 1 stalled_calls) =
    Some \<lparr>ew_status = ''open'', ew_count = 2, ew_first_seen = 2, ew_last_seen = 4,
      ew_alert_sent = Some 3, ew_resolved = None\<rparr>"
  by (simp add: view_of_life_def stalled_calls_def last_change_def last_alert_def sample_enums_def)

definition cpi_signal :: signal where
  "cpi_signal = \<lparr>sg_signal_id = ''s-1'', sg_release_id = ''cpi'', sg_market_ticker = ''CPI-T1'',
     sg_signal_type = ''gap'', sg_score = 80, sg_severity = ''high'', sg_reason_codes_json = [],
     sg_metrics_json = [], sg_emitted_at_utc = 10\<rparr>"

definition cpi_notification :: notification where
  "cpi_notification = \<lparr>nt_notification_id = ''n-1'', nt_signal_id = ''s-1'', nt_channel = ''mail'',
     nt_sent_at_utc = 11, nt_delivery_status = ''sent'', nt_payload_json = []\<rparr>"

definition retried :: notification where
  "retried = cpi_notification\<lparr>nt_notification_id := ''n-2'', nt_delivery_status := ''failed''\<rparr>"

lemma cpi_delivered:
  "store_keyed ([cpi_notification], [cpi_signal])"
  "has_duplicate_in_cooldown sample_enums 12 ''cpi'' ''gap'' ''CPI-T1'' 60
     [cpi_notification] [cpi_signal]"
  by (simp_all add: store_keyed_def keyed_def has_duplicate_in_cooldown_def join_signals_def
      cpi_signal_def cpi_notification_def sample_enums_def timedelta_seconds_def)

definition cpi_db :: signal_db where
  "cpi_db = \<lparr>release_rows = [], actual_rows = [], market_rows = [], snapshot_rows = [],
     signal_rows = [cpi_signal, cpi_signal\<lparr>sg_signal_id := ''s-2'', sg_emitted_at_utc := 20\<rparr>],
     notification_rows = [], result_rows = [], event_rows = []\<rparr>"

end
