(* ===== verification/Spec2Isabelle.thy ===== *)
theory Spec2Isabelle
  imports Samples Governance Api_Samples Postgres_Samples Signal_Samples
begin

text \<open>
  A verification development for the codex-orchestrator: a service that turns a free-text request
  into a project brief, runs a plan of departments on it under human approval, projects
  management decisions of a change, and keeps everything in a repository.

  The parts of the program and the theories that model them (paths under src/):

  \<^item> Values. \<open>Prelude\<close>: the string and dictionary operations of Python, errors as sums, JSON.
    \<open>Schemas\<close>: the enumerations and models of app/schemas/project.py, brief.py and trend.py as
    datatypes and records. \<open>Runtime_Flags\<close>: app/runtime_flags.py.
  \<^item> The orchestrator, app/orchestrator. \<open>Graph\<close>: the transition table of graph.py. \<open>Agents\<close>: the
    providers of app/providers and the departments of app/agents. \<open>Approval\<close>:
    app/services/approval.py. \<open>Record_Ops\<close> and \<open>Orchestrator\<close>: service.py, its helpers on one
    record and its public methods. A method works on the record that the repository gave it and
    saves at most one record right before it returns or raises; its outcome is that record, if
    any, with the error or the result. \<open>Service\<close> runs the methods over a repository, one
    request each; \<open>reachable\<close> are the stores that requests lead to.
  \<^item> The repository, app/state/repository.py. \<open>Repository\<close>: the contract as the locale
    \<open>project_repository\<close>, the in-memory store as its interpretation \<open>memory\<close>, the choice of a
    backend. \<open>Task_Order\<close>: the order in which stored tasks are put back. \<open>Postgres_Json\<close>,
    \<open>Postgres\<close>, \<open>Postgres_Facts\<close>, \<open>Postgres_Repository\<close>: the tables, save and get statement by
    statement, and their proof of the same contract.
  \<^item> The API. \<open>Auth\<close>: app/services/auth.py. \<open>Bindings\<close>, \<open>App\<close>: app/api/runtime_bindings.py,
    dependencies.py and main.py. \<open>Api\<close>: app/api/routes.py and app/schemas/api.py; a route is an
    authentication, audit requests and one request to the service.
  \<^item> The intake, app/intake/service.py. \<open>Regex\<close>: a backtracking matcher for the part of \<open>re\<close>
    that is used; \<open>Intake\<close>: the patterns and the brief built from them.
  \<^item> Governance, app/services. \<open>Continuation\<close>, \<open>Triage\<close> (with work_order.py), \<open>Management\<close>
    (management_review.py, review_packet.py, review_queue.py, trend_workflow.py and
    app/intake/review_artifacts.py), \<open>Activation\<close> (activation_decision.py,
    approval_record_builder.py). \<open>Dry_Run\<close>: dry_run_orchestration.py up to its envelope. \<open>Relay\<close>,
    \<open>Receiver\<close>, \<open>Consumer\<close>, \<open>Release\<close>: its 63 stages, three shapes of which \<open>Relay\<close> holds.
  \<^item> The signal store, app/db/repositories.py. \<open>Signal_Tables\<close>, \<open>Signal_Events\<close>: every operation
    as a function of its table. \<open>Signal_Api\<close>: routes_signals.py, routes_monitoring.py and
    routes_health.py over it.

  What the lemmas show:

  \<^item> \<open>Record_Edits\<close> is an abstract view of the orchestrator: a relation \<open>edit\<close> with one rule for each
    way in which a record may change, and its invariants (history, audit log, unique ids).
    \<open>Handler_Edits\<close> shows that every method refines it, \<open>Progress\<close> that every saved record is
    settled, \<open>Safety\<close> what a caller can bring about (C4 to C11), \<open>Service\<close> that what holds of
    every saved record holds of every stored one, for every repository of the contract (C1 to C3
    for the store in memory, C40 for Postgres).
  \<^item> \<open>Approval\<close>: the decision of an action against a description of its own, down to the role matrix
    and the lookup of a rule (C31). The code lets a runtime list of ids replace the ids of a rule,
    where the documents have it restrict them: \<open>documents_permit_less\<close> and \<open>documents_differ\<close> say
    where the two part, \<open>runtime_list_widens_rule\<close> is a caller for whom they do. \<open>run_outcome\<close> in
    \<open>Safety\<close>: how a first run ends, with the simulated review failure and without (C12).
  \<^item> \<open>Task_Order\<close>: the loop is Kahn's algorithm, with its invariant, for every plan (C13, C14, C37).
  \<^item> \<open>Postgres_Facts\<close>: what is saved is read back, a duplicate key rolls the save back (C38, C39).
  \<^item> \<open>Api\<close>, \<open>Route_Errors\<close>: a call is the requests that it stands for and nothing is done without an
    actor (C22, C24, C25); every error has its status (C23). \<open>Auth\<close>, \<open>App\<close>: C26 to C28.
  \<^item> \<open>Regex_Lang\<close>: the matcher is sound and complete for the language of a pattern. \<open>Intake_Facts\<close>
    and \<open>Intake_Form\<close>: the bounds of the result, and a brief written as a form is read back (C29,
    C30).
  \<^item> \<open>Governance\<close>, \<open>Relay_Chain\<close>: the decisions of a dry run, and the relay against a table of its
    labels (C15 to C21).
  \<^item> \<open>Signal_Facts\<close>: all tables satisfy the locale \<open>keyed_table\<close>, a map from keys to rows of which an
    upsert changes one; \<open>Monitor_Events\<close>: the events as a function of the calls (C32, C34, C36).

  Loops and bounds. No fuel is used: every loop is a total function. The ordering loop ends since
  each round takes one task from the ready list and a task becomes ready at most once; the matcher
  by the size of the pattern and then the length of the text, where a repetition that consumed
  nothing is not repeated; the scans of strings by their length. Python's integers and instants
  are unbounded integers, its floats, which the code compares and copies and takes a minimum of,
  are rationals. A string is a list of the code points 0 to 255, on which the case and space tests
  of Python are written out; texts beyond them are not modelled.

  Parameters, for what is not in the repository: the clock, uuid4 and the environment
  (\<open>runtime\<close>, arguments); of Postgres the value that a \<open>jsonb\<close> column keeps, with the laws
  \<open>jsonb_laws\<close>, and its collation, which must order the five task ids of the plan as their code
  points do (\<open>plan_collation\<close>); for the signal store, whose table models and enumerations are
  missing, the enumeration values, \<open>isoformat\<close>, the monitoring service. Concrete values for all of
  them are in \<open>Samples\<close>, \<open>Api_Samples\<close>, \<open>Postgres_Samples\<close> and \<open>Signal_Samples\<close>.

  Not modelled: FastAPI and pydantic (parsing of bodies, coercions of types; a payload is a typed
  record), the SQL engine beyond the documented meaning of the statements, text with NUL
  characters, which Postgres refuses, connections and concurrent transactions (a method is one
  step on the store), copies of a row that an SQLAlchemy session holds, the re-exports of
  the packages, the response models that no route uses.
\<close>

section \<open>The orchestrator as a service\<close>

text \<open>
  C1. Whatever requests reach the in-memory repository, in whatever environments, every
  stored project sits under its own id, is settled (completed with every task done, or
  waiting for exactly the approval of its trend task, or in the revision or planning lane
  with nothing to decide), and its tasks, artifacts and checkpoints have unique ids.
\<close>

theorem stored_projects_settled:
  assumes "reachable memory_get memory_save memory_empty s" and "memory_get s pid = Some r"
  shows "rec_id r = pid \<and> settled r \<and> keys_unique r"
  using memory.reachable_sound[OF assms(1) stored_memory_empty] assms(2)
  by (simp add: stored_def sound_def)

lemma stored_projects_settled_witness:
  "rec_id waiting = ''p-1'' \<and> settled waiting \<and> keys_unique waiting"
  using stored_projects_settled[OF waiting_reachable, of "''p-1''" waiting]
  by (simp add: waiting_store_def memory_get_def)

text \<open>
  C2. The history lines of a stored project are a walk of the state machine from the draft
  state to the project's status: no transition is missing, none is outside the table.
\<close>

theorem stored_history_is_walk:
  assumes "reachable memory_get memory_save memory_empty s" and "memory_get s pid = Some r"
  shows "\<exists>states. walk_ok P_DRAFT states \<and> walk_end P_DRAFT states = rec_status r \<and>
    history r = walk_lines P_DRAFT states"
  using memory.reachable_sound[OF assms(1) stored_memory_empty] assms(2)
  by (simp add: stored_def sound_def history_ok_def)

lemma stored_history_is_walk_witness:
  "\<exists>states. walk_ok P_DRAFT states \<and> walk_end P_DRAFT states = rec_status waiting \<and>
    history waiting = walk_lines P_DRAFT states"
  using stored_history_is_walk[OF waiting_reachable, of "''p-1''" waiting]
  by (simp add: waiting_store_def memory_get_def)

text \<open>
  C3. The audit log is complete: replaying the status events of a stored project from the
  initial plan gives the status of every task and of the project.
\<close>

theorem stored_log_complete:
  assumes "reachable memory_get memory_save memory_empty s" and "memory_get s pid = Some r"
  shows "task_states (tasks r) = replay_tasks (events r) (task_states build_plan) \<and>
    rec_status r = replay_project (events r) P_DRAFT"
  using memory.reachable_sound[OF assms(1) stored_memory_empty] assms(2)
  by (simp add: stored_def sound_def log_complete_def)

lemma stored_log_complete_witness:
  "task_states (tasks waiting) = replay_tasks (events waiting) (task_states build_plan) \<and>
    rec_status waiting = replay_project (events waiting) P_DRAFT"
  using stored_log_complete[OF waiting_reachable, of "''p-1''" waiting]
  by (simp add: waiting_store_def memory_get_def)

text \<open>
  C4. An approval that was pending before a request and is approved after it was approved
  by a resume request for that project, by an actor that \<open>authorize_action\<close> allows for
  the action under the project's policy and the actor ids of the runtime.
\<close>

theorem approval_needs_authorization:
  assumes "reachable memory_get memory_save memory_empty s"
    and "serve memory_get memory_save env q s = (s', res)" and "target q = Some p"
    and "memory_get s pid = Some r" and "memory_get s' pid = Some r'" and "approves r r' i"
  shows "\<exists>approved actor n name ids. q = ResumeFromApproval pid approved actor n name ids \<and>
    ad_allowed (authorize_action (ar_action_type (approvals r ! i))
      (coerce_actor actor APPROVER HUMAN) (Some (p_policy (project r))) ids)"
proof -
  have st: "stored memory_get sound s"
    by (rule memory.reachable_sound[OF assms(1) stored_memory_empty]) simp
  have "fst (serve memory_get memory_save env q s) = s'" using assms(2) by simp
  from this assms(5) st show ?thesis
  proof (cases rule: memory.serve_cases)
    case same
    with assms(4,6) show ?thesis by (auto simp: approves_def)
  next
    case (ran_new x y)
    with assms(3) show ?thesis by simp
  next
    case (handled x y)
    with saved_record_approves[of env q r r' pid i] assms(4,6) show ?thesis
      by (auto simp: authorized_for_def)
  qed
qed

lemma approval_needs_authorization_witness:
  "ad_allowed (authorize_action EXTERNAL_API_SEND approver (Some (p_policy (project waiting))) None)"
proof -
  have s: "waiting_store ''p-1'' = Some waiting" by (simp add: waiting_store_def)
  obtain res where a: "resume_from_approval sample_env (Some [ActionEnum EXTERNAL_API_SEND])
      (ActorIs approver) ''ok'' ''gemini'' None waiting = (Some completed, res)"
    using approved_run_saves by (cases approved_run) (auto simp: approved_run_def)
  have id: "rec_id completed = ''p-1''" using completed_eval by simp
  obtain out where run: "serve memory_get memory_save sample_env approve_request waiting_store =
      (waiting_store(''p-1'' \<mapsto> completed), out)"
    using s a id
    by (cases res) (auto simp: approve_request_def with_record_def get_record_or_raise_def
        memory_get_def commit_def memory_save_def)
  have "approves waiting completed 0"
    using waiting_eval completed_eval by (auto simp: approves_def)
  with approval_needs_authorization[OF waiting_reachable run, of "''p-1''" "''p-1''" waiting completed 0]
  show ?thesis
    using s waiting_eval by (auto simp: approve_request_def memory_get_def)
qed

text \<open>
  C5. A request that ends in an error leaves the store as it was; only a denied one, which
  raises the \<open>PermissionError\<close>, stores its project again, with nothing changed but new
  audit events at the end of the log.
\<close>

theorem errors_leave_audit_trail:
  assumes "reachable memory_get memory_save memory_empty s"
    and "serve memory_get memory_save env q s = (s', Inl e)"
  shows "s' = s \<or>
    (\<exists>m pid r r'. e = PermissionErr m \<and> target q = Some pid \<and> s pid = Some r \<and>
       r' = r\<lparr>events := events r'\<rparr> \<and> prefix (events r) (events r') \<and> s' = s(pid \<mapsto> r'))"
  using serve_error[OF memory.reachable_sound[OF assms(1) stored_memory_empty] assms(2)]
  by (auto simp: error_trail_def audit_only_def)

lemma errors_leave_audit_trail_witness:
  "prefix (events waiting) (events denied) \<and> tasks denied = tasks waiting"
proof -
  have w: "waiting_store ''p-1'' = Some waiting" by (simp add: waiting_store_def)
  from errors_leave_audit_trail[OF waiting_reachable denied_served] show ?thesis
  proof
    assume "waiting_store(''p-1'' \<mapsto> denied) = waiting_store"
    then have "denied = waiting" using w by (metis fun_upd_same option.inject)
    then show ?thesis by simp
  next
    assume "\<exists>m pid r r'. PermissionErr ''viewer role cannot approve actions.'' = PermissionErr m \<and>
       target denied_request = Some pid \<and> waiting_store pid = Some r \<and>
       r' = r\<lparr>events := events r'\<rparr> \<and> prefix (events r) (events r') \<and>
       waiting_store(''p-1'' \<mapsto> denied) = waiting_store(pid \<mapsto> r')"
    then obtain r' where r': "r' = waiting\<lparr>events := events r'\<rparr>"
      "prefix (events waiting) (events r')" "waiting_store(''p-1'' \<mapsto> denied) = waiting_store(''p-1'' \<mapsto> r')"
      using w by (auto simp: denied_request_def)
    from r'(3) have "denied = r'" by (metis fun_upd_same option.inject)
    moreover have "tasks r' = tasks waiting" using arg_cong[OF r'(1), of tasks] by simp
    ultimately show ?thesis using r'(2) by simp
  qed
qed

text \<open>
  C6. A waiting project goes on: when its external action was never rejected, an authorised
  actor who approves it, with a provider that the factory knows, gets the completed project,
  every task done and nothing pending.
\<close>

theorem authorized_approval_completes:
  assumes "settled r" and "rec_status r = P_WAITING_APPROVAL"
    and "EXTERNAL_API_SEND \<notin> actions_with Ap_REJECTED r"
    and "ad_allowed (authorize_action EXTERNAL_API_SEND (coerce_actor actor APPROVER HUMAN)
           (Some (p_policy (project r))) ids)"
    and "provider_or_raise env name = Inr prov"
  shows "\<exists>r'. resume_from_approval env (Some [ActionEnum EXTERNAL_API_SEND]) actor n name ids r =
      (Some r', Inr (summary r' completed_next_steps)) \<and>
    rec_status r' = P_COMPLETED \<and> (\<forall>t \<in> set (tasks r'). t_status t = T_DONE) \<and>
    actions_with Ap_PENDING r' = {}"
  using approval_completes[OF assms(1-3) _ assms(5)] assms(4)
  by (auto simp: authorized_for_def save_and_return_def)

lemma authorized_approval_completes_witness:
  "\<exists>r'. resume_from_approval sample_env (Some [ActionEnum EXTERNAL_API_SEND]) (ActorIs approver)
      ''ok'' ''gemini'' None waiting = (Some r', Inr (summary r' completed_next_steps)) \<and>
    rec_status r' = P_COMPLETED \<and> (\<forall>t \<in> set (tasks r'). t_status t = T_DONE) \<and>
    actions_with Ap_PENDING r' = {}"
proof -
  have "EXTERNAL_API_SEND \<notin> actions_with Ap_REJECTED waiting" by code_simp
  moreover have "ad_allowed (authorize_action EXTERNAL_API_SEND
      (coerce_actor (ActorIs approver) APPROVER HUMAN) (Some (p_policy (project waiting))) None)"
    by code_simp
  moreover have "provider_or_raise sample_env ''gemini'' = Inr GeminiTrendProvider" by code_simp
  ultimately show ?thesis
    using authorized_approval_completes[OF waiting_settled] waiting_eval by blast
qed

text \<open>
  C7. A rejection is for good: in a project whose external action was rejected once, a
  later pending request for it cannot be approved by anyone. Every resume raises and stores
  nothing, so only another rejection leaves the waiting state.
\<close>

theorem rejected_request_is_stuck:
  assumes "settled r" and "rec_status r = P_WAITING_APPROVAL"
    and "EXTERNAL_API_SEND \<in> actions_with Ap_REJECTED r"
  shows "\<exists>e. resume_from_approval env approved actor n name ids r = (None, Inl e)"
  using rejected_is_stuck[OF assms] by (simp add: raise_error_def)

lemma rejected_request_is_stuck_witness:
  "\<exists>e. resume_from_approval sample_env (Some [ActionEnum EXTERNAL_API_SEND]) (ActorIs approver)
     ''ok'' ''gemini'' None waiting_again = (None, Inl e)"
proof -
  have "rec_status waiting_again = P_WAITING_APPROVAL"
    using waiting_again_run_eval by (auto simp: waiting_again_def)
  moreover have "EXTERNAL_API_SEND \<in> actions_with Ap_REJECTED waiting_again" by code_simp
  ultimately show ?thesis by (intro rejected_request_is_stuck waiting_again_settled)
qed

text \<open>
  C8. Without the external action among the approved ones, a run, a revision and a
  replanning produce no trend analysis of an external provider: every artifact that names
  another provider than the mock was there before.
\<close>

theorem external_analysis_is_gated:
  assumes "parse_approved_actions approved = Inr S" and "EXTERNAL_API_SEND \<notin> S"
    and "out \<in> {resume_from_revision env mode actor reason name approved r,
                start_replanning env actor reason name approved reset r}"
    and "fst out = Some r'" and "x \<in> set (artifacts r')" and "external_artifact x"
  shows "x \<in> set (artifacts r)"
  using assms(3) outcome_all_fst[OF revision_internal(1)[OF assms(1,2)]]
    outcome_all_fst[OF revision_internal(2)[OF assms(1,2)]] assms(4-)
  by (auto simp: no_new_external_def)

lemma external_analysis_is_gated_witness:
  "external_artifact gemini_artifact \<and> gemini_artifact \<in> set (artifacts simulated)"
proof -
  have f: "fst rereview_run = Some rereviewed"
    using rereview_run_eval by (auto simp: rereviewed_def)
  then have "gemini_artifact \<in> set (artifacts rereviewed)" "external_artifact gemini_artifact"
    using rereview_run_eval by (simp_all add: gemini_artifact_def)
  moreover have "parse_approved_actions None = Inr {}" by simp
  ultimately show ?thesis
    using external_analysis_is_gated[of None "{}" rereview_run sample_env REREVIEW ActorNone "''''"
        "''gemini''" simulated False rereviewed gemini_artifact] f
    by (simp add: rereview_run_def)
qed

text \<open>
  C9. A first run without the external action approved makes no external analysis: whatever
  the provider, no artifact of the stored record names another provider than the mock.
\<close>

theorem first_run_is_gated:
  assumes "parse_approved_actions approved = Inr S" and "EXTERNAL_API_SEND \<notin> S"
    and "run env brief policy name approved sim = (Some r', res)" and "x \<in> set (artifacts r')"
  shows "\<not> external_artifact x"
  by (rule run_internal[OF assms])

lemma first_run_is_gated_witness: "\<not> external_artifact (artifacts waiting ! 0)"
proof -
  obtain res where r: "run sample_env sample_brief None ''gemini'' None False = (Some waiting, res)"
    using first_run_saves by (cases first_run) (auto simp: first_run_def)
  have "length (artifacts waiting) = 3" by code_simp
  then show ?thesis by (intro first_run_is_gated[OF _ _ r, of "{}"]) simp_all
qed

text \<open>
  C10. A completed project stays as it is: whatever request follows for it, the record
  that the request stores, if any, differs from it in new events only.
\<close>

theorem completed_is_terminal:
  assumes "rec_status r = P_COMPLETED" and "saved_record env q r = Some r'" and "target q = Some pid"
  shows "r' = r\<lparr>events := events r'\<rparr>"
  by (rule completed_saved[OF assms])

lemma completed_is_terminal_witness:
  "\<exists>r'. saved_record sample_env (AuthenticationSuccess ''p-1'' approver) completed = Some r' \<and>
     r' = completed\<lparr>events := events r'\<rparr>"
proof -
  let ?q = "AuthenticationSuccess ''p-1'' approver"
  obtain r' where r': "saved_record sample_env ?q completed = Some r'"
    by (simp add: record_authentication_success_def save_and_return_def Let_def)
  have "rec_status completed = P_COMPLETED" using completed_eval by simp
  from completed_is_terminal[OF this r', of "''p-1''"] r' show ?thesis by (intro exI[of _ r']) simp
qed

text \<open>
  C11. What no request can do to the record it stores: shorten or rewrite the history or
  the event log, change a decided approval or the kind and reason of any approval, change
  the id, brief or policy of the project, or the ids, titles, departments and dependencies
  of its tasks.
\<close>

theorem requests_keep_the_past:
  assumes "saved_record env q r = Some r'" and "target q = Some pid"
  shows "prefix (events r) (events r') \<and> prefix (history r) (history r') \<and>
    approvals_kept r r' \<and> same_frame r r'"
proof -
  have "edits r r'" using saved_record_edits[OF assms(1)] assms(2) by simp
  then show ?thesis by (simp add: edits_log edits_approvals edits_frame)
qed

lemma requests_keep_the_past_witness:
  "prefix (history waiting) (history completed) \<and> approvals_kept waiting completed"
  using requests_keep_the_past[of sample_env approve_request waiting completed "''p-1''"] approved_run_saves
  by (simp add: approve_request_def approved_run_def)

text \<open>
  C12. A first run with a parsable action list and a known provider never raises, whether or not
  the failing review is simulated. It waits for one pending approval, of the external action,
  exactly when the gate asks for it. Otherwise it does every task and asks for no approval, and
  ends with a requested revision when the failing review is simulated and completed when not.
\<close>

theorem first_run_outcome:
  assumes "parse_approved_actions approved = Inr S" and "provider_or_raise env name = Inr prov"
  shows "\<exists>r' steps. run env brief policy name approved simulate = (Some r', Inr (summary r' steps)) \<and>
    (if needs_approval prov S
     then rec_status r' = P_WAITING_APPROVAL \<and> steps = pause_next_steps \<and>
          map (\<lambda>a. (ar_action_type a, ar_status a)) (approvals r') = [(EXTERNAL_API_SEND, Ap_PENDING)]
     else approvals r' = [] \<and> (\<forall>t \<in> set (tasks r'). t_status t = T_DONE) \<and>
          (if simulate then rec_status r' = P_REVISION_REQUESTED \<and> steps = review_failed_next_steps
           else rec_status r' = P_COMPLETED \<and> steps = completed_next_steps))"
proof (cases "needs_approval prov S")
  case True
  with run_outcome(1)[OF assms True, where sim = simulate and brief = brief and policy = policy]
  show ?thesis by (auto simp: save_and_return_def)
next
  case False
  with run_outcome(2)[OF assms False, where sim = simulate and brief = brief and policy = policy]
  show ?thesis by (cases simulate) (auto simp: save_and_return_def)
qed

lemma first_run_outcome_witness:
  "(\<exists>r' steps. run sample_env sample_brief None ''mock'' None False =
      (Some r', Inr (summary r' steps)) \<and> rec_status r' = P_COMPLETED) \<and>
   (\<exists>r' steps. run sample_env sample_brief None ''mock'' None True =
      (Some r', Inr (summary r' steps)) \<and> rec_status r' = P_REVISION_REQUESTED) \<and>
   (\<exists>r' steps. run sample_env sample_brief None ''gemini'' None True =
      (Some r', Inr (summary r' steps)) \<and> rec_status r' = P_WAITING_APPROVAL)"
proof -
  have p: "provider_or_raise sample_env ''mock'' = Inr MockTrendProvider"
    "provider_or_raise sample_env ''gemini'' = Inr GeminiTrendProvider"
    by code_simp+
  have n: "\<not> needs_approval MockTrendProvider {}" "needs_approval GeminiTrendProvider {}"
    by code_simp+
  have a: "parse_approved_actions None = Inr {}" by simp
  note first = first_run_outcome[OF a p(1), of sample_brief None]
  show ?thesis
    using first[of False] first[of True] first_run_outcome[OF a p(2), of sample_brief None True] n
    by auto
qed

section \<open>Storage\<close>

text \<open>
  C13. The order in which stored tasks are put back is a permutation of them, and every
  task follows the tasks it depends on exactly when the plan has no dependency cycle (a
  cyclic plan is given back as it came).
\<close>

theorem task_order_correct:
  assumes "distinct (map t_id ts)"
  shows "mset (order_tasks_for_execution ts) = mset ts \<and>
    (dependencies_first (order_tasks_for_execution ts) \<longleftrightarrow> acyclic_plan ts)"
  using order_tasks_permutes[OF assms] order_tasks_dependencies_first[OF assms] by simp

lemma task_order_correct_witness:
  "mset (order_tasks_for_execution (rev build_plan)) = mset (rev build_plan) \<and>
    (dependencies_first (order_tasks_for_execution (rev build_plan)) \<longleftrightarrow> acyclic_plan (rev build_plan))"
  by (rule task_order_correct) code_simp

text \<open>
  C14. The tasks of a project come back from a table that is sorted by id in the order of
  the plan, whatever their statuses and notes.
\<close>

theorem plan_order_restored:
  assumes "map task_shape ts = map task_shape build_plan"
  shows "order_tasks_for_execution (sort_key t_id ts) = ts"
  by (rule order_tasks_plan[OF assms])

lemma plan_order_restored_witness:
  "order_tasks_for_execution (sort_key t_id (tasks waiting)) = tasks waiting"
  by (rule plan_order_restored) code_simp

section \<open>Governance: triage, dry run and relay\<close>

text \<open>
  C15. A change continues without asking exactly when its task is in the active phase, the
  verification passed, the scope is clear, and none of its areas, stripped and lowered, is
  a hard gate or cross-department work; every other triage says why, and one that goes to
  review goes to Management with a high risk.
\<close>

theorem triage_continues_iff:
  "(tg_decision (triage_task c) = GO \<longleftrightarrow>
     tx_task_in_active_phase c \<and> tx_verification_passed c \<and> \<not> tx_ambiguous_scope c \<and>
     normalized_areas (tx_changed_areas c)
       \<inter> insert ''cross_department'' (fst ` set AREA_TO_HARD_GATE) = {}) \<and>
   (tg_decision (triage_task c) = GO \<longleftrightarrow> tg_escalation_reason (triage_task c) = NONE) \<and>
   (tg_decision (triage_task c) = REVIEW \<longleftrightarrow> tg_routing_target (triage_task c) = MANAGEMENT) \<and>
   (tg_decision (triage_task c) = REVIEW \<longleftrightarrow> tg_risk_level (triage_task c) = HIGH) \<and>
   tg_hard_gate_triggers (triage_task c) = detect_hard_gate_triggers (tx_changed_areas c)"
proof -
  have "normalized_areas A \<inter> insert x (fst ` set AREA_TO_HARD_GATE) = {} \<longleftrightarrow>
      (\<forall>a \<in> normalized_areas A. a \<noteq> x \<and> map_of AREA_TO_HARD_GATE a = None)" for A x
    by (auto simp: map_of_eq_None_iff)
  then show ?thesis
    using triage_review_iff[of c] by (simp only: triage_go_iff triage_gates)
qed

text \<open>
  C16. A hard gate stops the dry run from continuing on its own: whatever management
  decided, the projected decision does not allow autonomous continuation and the projected
  activation is not recommended.
\<close>

theorem hard_gate_stops_dry_run:
  assumes "detect_hard_gate_triggers (dq_changed_areas q) \<noteq> {}"
    and "run_dry_run_orchestration hex q = Inr res"
  shows "\<not> dp_autonomous_continuation_allowed (dr_decision_projection res) \<and>
    tg_decision (dr_triage_result res) = REVIEW \<and>
    (\<exists>a. dr_projected_activation_decision res = Some a \<and> av_recommendation a \<noteq> GO)"
proof -
  have review: "tg_decision (dry_run_triage q) = REVIEW"
    using triage_gates_review assms(1) by (simp add: dry_run_triage_def triage_gates)
  then have "dry_run_recommendation q \<noteq> GO" by (auto simp: dry_run_recommendation_def)
  with review assms(2) dry_run_cases[of q hex] show ?thesis
    by (cases "dry_run_task q = ''''") auto
qed

lemma hard_gate_stops_dry_run_witness:
  "\<exists>res. run_dry_run_orchestration sample_hex (area_request ''auth'') = Inr res \<and>
     \<not> dp_autonomous_continuation_allowed (dr_decision_projection res)"
proof -
  obtain res where r: "run_dry_run_orchestration sample_hex (area_request ''auth'') = Inr res"
    using area_request_runs by blast
  have "detect_hard_gate_triggers (dq_changed_areas (area_request ''auth'')) \<noteq> {}"
    using auth_is_gated by (simp add: area_request_def)
  from hard_gate_stops_dry_run[OF this r] r show ?thesis by blast
qed

text \<open>
  C17. The dry run raises exactly when it has no task to name, neither a current task nor a
  request with a visible character. Otherwise it allows autonomous continuation when the
  decision that counts (management's, else the triage's) is GO and the triage is not REVIEW,
  and it recommends the activation when that decision and the triage are both GO.
\<close>

theorem dry_run_outcome:
  "case run_dry_run_orchestration hex q of
     Inl e \<Rightarrow> dry_run_task q = '''' \<and> e = GValidationError [''current_task'']
   | Inr res \<Rightarrow> dry_run_task q \<noteq> '''' \<and>
       (dp_autonomous_continuation_allowed (dr_decision_projection res) \<longleftrightarrow>
          dry_run_decision q = GO \<and> tg_decision (dry_run_triage q) \<noteq> REVIEW) \<and>
       map_option av_recommendation (dr_projected_activation_decision res) =
         Some (if dry_run_decision q = GO \<and> tg_decision (dry_run_triage q) \<noteq> GO then PAUSE
               else dry_run_decision q)"
  using dry_run_cases[of q hex] unfolding dry_run_recommendation_def
  by (cases "dry_run_task q = ''''") auto

text \<open>
  C18. A derived activation decision is recommended only when management says GO, no blocker
  is left and no review is required, and is a REVIEW only when management says so; it never
  approves autonomous continuation, it names the audit department exactly for a REVIEW, asks
  for another review exactly when it is not a GO, and always has an approval record, which
  repeats the recommendation and the blockers.
\<close>

theorem activation_is_governed:
  "let a = derive_dry_run_activation_decision p q d in
     (av_recommendation a = GO \<longleftrightarrow>
        md_decision d = GO \<and> collect_unresolved_blockers q = [] \<and> \<not> mp_required_review p) \<and>
     (av_recommendation a = REVIEW \<longleftrightarrow> md_decision d = REVIEW) \<and>
     av_autonomous_continuation_status a = ''not_approved'' \<and>
     (av_escalation_destination a = None \<longleftrightarrow> av_recommendation a \<noteq> REVIEW) \<and>
     (av_re_review_required a \<longleftrightarrow> av_recommendation a \<noteq> GO) \<and>
     (\<exists>r. build_approval_record_from_projection_context a item md rid ids = Inr r \<and>
        map_of r ''recommendation'' = Some (JStr (decision_value (av_recommendation a))) \<and>
        map_of r ''blocker_notes'' = Some (JList (map JStr (collect_unresolved_blockers q))))"
proof -
  let ?a = "derive_dry_run_activation_decision p q d"
  obtain r where "build_approval_record_from_projection_context ?a item md rid ids = Inr r"
    using derived_record_total[of p q d] unfolding projection_record_eq by metis
  then have "\<exists>r. build_approval_record_from_projection_context ?a item md rid ids = Inr r \<and>
      map_of r ''recommendation'' = Some (JStr (decision_value (av_recommendation ?a))) \<and>
      map_of r ''blocker_notes'' = Some (JList (map JStr (collect_unresolved_blockers q)))"
    using approval_record_recommendation(1,3)
    unfolding projection_record_eq derived_fields(2)[of p q d, symmetric] by blast
  then show ?thesis
    unfolding Let_def derived_fields(3,4,5) by (simp add: derived_fields(1) activation_recommendation_iff)
qed

text \<open>
  C19. The result of a dry run goes through the handoff envelope and all 63 stages of the
  relay without an error, and comes out as the same decision, an approval record, the 46
  labels of the lane that belongs to the recommendation, and the related ids. The last label,
  the release clearance, is \<open>blocked\<close> for a GO, \<open>gated\<close> for a PAUSE and \<open>clear\<close> for a REVIEW.
\<close>

theorem dry_run_is_relayed:
  assumes "run_dry_run_orchestration hex q = Inr res"
  shows "\<exists>a r. dr_projected_activation_decision res = Some a \<and>
    res_bind (build_dry_run_handoff_envelope_from_result res item rid ids)
      (run_stages handoff_stages) =
    Inr ([(''projected_activation_decision'', VDecision a), (''approval_record'', VRecord r)]
         @ map (\<lambda>(k, t). (k, VText t))
             (lane_labels (dry_run_recommendation q) @ related_items ids)) \<and>
    map_of (lane_labels (dry_run_recommendation q)) ''consumer_release_clearance'' =
      Some (case dry_run_recommendation q of
              GO \<Rightarrow> ''blocked'' | PAUSE \<Rightarrow> ''gated'' | REVIEW \<Rightarrow> ''clear'')"
proof -
  obtain p i d where a: "dr_projected_activation_decision res =
      Some (derive_dry_run_activation_decision p i d)"
    "av_recommendation (derive_dry_run_activation_decision p i d) = dry_run_recommendation q"
    using dry_run_cases[of q hex] assms by (cases "dry_run_task q = ''''") auto
  with relay_of_result[OF a(1) refl, of item rid ids] lane_clearance show ?thesis by auto
qed

lemma dry_run_is_relayed_witness:
  "\<exists>res a r. run_dry_run_orchestration sample_hex (area_request ''docs'') = Inr res \<and>
    res_bind (build_dry_run_handoff_envelope_from_result res ''item-1'' None no_related)
      (run_stages handoff_stages) =
    Inr ([(''projected_activation_decision'', VDecision a), (''approval_record'', VRecord r)]
         @ map (\<lambda>(k, t). (k, VText t))
             (lane_labels (dry_run_recommendation (area_request ''docs'')) @ related_items no_related))"
proof -
  obtain res where r: "run_dry_run_orchestration sample_hex (area_request ''docs'') = Inr res"
    using area_request_runs by blast
  from dry_run_is_relayed[OF r, of "''item-1''" None no_related] r show ?thesis by blast
qed

text \<open>
  C20. The stages of the relay cannot be skipped: stage \<open>j\<close> on an artifact that carries the
  first \<open>n\<close> labels raises the \<open>KeyError\<close> of the first label it misses, and on one that has the
  labels of all stages before it gives the artifact with the labels up to its own.
\<close>

theorem relay_order_enforced:
  assumes "j < 63" and "n \<le> 46"
  shows "(handoff_stages ! j) (relay_artifact a r ids n) =
    (if n < labels_before j then Inl (GKeyError (lane_keys ! n))
     else Inr (relay_artifact a r ids (labels_before (Suc j))))"
  by (rule handoff_stage_exact[OF assms])

lemma relay_order_enforced_witness:
  "(handoff_stages ! 40) (relay_artifact sample_decision [] no_related 3) =
     Inl (GKeyError (lane_keys ! 3))"
  using relay_order_enforced[of 40 3 sample_decision "[]" no_related]
  by (simp add: labels_before_def)

text \<open>
  C21. Whatever dictionary enters the relay, well formed or not, and however many stages it
  goes through, the decision, the approval record and the related ids that come out are those
  that went in, and none of them is added or lost.
\<close>

theorem relay_keeps_artifacts:
  assumes "run_stages (take i handoff_stages) d = Inr d'" and "k \<in> set base_keys \<union> set related_keys"
  shows "map_of d' k = map_of d k"
  by (rule relay_keeps[OF assms])

lemma relay_keeps_artifacts_witness:
  "\<exists>d'. run_stages (take 20 handoff_stages) (relay_artifact sample_decision [] no_related 0) = Inr d' \<and>
     map_of d' ''approval_record'' = Some (VRecord [])"
proof -
  obtain d' where d': "run_stages (take 20 handoff_stages)
      (relay_artifact sample_decision [] no_related 0) = Inr d'"
    using relay_runs_to[of 20 sample_decision "[]" no_related] by simp
  have "map_of (relay_artifact sample_decision [] no_related 0) ''approval_record'' = Some (VRecord [])"
    by (simp add: relay_artifact_def form_def)
  with relay_keeps_artifacts[OF d', of "''approval_record''"] d' show ?thesis
    by (auto simp: base_keys_def)
qed

section \<open>The API\<close>

text \<open>
  C22. The API refines the service: over the in-memory repository a call is exactly the
  requests of \<open>api_requests\<close>, none for an invalid payload, the record of the failed attempt
  alone for an unknown actor, the record of the actor and then the action for a known one; so
  every store that the API reaches is one that the service reaches.
\<close>

theorem api_refines_service:
  assumes "reachable memory_get memory_save memory_empty s"
  shows "fst (api_serve memory_get memory_save env env' auth c s) =
      serve_all (api_requests env env' auth c) s \<and>
    reachable memory_get memory_save memory_empty
      (fst (api_serve memory_get memory_save env env' auth c s))"
  using api_serves_requests[OF memory.reachable_sound[OF assms stored_memory_empty]]
    reachable_api[OF assms] by simp

lemma api_refines_service_witness:
  "reachable memory_get memory_save memory_empty (fst api_approved)"
  unfolding api_approved_def
  by (rule api_refines_service[OF waiting_reachable, of sample_env sample_env dev_auth approve_call,
        THEN conjunct2])

text \<open>
  C23. Every error of the API is a mapped one: over the in-memory repository a call is answered
  with 401, 403, 404, 409 or 422, or it succeeds; no exception of the orchestrator escapes.
\<close>

theorem api_errors_mapped:
  assumes "snd (api_serve memory_get memory_save env env' auth c s) = Inl (Http_error code e)"
  shows "code \<in> {401, 403, 404, 409, 422}"
  by (rule api_no_500[OF assms])

lemma api_errors_mapped_witness:
  "\<exists>code e. snd (api_serve memory_get memory_save sample_env sample_env dev_auth anonymous_call
      waiting_store) = Inl (Http_error code e) \<and> code = 401 \<and> code \<in> {401, 403, 404, 409, 422}"
proof -
  obtain s' where "api_serve memory_get memory_save sample_env sample_env dev_auth anonymous_call
      waiting_store = (s', Inl (Http_error 401 (AuthenticationError ''Missing Authorization header.'')))"
    using protected_cases(1)[OF waiting_sound anonymous_facts anonymous_unresolved] by blast
  then have e: "snd (api_serve memory_get memory_save sample_env sample_env dev_auth anonymous_call
      waiting_store) = Inl (Http_error 401 (AuthenticationError ''Missing Authorization header.''))"
    by (simp only: snd_conv)
  from e api_errors_mapped[OF e] show ?thesis by blast
qed

text \<open>
  C24. Without an actor nothing is done: a protected call whose header resolves to nobody is
  answered with 401, whether the project exists or not, and at most adds an event to its log.
\<close>

theorem api_needs_actor:
  assumes "reachable memory_get memory_save memory_empty s"
    and "protected_request c = Some (pid, header, action)" and "invalid_fields c = []"
    and "resolve_actor auth header = Inl msg"
  shows "\<exists>s'. api_serve memory_get memory_save env env' auth c s =
      (s', Inl (Http_error 401 (AuthenticationError msg))) \<and> audited s pid s'"
  using protected_cases(1)[OF memory.reachable_sound[OF assms(1) stored_memory_empty] assms(2-4)]
  by simp

lemma api_needs_actor_witness:
  "\<exists>s'. api_serve memory_get memory_save sample_env sample_env dev_auth anonymous_call waiting_store =
     (s', Inl (Http_error 401 (AuthenticationError ''Missing Authorization header.''))) \<and>
     audited waiting_store ''p-1'' s'"
  by (rule api_needs_actor[OF waiting_reachable anonymous_facts anonymous_unresolved])

text \<open>
  C25. An approval through the API is one of the token's actor: a pending approval of a stored
  project that is approved after a call other than a new run was approved by a resume call for
  that project, whose token belongs to an actor that \<open>authorize_action\<close> allows; the actor in
  the payload plays no role.
\<close>

theorem api_approval_by_token:
  assumes "reachable memory_get memory_save memory_empty s" and "\<And>p. c \<noteq> Orchestrator_run p"
    and "s pid = Some r" and "fst (api_serve memory_get memory_save env env' auth c s) pid = Some r'"
    and "approves r r' i"
  shows "\<exists>p header actor. c = Resume_approval p header \<and> aq_project_id p = pid \<and>
    resolve_actor auth header = Inr actor \<and>
    ad_allowed (authorize_action (ar_action_type (approvals r ! i)) actor
      (Some (p_policy (project r))) None)"
proof -
  have st: "stored memory_get sound s"
    by (rule memory.reachable_sound[OF assms(1) stored_memory_empty]) simp
  show ?thesis by (rule api_approves[OF st assms(2-5)])
qed

lemma api_approval_by_token_witness:
  "\<exists>actor. resolve_actor dev_auth (Some ''Bearer dev-approver-token'') = Inr actor \<and>
     ad_allowed (authorize_action EXTERNAL_API_SEND actor (Some (p_policy (project waiting))) None)"
proof -
  obtain r' where r': "fst api_approved ''p-1'' = Some r'" "map ar_status (approvals r') = [Ap_APPROVED]"
    using api_approved_eval by auto
  then have "approves waiting r' 0" using waiting_eval by (auto simp: approves_def)
  from api_approval_by_token[OF waiting_reachable _ _ r'(1)[unfolded api_approved_def] this] waiting_eval
  show ?thesis by (auto simp: approve_call_def waiting_store_def)
qed

section \<open>Who is calling\<close>

text \<open>
  C26. A token table that is written out in the format of \<open>DEV_AUTH_TOKEN_SEED\<close> is parsed back to
  itself, entry by entry and in its order, for names without separators or outer spaces.
\<close>

theorem token_seed_roundtrip:
  assumes "es \<noteq> []" and "distinct (map fst es)"
    and "\<And>e. e \<in> set es \<Longrightarrow> seed_name (fst e) \<and> seed_name (actor_id (snd e))"
  shows "parse_token_seed (Some (render_seed es)) = es"
  by (rule seed_roundtrip[OF assms])

lemma token_seed_roundtrip_witness:
  "parse_token_seed (Some (render_seed [(''t1'', approver), (''t2'', viewer)])) =
     [(''t1'', approver), (''t2'', viewer)]"
proof -
  have "seed_name ''t1'' \<and> seed_name ''t2'' \<and> seed_name ''alice'' \<and> seed_name ''bob''" by code_simp
  then show ?thesis by (intro token_seed_roundtrip) (auto simp: approver_def viewer_def)
qed

text \<open>
  C27. A header stands for an actor exactly when it is, up to outer spaces, \<open>bearer\<close> in any case,
  spaces, and a token of the table; with the authentication switched off every header stands for
  the system actor with the role of an admin.
\<close>

theorem header_resolution:
  "resolve_actor auth header = Inr a \<longleftrightarrow>
     (if auth_enabled auth
      then \<exists>h token. header = Some h \<and> bearer_token h token \<and> map_of (token_map auth) token = Some a
      else a = \<lparr>actor_id = ''auth-disabled'', actor_role = ADMIN, actor_type = SYSTEM\<rparr>)"
  by (rule resolve_actor_iff)

text \<open>
  C28. The services of a running app stay those it was created with: the dependency of the
  protected routes and the orchestrator that they resolve, whatever the environment, the caches
  and the fallback are at that time, and resolving them changes neither the app nor the caches.
\<close>

theorem created_app_keeps_services:
  assumes "create_app environ orch c = (app, c')"
  shows "get_auth_service_dependency environ' (Some (auth_attrs app)) c'' =
      (get_auth_service environ, Some (auth_attrs app), c'') \<and>
    resolve_orchestrator_binding fallback (Some (orchestrator_attrs app)) =
      (orch, Some (orchestrator_attrs app))"
  using created_app_resolves[OF assms] by blast

lemma created_app_keeps_services_witness:
  "\<exists>app c'. create_app (\<lambda>name. None) (0 :: nat) \<lparr>service_cache = None, dependency_cache = None\<rparr> = (app, c') \<and>
     fst (get_auth_service_dependency (\<lambda>name. Some ''off'') (Some (auth_attrs app)) c') = dev_auth"
proof -
  obtain app c' where a: "create_app (\<lambda>name. None) (0 :: nat)
      \<lparr>service_cache = None, dependency_cache = None\<rparr> = (app, c')"
    by (cases "create_app (\<lambda>name. None) (0 :: nat) \<lparr>service_cache = None, dependency_cache = None\<rparr>")
  from created_app_keeps_services[OF a, of "\<lambda>name. Some ''off''" c'] a show ?thesis
    by (auto simp: dev_auth_def)
qed

section \<open>The intake\<close>

text \<open>
  C29. A brief that is written as a form, one labelled line per field that it has, is read back
  field by field by the intake, and the fields reported as missing are those that it lacks.
\<close>

theorem intake_reads_form:
  assumes "writable b"
  shows "let i = build_brief (render_brief b) in
    b_title (ir_brief i) = b_title b \<and> b_scope (ir_brief i) = b_scope b \<and>
    b_deadline (ir_brief i) = b_deadline b \<and> b_constraints (ir_brief i) = b_constraints b \<and>
    b_success_criteria (ir_brief i) = b_success_criteria b \<and>
    b_stakeholders (ir_brief i) = b_stakeholders b \<and>
    b_raw_request (ir_brief i) = render_brief b \<and> ir_missing_fields i = missing_fields_of b"
  using form_read_back[OF assms] by (simp only: Let_def simp_thms)

lemma intake_reads_form_witness:
  "ir_missing_fields (build_brief (render_brief form_brief)) = [''scope'']"
proof -
  have "missing_fields_of form_brief = [''scope'']" by code_simp
  with intake_reads_form[OF form_brief_writable] show ?thesis by (simp only: Let_def)
qed

text \<open>
  C30. Whatever the text, the result of the intake is well formed: its three lists hold distinct
  stripped values, at most four fields are reported as missing, each of them once and each with a
  question, and at most three questions are asked, those of the first ones.
\<close>

theorem intake_result_bounded:
  "let i = build_brief u; b = ir_brief i in
     clean_list (b_constraints b) \<and> clean_list (b_success_criteria b) \<and>
     clean_list (b_stakeholders b) \<and>
     distinct (ir_missing_fields i) \<and> length (ir_missing_fields i) \<le> 4 \<and>
     set (ir_missing_fields i) \<subseteq> set (map fst FIELD_QUESTIONS) \<and>
     length (ir_clarifying_questions i) = min 3 (length (ir_missing_fields i)) \<and>
     set (ir_clarifying_questions i) \<subseteq> snd ` set FIELD_QUESTIONS"
  unfolding Let_def by (intro conjI intake_bounds)

section \<open>Policies and checks\<close>

text \<open>
  C31. \<open>authorize_action\<close> decides as the declarative policy does, which shares none of its
  functions: no viewer; in strict mode only with a rule for the action; only with a role that the
  rule opens, or without roles in a rule the role matrix of docs/architecture.md, where the owner
  of the project holds the owner's role besides the caller's own; and only with an id that is on
  the list that counts. A runtime list stands in for the ids of the rule. The documents have it only
  restrict them further, so the code allows what they do not exactly for callers with an open role
  that the runtime list names and the rule leaves out (\<open>runtime_list_widens_rule\<close> of \<open>Approval\<close> is
  one).
\<close>

theorem authorization_is_policy:
  "ad_allowed (authorize_action a actor p m) = permitted a actor p m \<and>
   (ad_allowed (authorize_action a actor p m) \<and> \<not> permitted_by_documents a actor p m) =
     (role_permitted a actor p \<and> (\<exists>v. runtime_list m a v) \<and>
      list_admits (py_strip (actor_id actor)) m a \<and> \<not> rule_admits (py_strip (actor_id actor)) p a)"
  using authorize_permitted documents_differ by blast

text \<open>
  C32. The monitor events are what the calls say: after any sequence of upserts, resolutions and
  alert marks on the empty table there is at most one event per dedupe key, and none before its
  first upsert; from then on it counts how often it was opened, its first sight is that upsert,
  its last sight and its status are those of the last call other than an alert mark, it has a
  resolution time exactly when that call resolved it, and it is reported as open exactly when that
  call opened it.
\<close>

theorem monitor_events_from_calls:
  assumes "MonitorStatus_RESOLVED en \<notin> open_like en"
  shows "keyed me_dedupe_key (run_calls en calls []) \<and>
    event_view_of (run_calls en calls []) k = view_of_life en (life k calls) \<and>
    is_open en k (run_calls en calls []) = Inr (open_life (life k calls))"
  using run_calls_view is_open_life[OF assms] by blast

lemma monitor_events_from_calls_witness:
  "event_view_of (run_calls sample_enums stalled_calls []) ''lag:feed'' =
     Some \<lparr>ew_status = ''open'', ew_count = 2, ew_first_seen = 2, ew_last_seen = 4,
       ew_alert_sent = Some 3, ew_resolved = None\<rparr>"
  using monitor_events_from_calls[OF sample_enums_facts(1), of stalled_calls "''lag:feed''"]
    stalled_life stalled_view by simp

text \<open>
  C33. The scores of a trend analysis are in range: freshness and confidence of every candidate,
  of every provider and for every request, lie between 0 and 1, an external provider in its
  fallback mode claims a confidence of at most one half, and there are at most two candidates and
  no more than asked for.
\<close>

theorem analysis_scores_bounded:
  assumes "c \<in> set (tr_candidate_trends (analyze p q))"
  shows "0 \<le> tc_freshness c \<and> tc_freshness c \<le> 1 \<and> 0 \<le> tc_confidence c \<and> tc_confidence c \<le> 1 \<and>
    tc_confidence c \<le> (if p = MockTrendProvider then 1 else 1 / 2) \<and>
    length (tr_candidate_trends (analyze p q)) \<le> min 2 (tq_max_items q)"
  using analyze_bounds[OF assms] analyze_limits[OF assms] by simp

lemma analysis_scores_bounded_witness:
  "\<exists>c \<in> set (tr_candidate_trends (analyze GeminiTrendProvider
      \<lparr>tq_trend_topic = ''x'', tq_context = None, tq_max_items = 5\<rparr>)).
    tc_confidence c \<le> 1 / 2 \<and> tc_freshness c \<le> 1"
proof -
  let ?q = "\<lparr>tq_trend_topic = ''x'', tq_context = None, tq_max_items = 5\<rparr>"
  obtain c where "c \<in> set (tr_candidate_trends (analyze GeminiTrendProvider ?q))"
    by (auto simp: analyze_def fallback_analyze_def mock_analyze_def mock_candidates_def Let_def)
  with analysis_scores_bounded[OF this] show ?thesis by (intro bexI[of _ c]) auto
qed

text \<open>
  C34. A delivered notification keeps counting for the cooldown: whatever notifications are
  attempted and whatever signals are stored again later, a duplicate that was found for a release,
  a signal type and a market is still found, since neither statement touches a row that was sent
  nor the identity of a signal; and there is never a second row for a signal and a channel.
\<close>

theorem cooldown_survives:
  assumes "(store_step en)\<^sup>*\<^sup>* (ns, ss) (ns', ss')" and "store_keyed (ns, ss)"
    and "DeliveryStatus_SENT en \<noteq> DeliveryStatus_FAILED en"
    and "has_duplicate_in_cooldown en now rid ty ticker cd ns ss"
  shows "has_duplicate_in_cooldown en now rid ty ticker cd ns' ss' \<and> keyed nt_key ns'"
proof -
  have k: "store_keyed (ns', ss')" by (rule store_steps_keyed[OF assms(1,2)])
  obtain n where n: "delivery en n (rid, ticker, ty) (ns, ss)" "nt_sent_at_utc n \<ge> now - timedelta_seconds cd"
    using assms(4) has_duplicate_iff[OF assms(2)] by blast
  from delivery_steps[OF assms(1) n(1) assms(3)] n(2)
  have "has_duplicate_in_cooldown en now rid ty ticker cd ns' ss'" unfolding has_duplicate_iff[OF k] by blast
  with k show ?thesis by (simp add: store_keyed_def)
qed

lemma cooldown_survives_witness:
  "has_duplicate_in_cooldown sample_enums 12 ''cpi'' ''gap'' ''CPI-T1'' 60
     (create_notification sample_enums retried [cpi_notification]) [cpi_signal]"
proof -
  have "(store_step sample_enums)\<^sup>*\<^sup>* ([cpi_notification], [cpi_signal])
      (create_notification sample_enums retried [cpi_notification], [cpi_signal])"
    by (rule r_into_rtranclp) (rule store_step.notify)
  from cooldown_survives[OF this cpi_delivered(1) sample_enums_facts(2) cpi_delivered(2)]
  show ?thesis ..
qed

text \<open>
  C35. The transition table has no dead end but the completed state: every state is reached from
  the draft state, and the completed state can be reached from every state.
\<close>

theorem completion_stays_possible:
  "can_transition\<^sup>*\<^sup>* P_DRAFT st \<and> can_transition\<^sup>*\<^sup>* st P_COMPLETED"
proof -
  have "can_transition = lane" by (intro ext) (simp add: can_transition_lane)
  then show ?thesis using draft_reaches_all completed_reachable by simp
qed

text \<open>
  C36. The listing of signals is the newest ones first: a successful answer has as many signals of
  the asked severity as there are, up to the limit between 1 and 500 that was given (20 if none
  was), in descending order of their time, and no signal that was left out is newer than one that
  was listed.
\<close>

theorem signals_newest_first:
  assumes "signals_route limit severity db = Inr xs"
    and "rows = filter (\<lambda>r. if_given severity (sg_severity r)) (signal_rows db)"
  shows "\<exists>n ys. 1 \<le> n \<and> n \<le> 500 \<and> int n = (case limit of None \<Rightarrow> 20 | Some m \<Rightarrow> m) \<and>
    xs = map signal_response_of ys \<and> mset ys \<subseteq># mset rows \<and>
    length ys = min n (length rows) \<and> sorted_wrt (\<lambda>a b. sg_emitted_at_utc a \<ge> sg_emitted_at_utc b) ys \<and>
    (\<forall>x \<in> set ys. \<forall>y \<in># mset rows - mset ys. sg_emitted_at_utc y \<le> sg_emitted_at_utc x)"
proof -
  obtain n where n: "query_limit 20 limit = Inr n" "xs = list_signals n severity db"
    using assms(1) by (cases "query_limit 20 limit") (auto simp: signals_route_def)
  let ?ys = "take n (order_desc sg_emitted_at_utc rows)"
  have "xs = map signal_response_of ?ys"
    by (simp add: n(2) list_signals_def recent_signals_def assms(2))
  then show ?thesis
    using n(1) newest_first[where key = sg_emitted_at_utc and n = n and rows = rows]
    by (intro exI[of _ n] exI[of _ ?ys]) (auto simp: query_limit_iff)
qed

lemma signals_newest_first_witness:
  "\<exists>xs. signals_route (Some 1) None cpi_db = Inr xs \<and> length xs = 1"
proof -
  obtain xs where xs: "signals_route (Some 1) None cpi_db = Inr xs"
    by (simp add: signals_route_def query_limit_def)
  from signals_newest_first[OF xs refl] have "length xs = 1"
    by (auto simp: cpi_db_def if_given_def opt_or_def)
  with xs show ?thesis by blast
qed

text \<open>
  C37. The loop that orders the stored tasks ends: as a \<open>while\<close> on the ready list, from any list
  and any dependency counts, it stops with an empty list and the order of \<open>order_loop\<close>.
\<close>

theorem task_order_loop_ends:
  "\<exists>inbound'. while_option (\<lambda>(ready, _). ready \<noteq> []) (loop_step position dependents)
     (ready, inbound, ordered) =
   Some ([], inbound', order_loop position dependents ready inbound ordered)"
  by (rule while_order_loop)

section \<open>The tables\<close>

text \<open>
  C38. What is saved to Postgres is read back: the project with its brief and status, the history
  lines and, up to the order of the rows, the reviews, checkpoints and approvals; the tasks in
  the order of the plan, since they are put back in dependency order. The record is \<open>pg_norm\<close> of
  the saved one, whose JSON objects are those of the column, and no other project is touched.
\<close>

theorem postgres_roundtrip:
  assumes "jsonb_laws (jsonb cfg)" and "pg_save cfg r db = Inr db'"
  shows "pg_get cfg db' (rec_id r) = Inr (Some (pg_norm cfg r)) \<and>
    p_brief (project (pg_norm cfg r)) = p_brief (project r) \<and>
    rec_status (pg_norm cfg r) = rec_status r \<and> history (pg_norm cfg r) = history r \<and>
    mset (reviews (pg_norm cfg r)) = mset (reviews r) \<and>
    mset (checkpoints (pg_norm cfg r)) = mset (checkpoints r) \<and>
    mset (approvals (pg_norm cfg r)) = mset (approvals r) \<and>
    (plan_collation cfg \<and> sound r \<longrightarrow> tasks (pg_norm cfg r) = tasks r) \<and>
    (pid \<noteq> rec_id r \<longrightarrow> pg_get cfg db' pid = pg_get cfg db pid)"
  using assms(2) pg_get_saved[OF assms(1), of r db] pg_get_other[of pid r cfg db]
  by (simp add: pg_save_iff norm_kept del: norm_fields(5,6,7,8))

lemma postgres_roundtrip_witness:
  "pg_get sample_pg pg_waiting ''p-1'' = Inr (Some (pg_norm sample_pg waiting)) \<and>
   tasks (pg_norm sample_pg waiting) = tasks waiting"
  using postgres_roundtrip[OF sample_pg_laws(1) waiting_saved] waiting_eval waiting_record_sound
    sample_pg_laws(2) by simp

text \<open>
  C39. A save of a record of the service succeeds exactly when its reviews have distinct ids and
  its approvals have distinct ids; otherwise the transaction is rolled back for the duplicate key.
  A project that was reviewed a second time is such a record: it can never be saved.
\<close>

theorem postgres_save_outcome:
  assumes "sound r"
  shows "pg_save cfg r db =
      (if distinct (map rv_id (reviews r)) then
         if distinct (map ar_id (approvals r)) then Inr (saved_database cfg r db)
         else Inl (duplicate_key ''approvals'')
       else Inl (duplicate_key ''reviews'')) \<and>
    pg_save cfg rereviewed db = Inl (duplicate_key ''reviews'')"
  using soundD(4)[OF assms] by (simp add: pg_save_eq[of cfg r] keys_unique_def rereviewed_not_stored)

lemma postgres_save_outcome_witness:
  "pg_save sample_pg waiting empty_database = Inr pg_waiting"
  using postgres_save_outcome[OF waiting_record_sound, of sample_pg empty_database] waiting_ids
  by (simp add: pg_waiting_def ids_distinct_def)

text \<open>
  C40. The service keeps its invariant through the tables: whatever requests it serves over
  Postgres, from an empty database, every project of it is missing or is read back without a
  validation error, under its own id, and satisfies the invariant of the stored records.
\<close>

theorem postgres_projects_sound:
  assumes "reachable (pg_find cfg) (pg_save cfg) empty_database db"
    and "jsonb_laws (jsonb cfg)" and "plan_collation cfg"
  shows "pg_get cfg db pid = Inr None \<or>
    (\<exists>r. pg_get cfg db pid = Inr (Some r) \<and> rec_id r = pid \<and> sound r)"
  by (rule reachable_pg_get[OF assms])

lemma postgres_projects_sound_witness:
  "\<exists>r. pg_get sample_pg pg_waiting ''p-1'' = Inr (Some r) \<and> rec_id r = ''p-1'' \<and> sound r"
  using postgres_projects_sound[OF pg_waiting_reachable sample_pg_laws, of "''p-1''"] pg_waiting_get
  by simp

end
